(* ===== verification/Go_Text.thy ===== *)
theory Go_Text
  imports Main
begin

text \<open>
  Go strings are sequences of bytes that are read as UTF-8 by the functions that look at characters. This theory has the decoding
  of the package \<^verbatim>\<open>unicode/utf8\<close> and the two functions of \<^verbatim>\<open>strings\<close> the services use that depend on it:
  \<^verbatim>\<open>ToLower\<close> and \<^verbatim>\<open>TrimSpace\<close>. A \<open>char\<close> is a byte.
\<close>

section \<open>UTF-8\<close>

abbreviation byte_val :: "char \<Rightarrow> int" where
  "byte_val c \<equiv> of_char c"

definition RuneError :: int where
  "RuneError = 65533"

definition cont_byte :: "int \<Rightarrow> int \<Rightarrow> int \<Rightarrow> bool" where
  "cont_byte lo hi b = (lo \<le> b \<and> b \<le> hi)"

text \<open>
  \<^verbatim>\<open>DecodeRune\<close>: the first rune and its width in bytes. A byte that does not start a valid encoding is the rune
  \<open>RuneError\<close> of width one; the second byte is restricted further after some first bytes, which rules out overlong encodings,
  surrogates and numbers that are too large.
\<close>

definition second_lo :: "int \<Rightarrow> int" where
  "second_lo b = (if b = 224 then 160 else if b = 240 then 144 else 128)"

definition second_hi :: "int \<Rightarrow> int" where
  "second_hi b = (if b = 237 then 159 else if b = 244 then 143 else 191)"

fun decode_rune :: "int list \<Rightarrow> int \<times> nat" where
  "decode_rune [] = (RuneError, 1)"
| "decode_rune (b # bs) =
     (if b < 128 then (b, 1)
      else (case bs of
        [] \<Rightarrow> (RuneError, 1)
      | c # cs \<Rightarrow>
          if \<not> cont_byte (second_lo b) (second_hi b) c then (RuneError, 1)
          else if 194 \<le> b \<and> b \<le> 223 then ((b - 192) * 64 + (c - 128), 2)
          else (case cs of
            [] \<Rightarrow> (RuneError, 1)
          | d # ds \<Rightarrow>
              if \<not> cont_byte 128 191 d then (RuneError, 1)
              else if 224 \<le> b \<and> b \<le> 239 then ((b - 224) * 4096 + (c - 128) * 64 + (d - 128), 3)
              else (case ds of
                [] \<Rightarrow> (RuneError, 1)
              | e # es \<Rightarrow>
                  if cont_byte 128 191 e \<and> 240 \<le> b \<and> b \<le> 244
                  then ((b - 240) * 262144 + (c - 128) * 4096 + (d - 128) * 64 + (e - 128), 4)
                  else (RuneError, 1)))))"

definition encode_rune :: "int \<Rightarrow> int list" where
  "encode_rune r =
     (if r < 128 then [r]
      else if r < 2048 then [192 + r div 64, 128 + r mod 64]
      else if r < 65536 then [224 + r div 4096, 128 + r div 64 mod 64, 128 + r mod 64]
      else [240 + r div 262144, 128 + r div 4096 mod 64, 128 + r div 64 mod 64, 128 + r mod 64])"

text \<open>The runes of a string with the bytes that encode them, as \<^verbatim>\<open>range\<close> gives them.\<close>

function runes :: "string \<Rightarrow> (int \<times> string) list" where
  "runes [] = []"
| "runes (c # s) = (let (r, n) = decode_rune (map byte_val (take 4 (c # s))) in (r, c # take (n - 1) s) # runes (drop (n - 1) s))"
  by pat_completeness auto
termination by (relation "measure length") auto

lemma runes_bytes: "concat (map snd (runes s)) = s"
  by (induction s rule: runes.induct) (auto split: prod.splits)

section \<open>Case\<close>

definition is_ascii :: "char \<Rightarrow> bool" where
  "is_ascii c = (byte_val c < 128)"

definition to_lower_char :: "char \<Rightarrow> char" where
  "to_lower_char c =
     (let n = byte_val c in if 65 \<le> n \<and> n \<le> 90 then char_of (n + 32) else c)"

text \<open>
  The lower-case mapping of \<^verbatim>\<open>unicode.ToLower\<close> above ASCII (Unicode 15): first and last rune, step, and distance to the
  lower-case rune.
\<close>

definition lower_ranges :: "(int \<times> int \<times> int \<times> int) list" where
  "lower_ranges = [
    (192, 214, 1, 32), (216, 222, 1, 32), (256, 302, 2, 1), (304, 304, 1, - 199), (306, 310, 2, 1), (313, 327, 2, 1),
    (330, 374, 2, 1), (376, 376, 1, - 121), (377, 381, 2, 1), (385, 385, 1, 210), (386, 388, 2, 1), (390, 390, 1, 206),
    (391, 391, 1, 1), (393, 394, 1, 205), (395, 395, 1, 1), (398, 398, 1, 79), (399, 399, 1, 202), (400, 400, 1, 203),
    (401, 401, 1, 1), (403, 403, 1, 205), (404, 404, 1, 207), (406, 406, 1, 211), (407, 407, 1, 209), (408, 408, 1, 1),
    (412, 412, 1, 211), (413, 413, 1, 213), (415, 415, 1, 214), (416, 420, 2, 1), (422, 422, 1, 218), (423, 423, 1, 1),
    (425, 425, 1, 218), (428, 428, 1, 1), (430, 430, 1, 218), (431, 431, 1, 1), (433, 434, 1, 217), (435, 437, 2, 1),
    (439, 439, 1, 219), (440, 440, 1, 1), (444, 444, 1, 1), (452, 452, 1, 2), (453, 453, 1, 1), (455, 455, 1, 2),
    (456, 456, 1, 1), (458, 458, 1, 2), (459, 475, 2, 1), (478, 494, 2, 1), (497, 497, 1, 2), (498, 500, 2, 1),
    (502, 502, 1, - 97), (503, 503, 1, - 56), (504, 542, 2, 1), (544, 544, 1, - 130), (546, 562, 2, 1),
    (570, 570, 1, 10795), (571, 571, 1, 1), (573, 573, 1, - 163), (574, 574, 1, 10792), (577, 577, 1, 1),
    (579, 579, 1, - 195), (580, 580, 1, 69), (581, 581, 1, 71), (582, 590, 2, 1), (880, 882, 2, 1), (886, 886, 1, 1),
    (895, 895, 1, 116), (902, 902, 1, 38), (904, 906, 1, 37), (908, 908, 1, 64), (910, 911, 1, 63), (913, 929, 1, 32),
    (931, 939, 1, 32), (975, 975, 1, 8), (984, 1006, 2, 1), (1012, 1012, 1, - 60), (1015, 1015, 1, 1),
    (1017, 1017, 1, - 7), (1018, 1018, 1, 1), (1021, 1023, 1, - 130), (1024, 1039, 1, 80), (1040, 1071, 1, 32),
    (1120, 1152, 2, 1), (1162, 1214, 2, 1), (1216, 1216, 1, 15), (1217, 1229, 2, 1), (1232, 1326, 2, 1),
    (1329, 1366, 1, 48), (4256, 4293, 1, 7264), (4295, 4295, 1, 7264), (4301, 4301, 1, 7264), (5024, 5103, 1, 38864),
    (5104, 5109, 1, 8), (7312, 7354, 1, - 3008), (7357, 7359, 1, - 3008), (7680, 7828, 2, 1), (7838, 7838, 1, - 7615),
    (7840, 7934, 2, 1), (7944, 7951, 1, - 8), (7960, 7965, 1, - 8), (7976, 7983, 1, - 8), (7992, 7999, 1, - 8),
    (8008, 8013, 1, - 8), (8025, 8031, 2, - 8), (8040, 8047, 1, - 8), (8072, 8079, 1, - 8), (8088, 8095, 1, - 8),
    (8104, 8111, 1, - 8), (8120, 8121, 1, - 8), (8122, 8123, 1, - 74), (8124, 8124, 1, - 9), (8136, 8139, 1, - 86),
    (8140, 8140, 1, - 9), (8152, 8153, 1, - 8), (8154, 8155, 1, - 100), (8168, 8169, 1, - 8), (8170, 8171, 1, - 112),
    (8172, 8172, 1, - 7), (8184, 8185, 1, - 128), (8186, 8187, 1, - 126), (8188, 8188, 1, - 9), (8486, 8486, 1, - 7517),
    (8490, 8490, 1, - 8383), (8491, 8491, 1, - 8262), (8498, 8498, 1, 28), (8544, 8559, 1, 16), (8579, 8579, 1, 1),
    (9398, 9423, 1, 26), (11264, 11311, 1, 48), (11360, 11360, 1, 1), (11362, 11362, 1, - 10743),
    (11363, 11363, 1, - 3814), (11364, 11364, 1, - 10727), (11367, 11371, 2, 1), (11373, 11373, 1, - 10780),
    (11374, 11374, 1, - 10749), (11375, 11375, 1, - 10783), (11376, 11376, 1, - 10782), (11378, 11378, 1, 1),
    (11381, 11381, 1, 1), (11390, 11391, 1, - 10815), (11392, 11490, 2, 1), (11499, 11501, 2, 1), (11506, 11506, 1, 1),
    (42560, 42604, 2, 1), (42624, 42650, 2, 1), (42786, 42798, 2, 1), (42802, 42862, 2, 1), (42873, 42875, 2, 1),
    (42877, 42877, 1, - 35332), (42878, 42886, 2, 1), (42891, 42891, 1, 1), (42893, 42893, 1, - 42280),
    (42896, 42898, 2, 1), (42902, 42920, 2, 1), (42922, 42922, 1, - 42308), (42923, 42923, 1, - 42319),
    (42924, 42924, 1, - 42315), (42925, 42925, 1, - 42305), (42926, 42926, 1, - 42308), (42928, 42928, 1, - 42258),
    (42929, 42929, 1, - 42282), (42930, 42930, 1, - 42261), (42931, 42931, 1, 928), (42932, 42946, 2, 1),
    (42948, 42948, 1, - 48), (42949, 42949, 1, - 42307), (42950, 42950, 1, - 35384), (42951, 42953, 2, 1),
    (42960, 42960, 1, 1), (42966, 42968, 2, 1), (42997, 42997, 1, 1), (65313, 65338, 1, 32), (66560, 66599, 1, 40),
    (66736, 66771, 1, 40), (66928, 66938, 1, 39), (66940, 66954, 1, 39), (66956, 66962, 1, 39), (66964, 66965, 1, 39),
    (68736, 68786, 1, 64), (71840, 71871, 1, 32), (93760, 93791, 1, 32), (125184, 125217, 1, 34)
  ]"

definition lower_rune :: "int \<Rightarrow> int" where
  "lower_rune r =
     (if r < 128 then (if 65 \<le> r \<and> r \<le> 90 then r + 32 else r)
      else (case find (\<lambda>(lo, hi, step, _). lo \<le> r \<and> r \<le> hi \<and> (r - lo) mod step = 0) lower_ranges of
        None \<Rightarrow> r | Some (_, _, _, d) \<Rightarrow> r + d))"

definition to_lower :: "string \<Rightarrow> string" where
  "to_lower s = (if list_all is_ascii s then map to_lower_char s
     else concat (map (\<lambda>(r, _). map char_of (encode_rune (lower_rune r))) (runes s)))"

section \<open>White space\<close>

definition is_space :: "int \<Rightarrow> bool" where
  "is_space r = (r \<in> {9, 10, 11, 12, 13, 32, 133, 160, 5760, 8232, 8233, 8239, 8287, 12288} \<or> 8192 \<le> r \<and> r \<le> 8202)"

definition trim_both :: "('a \<Rightarrow> bool) \<Rightarrow> 'a list \<Rightarrow> 'a list" where
  "trim_both P xs = rev (dropWhile P (rev (dropWhile P xs)))"

definition trim_space :: "string \<Rightarrow> string" where
  "trim_space s = concat (map snd (trim_both (\<lambda>(r, _). is_space r) (runes s)))"

section \<open>Plain text\<close>

lemma runes_ascii: "list_all is_ascii s \<Longrightarrow> runes s = map (\<lambda>c. (byte_val c, [c])) s"
  by (induction s rule: runes.induct) (auto simp: is_ascii_def Let_def)

text \<open>On ASCII text the two functions work byte by byte.\<close>

lemma trim_space_ascii: "list_all is_ascii s \<Longrightarrow> trim_space s = trim_both (\<lambda>c. is_space (byte_val c)) s"
  by (simp add: trim_space_def runes_ascii trim_both_def dropWhile_map rev_map comp_def)

lemma lower_rune_ascii: "is_ascii c \<Longrightarrow> map char_of (encode_rune (lower_rune (byte_val c))) = [to_lower_char c]"
  unfolding is_ascii_def lower_rune_def by (simp add: to_lower_char_def encode_rune_def Let_def)

lemma to_lower_rune_ascii:
  assumes "list_all is_ascii s"
  shows "to_lower s = concat (map (\<lambda>(r, _). map char_of (encode_rune (lower_rune r))) (runes s))"
proof -
  have "concat (map (\<lambda>c. map char_of (encode_rune (lower_rune (byte_val c)))) s) = map to_lower_char s"
    using assms by (induction s) (simp_all add: lower_rune_ascii)
  then show ?thesis using assms by (simp add: to_lower_def runes_ascii comp_def)
qed

text \<open>A trimmed string is a part of the string, whatever bytes it has.\<close>

lemma trim_space_part: "\<exists>a b. s = a @ trim_space s @ b"
proof -
  obtain u v where "runes s = u @ trim_both (\<lambda>(r, _). is_space r) (runes s) @ v"
    unfolding trim_both_def by (metis append.assoc rev_append rev_rev_ident takeWhile_dropWhile_id)
  then have "concat (map snd (runes s)) = concat (map snd u) @ trim_space s @ concat (map snd v)"
    unfolding trim_space_def by (metis concat_append map_append)
  then show ?thesis unfolding runes_bytes by blast
qed

lemma unicode_examples:
  "to_lower [CHR ''M'', CHR 0xC3, CHR 0x9C] = [CHR ''m'', CHR 0xC3, CHR 0xBC]"
  "trim_space [CHR 0xC2, CHR 0xA0, CHR ''x'', CHR 0xE2, CHR 0x80, CHR 0x83] = ''x''"
  by code_simp+

end
