(* ===== verification/Go_Float.thy ===== *)
theory Go_Float
  imports Complex_Main "HOL-Library.Log_Nat"
begin

text \<open>
  The type \<^verbatim>\<open>float64\<close> as far as the services use it: a number is the rational it denotes, and an operation rounds
  its exact result to 53 binary digits, to the nearest number and on a tie to the even one. The numbers of days that are computed here
  are far from the limits of the exponent, so there is no infinity and no subnormal number.
\<close>

section \<open>Rounding\<close>

definition round_even :: "rat \<Rightarrow> int" where
  "round_even x = (let n = \<lfloor>x\<rfloor>; d = x - of_int n in
     if d < 1 / 2 then n else if 1 / 2 < d then n + 1 else if even n then n else n + 1)"

definition pow2 :: "int \<Rightarrow> rat" where
  "pow2 e = (if 0 \<le> e then 2 ^ nat e else 1 / 2 ^ nat (- e))"

text \<open>The exponent \<open>e\<close> of a positive number, with \<open>2\<^sup>e \<le> x < 2\<^sup>e\<^sup>+\<^sup>1\<close>.\<close>

definition exponent :: "rat \<Rightarrow> int" where
  "exponent x = (case quotient_of x of (a, b) \<Rightarrow>
     let k = bitlen a - bitlen b in if pow2 k \<le> x then k else k - 1)"

definition round53 :: "rat \<Rightarrow> rat" where
  "round53 x = (let ulp = pow2 (exponent x - 52) in of_int (round_even (x / ulp)) * ulp)"

definition f64 :: "rat \<Rightarrow> rat" where
  "f64 x = (if x = 0 then 0 else if 0 < x then round53 x else - round53 (- x))"

lemma round_even_bounds: "of_int (round_even x) \<le> x + 1 / 2" "x - 1 / 2 \<le> of_int (round_even x)"
  unfolding round_even_def Let_def by (auto split: if_splits) linarith+

lemma round_even_int [simp]: "round_even (of_int n) = n"
  by (simp add: round_even_def)

lemma round_even_mono: "x \<le> y \<Longrightarrow> round_even x \<le> round_even y"
proof (cases "\<lfloor>x\<rfloor> = \<lfloor>y\<rfloor>")
  case True
  assume "x \<le> y"
  with True show ?thesis by (auto simp: round_even_def Let_def)
next
  case False
  assume "x \<le> y"
  then have "\<lfloor>x\<rfloor> + 1 \<le> \<lfloor>y\<rfloor>" using False floor_mono [of x y] by linarith
  moreover have "round_even x \<le> \<lfloor>x\<rfloor> + 1" "\<lfloor>y\<rfloor> \<le> round_even y" by (auto simp: round_even_def Let_def)
  ultimately show ?thesis by linarith
qed

lemma pow2_pos [simp]: "0 < pow2 e"
  by (simp add: pow2_def)

lemma pow2_add: "pow2 (a + b) = pow2 a * pow2 b"
proof -
  have p: "pow2 e = 2 powi e" for e by (simp add: pow2_def power_int_def field_simps)
  show ?thesis unfolding p by (simp add: power_int_add)
qed

lemma pow2_nat: "pow2 (int n) = 2 ^ n"
  by (simp add: pow2_def)

lemma pow2_numeral [simp]: "pow2 (numeral k) = 2 ^ numeral k" "pow2 0 = 1"
  by (simp_all add: pow2_def)

lemma pow2_mono: "a \<le> b \<Longrightarrow> pow2 a \<le> pow2 b"
  using pow2_add [of a "b - a"] mult_left_mono [of 1 "pow2 (b - a)" "pow2 a"] by (simp add: pow2_def [of "b - a"] less_imp_le)

lemma pow2_less: "pow2 a < pow2 b \<Longrightarrow> a < b"
  using pow2_mono [of b a] by force

lemma bitlen_pow2_bounds:
  assumes "0 < a"
  shows "pow2 (bitlen a - 1) \<le> of_int a \<and> of_int a < pow2 (bitlen a)"
proof -
  have l: "0 < bitlen a" using assms bitlen_nonneg [of a] bitlen_eq_zero_iff [of a] by linarith
  have p: "pow2 k = of_int (2 ^ nat k)" if "0 \<le> k" for k using that by (simp add: pow2_def)
  show ?thesis using bitlen_bounds [OF assms] l by (simp add: p)
qed

lemma exponent_bounds:
  assumes "0 < x"
  shows "pow2 (exponent x) \<le> x" "x < pow2 (exponent x + 1)"
proof -
  obtain a b where ab: "quotient_of x = (a, b)" by (cases "quotient_of x")
  have b: "0 < b" using quotient_of_denom_pos [OF ab] .
  have x: "x = of_int a / of_int b" using quotient_of_div [OF ab] .
  have a: "0 < a" using assms b by (simp add: x zero_less_divide_iff)
  define la lb where "la = bitlen a" and "lb = bitlen b"
  have A: "pow2 (la - 1) \<le> of_int a" "of_int a < pow2 la" using bitlen_pow2_bounds [OF a] by (simp_all add: la_def)
  have B: "pow2 (lb - 1) \<le> of_int b" "of_int b < pow2 lb" using bitlen_pow2_bounds [OF b] by (simp_all add: lb_def)
  have bp: "(0::rat) < of_int b" using b by simp
  have split: "pow2 (la - lb + 1) * pow2 (lb - 1) = pow2 la" "pow2 (la - lb - 1) * pow2 lb = pow2 (la - 1)"
    by (simp_all flip: pow2_add)
  have "x < pow2 (la - lb + 1)"
  proof -
    have "of_int a < pow2 (la - lb + 1) * of_int b"
      using A(2) B(1) split(1) mult_left_mono [OF B(1), of "pow2 (la - lb + 1)"] pow2_pos [of "la - lb + 1"] by linarith
    then show ?thesis using bp by (simp add: x pos_divide_less_eq)
  qed
  moreover have "pow2 (la - lb - 1) \<le> x"
  proof -
    have "pow2 (la - lb - 1) * of_int b \<le> of_int a"
      using A(1) B(2) split(2) mult_left_mono [OF less_imp_le [OF B(2)], of "pow2 (la - lb - 1)"] pow2_pos [of "la - lb - 1"] by linarith
    then show ?thesis using bp by (simp add: x pos_le_divide_eq)
  qed
  ultimately show "pow2 (exponent x) \<le> x" "x < pow2 (exponent x + 1)"
    by (auto simp: exponent_def ab Let_def la_def lb_def)
qed

lemma exponent_mono: "0 < x \<Longrightarrow> x \<le> y \<Longrightarrow> exponent x \<le> exponent y"
  using pow2_less [of "exponent x" "exponent y + 1"] exponent_bounds [of x] exponent_bounds [of y] by force

lemma round53_bounds:
  assumes "0 < x"
  shows "pow2 (exponent x) \<le> round53 x" "round53 x \<le> pow2 (exponent x + 1)"
proof -
  define u where "u = pow2 (exponent x - 52)"
  have u: "0 < u" "pow2 (exponent x) = of_int (2 ^ 52) * u" "pow2 (exponent x + 1) = of_int (2 ^ 53) * u"
    using pow2_add [of "exponent x - 52" 52] pow2_add [of "exponent x - 52" 53] by (simp_all add: u_def add.commute)
  have "of_int (2 ^ 52) \<le> x / u" "x / u \<le> of_int (2 ^ 53)"
    using exponent_bounds [OF assms] u by (simp_all add: pos_le_divide_eq pos_divide_le_eq)
  then have "2 ^ 52 \<le> round_even (x / u)" "round_even (x / u) \<le> 2 ^ 53"
    using round_even_mono [of "of_int (2 ^ 52)" "x / u"] round_even_mono [of "x / u" "of_int (2 ^ 53)"] unfolding round_even_int by blast+
  then have "of_int (2 ^ 52) * u \<le> of_int (round_even (x / u)) * u" "of_int (round_even (x / u)) * u \<le> of_int (2 ^ 53) * u"
    using u(1) by (simp_all only: mult_le_cancel_right_pos of_int_le_iff)
  then show "pow2 (exponent x) \<le> round53 x" "round53 x \<le> pow2 (exponent x + 1)"
    unfolding u(2,3) by (simp_all add: round53_def Let_def u_def)
qed

lemma round53_pos: "0 < x \<Longrightarrow> 0 < round53 x"
  using round53_bounds(1) [of x] pow2_pos [of "exponent x"] by linarith

lemma round53_mono:
  assumes "0 < x" "x \<le> y"
  shows "round53 x \<le> round53 y"
proof (cases "exponent x = exponent y")
  case True
  have "x / pow2 (exponent y - 52) \<le> y / pow2 (exponent y - 52)" using assms(2) by (intro divide_right_mono less_imp_le [OF pow2_pos])
  from round_even_mono [OF this] show ?thesis using True by (simp add: round53_def Let_def)
next
  case False
  then have "exponent x + 1 \<le> exponent y" using exponent_mono [OF assms] by linarith
  from pow2_mono [OF this] show ?thesis using round53_bounds [OF assms(1)] round53_bounds [of y] assms by linarith
qed

lemma round53_int:
  assumes "0 < n" "n < 2 ^ 53"
  shows "round53 (of_int n) = of_int n"
proof -
  define e where "e = exponent (of_int n)"
  have "pow2 e \<le> of_int n" "(of_int n :: rat) < of_int (2 ^ 53)" using assms exponent_bounds(1) [of "of_int n"] by (simp_all add: e_def del: of_int_power)
  then have "pow2 e < pow2 53" by (simp only: pow2_numeral of_int_power of_int_numeral)
  from pow2_less [OF this] have e: "e \<le> 52" by simp
  define u where "u = pow2 (e - 52)"
  have "pow2 (52 - e) * u = 1" using pow2_add [of "52 - e" "e - 52"] by (simp add: u_def)
  then have u: "of_int (2 ^ nat (52 - e)) * u = 1" using e by (simp add: pow2_def [of "52 - e"])
  have "0 < u" by (simp add: u_def)
  with u have "of_int n / u = of_int (n * 2 ^ nat (52 - e))" by (simp add: field_simps)
  then have "round_even (of_int n / u) = n * 2 ^ nat (52 - e)" by (simp only: round_even_int)
  then have "round53 (of_int n) = of_int (n * 2 ^ nat (52 - e)) * u" by (simp add: round53_def Let_def e_def [symmetric] u_def [symmetric])
  also have "\<dots> = of_int n * (of_int (2 ^ nat (52 - e)) * u)" by simp
  finally show ?thesis unfolding u by simp
qed

lemma f64_pos [simp]: "0 < f64 x \<longleftrightarrow> 0 < x"
  using round53_pos [of x] round53_pos [of "- x"] by (auto simp: f64_def)

lemma f64_mono: "0 \<le> x \<Longrightarrow> x \<le> y \<Longrightarrow> f64 x \<le> f64 y"
  using round53_mono [of x y] round53_pos [of y] by (auto simp: f64_def)

lemma f64_int: "0 \<le> n \<Longrightarrow> n < 2 ^ 53 \<Longrightarrow> f64 (of_int n) = of_int n"
  by (auto simp: f64_def round53_int)

text \<open>The relative error of a rounding is at most one in \<open>2\<^sup>5\<^sup>3\<close>.\<close>

lemma f64_error:
  assumes "0 < x"
  shows "x - x / 2 ^ 53 \<le> f64 x" "f64 x \<le> x + x / 2 ^ 53"
proof -
  define u where "u = pow2 (exponent x - 52)"
  have u: "0 < u" "u * 2 ^ 52 = pow2 (exponent x)" using pow2_add [of "exponent x - 52" 52] by (simp_all add: u_def)
  then have half: "u / 2 \<le> x / 2 ^ 53" using exponent_bounds(1) [OF assms] by (simp add: field_simps)
  have "of_int (round_even (x / u)) * u \<le> (x / u + 1 / 2) * u" "(x / u - 1 / 2) * u \<le> of_int (round_even (x / u)) * u"
    using round_even_bounds [of "x / u"] u(1) by (simp_all only: mult_le_cancel_right_pos)
  then have "of_int (round_even (x / u)) * u \<le> x + u / 2" "x - u / 2 \<le> of_int (round_even (x / u)) * u"
    using u(1) by (simp_all add: algebra_simps)
  moreover have "f64 x = of_int (round_even (x / u)) * u" using assms by (simp add: f64_def round53_def Let_def u_def)
  ultimately show "x - x / 2 ^ 53 \<le> f64 x" "f64 x \<le> x + x / 2 ^ 53" using half by linarith+
qed

section \<open>Hours and days of a duration\<close>

text \<open>
  \<^verbatim>\<open>Duration.Hours\<close>: the whole hours plus the fraction of the rest, each operation in \<^verbatim>\<open>float64\<close>; durations are
  numbers of nanoseconds. A number of days is the number of hours divided by 24.
\<close>

abbreviation hour_ns :: int where
  "hour_ns \<equiv> 3600000000000"

definition Hours :: "int \<Rightarrow> rat" where
  "Hours d = (let hour = (if d < 0 then - ((- d) div hour_ns) else d div hour_ns); nsec = d - hour * hour_ns
     in f64 (f64 (of_int hour) + f64 (f64 (of_int nsec) / of_int hour_ns)))"

definition days_of :: "int \<Rightarrow> rat" where
  "days_of d = f64 (Hours d / 24)"

lemma Hours_nonneg:
  assumes "0 \<le> d" "d < 2 ^ 63"
  shows "Hours d = f64 (of_int (d div hour_ns) + f64 (of_int (d mod hour_ns) / of_int hour_ns))"
proof -
  have m: "0 \<le> d mod hour_ns" "d mod hour_ns < hour_ns" "d div hour_ns * hour_ns + d mod hour_ns = d" by simp_all
  have "d < 9223372036854775808" using assms(2) by simp
  with m have "d div hour_ns < 2 ^ 53" by simp
  moreover have "0 \<le> d div hour_ns" using assms by (simp add: pos_imp_zdiv_nonneg_iff)
  moreover have "d mod hour_ns < 2 ^ 53" using m(2) by simp
  ultimately show ?thesis using assms(1) m(1) by (simp add: Hours_def Let_def f64_int minus_div_mult_eq_mod del: div_mult_mod_eq of_int_diff of_int_mult)
qed

lemma f64_nonneg [simp]: "0 \<le> f64 x \<longleftrightarrow> 0 \<le> x"
  using round53_pos [of x] round53_pos [of "- x"] by (auto simp: f64_def)

lemma f64_nonpos: "x \<le> 0 \<Longrightarrow> f64 x \<le> 0"
  using f64_pos [of x] by linarith

lemma Hours_neg: "d < 0 \<Longrightarrow> Hours d \<le> 0"
proof -
  assume d: "d < 0"
  define h where "h = - ((- d) div hour_ns)"
  have "0 \<le> (- d) div hour_ns" "d - h * hour_ns = - ((- d) mod hour_ns)"
    using d by (simp add: pos_imp_zdiv_nonneg_iff, simp add: h_def minus_mod_eq_mult_div [symmetric] algebra_simps minus_mult_div_eq_mod)
  moreover have "0 \<le> (- d) mod hour_ns" by simp
  ultimately have "h \<le> 0" "d - h * hour_ns \<le> 0" by (simp_all add: h_def)
  then have "f64 (of_int h) \<le> 0" "f64 (f64 (of_int (d - h * hour_ns)) / of_int hour_ns) \<le> 0"
    by (simp_all add: f64_nonpos divide_le_0_iff del: of_int_diff of_int_mult)
  then show ?thesis using d by (auto simp: Hours_def Let_def h_def [symmetric] intro!: f64_nonpos add_nonpos_nonpos)
qed

lemma Hours_le:
  assumes "0 \<le> d" "d < 2 ^ 63" "d \<le> k * hour_ns"
  shows "Hours d \<le> of_int k"
proof -
  define h r where "h = d div hour_ns" and "r = d mod hour_ns"
  have hr: "h * hour_ns + r = d" "0 \<le> r" "r < hour_ns" by (simp_all add: h_def r_def)
  have h: "0 \<le> h" using assms(1) by (simp add: h_def pos_imp_zdiv_nonneg_iff)
  have "d < 9223372036854775808" using assms(2) by simp
  with hr have small: "h + 1 < 2 ^ 53" by simp
  show ?thesis
  proof (cases "h < k")
    case True
    have frac: "0 \<le> (of_int r :: rat) / of_int hour_ns" "(of_int r :: rat) / of_int hour_ns \<le> of_int 1"
      using hr(2,3) by simp_all
    have "f64 (of_int r / of_int hour_ns) \<le> 1" using f64_mono [OF frac] f64_int [of 1] by simp
    moreover have "0 \<le> f64 (of_int r / of_int hour_ns)" using frac(1) by (simp only: f64_nonneg)
    moreover have "(of_int h :: rat) \<le> of_int (h + 1) - 1" "(0 :: rat) \<le> of_int h" using h by simp_all
    ultimately have "0 \<le> of_int h + f64 (of_int r / of_int hour_ns)" "of_int h + f64 (of_int r / of_int hour_ns) \<le> of_int (h + 1)" by linarith+
    from f64_mono [OF this] have "Hours d \<le> f64 (of_int (h + 1))" using Hours_nonneg [OF assms(1,2)] by (simp only: h_def r_def)
    also have "\<dots> = of_int (h + 1)" using h small by (intro f64_int) linarith+
    finally show ?thesis using True by simp
  next
    case False
    then have "h = k" "r = 0" using hr assms(3) by linarith+
    moreover have "h < 2 ^ 53" using small by linarith
    ultimately show ?thesis using h Hours_nonneg [OF assms(1,2)] by (simp add: h_def [symmetric] r_def [symmetric] f64_int f64_def [of 0])
  qed
qed

text \<open>
  Counting days in \<^verbatim>\<open>float64\<close> agrees with comparing exact durations but for less than a second above the limit: a duration
  of at most \<open>n\<close> days never counts as more, and one that is a second longer always does.
\<close>

lemma days_of_le:
  assumes "d < 2 ^ 63" "0 \<le> n" "n < 2 ^ 53" "d \<le> n * (24 * hour_ns)"
  shows "days_of d \<le> of_int n"
proof (cases "d < 0")
  case True
  then have "days_of d \<le> 0" unfolding days_of_def by (intro f64_nonpos) (simp add: Hours_neg)
  then show ?thesis using assms(2) by (meson of_int_0_le_iff order_trans)
next
  case False
  then have "Hours d \<le> of_int (24 * n)" "0 \<le> Hours d" using Hours_le [of d "24 * n"] assms Hours_nonneg [of d] by (simp_all add: algebra_simps)
  then have "days_of d \<le> f64 (of_int n)" unfolding days_of_def by (intro f64_mono) simp_all
  then show ?thesis using assms(2,3) by (simp add: f64_int)
qed

lemma Hours_lower:
  assumes "0 < d" "d < 2 ^ 63"
  defines "x \<equiv> of_int d / of_int hour_ns"
  shows "x - 2 * x / 2 ^ 53 \<le> Hours d"
proof -
  define h r where "h = d div hour_ns" and "r = d mod hour_ns"
  have hr: "h * hour_ns + r = d" "0 \<le> r" by (simp_all add: h_def r_def)
  have h: "0 \<le> h" using assms(1) by (simp add: h_def pos_imp_zdiv_nonneg_iff)
  define f where "f = (of_int r :: rat) / of_int hour_ns"
  have x: "x = of_int h + f" unfolding x_def f_def hr(1) [symmetric] by (simp add: field_simps)
  have f: "f - f / 2 ^ 53 \<le> f64 f" "0 \<le> f" using f64_error(1) [of f] hr(2) by (cases "f = 0"; simp add: f_def f64_def)+
  have y: "x - x / 2 ^ 53 \<le> of_int h + f64 f" using f h unfolding x by (simp add: field_simps)
  moreover have "0 < x" using assms(1) by (simp add: x_def)
  ultimately have pos: "0 < of_int h + f64 f" by (simp add: field_simps)
  have "Hours d = f64 (of_int h + f64 f)" using Hours_nonneg [of d] assms(1,2) by (simp add: h_def r_def f_def)
  with f64_error(1) [OF pos] have "(of_int h + f64 f) * (1 - 1 / 2 ^ 53) \<le> Hours d" by (simp add: field_simps)
  moreover have "(x - x / 2 ^ 53) * (1 - 1 / 2 ^ 53) \<le> (of_int h + f64 f) * (1 - 1 / 2 ^ 53)" using y by (intro mult_right_mono) simp_all
  moreover have "x - 2 * x / 2 ^ 53 \<le> (x - x / 2 ^ 53) * (1 - 1 / 2 ^ 53)" using \<open>0 < x\<close> by (simp add: field_simps)
  ultimately show ?thesis by linarith
qed

lemma days_of_pos: "0 < d \<Longrightarrow> d < 2 ^ 63 \<Longrightarrow> 0 < days_of d"
proof -
  assume d: "0 < d" "d < 2 ^ 63"
  then have "0 < (of_int d :: rat) / of_int hour_ns" by simp
  then have "0 < Hours d" using Hours_lower [OF d] by (simp add: field_simps)
  then show ?thesis by (simp add: days_of_def)
qed

lemma days_of_greater:
  assumes "d < 2 ^ 63" "1 \<le> n" "n \<le> 100000" "n * (24 * hour_ns) + 1000000000 \<le> d"
  shows "of_int n < days_of d"
proof -
  have d: "0 < d" using assms(2,4) by linarith
  define x where "x = (of_int d :: rat) / of_int hour_ns"
  have "(of_int (n * (24 * hour_ns) + 1000000000) :: rat) \<le> of_int d" using assms(4) by (simp only: of_int_le_iff)
  then have x: "24 * of_int n + 1 / 3600 \<le> x" by (simp add: x_def field_simps)
  have n: "(1 :: rat) \<le> of_int n" "(of_int n :: rat) \<le> 100000" using assms(2,3) by simp_all
  have H: "x - 2 * x / 2 ^ 53 \<le> Hours d" unfolding x_def by (rule Hours_lower [OF d assms(1)])
  have "x * (1 - 2 / 2 ^ 53) \<le> Hours d" using H by (simp add: field_simps)
  moreover have "(24 * of_int n + 1 / 3600) * (1 - 2 / 2 ^ 53) \<le> x * (1 - 2 / 2 ^ 53)" using x by (intro mult_right_mono) simp_all
  ultimately have "24 * of_int n + 1 / 7200 \<le> Hours d" using n by (simp add: field_simps)
  then have y: "of_int n + 1 / 172800 \<le> Hours d / 24" by simp
  then have "of_int n < (Hours d / 24) * (1 - 1 / 2 ^ 53)"
    using n mult_right_mono [OF y, of "1 - 1 / 2 ^ 53"] by (simp add: field_simps)
  also have "\<dots> \<le> days_of d" using f64_error(1) [of "Hours d / 24"] y n by (simp add: days_of_def field_simps)
  finally show ?thesis .
qed

lemma one_nanosecond_over: "days_of (397 * (24 * hour_ns) + 1) = 397"
  by code_simp

end
