(* ===== verification/Certctl_Prelude.thy ===== *)
theory Certctl_Prelude
  imports Go_Text Go_Float "HOL-Library.State_Monad" "HOL-Library.Char_ord" "HOL-Library.List_Lexorder"
begin

text \<open>
  Shared vocabulary of the development: Go error values with wrapping, Go strings (decimal
  printing, prefixes), database tables as lists of rows with a primary key,
  and the state monad in which the service layer is written, with its frame rules.
\<close>

named_theorems run_simps \<open>equations that evaluate a service operation on a state\<close>
named_theorems vcg \<open>proof rules for postconditions, one per construct or operation\<close>
named_theorems frame_rules \<open>rules that show an operation respects a frame condition\<close>

section \<open>Go errors\<close>

text \<open>
  A Go error is a sentinel (\<^verbatim>\<open>errors.New\<close> bound to a package variable), a message built by
  \<^verbatim>\<open>fmt.Errorf\<close> without a wrapped error, or a message that wraps another error with
  \<^verbatim>\<open>%w\<close>. \<open>errors_is\<close> is \<^verbatim>\<open>errors.Is\<close>: it looks through the chain of wrapped errors.
  Comparing with \<^verbatim>\<open>==\<close> is plain equality.
\<close>

datatype error = Sentinel string | Errorf string | Wrap string error

primrec errors_is :: "error \<Rightarrow> error \<Rightarrow> bool" where
  "errors_is (Sentinel n) t = (t = Sentinel n)"
| "errors_is (Errorf m) t = (t = Errorf m)"
| "errors_is (Wrap m e) t = (t = Wrap m e \<or> errors_is e t)"

text \<open>The text of an error, \<^verbatim>\<open>Error()\<close>; a sentinel is named after its variable.\<close>

primrec error_text :: "error \<Rightarrow> string" where
  "error_text (Sentinel n) = n"
| "error_text (Errorf m) = m"
| "error_text (Wrap m e) = m @ '': '' @ error_text e"

lemma errors_is_refl [simp]: "errors_is e e"
  by (cases e) auto

abbreviation ErrNoRows :: error where "ErrNoRows \<equiv> Sentinel ''sql.ErrNoRows''"
abbreviation ErrNotFound :: error where "ErrNotFound \<equiv> Sentinel ''repository.ErrNotFound''"
abbreviation ErrAlreadyExists :: error where
  "ErrAlreadyExists \<equiv> Sentinel ''repository.ErrAlreadyExists''"
abbreviation ErrDriver :: error where "ErrDriver \<equiv> Errorf ''driver error''"

section \<open>Strings\<close>

definition digit_char :: "nat \<Rightarrow> char" where
  "digit_char d = char_of (48 + d)"

fun show_nat :: "nat \<Rightarrow> string" where
  "show_nat n = (if n < 10 then [digit_char n] else show_nat (n div 10) @ [digit_char (n mod 10)])"

declare show_nat.simps [simp del]

definition show_int :: "int \<Rightarrow> string" where
  "show_int i = (if i < 0 then ''-'' @ show_nat (nat (- i)) else show_nat (nat i))"

fun has_prefix :: "string \<Rightarrow> string \<Rightarrow> bool" where
  "has_prefix s [] = True"
| "has_prefix [] (p # ps) = False"
| "has_prefix (c # s) (p # ps) = (c = p \<and> has_prefix s ps)"

fun contains :: "string \<Rightarrow> string \<Rightarrow> bool" where
  "contains [] p = (p = [])"
| "contains (c # s) p = (has_prefix (c # s) p \<or> contains s p)"

lemma has_prefix_iff: "has_prefix s p \<longleftrightarrow> (\<exists>t. s = p @ t)"
  by (induction s p rule: has_prefix.induct) auto

lemma contains_iff: "contains s p \<longleftrightarrow> (\<exists>u v. s = u @ p @ v)"
proof (induction s)
  case Nil
  show ?case by auto
next
  case (Cons c s)
  have "(\<exists>u v. c # s = u @ p @ v) \<longleftrightarrow> (\<exists>v. c # s = p @ v) \<or> (\<exists>u v. s = u @ p @ v)"
    by (metis Cons_eq_append_conv append_Cons append_Nil)
  then show ?case using Cons.IH by (simp add: has_prefix_iff)
qed

lemma digit_char_inj: "d < 10 \<Longrightarrow> e < 10 \<Longrightarrow> digit_char d = digit_char e \<Longrightarrow> d = e"
proof -
  assume d: "d < 10" and e: "e < 10" and eq: "digit_char d = digit_char e"
  then have "of_char (char_of (48 + d) :: char) = (of_char (char_of (48 + e) :: char) :: nat)"
    by (simp add: digit_char_def)
  with d e show "d = e" by simp
qed

lemma digit_char_of: "d < 10 \<Longrightarrow> of_char (digit_char d) = 48 + d"
  by (simp add: digit_char_def)

lemma show_nat_digits: "c \<in> set (show_nat n) \<Longrightarrow> \<exists>d < 10. c = digit_char d"
proof (induction n rule: show_nat.induct)
  case (1 n)
  show ?case
  proof (cases "n < 10")
    case True
    with 1 show ?thesis by (subst (asm) show_nat.simps) auto
  next
    case False
    with 1 show ?thesis
      by (subst (asm) (2) show_nat.simps) (auto intro: exI [of _ "n mod 10"])
  qed
qed

lemma show_nat_no_dash [simp]: "CHR ''-'' \<notin> set (show_nat n)"
proof
  assume "CHR ''-'' \<in> set (show_nat n)"
  then obtain d where "d < 10" and "CHR ''-'' = digit_char d"
    using show_nat_digits by blast
  then have "of_char CHR ''-'' = (48 + d :: nat)" by (metis digit_char_of)
  then show False by simp
qed

lemma show_nat_chars:
  assumes "c \<in> set (show_nat n)"
  shows "48 \<le> (of_char c :: nat) \<and> (of_char c :: nat) \<le> 57"
  using show_nat_digits [OF assms] digit_char_of by fastforce

lemma show_nat_nonempty [simp]: "show_nat n \<noteq> []"
  by (subst show_nat.simps) simp

lemma show_nat_inj: "show_nat m = show_nat n \<Longrightarrow> m = n"
proof (induction m arbitrary: n rule: show_nat.induct)
  case (1 m)
  have eq: "(if m < 10 then [digit_char m] else show_nat (m div 10) @ [digit_char (m mod 10)]) =
    (if n < 10 then [digit_char n] else show_nat (n div 10) @ [digit_char (n mod 10)])"
    using "1.prems" show_nat.simps [of m] show_nat.simps [of n] by metis
  show ?case
  proof (cases "m < 10"; cases "n < 10")
    assume "m < 10" "n < 10"
    with eq show ?thesis by (auto dest: digit_char_inj)
  next
    assume "m < 10" "\<not> n < 10"
    with eq show ?thesis by (auto simp: Cons_eq_append_conv)
  next
    assume "\<not> m < 10" "n < 10"
    with eq show ?thesis by (auto simp: append_eq_Cons_conv)
  next
    assume m: "\<not> m < 10" and n: "\<not> n < 10"
    with eq have "show_nat (m div 10) = show_nat (n div 10)"
      and "digit_char (m mod 10) = digit_char (n mod 10)" by auto
    then have "m div 10 = n div 10" and "m mod 10 = n mod 10"
      using "1.IH" m by (auto intro: digit_char_inj [of "m mod 10" "n mod 10"])
    then show ?thesis by (metis div_mult_mod_eq)
  qed
qed

lemma show_int_chars: "c \<in> set (show_int i) \<Longrightarrow> c = CHR ''-'' \<or> 48 \<le> (of_char c :: nat) \<and> (of_char c :: nat) \<le> 57"
  using show_nat_chars by (auto simp: show_int_def split: if_splits)

lemma show_int_no_bracket [simp]: "CHR ''['' \<notin> set (show_int i)" "CHR '']'' \<notin> set (show_int i)"
  using show_int_chars by fastforce+

lemma show_int_inj: "show_int i = show_int j \<Longrightarrow> i = j"
proof -
  assume eq: "show_int i = show_int j"
  have no: "show_nat n \<noteq> CHR ''-'' # s" for n s
    using show_nat_no_dash [of n] by (metis list.set_intros(1))
  then have no': "CHR ''-'' # s \<noteq> show_nat n" for n s by metis
  show "i = j"
  proof (cases "i < 0"; cases "j < 0")
    assume "i < 0" "j < 0"
    with eq have "nat (- i) = nat (- j)" by (auto simp: show_int_def dest: show_nat_inj)
    with \<open>i < 0\<close> \<open>j < 0\<close> show ?thesis by simp
  next
    assume "\<not> i < 0" "\<not> j < 0"
    with eq have "nat i = nat j" by (auto simp: show_int_def dest: show_nat_inj)
    with \<open>\<not> i < 0\<close> \<open>\<not> j < 0\<close> show ?thesis by simp
  qed (use eq no no' in \<open>auto simp: show_int_def\<close>)
qed

section \<open>Time\<close>

text \<open>
  A \<^verbatim>\<open>time.Time\<close> is its number of nanoseconds since the Unix epoch; the zero value of the type
  is midnight, January 1 of year 1. Durations are nanoseconds too.
\<close>

type_synonym time = int
type_synonym duration = int

abbreviation Second :: duration where "Second \<equiv> 1000000000"
abbreviation Minute :: duration where "Minute \<equiv> 60 * Second"
abbreviation Hour :: duration where "Hour \<equiv> 3600 * Second"
abbreviation Day :: duration where "Day \<equiv> 24 * Hour"

text \<open>The difference of two times, \<^verbatim>\<open>Time.Sub\<close>, and so \<^verbatim>\<open>time.Until\<close> and \<^verbatim>\<open>time.Since\<close>: it saturates at the range of a duration.\<close>

definition until :: "time \<Rightarrow> time \<Rightarrow> duration" where
  "until t u = max (- (2 ^ 63)) (min (2 ^ 63 - 1) (t - u))"

lemma until_range: "until t u < 2 ^ 63" "- (2 ^ 63) \<le> until t u"
  by (simp_all add: until_def)

definition zero_time :: time where
  "zero_time = - 62135596800 * 1000000000"

text \<open>
  The textual form of a duration, as \<^verbatim>\<open>Duration.String\<close> prints it: hours, minutes and seconds
  with the fraction without trailing zeros, or a single smaller unit below one second.
\<close>

fun frac_digits :: "nat \<Rightarrow> nat \<Rightarrow> string" where
  "frac_digits 0 v = []"
| "frac_digits (Suc p) v = frac_digits p (v div 10) @ [digit_char (v mod 10)]"

definition show_frac :: "nat \<Rightarrow> nat \<Rightarrow> string" where
  "show_frac prec v = (let ds = rev (dropWhile (\<lambda>c. c = CHR ''0'') (rev (frac_digits prec v))) in
     if ds = [] then [] else ''.'' @ ds)"

definition show_duration :: "duration \<Rightarrow> string" where
  "show_duration d = (let u = nat \<bar>d\<bar>; sign = (if d < 0 then ''-'' else '''') in
     if u = 0 then ''0s''
     else if u < 1000 then sign @ show_nat u @ ''ns''
     else if u < 1000000 then sign @ show_nat (u div 1000) @ show_frac 3 u @ [char_of (194::nat), char_of (181::nat)] @ ''s''
     else if u < 1000000000 then sign @ show_nat (u div 1000000) @ show_frac 6 u @ ''ms''
     else (let s = u div 1000000000; m = s div 60; h = m div 60 in
       sign @ (if h > 0 then show_nat h @ ''h'' else '''') @ (if m > 0 then show_nat (m mod 60) @ ''m'' else '''') @
       show_nat (s mod 60) @ show_frac 9 u @ ''s''))"

section \<open>Pages\<close>

text \<open>
  Pages of a list that has been fetched entirely, as \<^verbatim>\<open>ListJobs\<close>, \<^verbatim>\<open>ListAgents\<close>, \<^verbatim>\<open>ListPolicies\<close> and
  \<^verbatim>\<open>GetCertificateVersions\<close> cut them. \<^verbatim>\<open>int\<close> has 64 bits and its arithmetic wraps around; a slice expression with bounds out of
  order panics, which is \<open>None\<close>.
\<close>

definition int64 :: "int \<Rightarrow> int" where
  "int64 i = (i + 2 ^ 63) mod 2 ^ 64 - 2 ^ 63"

definition go_slice :: "'a list \<Rightarrow> int \<Rightarrow> int \<Rightarrow> 'a list option" where
  "go_slice xs i j = (if 0 \<le> i \<and> i \<le> j \<and> j \<le> int (length xs) then Some (take (nat (j - i)) (drop (nat i) xs)) else None)"

definition memory_page :: "int \<Rightarrow> int \<Rightarrow> 'a list \<Rightarrow> 'a list option" where
  "memory_page page perPage xs =
     (let page = (if page < 1 then 1 else page);
          perPage = (if perPage < 1 then 50 else perPage);
          total = int (length xs);
          start = int64 ((page - 1) * perPage)
      in if start \<ge> total then Some []
         else let end' = int64 (start + perPage) in go_slice xs start (if end' > total then total else end'))"

lemma int64_zero [simp]: "int64 0 = 0"
  by (simp add: int64_def)

lemma int64_id: "- (2 ^ 63) \<le> i \<Longrightarrow> i < 2 ^ 63 \<Longrightarrow> int64 i = i"
  by (simp add: int64_def)

lemma memory_page_exact:
  assumes "1 \<le> page" "1 \<le> perPage" "page * perPage < 2 ^ 63"
  shows "memory_page page perPage xs = Some (take (nat perPage) (drop (nat ((page - 1) * perPage)) xs))"
proof -
  define a where "a = (page - 1) * perPage"
  have a: "0 \<le> a" "a + perPage = page * perPage" using assms(1,2) by (simp_all add: a_def algebra_simps)
  then have wrap: "int64 a = a" "int64 (a + perPage) = a + perPage" using assms by (simp_all add: int64_id)
  have cut: "nat (int (length xs) - a) = length xs - nat a" using a(1) by (simp add: nat_diff_distrib)
  show ?thesis using assms(1,2) a(1) wrap cut
    by (auto simp: memory_page_def go_slice_def Let_def a_def [symmetric] nat_le_iff)
qed

text \<open>The pages of a list, one after the other, are the list.\<close>

lemma pages_complete:
  "concat (map (\<lambda>p. take k (drop (p * k) xs)) [0..<n]) = take (n * k) xs"
proof (induction n)
  case (Suc n)
  have "Suc n * k = n * k + k" by simp
  then have "take (Suc n * k) xs = take (n * k) xs @ take k (drop (n * k) xs)" by (simp only: take_add)
  with Suc show ?case by simp
qed simp

section \<open>Tables\<close>

text \<open>
  A database table is the list of its rows. \<open>key\<close> selects the primary key. \<open>row_of\<close> is a
  lookup by primary key, \<open>update_row\<close> an \<^verbatim>\<open>UPDATE ... WHERE id = k\<close>.
\<close>

definition row_of :: "('r \<Rightarrow> 'k) \<Rightarrow> 'k \<Rightarrow> 'r list \<Rightarrow> 'r option" where
  "row_of key k tbl = find (\<lambda>r. key r = k) tbl"

definition has_key :: "('r \<Rightarrow> 'k) \<Rightarrow> 'k \<Rightarrow> 'r list \<Rightarrow> bool" where
  "has_key key k tbl = list_ex (\<lambda>r. key r = k) tbl"

definition update_row :: "('r \<Rightarrow> 'k) \<Rightarrow> 'k \<Rightarrow> ('r \<Rightarrow> 'r) \<Rightarrow> 'r list \<Rightarrow> 'r list" where
  "update_row key k f tbl = map (\<lambda>r. if key r = k then f r else r) tbl"

lemma has_key_iff: "has_key key k tbl \<longleftrightarrow> k \<in> key ` set tbl"
  by (auto simp: has_key_def list_ex_iff)

lemma row_of_Some: "row_of key k tbl = Some r \<Longrightarrow> r \<in> set tbl \<and> key r = k"
  by (auto simp: row_of_def find_Some_iff)

lemma row_of_None: "row_of key k tbl = None \<longleftrightarrow> k \<notin> key ` set tbl"
  by (auto simp: row_of_def find_None_iff)

lemma row_of_has_key: "has_key key k tbl \<longleftrightarrow> row_of key k tbl \<noteq> None"
  by (auto simp: has_key_iff row_of_None)

lemma update_row_keys [simp]: "(\<And>r. key (f r) = key r) \<Longrightarrow> map key (update_row key k f tbl) = map key tbl"
  by (auto simp: update_row_def)

lemma update_row_key_set [simp]:
  "(\<And>r. key (f r) = key r) \<Longrightarrow> key ` set (update_row key k f tbl) = key ` set tbl"
  using update_row_keys [of key f k tbl] by (metis list.set_map)

lemma row_of_update_row:
  "(\<And>r. key (f r) = key r) \<Longrightarrow>
   row_of key j (update_row key k f tbl) =
     (if j = k then map_option f (row_of key k tbl) else row_of key j tbl)"
  by (induction tbl) (auto simp: row_of_def update_row_def)

lemma row_of_append:
  "row_of key k (t @ u) = (case row_of key k t of None \<Rightarrow> row_of key k u | Some r \<Rightarrow> Some r)"
  by (induction t) (auto simp: row_of_def)

lemma row_of_single [simp]: "row_of key k [r] = (if key r = k then Some r else None)"
  by (simp add: row_of_def)

lemma set_update_row: "set (update_row key k f tbl) =
   f ` {r \<in> set tbl. key r = k} \<union> {r \<in> set tbl. key r \<noteq> k}"
  by (auto simp: update_row_def)

lemma row_of_distinct:
  "distinct (map key tbl) \<Longrightarrow> r \<in> set tbl \<Longrightarrow> row_of key (key r) tbl = Some r"
  by (induction tbl) (auto simp: row_of_def rev_image_eqI)

lemma update_row_twice:
  "(\<And>r. key (g r) = key r) \<Longrightarrow> update_row key k f (update_row key k g t) = update_row key k (f \<circ> g) t"
  by (auto simp: update_row_def)

text \<open>
  A sweep over a snapshot of a table: \<open>rest\<close> are the rows still to be handled, which are as they were
  at the start, and every row of the table is as it was or has made a step of \<open>R\<close>.
\<close>

definition swept :: "('r \<Rightarrow> 'k) \<Rightarrow> ('r \<Rightarrow> 'r \<Rightarrow> bool) \<Rightarrow> 'r list \<Rightarrow> 'r list \<Rightarrow> 'r list \<Rightarrow> bool" where
  "swept key R t0 rest t = (map key t = map key t0 \<and> distinct (map key rest) \<and>
     (\<forall>r \<in> set rest. row_of key (key r) t0 = Some r \<and> row_of key (key r) t = Some r) \<and>
     (\<forall>i r. row_of key i t = Some r \<longrightarrow> (\<exists>r0. row_of key i t0 = Some r0 \<and> (r = r0 \<or> R r0 r))))"

lemma swept_start:
  assumes "distinct (map key t)" "set rest \<subseteq> set t" "distinct (map key rest)"
  shows "swept key R t rest t"
  using assms row_of_distinct by (fastforce simp: swept_def)

lemma swept_skip: "swept key R t0 (x # rest) t \<Longrightarrow> swept key R t0 rest t"
  by (auto simp: swept_def)

lemma swept_step:
  assumes inv: "swept key R t0 (x # rest) t" and f: "\<And>r. key (f r) = key r" and R: "R x (f x)"
  shows "swept key R t0 rest (update_row key (key x) f t)"
proof -
  have x: "row_of key (key x) t0 = Some x" "row_of key (key x) t = Some x" using inv by (auto simp: swept_def)
  have "row_of key (key r) (update_row key (key x) f t) = Some r" if "r \<in> set rest" for r
    using that inv row_of_update_row [of key f "key r" "key x" t, OF f]
    by (auto simp: swept_def image_iff)
  moreover have "\<exists>r0. row_of key i t0 = Some r0 \<and> (r = r0 \<or> R r0 r)"
    if "row_of key i (update_row key (key x) f t) = Some r" for i r
    using that inv x R row_of_update_row [of key f i "key x" t, OF f]
    by (auto simp: swept_def split: if_splits)
  ultimately show ?thesis using inv update_row_keys [of key f "key x" t, OF f] by (auto simp: swept_def)
qed

lemma swept_done:
  "swept key R t0 rest t \<Longrightarrow> map key t = map key t0 \<and>
     (\<forall>i r. row_of key i t = Some r \<longrightarrow> (\<exists>r0. row_of key i t0 = Some r0 \<and> (r = r0 \<or> R r0 r)))"
  by (simp add: swept_def)

section \<open>Operations\<close>

text \<open>
  A service operation runs on a state and returns a value; an error result keeps the changes made
  before it, as in Go. \<open>for_each\<close> is a loop whose body neither breaks nor returns; \<open>for_count\<close>
  counts the iterations whose body returned true.
\<close>

fun for_each :: "('a \<Rightarrow> ('s, unit) state) \<Rightarrow> 'a list \<Rightarrow> ('s, unit) state" where
  "for_each f [] = State_Monad.return ()"
| "for_each f (x # xs) = do { _ \<leftarrow> f x; for_each f xs }"

fun for_count :: "('a \<Rightarrow> ('s, bool) state) \<Rightarrow> 'a list \<Rightarrow> ('s, nat) state" where
  "for_count f [] = State_Monad.return 0"
| "for_count f (x # xs) = do { b \<leftarrow> f x; n \<leftarrow> for_count f xs;
     State_Monad.return (if b then Suc n else n) }"

definition gets :: "('s \<Rightarrow> 'a) \<Rightarrow> ('s, 'a) state" where
  "gets f = State (\<lambda>s. (f s, s))"

definition modify :: "('s \<Rightarrow> 's) \<Rightarrow> ('s, unit) state" where
  "modify f = State (\<lambda>s. ((), f s))"

lemma run_gets [simp, run_simps]: "run_state (gets f) s = (f s, s)"
  by (simp add: gets_def)

lemma run_modify [simp, run_simps]: "run_state (modify f) s = ((), f s)"
  by (simp add: modify_def)

lemma for_each_append: "for_each f (xs @ ys) = do { _ \<leftarrow> for_each f xs; for_each f ys }"
  by (induction xs) auto

text \<open>
  A frame condition is a reflexive and transitive relation between the state before and the state
  after. An operation built from operations that respect it respects it. The locale is
  interpreted once for each relation the components use.
\<close>

locale frame_condition =
  fixes R :: "'s \<Rightarrow> 's \<Rightarrow> bool"
  assumes frame_refl: "R s s"
    and frame_trans: "R s t \<Longrightarrow> R t u \<Longrightarrow> R s u"
begin

lemma keeps_return: "state_io_rel R (State_Monad.return x)"
  by (simp add: state_io_rel_def frame_refl)

lemma keeps_gets: "state_io_rel R (gets f)"
  by (simp add: state_io_rel_def frame_refl)

lemma keeps_bind:
  assumes "state_io_rel R m" and "\<And>x. state_io_rel R (f x)"
  shows "state_io_rel R (State_Monad.bind m f)"
proof
  fix a s s'
  assume "run_state (State_Monad.bind m f) s = (a, s')"
  then obtain b t where m: "run_state m s = (b, t)" and f: "run_state (f b) t = (a, s')"
    by (auto split: prod.splits)
  from assms(1) m have "R s t" by blast
  moreover from assms(2) f have "R t s'" by blast
  ultimately show "R s s'" by (rule frame_trans)
qed

lemma keeps_for_each: "(\<And>x. x \<in> set xs \<Longrightarrow> state_io_rel R (f x)) \<Longrightarrow> state_io_rel R (for_each f xs)"
  by (induction xs) (auto intro: keeps_return keeps_bind)

lemma keeps_for_count: "(\<And>x. x \<in> set xs \<Longrightarrow> state_io_rel R (f x)) \<Longrightarrow> state_io_rel R (for_count f xs)"
  by (induction xs) (auto intro!: keeps_return keeps_bind)

lemma keeps_modify: "(\<And>s. R s (g s)) \<Longrightarrow> state_io_rel R (modify g)"
  by (simp add: state_io_rel_def)

lemmas keeps = keeps_return keeps_gets keeps_bind keeps_for_each keeps_for_count

end

lemma keeps_if [frame_rules]:
  "(b \<Longrightarrow> state_io_rel R m) \<Longrightarrow> (\<not> b \<Longrightarrow> state_io_rel R n) \<Longrightarrow> state_io_rel R (if b then m else n)"
  by simp

lemma keeps_case_sum [frame_rules]:
  "(\<And>x. r = Inl x \<Longrightarrow> state_io_rel R (f x)) \<Longrightarrow> (\<And>y. r = Inr y \<Longrightarrow> state_io_rel R (g y)) \<Longrightarrow>
   state_io_rel R (case r of Inl x \<Rightarrow> f x | Inr y \<Rightarrow> g y)"
  by (cases r) auto

lemma keeps_case_option [frame_rules]:
  "(r = None \<Longrightarrow> state_io_rel R m) \<Longrightarrow> (\<And>y. r = Some y \<Longrightarrow> state_io_rel R (g y)) \<Longrightarrow>
   state_io_rel R (case r of None \<Rightarrow> m | Some y \<Rightarrow> g y)"
  by (cases r) auto

lemma keeps_case_prod [frame_rules]:
  "(\<And>x y. p = (x, y) \<Longrightarrow> state_io_rel R (f x y)) \<Longrightarrow> state_io_rel R (case p of (x, y) \<Rightarrow> f x y)"
  by (cases p) auto

lemma keeps_let [frame_rules]:
  "(\<And>x. x = e \<Longrightarrow> state_io_rel R (f x)) \<Longrightarrow> state_io_rel R (let x = e in f x)"
  by simp

text \<open>Partial correctness of an operation: a postcondition of the returned value and the state.\<close>

definition post :: "('s, 'a) state \<Rightarrow> 's \<Rightarrow> ('a \<Rightarrow> 's \<Rightarrow> bool) \<Rightarrow> bool" where
  "post m s Q = (case run_state m s of (a, t) \<Rightarrow> Q a t)"

lemma post_return [simp]: "post (State_Monad.return x) s Q = Q x s"
  by (simp add: post_def)

lemma post_bind: "post (State_Monad.bind m f) s Q = post m s (\<lambda>a t. post (f a) t Q)"
  by (simp add: post_def split: prod.splits)

lemma post_returnI [vcg]: "Q x s \<Longrightarrow> post (State_Monad.return x) s Q"
  by simp

lemma post_bindI [vcg]: "post m s (\<lambda>a t. post (f a) t Q) \<Longrightarrow> post (State_Monad.bind m f) s Q"
  by (simp add: post_bind)

lemma post_gets [simp]: "post (gets f) s Q = Q (f s) s"
  by (simp add: post_def)

lemma post_modify [simp]: "post (modify f) s Q = Q () (f s)"
  by (simp add: post_def)

lemma post_getsI [vcg]: "Q (f s) s \<Longrightarrow> post (gets f) s Q"
  by simp

lemma post_modifyI [vcg]: "Q () (f s) \<Longrightarrow> post (modify f) s Q"
  by simp

lemma post_mono: "post m s Q \<Longrightarrow> (\<And>a t. Q a t \<Longrightarrow> Q' a t) \<Longrightarrow> post m s Q'"
  by (auto simp: post_def split: prod.splits)

lemma post_run: "post m s Q \<Longrightarrow> run_state m s = (a, t) \<Longrightarrow> Q a t"
  by (simp add: post_def)

lemma post_frame: "state_io_rel R m \<Longrightarrow> post m s (\<lambda>_ t. R s t)"
  by (auto simp: post_def state_io_rel_def split: prod.splits) (metis snd_conv)

lemma post_conj: "post m w P \<Longrightarrow> post m w Q \<Longrightarrow> post m w (\<lambda>a w'. P a w' \<and> Q a w')"
  by (auto simp: post_def split: prod.splits)

lemma keeps_postI: "(\<And>w. post m w (\<lambda>_. R w)) \<Longrightarrow> state_io_rel R m"
  by (metis post_run state_io_relI)

end
