(* ===== verification/Rate_Limit.thy ===== *)
theory Rate_Limit
  imports Certctl_Prelude "HOL-Library.AList"
begin

text \<open>
  \<^verbatim>\<open>internal/ratelimit/sliding_window.go\<close>: the sliding-window-log rate limiter. The map of
  buckets is an association list with distinct keys. Go leaves the iteration order of a map
  unspecified: the operations that iterate take the order as a parameter \<open>iter\<close>, and the theorems
  hold for every order that permutes the entries. The abstract specification is a log of the
  admitted events.
\<close>

section \<open>The limiter\<close>

record SlidingWindowLimiter =
  buckets :: "(string \<times> time list) list"
  maxN :: int
  window :: duration
  cap :: int
  disabled :: bool

abbreviation ErrRateLimited :: error where "ErrRateLimited \<equiv> Sentinel ''ratelimit.ErrRateLimited''"

definition NewSlidingWindowLimiter :: "int \<Rightarrow> duration \<Rightarrow> int \<Rightarrow> SlidingWindowLimiter" where
  "NewSlidingWindowLimiter n w mapCap =
     (let w' = (if w \<le> 0 then 24 * Hour else w);
          c' = (if mapCap \<le> 0 then 100000 else mapCap)
      in \<lparr> buckets = [], maxN = n, window = w', cap = c', disabled = (n \<le> 0) \<rparr>)"

definition pruneOlderThan :: "time list \<Rightarrow> time \<Rightarrow> time list" where
  "pruneOlderThan b cutoff = dropWhile (\<lambda>t. t < cutoff) b"

text \<open>
  The scan of \<^verbatim>\<open>evictOldestLocked\<close> ends early on an empty bucket, which it deletes; otherwise it
  carries the candidate key and the newest timestamp of its bucket (none before the first entry).
\<close>

fun evict_scan :: "(string \<times> time list) list \<Rightarrow> (string \<times> time) option \<Rightarrow> string option" where
  "evict_scan [] None = None"
| "evict_scan [] (Some (k, t)) = (if k \<noteq> '''' then Some k else None)"
| "evict_scan ((k, b) # rest) cand =
     (if b = [] then Some k
      else (let newest = last b in
        (case cand of
           None \<Rightarrow> evict_scan rest (Some (k, newest))
         | Some (ok, ot) \<Rightarrow>
             evict_scan rest (if newest < ot then Some (k, newest) else Some (ok, ot)))))"

definition evictOldestLocked ::
  "((string \<times> time list) list \<Rightarrow> (string \<times> time list) list) \<Rightarrow> SlidingWindowLimiter \<Rightarrow> SlidingWindowLimiter" where
  "evictOldestLocked iter l =
     (case evict_scan (iter (buckets l)) None of
        None \<Rightarrow> l
      | Some k \<Rightarrow> l \<lparr> buckets := AList.delete k (buckets l) \<rparr>)"

definition bucket_of :: "SlidingWindowLimiter \<Rightarrow> string \<Rightarrow> time list" where
  "bucket_of l k = (case map_of (buckets l) k of None \<Rightarrow> [] | Some b \<Rightarrow> b)"

definition Allow ::
  "((string \<times> time list) list \<Rightarrow> (string \<times> time list) list) \<Rightarrow> SlidingWindowLimiter \<Rightarrow> string \<Rightarrow> time
   \<Rightarrow> SlidingWindowLimiter \<times> error option" where
  "Allow iter l key now =
     (if disabled l then (l, None)
      else if key = '''' then (l, None)
      else
        (let l1 = (if int (length (buckets l)) \<ge> cap l then evictOldestLocked iter l else l);
             bucket = pruneOlderThan (bucket_of l1 key) (now - window l1)
         in if int (length bucket) \<ge> maxN l1
            then (l1 \<lparr> buckets := AList.update key bucket (buckets l1) \<rparr>, Some ErrRateLimited)
            else (l1 \<lparr> buckets := AList.update key (bucket @ [now]) (buckets l1) \<rparr>, None)))"

definition Len :: "SlidingWindowLimiter \<Rightarrow> nat" where
  "Len l = length (buckets l)"

definition Disabled :: "SlidingWindowLimiter \<Rightarrow> bool" where
  "Disabled l = disabled l"

text \<open>The decision of a call, and the decisions of a sequence of calls.\<close>

definition allow_step ::
  "((string \<times> time list) list \<Rightarrow> (string \<times> time list) list) \<Rightarrow> SlidingWindowLimiter \<Rightarrow> string \<Rightarrow> time
   \<Rightarrow> SlidingWindowLimiter \<times> bool" where
  "allow_step iter l k t = (case Allow iter l k t of (l', e) \<Rightarrow> (l', e = None))"

fun decisions :: "('s \<Rightarrow> string \<Rightarrow> time \<Rightarrow> 's \<times> bool) \<Rightarrow> 's \<Rightarrow> (string \<times> time) list \<Rightarrow> bool list" where
  "decisions step s [] = []"
| "decisions step s ((k, t) # cs) = (case step s k t of (s', d) \<Rightarrow> d # decisions step s' cs)"

section \<open>The specification: a log of admitted events\<close>

definition in_window :: "string \<Rightarrow> time \<Rightarrow> time \<Rightarrow> string \<times> time \<Rightarrow> bool" where
  "in_window k a b e = (fst e = k \<and> a \<le> snd e \<and> snd e \<le> b)"

definition spec_allow :: "int \<Rightarrow> duration \<Rightarrow> (string \<times> time) list \<Rightarrow> string \<Rightarrow> time \<Rightarrow> bool" where
  "spec_allow n w lg k now = (int (length (filter (in_window k (now - w) now) lg)) < n)"

fun spec_run :: "int \<Rightarrow> duration \<Rightarrow> (string \<times> time) list \<Rightarrow> (string \<times> time) list \<Rightarrow> bool list" where
  "spec_run n w lg [] = []"
| "spec_run n w lg ((k, t) # cs) =
     (if spec_allow n w lg k t then True # spec_run n w (lg @ [(k, t)]) cs
      else False # spec_run n w lg cs)"

definition admitted :: "(string \<times> time) list \<Rightarrow> bool list \<Rightarrow> (string \<times> time) list" where
  "admitted cs ds = map fst (filter snd (zip cs ds))"

definition window_bounded :: "int \<Rightarrow> duration \<Rightarrow> (string \<times> time) list \<Rightarrow> bool" where
  "window_bounded n w lg = (\<forall>k a. int (length (filter (in_window k a (a + w)) lg)) \<le> n)"

section \<open>The contract of a windowed limiter\<close>

text \<open>
  A limiter over the keys \<open>K\<close> represents the log of the events it admitted up to a time. It admits
  an event exactly when the window that ends at the event holds fewer than \<open>n\<close> admitted events of
  the key. Then no window of length \<open>w\<close> ever holds more than \<open>n\<close> admitted events of a key.
\<close>

locale windowed_limiter =
  fixes step :: "'s \<Rightarrow> string \<Rightarrow> time \<Rightarrow> 's \<times> bool"
    and tracks :: "'s \<Rightarrow> (string \<times> time) list \<Rightarrow> time \<Rightarrow> bool"
    and n :: int and w :: duration and K :: "string set"
  assumes admit: "tracks s lg T \<Longrightarrow> T \<le> t \<Longrightarrow> k \<in> K \<Longrightarrow> step s k t = (s', True) \<Longrightarrow>
      spec_allow n w lg k t \<and> tracks s' (lg @ [(k, t)]) t"
    and reject: "tracks s lg T \<Longrightarrow> T \<le> t \<Longrightarrow> k \<in> K \<Longrightarrow> step s k t = (s', False) \<Longrightarrow>
      \<not> spec_allow n w lg k t \<and> tracks s' lg t"
begin

lemma decisions_spec:
  assumes "tracks s lg T" "sorted (map snd cs)" "\<forall>c \<in> set cs. T \<le> snd c \<and> fst c \<in> K"
  shows "decisions step s cs = spec_run n w lg cs"
  using assms
proof (induction cs arbitrary: s lg T)
  case (Cons c cs)
  obtain k t where c: "c = (k, t)" by (cases c)
  obtain s' d where st: "step s k t = (s', d)" by (cases "step s k t")
  show ?case
  proof (cases d)
    case True
    with Cons.prems st c have "spec_allow n w lg k t" "tracks s' (lg @ [(k, t)]) t"
      using admit [of s lg T t k s'] by auto
    with Cons.IH [of s' "lg @ [(k, t)]" t] Cons.prems st c True show ?thesis by auto
  next
    case False
    with Cons.prems st c have "\<not> spec_allow n w lg k t" "tracks s' lg t"
      using reject [of s lg T t k s'] by auto
    with Cons.IH [of s' lg t] Cons.prems st c False show ?thesis by auto
  qed
qed simp

end

section \<open>Lemmas\<close>

lemma dropWhile_sorted_filter:
  "sorted b \<Longrightarrow> dropWhile (\<lambda>t. t < (c::int)) b = filter (\<lambda>t. c \<le> t) b"
proof (induction b)
  case (Cons t b)
  then have "\<not> t < c \<Longrightarrow> filter (\<lambda>t. c \<le> t) b = b" by (auto intro!: filter_True)
  with Cons show ?case by auto
qed simp

lemma bucket_of_update [simp]:
  "bucket_of (l \<lparr> buckets := AList.update k b (buckets l) \<rparr>) j = (if j = k then b else bucket_of l j)"
  by (auto simp: bucket_of_def update_conv')

lemma evict_scan_cases:
  "evict_scan es c = Some k \<Longrightarrow> k \<in> fst ` set es \<or> (\<exists>t. c = Some (k, t))"
proof (induction es arbitrary: c)
  case Nil
  then show ?case by (cases c) (auto split: if_splits)
next
  case (Cons e rest)
  obtain j b where e: "e = (j, b)" by (cases e)
  show ?case
  proof (cases "b = []")
    case True
    with Cons.prems e show ?thesis by simp
  next
    case False
    with Cons.prems e obtain c' where "evict_scan rest (Some c') = Some k"
      and "c' = (j, last b) \<or> c = Some c'"
      by (auto simp: Let_def split: option.splits if_splits)
    with Cons.IH [of "Some c'"] e show ?thesis by auto
  qed
qed

lemma evict_scan_cand:
  "c = Some (ok, ot) \<Longrightarrow> ok \<noteq> '''' \<Longrightarrow> '''' \<notin> fst ` set es \<Longrightarrow> \<exists>k. evict_scan es c = Some k"
proof (induction es c arbitrary: ok ot rule: evict_scan.induct)
  case (3 k b rest cand)
  show ?case
  proof (cases "b = []")
    case True
    then show ?thesis by simp
  next
    case False
    with 3 show ?thesis by (cases "last b < ot") (auto simp: Let_def)
  qed
qed auto

lemma evict_scan_total:
  assumes "es \<noteq> []" and "'''' \<notin> fst ` set es"
  shows "\<exists>k. evict_scan es None = Some k"
proof -
  obtain k b rest where es: "es = (k, b) # rest" using assms(1) by (metis list.exhaust surj_pair)
  show ?thesis
  proof (cases "b = []")
    case False
    have "\<exists>j. evict_scan rest (Some (k, last b)) = Some j"
      by (rule evict_scan_cand [OF refl]) (use assms es in auto)
    with False es show ?thesis by (simp add: Let_def)
  qed (simp add: es)
qed

text \<open>The well-formedness of a limiter: non-empty distinct keys, buckets and map within bounds.\<close>

definition limiter_ok :: "SlidingWindowLimiter \<Rightarrow> bool" where
  "limiter_ok l = (distinct (map fst (buckets l)) \<and>
     0 < cap l \<and> 0 < window l \<and> disabled l = (maxN l \<le> 0) \<and>
     (\<forall>e \<in> set (buckets l). fst e \<noteq> '''' \<and> int (length (snd e)) \<le> maxN l) \<and> int (Len l) \<le> cap l)"

lemma limiter_ok_New: "limiter_ok (NewSlidingWindowLimiter n w c)"
  by (auto simp: limiter_ok_def NewSlidingWindowLimiter_def Let_def Len_def)

lemma evict_shrinks:
  assumes ok: "limiter_ok l" and it: "set (iter (buckets l)) = set (buckets l)"
    and full: "int (length (buckets l)) \<ge> cap l"
  shows "length (buckets (evictOldestLocked iter l)) < length (buckets l)"
proof -
  from ok full have ne: "buckets l \<noteq> []" by (auto simp: limiter_ok_def)
  then have "iter (buckets l) \<noteq> []" using it by auto
  moreover have "'''' \<notin> fst ` set (buckets l)" using ok by (auto simp: limiter_ok_def)
  ultimately obtain k where k: "evict_scan (iter (buckets l)) None = Some k"
    using evict_scan_total [of "iter (buckets l)"] it by auto
  then have "k \<in> fst ` set (buckets l)" using evict_scan_cases it by fastforce
  then have "length (AList.delete k (buckets l)) < length (buckets l)"
    unfolding AList.delete_eq by (auto intro!: length_filter_less)
  with k show ?thesis by (simp add: evictOldestLocked_def)
qed

lemma delete_sub: "set (AList.delete k es) \<subseteq> set es" "length (AList.delete k es) \<le> length es"
  by (auto simp: AList.delete_eq)

lemma update_sub:
  "set (AList.update k b es) \<subseteq> insert (k, b) (set es)"
  "length (AList.update k b es) \<le> Suc (length es)"
  by (induction es) auto

lemma limiter_ok_subset:
  assumes ok: "limiter_ok l" and d: "distinct (map fst es)"
    and sub: "set es \<subseteq> insert (k, b) (set (buckets l))" and k: "k \<noteq> ''''"
    and b: "int (length b) \<le> maxN l" and len: "int (length es) \<le> cap l"
  shows "limiter_ok (l \<lparr> buckets := es \<rparr>)"
proof -
  from ok have b': "\<forall>e \<in> set (buckets l). fst e \<noteq> '''' \<and> int (length (snd e)) \<le> maxN l"
    by (simp add: limiter_ok_def)
  have "\<forall>e \<in> set es. fst e \<noteq> '''' \<and> int (length (snd e)) \<le> maxN l"
  proof
    fix e assume "e \<in> set es"
    with sub have "e = (k, b) \<or> e \<in> set (buckets l)" by blast
    with b' k b show "fst e \<noteq> '''' \<and> int (length (snd e)) \<le> maxN l" by auto
  qed
  with ok d len show ?thesis unfolding limiter_ok_def Len_def by simp
qed

lemma limiter_ok_put:
  assumes ok: "limiter_ok l" and k: "k \<noteq> ''''" and b: "int (length b) \<le> maxN l"
    and room: "int (length (buckets l)) < cap l"
  shows "limiter_ok (l \<lparr> buckets := AList.update k b (buckets l) \<rparr>)"
proof (rule limiter_ok_subset [OF ok _ _ k b])
  show "distinct (map fst (AList.update k b (buckets l)))"
    using ok by (simp add: limiter_ok_def distinct_update)
  show "set (AList.update k b (buckets l)) \<subseteq> insert (k, b) (set (buckets l))" by (rule update_sub)
  show "int (length (AList.update k b (buckets l))) \<le> cap l"
    using room update_sub(2) [of k b "buckets l"] by linarith
qed

lemma evict_ok:
  assumes ok: "limiter_ok l" and m: "0 \<le> maxN l"
  shows "limiter_ok (evictOldestLocked iter l)"
proof -
  have "limiter_ok (l \<lparr> buckets := AList.delete k (buckets l) \<rparr>)" for k
  proof (rule limiter_ok_subset [OF ok, where k = "''x''" and b = "[]"])
    show "distinct (map fst (AList.delete k (buckets l)))"
      using ok by (simp add: limiter_ok_def distinct_delete)
    show "set (AList.delete k (buckets l)) \<subseteq> insert (''x'', []) (set (buckets l))"
      using delete_sub(1) [of k "buckets l"] by blast
    show "int (length (AList.delete k (buckets l))) \<le> cap l"
      using ok delete_sub(2) [of k "buckets l"] by (simp add: limiter_ok_def Len_def)
  qed (use m in auto)
  with ok show ?thesis by (simp add: evictOldestLocked_def split: option.splits)
qed

section \<open>The sliding window specification is a bound on every window\<close>

lemma window_bounded_snoc:
  assumes lg: "window_bounded n w lg" and past: "\<forall>e \<in> set lg. snd e \<le> t" and adm: "spec_allow n w lg k t"
  shows "window_bounded n w (lg @ [(k, t)])"
  unfolding window_bounded_def
proof (intro allI)
  fix k' a
  show "int (length (filter (in_window k' a (a + w)) (lg @ [(k, t)]))) \<le> n"
  proof (cases "in_window k' a (a + w) (k, t)")
    case False
    with lg show ?thesis by (simp add: window_bounded_def)
  next
    case True
    then have k: "k' = k" and a: "a \<le> t" "t \<le> a + w" by (auto simp: in_window_def)
    have "filter (in_window k a (a + w)) lg =
      filter (in_window k a (a + w)) (filter (in_window k (t - w) t) lg)"
      using a past by (auto simp: in_window_def intro!: filter_cong)
    then have "length (filter (in_window k a (a + w)) lg) \<le> length (filter (in_window k (t - w) t) lg)"
      by (metis length_filter_le)
    with adm k True show ?thesis by (simp add: spec_allow_def)
  qed
qed

lemma spec_run_bounded:
  assumes "window_bounded n w lg" "sorted (map snd cs)"
    "\<forall>e \<in> set lg. \<forall>c \<in> set cs. snd e \<le> snd c"
  shows "window_bounded n w (lg @ admitted cs (spec_run n w lg cs))"
  using assms
proof (induction cs arbitrary: lg)
  case (Cons c cs)
  obtain k t where c: "c = (k, t)" by (cases c)
  show ?case
  proof (cases "spec_allow n w lg k t")
    case True
    with Cons.prems c have "window_bounded n w (lg @ [(k, t)])" by (intro window_bounded_snoc) auto
    with Cons.IH [of "lg @ [(k, t)]"] Cons.prems c True show ?thesis by (auto simp: admitted_def)
  next
    case False
    with Cons.IH [of lg] Cons.prems c show ?thesis by (auto simp: admitted_def)
  qed
qed (simp add: admitted_def)

section \<open>The limiter implements the contract\<close>

text \<open>
  The bucket of a key holds, from every cutoff inside the current window on, exactly the logged
  times of the key. The keys in use are fewer than the capacity, so that nothing is evicted.
\<close>

definition times_of :: "(string \<times> time) list \<Rightarrow> string \<Rightarrow> time list" where
  "times_of lg k = map snd (filter (\<lambda>e. fst e = k) lg)"

definition limiter_tracks :: "int \<Rightarrow> duration \<Rightarrow> string set \<Rightarrow> SlidingWindowLimiter \<Rightarrow>
    (string \<times> time) list \<Rightarrow> time \<Rightarrow> bool" where
  "limiter_tracks n w K l lg T =
     (limiter_ok l \<and> maxN l = n \<and> 0 < n \<and> window l = w \<and> finite K \<and> int (card K) < cap l \<and>
      '''' \<notin> K \<and> fst ` set (buckets l) \<subseteq> K \<and> (\<forall>e \<in> set lg. snd e \<le> T) \<and>
      (\<forall>k \<in> K. sorted (bucket_of l k) \<and> (\<forall>x \<in> set (bucket_of l k). x \<le> T) \<and>
        (\<forall>c \<ge> T - w. filter (\<lambda>x. c \<le> x) (bucket_of l k) = filter (\<lambda>x. c \<le> x) (times_of lg k))))"

lemma times_of_snoc [simp]: "times_of (lg @ [(k, t)]) j = times_of lg j @ (if j = k then [t] else [])"
  by (simp add: times_of_def)

lemma length_in_window:
  assumes "\<forall>e \<in> set lg. snd e \<le> t"
  shows "length (filter (in_window k c t) lg) = length (filter (\<lambda>x. c \<le> x) (times_of lg k))"
  using assms by (induction lg) (auto simp: in_window_def times_of_def)

lemma tracks_room:
  assumes "limiter_tracks n w K l lg T"
  shows "int (length (buckets l)) < cap l"
proof -
  have "length (buckets l) = card (fst ` set (buckets l))"
    using assms distinct_card [of "map fst (buckets l)"] by (simp add: limiter_tracks_def limiter_ok_def)
  also have "\<dots> \<le> card K" using assms by (auto simp: limiter_tracks_def intro: card_mono)
  finally show ?thesis using assms by (simp add: limiter_tracks_def)
qed

lemma Allow_tracks:
  assumes tr: "limiter_tracks n w K l lg T" and k: "k \<in> K"
    and b: "b = pruneOlderThan (bucket_of l k) (t - w)"
  shows "Allow iter l k t = (if int (length b) \<ge> n
      then (l \<lparr> buckets := AList.update k b (buckets l) \<rparr>, Some ErrRateLimited)
      else (l \<lparr> buckets := AList.update k (b @ [t]) (buckets l) \<rparr>, None))"
  using tr k tracks_room [OF tr]
  by (auto simp: Allow_def limiter_tracks_def limiter_ok_def b Let_def)

lemma pruned_bucket:
  assumes tr: "limiter_tracks n w K l lg T" and k: "k \<in> K" and t: "T \<le> t"
  shows "pruneOlderThan (bucket_of l k) (t - w) = filter (\<lambda>x. t - w \<le> x) (times_of lg k)"
proof -
  have "sorted (bucket_of l k)" using tr k by (simp add: limiter_tracks_def)
  then have "pruneOlderThan (bucket_of l k) (t - w) = filter (\<lambda>x. t - w \<le> x) (bucket_of l k)"
    by (simp add: pruneOlderThan_def dropWhile_sorted_filter)
  also have "\<dots> = filter (\<lambda>x. t - w \<le> x) (times_of lg k)"
    using tr k t by (simp add: limiter_tracks_def)
  finally show ?thesis .
qed

lemma tracks_put:
  assumes tr: "limiter_tracks n w K l lg T" and k: "k \<in> K" and t: "T \<le> t"
    and b: "int (length b) \<le> n" "sorted b" "\<forall>x \<in> set b. x \<le> t"
    and eq: "\<And>c. t - w \<le> c \<Longrightarrow> filter (\<lambda>x. c \<le> x) b = filter (\<lambda>x. c \<le> x) (times_of lg' k)"
    and other: "\<And>j. j \<noteq> k \<Longrightarrow> times_of lg' j = times_of lg j" and lg': "\<forall>e \<in> set lg'. snd e \<le> t"
  shows "limiter_tracks n w K (l \<lparr> buckets := AList.update k b (buckets l) \<rparr>) lg' t"
proof -
  let ?l = "l \<lparr> buckets := AList.update k b (buckets l) \<rparr>"
  have "k \<noteq> ''''" using tr k by (auto simp: limiter_tracks_def)
  then have "limiter_ok ?l"
    using tr b tracks_room [OF tr] by (intro limiter_ok_put) (auto simp: limiter_tracks_def)
  moreover have "fst ` set (buckets ?l) \<subseteq> K"
    using tr k by (auto simp: limiter_tracks_def dom_update)
  moreover have "sorted (bucket_of ?l j) \<and> (\<forall>x \<in> set (bucket_of ?l j). x \<le> t) \<and>
      (\<forall>c \<ge> t - w. filter (\<lambda>x. c \<le> x) (bucket_of ?l j) = filter (\<lambda>x. c \<le> x) (times_of lg' j))"
    if j: "j \<in> K" for j
  proof (cases "j = k")
    case True
    with b eq show ?thesis by simp
  next
    case False
    with tr j t other show ?thesis by (fastforce simp: limiter_tracks_def)
  qed
  ultimately show ?thesis using tr lg' by (simp add: limiter_tracks_def)
qed

lemma allow_step_tracks:
  assumes tr: "limiter_tracks n w K l lg T" and t: "T \<le> t" and k: "k \<in> K"
    and st: "allow_step iter l k t = (l', d)"
  shows "d = spec_allow n w lg k t \<and> limiter_tracks n w K l' (if d then lg @ [(k, t)] else lg) t"
proof -
  define b where "b = pruneOlderThan (bucket_of l k) (t - w)"
  note b = pruned_bucket [OF tr k t, folded b_def]
  have past: "\<forall>e \<in> set lg. snd e \<le> t" using tr t by (fastforce simp: limiter_tracks_def)
  then have le: "\<forall>x \<in> set b. x \<le> t" by (auto simp: b times_of_def)
  have "sorted b" using tr k by (simp add: b_def pruneOlderThan_def limiter_tracks_def sorted_dropWhile)
  have len: "length b = length (filter (in_window k (t - w) t) lg)"
    by (simp add: length_in_window [OF past] b)
  have flt: "filter (\<lambda>x. c \<le> x) b = filter (\<lambda>x. c \<le> x) (times_of lg k)" if "t - w \<le> c" for c
    using that by (auto simp: b intro!: filter_cong)
  have blen: "int (length b) \<le> n"
  proof -
    have "int (length (bucket_of l k)) \<le> n"
      using tr k by (auto simp: limiter_tracks_def limiter_ok_def bucket_of_def split: option.splits dest: map_of_SomeD)
    moreover have "length b \<le> length (bucket_of l k)"
      by (simp add: b_def pruneOlderThan_def length_dropWhile_le)
    ultimately show ?thesis by linarith
  qed
  show ?thesis
  proof (cases "int (length b) \<ge> n")
    case True
    with Allow_tracks [OF tr k b_def, of iter] st
    have d: "\<not> d" and l': "l' = l \<lparr> buckets := AList.update k b (buckets l) \<rparr>"
      by (auto simp: allow_step_def)
    have "limiter_tracks n w K l' lg t" unfolding l'
      by (rule tracks_put [OF tr k t blen \<open>sorted b\<close> le flt _ past]) auto
    with d True len show ?thesis by (simp add: spec_allow_def)
  next
    case False
    with Allow_tracks [OF tr k b_def, of iter] st
    have d: d and l': "l' = l \<lparr> buckets := AList.update k (b @ [t]) (buckets l) \<rparr>"
      by (auto simp: allow_step_def)
    have "limiter_tracks n w K l' (lg @ [(k, t)]) t" unfolding l'
      by (rule tracks_put [OF tr k t]) (use False \<open>sorted b\<close> le flt past in \<open>auto simp: sorted_append\<close>)
    with d False len show ?thesis by (simp add: spec_allow_def)
  qed
qed

interpretation sliding: windowed_limiter "allow_step iter" "limiter_tracks n w K" n w K for iter n w K
  by unfold_locales (auto dest: allow_step_tracks)

lemma New_tracks:
  assumes "0 < n" "0 < w" "finite K" "int (card K) < c" "'''' \<notin> K"
  shows "limiter_tracks n w K (NewSlidingWindowLimiter n w c) [] T"
  using assms limiter_ok_New [of n w c]
  by (auto simp: limiter_tracks_def NewSlidingWindowLimiter_def Let_def bucket_of_def times_of_def)

section \<open>Properties\<close>

text \<open>
  C6. A new limiter that is enabled (its limit and its window are positive; with a limit of 0 or less the code admits everything),
  used by fewer keys than its map capacity, none of them empty, and called at non-decreasing times,
  takes exactly the decisions of the specification that counts the admitted events of the key in
  the window ending at the call, and no window of the configured length ever holds more than the
  configured number of admitted events of a key.
\<close>

theorem sliding_window_exact:
  assumes "0 < n" "0 < w" "int (card (fst ` set cs)) < c" "sorted (map snd cs)" "'''' \<notin> fst ` set cs"
  shows "decisions (allow_step iter) (NewSlidingWindowLimiter n w c) cs = spec_run n w [] cs \<and>
    window_bounded n w (admitted cs (decisions (allow_step iter) (NewSlidingWindowLimiter n w c) cs))"
proof -
  define T where "T = (if cs = [] then 0 else snd (hd cs))"
  have "limiter_tracks n w (fst ` set cs) (NewSlidingWindowLimiter n w c) [] T"
    using assms by (intro New_tracks) auto
  moreover have "\<forall>x \<in> set cs. T \<le> snd x \<and> fst x \<in> fst ` set cs"
    using assms(4) by (cases cs) (auto simp: T_def)
  ultimately have "decisions (allow_step iter) (NewSlidingWindowLimiter n w c) cs = spec_run n w [] cs"
    using assms(4) by (intro sliding.decisions_spec [where T = T]) auto
  moreover have "window_bounded n w ([] @ admitted cs (spec_run n w [] cs))"
    using assms by (intro spec_run_bounded) (auto simp: window_bounded_def)
  ultimately show ?thesis by simp
qed

text \<open>Two keys, a limit of one per ten time units: the third call is inside the window of the first.\<close>

theorem sliding_window_exact_witness:
  "decisions (allow_step id) (NewSlidingWindowLimiter 1 10 5) [(''a'', 0), (''b'', 3), (''a'', 4), (''a'', 11)] =
     [True, True, False, True] \<and>
   window_bounded 1 10 [(''a'', 0), (''b'', 3), (''a'', 11)]"
  using sliding_window_exact [of 1 10 "[(''a'', 0), (''b'', 3), (''a'', 4), (''a'', 11)]" 5 id]
  by (auto simp del: decisions.simps simp: spec_allow_def in_window_def admitted_def card_insert_if)

text \<open>
  Every call keeps the limiter well-formed, for every iteration order of the map: the keys stay
  distinct and non-empty, no bucket exceeds the per-key limit, and the map never holds more keys
  than its capacity, because a full map evicts an entry first.
\<close>

theorem Allow_keeps_bounds:
  assumes ok: "limiter_ok l" and it: "\<And>es. set (iter es) = set es"
  shows "limiter_ok (fst (Allow iter l key now))"
proof (cases "disabled l \<or> key = ''''")
  case True
  with ok show ?thesis by (auto simp: Allow_def)
next
  case False
  then have n: "0 < maxN l" using ok by (simp add: limiter_ok_def)
  define l1 where "l1 = (if int (length (buckets l)) \<ge> cap l then evictOldestLocked iter l else l)"
  have ok1: "limiter_ok l1" using ok n by (simp add: l1_def evict_ok)
  have same: "maxN l1 = maxN l" "cap l1 = cap l" "window l1 = window l"
    by (auto simp: l1_def evictOldestLocked_def split: option.splits)
  have room: "int (length (buckets l1)) < cap l1"
    using evict_shrinks [of l iter, OF ok it] ok same(2) by (auto simp: l1_def limiter_ok_def Len_def)
  define b where "b = pruneOlderThan (bucket_of l1 key) (now - window l1)"
  have "int (length (bucket_of l1 key)) \<le> maxN l1" using ok1 n same
    by (auto simp: limiter_ok_def bucket_of_def split: option.splits dest: map_of_SomeD)
  then have b: "int (length b) \<le> maxN l1"
    using length_dropWhile_le [of "\<lambda>t. t < now - window l1" "bucket_of l1 key"]
    by (simp add: b_def pruneOlderThan_def)
  have "fst (Allow iter l key now) = l1 \<lparr> buckets := AList.update key
      (if int (length b) \<ge> maxN l1 then b else b @ [now]) (buckets l1) \<rparr>"
    using False by (simp add: Allow_def b_def l1_def [symmetric] Let_def)
  with False b room show ?thesis by (auto intro!: limiter_ok_put [OF ok1])
qed

theorem Allow_keeps_bounds_witness:
  "limiter_ok (fst (Allow rev (NewSlidingWindowLimiter 1 10 1 \<lparr> buckets := [(''a'', [5])] \<rparr>) ''b'' 6))"
  by (rule Allow_keeps_bounds)
    (auto simp: limiter_ok_def NewSlidingWindowLimiter_def Len_def)

end
