(* ===== verification/Certctl_Domain.thy ===== *)
theory Certctl_Domain
  imports Certctl_Prelude
begin

text \<open>
  The entities of \<^verbatim>\<open>internal/domain\<close>: jobs, approval requests, managed certificates and their
  versions, renewal policies, profiles, targets, agents, owners, notifications, audit events, and
  the pure methods the services call on them. A pointer field is an \<open>option\<close>, a string-valued
  map is an association list, an enumeration is a datatype.
\<close>

section \<open>Jobs\<close>

datatype JobType = JobTypeIssuance | JobTypeRenewal | JobTypeDeployment | JobTypeValidation | JobTypeOther string

datatype JobStatus = JobStatusPending | JobStatusAwaitingCSR | JobStatusAwaitingApproval
  | JobStatusRunning | JobStatusCompleted | JobStatusFailed | JobStatusCancelled | JobStatusOther string

datatype VerificationStatus = VerificationNone | VerificationPending | VerificationSuccess
  | VerificationFailed | VerificationSkipped

record Job =
  job_ID :: string
  job_Type :: JobType
  job_CertificateID :: string
  job_TargetID :: "string option"
  job_AgentID :: "string option"
  job_Status :: JobStatus
  job_Attempts :: int
  job_MaxAttempts :: int
  job_LastError :: "string option"
  job_ScheduledAt :: time
  job_StartedAt :: "time option"
  job_CompletedAt :: "time option"
  job_CreatedAt :: time
  job_VerificationStatus :: VerificationStatus
  job_VerifiedAt :: "time option"
  job_VerificationError :: "string option"
  job_VerificationFp :: "string option"

definition show_status :: "JobStatus \<Rightarrow> string" where
  "show_status s = (case s of JobStatusPending \<Rightarrow> ''Pending'' | JobStatusAwaitingCSR \<Rightarrow> ''AwaitingCSR''
     | JobStatusAwaitingApproval \<Rightarrow> ''AwaitingApproval'' | JobStatusRunning \<Rightarrow> ''Running''
     | JobStatusCompleted \<Rightarrow> ''Completed'' | JobStatusFailed \<Rightarrow> ''Failed'' | JobStatusCancelled \<Rightarrow> ''Cancelled''
     | JobStatusOther t \<Rightarrow> t)"

definition show_type :: "JobType \<Rightarrow> string" where
  "show_type t = (case t of JobTypeIssuance \<Rightarrow> ''Issuance'' | JobTypeRenewal \<Rightarrow> ''Renewal''
     | JobTypeDeployment \<Rightarrow> ''Deployment'' | JobTypeValidation \<Rightarrow> ''Validation'' | JobTypeOther s \<Rightarrow> s)"

definition job_terminal :: "JobStatus \<Rightarrow> bool" where
  "job_terminal s = (s \<in> {JobStatusCompleted, JobStatusFailed, JobStatusCancelled})"

section \<open>Approval requests\<close>

datatype ApprovalKind = ApprovalKindNone | ApprovalKindCertIssuance | ApprovalKindProfileEdit
  | ApprovalKindOther string

definition IsValidApprovalKind :: "ApprovalKind \<Rightarrow> bool" where
  "IsValidApprovalKind k = (case k of ApprovalKindCertIssuance \<Rightarrow> True | ApprovalKindProfileEdit \<Rightarrow> True
     | _ \<Rightarrow> False)"

datatype ApprovalState = ApprovalStateNone | ApprovalStatePending | ApprovalStateApproved
  | ApprovalStateRejected | ApprovalStateExpired | ApprovalStateOther string

definition IsValidApprovalState :: "ApprovalState \<Rightarrow> bool" where
  "IsValidApprovalState s = (case s of ApprovalStatePending \<Rightarrow> True | ApprovalStateApproved \<Rightarrow> True
     | ApprovalStateRejected \<Rightarrow> True | ApprovalStateExpired \<Rightarrow> True | _ \<Rightarrow> False)"

definition IsTerminal :: "ApprovalState \<Rightarrow> bool" where
  "IsTerminal s = (case s of ApprovalStateApproved \<Rightarrow> True | ApprovalStateRejected \<Rightarrow> True
     | ApprovalStateExpired \<Rightarrow> True | _ \<Rightarrow> False)"

abbreviation ApprovalActorSystemBypass :: string where
  "ApprovalActorSystemBypass \<equiv> ''system-bypass''"

section \<open>Certificates\<close>

datatype CertificateStatus = CertificateStatusPending | CertificateStatusActive
  | CertificateStatusExpiring | CertificateStatusExpired | CertificateStatusRenewalInProgress
  | CertificateStatusFailed | CertificateStatusRevoked | CertificateStatusArchived
  | CertificateStatusNone

datatype CertificateSource = CertificateSourceUnspecified | CertificateSourceEST
  | CertificateSourceSCEP | CertificateSourceAPI | CertificateSourceAgent | CertificateSourceACME

record ManagedCertificate =
  cert_ID :: string
  cert_Name :: string
  cert_CommonName :: string
  cert_SANs :: "string list"
  cert_Environment :: string
  cert_OwnerID :: string
  cert_TeamID :: string
  cert_IssuerID :: string
  cert_TargetIDs :: "string list"
  cert_RenewalPolicyID :: string
  cert_CertificateProfileID :: string
  cert_Status :: CertificateStatus
  cert_ExpiresAt :: time
  cert_Tags :: "(string \<times> string) list"
  cert_LastRenewalAt :: "time option"
  cert_LastDeploymentAt :: "time option"
  cert_RevokedAt :: "time option"
  cert_RevocationReason :: string
  cert_CreatedAt :: time
  cert_UpdatedAt :: time
  cert_Source :: CertificateSource

record CertificateVersion =
  cv_ID :: string
  cv_CertificateID :: string
  cv_SerialNumber :: string
  cv_NotBefore :: time
  cv_NotAfter :: time
  cv_FingerprintSHA256 :: string
  cv_PEMChain :: string
  cv_CSRPEM :: string
  cv_KeyAlgorithm :: string
  cv_KeySize :: int
  cv_CreatedAt :: time

section \<open>Renewal policies and the alert matrix\<close>

record RenewalPolicy =
  rp_ID :: string
  rp_Name :: string
  rp_RenewalWindowDays :: int
  rp_AutoRenew :: bool
  rp_MaxRetries :: int
  rp_RetryInterval :: int
  rp_AlertThresholdsDays :: "int list"
  rp_CertificateProfileID :: string
  rp_CreatedAt :: time
  rp_UpdatedAt :: time
  rp_AlertChannels :: "(string \<times> string list) list"
  rp_AlertSeverityMap :: "(int \<times> string) list"

definition DefaultAlertThresholds :: "int list" where
  "DefaultAlertThresholds = [30, 14, 7, 0]"

definition EffectiveAlertThresholds :: "RenewalPolicy \<Rightarrow> int list" where
  "EffectiveAlertThresholds p =
     (if rp_AlertThresholdsDays p \<noteq> [] then rp_AlertThresholdsDays p else DefaultAlertThresholds)"

abbreviation AlertSeverityInformational :: string where "AlertSeverityInformational \<equiv> ''informational''"
abbreviation AlertSeverityWarning :: string where "AlertSeverityWarning \<equiv> ''warning''"
abbreviation AlertSeverityCritical :: string where "AlertSeverityCritical \<equiv> ''critical''"

definition DefaultAlertChannels :: "(string \<times> string list) list" where
  "DefaultAlertChannels =
     [(AlertSeverityInformational, [''Webhook'']), (AlertSeverityWarning, [''Webhook'']),
      (AlertSeverityCritical, [''Webhook''])]"

definition DefaultAlertSeverityMap :: "(int \<times> string) list" where
  "DefaultAlertSeverityMap =
     [(30, AlertSeverityInformational), (14, AlertSeverityWarning), (7, AlertSeverityWarning),
      (0, AlertSeverityCritical)]"

definition EffectiveAlertChannels :: "RenewalPolicy option \<Rightarrow> (string \<times> string list) list" where
  "EffectiveAlertChannels p = (case p of None \<Rightarrow> DefaultAlertChannels
     | Some p \<Rightarrow> if rp_AlertChannels p = [] then DefaultAlertChannels else rp_AlertChannels p)"

definition EffectiveAlertSeverity :: "RenewalPolicy option \<Rightarrow> int \<Rightarrow> string" where
  "EffectiveAlertSeverity p threshold =
     (case (case p of None \<Rightarrow> None | Some p \<Rightarrow> map_of (rp_AlertSeverityMap p) threshold) of
        Some tier \<Rightarrow> tier
      | None \<Rightarrow> (case map_of DefaultAlertSeverityMap threshold of
          Some tier \<Rightarrow> tier | None \<Rightarrow> AlertSeverityInformational))"

definition IsValidAlertSeverityTier :: "string \<Rightarrow> bool" where
  "IsValidAlertSeverityTier tier =
     (tier \<in> {AlertSeverityInformational, AlertSeverityWarning, AlertSeverityCritical})"

definition IsValidNotificationChannel :: "string \<Rightarrow> bool" where
  "IsValidNotificationChannel c =
     (c \<in> {''Webhook'', ''Slack'', ''Teams'', ''PagerDuty'', ''OpsGenie''})"

section \<open>Profiles\<close>

record KeyAlgorithmRule =
  kar_Algorithm :: string
  kar_MinSize :: int

record CertificateProfile =
  prof_ID :: string
  prof_Name :: string
  prof_Description :: string
  prof_AllowedKeyAlgorithms :: "KeyAlgorithmRule list"
  prof_MaxTTLSeconds :: int
  prof_AllowedEKUs :: "string list"
  prof_RequiredSANPatterns :: "string list"
  prof_SPIFFEURIPattern :: string
  prof_AllowShortLived :: bool
  prof_MustStaple :: bool
  prof_RequiredCSRAttributes :: "string list"
  prof_ACMEAuthMode :: string
  prof_RequiresApproval :: bool
  prof_Enabled :: bool
  prof_CreatedAt :: time
  prof_UpdatedAt :: time

definition IsShortLived :: "CertificateProfile \<Rightarrow> bool" where
  "IsShortLived p = (prof_AllowShortLived p \<and> prof_MaxTTLSeconds p > 0 \<and> prof_MaxTTLSeconds p < 3600)"

text \<open>
  The payload of an approval request is a byte string that holds a JSON document. It is represented
  by what it encodes: nothing, a profile as \<^verbatim>\<open>json.Marshal\<close> writes it, or a document that does
  not decode as a profile.
\<close>

datatype payload = NoPayload | ProfileJSON CertificateProfile | BadJSON string

record ApprovalRequest =
  ar_ID :: string
  ar_Kind :: ApprovalKind
  ar_CertificateID :: string
  ar_JobID :: string
  ar_ProfileID :: string
  ar_RequestedBy :: string
  ar_State :: ApprovalState
  ar_DecidedBy :: "string option"
  ar_DecidedAt :: "time option"
  ar_DecisionNote :: "string option"
  ar_Metadata :: "(string \<times> string) list"
  ar_Payload :: payload
  ar_CreatedAt :: time
  ar_UpdatedAt :: time

section \<open>Targets, agents, owners\<close>

record DeploymentTarget =
  target_ID :: string
  target_Name :: string
  target_Type :: string
  target_AgentID :: string
  target_Config :: string
  target_EncryptedConfig :: string
  target_Enabled :: bool
  target_LastTestedAt :: "time option"
  target_TestStatus :: string
  target_Source :: string
  target_RetiredAt :: "time option"
  target_RetiredReason :: "string option"
  target_CreatedAt :: time
  target_UpdatedAt :: time

datatype AgentStatus = AgentStatusOnline | AgentStatusOffline | AgentStatusDegraded

record Agent =
  agent_ID :: string
  agent_Name :: string
  agent_Hostname :: string
  agent_Status :: AgentStatus
  agent_LastHeartbeatAt :: "time option"
  agent_RegisteredAt :: time
  agent_PlaintextAPIKey :: string
  agent_APIKeyHash :: string
  agent_OS :: string
  agent_Architecture :: string
  agent_IPAddress :: string
  agent_Version :: string
  agent_RetiredAt :: "time option"
  agent_RetiredReason :: "string option"

definition IsRetired :: "Agent option \<Rightarrow> bool" where
  "IsRetired a = (case a of None \<Rightarrow> False | Some a \<Rightarrow> agent_RetiredAt a \<noteq> None)"

definition SentinelAgentIDs :: "string list" where
  "SentinelAgentIDs = [''server-scanner'', ''cloud-aws-sm'', ''cloud-azure-kv'', ''cloud-gcp-sm'']"

definition IsSentinelAgent :: "string \<Rightarrow> bool" where
  "IsSentinelAgent i = list_ex (\<lambda>s. s = i) SentinelAgentIDs"

record Owner =
  owner_ID :: string
  owner_Name :: string
  owner_Email :: string
  owner_TeamID :: string
  owner_CreatedAt :: time
  owner_UpdatedAt :: time

section \<open>Revocation\<close>

definition ValidRevocationReasons :: "(string \<times> nat) list" where
  "ValidRevocationReasons = [(''unspecified'', 0), (''keyCompromise'', 1), (''caCompromise'', 2),
     (''affiliationChanged'', 3), (''superseded'', 4), (''cessationOfOperation'', 5), (''certificateHold'', 6),
     (''privilegeWithdrawn'', 9)]"

definition IsValidRevocationReason :: "string \<Rightarrow> bool" where
  "IsValidRevocationReason reason = (map_of ValidRevocationReasons reason \<noteq> None)"

definition CRLReasonCode :: "string \<Rightarrow> nat" where
  "CRLReasonCode reason = (case map_of ValidRevocationReasons reason of Some code \<Rightarrow> code | None \<Rightarrow> 0)"

record CertificateRevocation =
  rev_ID :: string
  rev_CertificateID :: string
  rev_SerialNumber :: string
  rev_Reason :: string
  rev_RevokedBy :: string
  rev_RevokedAt :: time
  rev_IssuerID :: string
  rev_IssuerNotified :: bool
  rev_CreatedAt :: time

record OCSPResponseCacheEntry =
  oc_IssuerID :: string
  oc_SerialHex :: string
  oc_ResponseDER :: string
  oc_CertStatus :: string
  oc_RevocationReason :: int
  oc_RevokedAt :: time
  oc_ThisUpdate :: time
  oc_NextUpdate :: time
  oc_GeneratedAt :: time

section \<open>Policies\<close>

text \<open>
  The configuration of a rule is a JSON document; it is represented by what the rule's evaluation
  decodes from it. \<open>NoConfig\<close> is an empty document; \<open>BadConfig\<close> one that does not decode. A key that
  a document does not have decodes as the empty list or as zero.
\<close>

datatype PolicyType = PolicyTypeAllowedIssuers | PolicyTypeAllowedDomains | PolicyTypeRequiredMetadata
  | PolicyTypeAllowedEnvironments | PolicyTypeRenewalLeadTime | PolicyTypeCertificateLifetime | PolicyTypeOther string

datatype rule_config = NoConfig | StringsConfig "string list" | DaysConfig int | BadConfig

record PolicyRule =
  pr_ID :: string
  pr_Name :: string
  pr_Type :: PolicyType
  pr_Config :: rule_config
  pr_Enabled :: bool
  pr_Severity :: string
  pr_CreatedAt :: time
  pr_UpdatedAt :: time

text \<open>The message of a violation is represented by its format and the values formatted into it.\<close>

datatype violation_msg = NoIssuer | IssuerNotAllowed string | NoSANs | SANNotAllowed string
  | NoTags | MissingTag string | NoEnvironment | EnvironmentNotAllowed string
  | ExpiresSoon rat int | LifetimeExceeds rat int

record PolicyViolation =
  pv_ID :: string
  pv_CertificateID :: string
  pv_RuleID :: string
  pv_Message :: violation_msg
  pv_Severity :: string
  pv_CreatedAt :: time

section \<open>Notifications\<close>

datatype NotificationStatus = NotificationStatusPending | NotificationStatusSent
  | NotificationStatusFailed | NotificationStatusDead | NotificationStatusRead

datatype NotificationType = NotificationTypeExpirationWarning | NotificationTypeRenewalSuccess
  | NotificationTypeRenewalFailure | NotificationTypeDeploymentSuccess
  | NotificationTypeDeploymentFailure | NotificationTypePolicyViolation | NotificationTypeRevocation

record NotificationEvent =
  ne_ID :: string
  ne_Type :: NotificationType
  ne_CertificateID :: "string option"
  ne_Channel :: string
  ne_Recipient :: string
  ne_Message :: string
  ne_SentAt :: "time option"
  ne_Status :: NotificationStatus
  ne_Error :: "string option"
  ne_RetryCount :: int
  ne_NextRetryAt :: "time option"
  ne_LastError :: "string option"
  ne_CreatedAt :: time

section \<open>Audit events\<close>

text \<open>
  The details of an audit event are JSON-shaped values. The redactor distinguishes the Go types:
  \<open>JMap\<close> is \<^verbatim>\<open>map[string]interface{}\<close>, \<open>JList\<close> is \<^verbatim>\<open>[]interface{}\<close>; the typed containers
  \<^verbatim>\<open>map[string]string\<close> and \<^verbatim>\<open>[]string\<close> are \<open>JStrMap\<close> and \<open>JStrList\<close>. The order of the entries of
  a map is the order in which the run iterates over it. \<open>JFloat x\<close> is a \<^verbatim>\<open>float64\<close>, \<open>JTime t\<close> the RFC 3339 text of an instant \<open>JErr e\<close> the text of an error and \<open>JMsg m\<close> that of a
  policy violation.
\<close>

datatype jval = JNull | JBool bool | JInt int | JFloat rat | JTime time | JErr error | JMsg violation_msg | JStr string
  | JList "jval list" | JMap "(string \<times> jval) list"
  | JStrList "string list" | JStrMap "(string \<times> string) list"

datatype ActorType = ActorTypeUser | ActorTypeSystem | ActorTypeAgent | ActorTypeAPIKey | ActorTypeAnonymous

record AuditEvent =
  ae_ID :: string
  ae_Actor :: string
  ae_ActorType :: ActorType
  ae_Action :: string
  ae_ResourceType :: string
  ae_ResourceID :: string
  ae_Details :: jval
  ae_Timestamp :: time
  ae_EventCategory :: string

abbreviation EventCategoryCertLifecycle :: string where "EventCategoryCertLifecycle \<equiv> ''cert_lifecycle''"
abbreviation EventCategoryAuth :: string where "EventCategoryAuth \<equiv> ''auth''"
abbreviation EventCategoryConfig :: string where "EventCategoryConfig \<equiv> ''config''"

end
