(* ===== verification/Audit_Redact.thy ===== *)
theory Audit_Redact
  imports Certctl_Domain
begin

text \<open>
  \<^verbatim>\<open>internal/service/audit_redact.go\<close>: the redactor every audit event passes through. Keys are
  compared case-insensitively on ASCII. The redactor threads the list of redacted key paths through
  the walk, as the code does with its \<^verbatim>\<open>*[]string\<close> argument.
\<close>

section \<open>The redactor\<close>

definition credentialKeys :: "string list" where
  "credentialKeys =
     [''api_key'', ''apikey'', ''password'', ''passphrase'', ''secret'', ''client_secret'', ''token'',
      ''access_token'', ''refresh_token'', ''bootstrap_token'', ''credential'', ''credentials'',
      ''private_key'', ''privatekey'', ''private_key_pem'', ''key_pem'', ''cert_pem'', ''chain_pem'',
      ''full_pem'', ''eab_secret'', ''eab_kid'', ''acme_account_key'', ''hmac'', ''hmac_key'',
      ''signature'', ''auth'', ''authorization'', ''bearer'']"

definition piiKeys :: "string list" where
  "piiKeys =
     [''email'', ''email_address'', ''phone'', ''phone_number'', ''telephone'', ''ssn'',
      ''social_security'', ''dob'', ''date_of_birth'', ''name'', ''full_name'', ''first_name'',
      ''last_name'', ''surname'', ''address'', ''street'', ''street_address'', ''city'',
      ''postal_code'', ''zip'', ''zipcode'', ''ip'', ''ip_address'']"

definition cred_mark :: jval where "cred_mark = JStr ''[REDACTED:CREDENTIAL]''"
definition pii_mark :: jval where "pii_mark = JStr ''[REDACTED:PII]''"

fun redactValue :: "jval \<Rightarrow> string list \<Rightarrow> string \<Rightarrow> jval \<times> string list"
  and redactEntries :: "(string \<times> jval) list \<Rightarrow> string list \<Rightarrow> string \<Rightarrow> (string \<times> jval) list \<times> string list"
  and redactItems :: "jval list \<Rightarrow> string list \<Rightarrow> string \<Rightarrow> jval list \<times> string list" where
  "redactValue (JMap es) rk parent = (case redactEntries es rk parent of (es', rk') \<Rightarrow> (JMap es', rk'))"
| "redactValue (JList xs) rk parent = (case redactItems xs rk parent of (xs', rk') \<Rightarrow> (JList xs', rk'))"
| "redactValue JNull rk parent = (JNull, rk)"
| "redactValue (JBool b) rk parent = (JBool b, rk)"
| "redactValue (JInt i) rk parent = (JInt i, rk)"
| "redactValue (JFloat x) rk parent = (JFloat x, rk)"
| "redactValue (JTime t) rk parent = (JTime t, rk)"
| "redactValue (JErr e) rk parent = (JErr e, rk)"
| "redactValue (JMsg m) rk parent = (JMsg m, rk)"
| "redactValue (JStr s) rk parent = (JStr s, rk)"
| "redactValue (JStrList ss) rk parent = (JStrList ss, rk)"
| "redactValue (JStrMap m) rk parent = (JStrMap m, rk)"
| "redactEntries [] rk parent = ([], rk)"
| "redactEntries ((k, v) # es) rk parent =
     (case (if to_lower k \<in> set credentialKeys then (cred_mark, rk @ [parent @ ''.'' @ k])
            else if to_lower k \<in> set piiKeys then (pii_mark, rk @ [parent @ ''.'' @ k])
            else redactValue v rk (parent @ ''.'' @ k)) of
        (v', rk') \<Rightarrow> (case redactEntries es rk' parent of (es', rk'') \<Rightarrow> ((k, v') # es', rk'')))"
| "redactItems [] rk parent = ([], rk)"
| "redactItems (x # xs) rk parent =
     (case redactValue x rk parent of
        (x', rk') \<Rightarrow> (case redactItems xs rk' parent of (xs', rk'') \<Rightarrow> (x' # xs', rk'')))"

text \<open>The loop of \<^verbatim>\<open>RedactDetailsForAudit\<close> over the top-level entries.\<close>

fun redactTop :: "(string \<times> jval) list \<Rightarrow> string list \<Rightarrow> (string \<times> jval) list \<times> string list" where
  "redactTop [] rk = ([], rk)"
| "redactTop ((k, v) # es) rk =
     (case (if to_lower k \<in> set credentialKeys then (cred_mark, rk @ [k])
            else if to_lower k \<in> set piiKeys then (pii_mark, rk @ [k])
            else redactValue v rk k) of
        (v', rk') \<Rightarrow> (case redactTop es rk' of (es', rk'') \<Rightarrow> ((k, v') # es', rk'')))"

definition map_put :: "string \<Rightarrow> jval \<Rightarrow> (string \<times> jval) list \<Rightarrow> (string \<times> jval) list" where
  "map_put k v es = filter (\<lambda>e. fst e \<noteq> k) es @ [(k, v)]"

definition RedactDetailsForAudit :: "(string \<times> jval) list \<Rightarrow> (string \<times> jval) list option" where
  "RedactDetailsForAudit details =
     (if details = [] then None
      else (case redactTop details [] of (out, redactedKeys) \<Rightarrow>
        Some (if redactedKeys \<noteq> [] then map_put ''redacted_keys'' (JStrList redactedKeys) out else out)))"

section \<open>What it means to be scrubbed\<close>

definition sensitive :: "string \<Rightarrow> bool" where
  "sensitive k = (to_lower k \<in> set credentialKeys \<or> to_lower k \<in> set piiKeys)"

definition marker_for :: "string \<Rightarrow> jval" where
  "marker_for k = (if to_lower k \<in> set credentialKeys then cred_mark else pii_mark)"

text \<open>
  \<open>scrubbed\<close>: at every depth reached through \<open>JMap\<close> and \<open>JList\<close>, each sensitive key carries its marker; the typed
  containers \<open>JStrMap\<close> and \<open>JStrList\<close> are not entered.
  \<open>sensitive_paths\<close>: the dotted paths of the outermost sensitive keys, in walk order.
\<close>

fun scrubbed :: "jval \<Rightarrow> bool" and scrubbed_entries :: "(string \<times> jval) list \<Rightarrow> bool"
  and scrubbed_items :: "jval list \<Rightarrow> bool" where
  "scrubbed (JMap es) = scrubbed_entries es"
| "scrubbed (JList xs) = scrubbed_items xs"
| "scrubbed JNull = True"
| "scrubbed (JBool b) = True"
| "scrubbed (JInt i) = True"
| "scrubbed (JFloat x) = True"
| "scrubbed (JTime t) = True"
| "scrubbed (JErr e) = True"
| "scrubbed (JMsg m) = True"
| "scrubbed (JStr s) = True"
| "scrubbed (JStrList ss) = True"
| "scrubbed (JStrMap m) = True"
| "scrubbed_entries [] = True"
| "scrubbed_entries ((k, v) # es) =
     ((if sensitive k then v = marker_for k else scrubbed v) \<and> scrubbed_entries es)"
| "scrubbed_items [] = True"
| "scrubbed_items (x # xs) = (scrubbed x \<and> scrubbed_items xs)"

fun sensitive_paths :: "jval \<Rightarrow> string \<Rightarrow> string list"
  and entry_paths :: "(string \<times> jval) list \<Rightarrow> string \<Rightarrow> string list"
  and item_paths :: "jval list \<Rightarrow> string \<Rightarrow> string list" where
  "sensitive_paths (JMap es) p = entry_paths es p"
| "sensitive_paths (JList xs) p = item_paths xs p"
| "sensitive_paths JNull p = []"
| "sensitive_paths (JBool b) p = []"
| "sensitive_paths (JInt i) p = []"
| "sensitive_paths (JFloat x) p = []"
| "sensitive_paths (JTime t) p = []"
| "sensitive_paths (JErr e) p = []"
| "sensitive_paths (JMsg m) p = []"
| "sensitive_paths (JStr s) p = []"
| "sensitive_paths (JStrList ss) p = []"
| "sensitive_paths (JStrMap m) p = []"
| "entry_paths [] p = []"
| "entry_paths ((k, v) # es) p =
     (if sensitive k then [p @ ''.'' @ k] else sensitive_paths v (p @ ''.'' @ k)) @ entry_paths es p"
| "item_paths [] p = []"
| "item_paths (x # xs) p = sensitive_paths x p @ item_paths xs p"

definition top_paths :: "(string \<times> jval) list \<Rightarrow> string list" where
  "top_paths es = concat (map (\<lambda>(k, v). if sensitive k then [k] else sensitive_paths v k) es)"

section \<open>Lemmas\<close>

text \<open>One entry of a map: the same branch in the nested walk and in the top-level loop.\<close>

lemma redact_branch:
  "(if to_lower k \<in> set credentialKeys then (cred_mark, rk @ [p])
    else if to_lower k \<in> set piiKeys then (pii_mark, rk @ [p]) else r) =
   (if sensitive k then (marker_for k, rk @ [p]) else r)"
  by (simp add: sensitive_def marker_for_def)

lemma redact_walk:
  "redactValue v rk p = (v', rk') \<Longrightarrow> scrubbed v' \<and> rk' = rk @ sensitive_paths v p"
  "redactEntries es rk p = (es', rk') \<Longrightarrow>
     scrubbed_entries es' \<and> rk' = rk @ entry_paths es p \<and> map fst es' = map fst es"
  "redactItems xs rk p = (xs', rk') \<Longrightarrow> scrubbed_items xs' \<and> rk' = rk @ item_paths xs p"
proof (induction v rk p and es rk p and xs rk p
    arbitrary: v' rk' and es' rk' and xs' rk' rule: redactValue_redactEntries_redactItems.induct)
  case (14 k v es rk parent)
  define q where "q = parent @ ''.'' @ k"
  obtain w rk1 where w: "(if sensitive k then (marker_for k, rk @ [q]) else redactValue v rk q) = (w, rk1)"
    by (metis surj_pair)
  obtain es1 rk2 where es1: "redactEntries es rk1 parent = (es1, rk2)" by (metis surj_pair)
  have eq: "es' = (k, w) # es1" "rk' = rk2"
    using "14.prems" w es1 unfolding redactEntries.simps redact_branch q_def [symmetric] by auto
  have "(if sensitive k then w = marker_for k else scrubbed w) \<and>
      rk1 = rk @ (if sensitive k then [q] else sensitive_paths v q)"
    using "14.IH"(1) [of w rk1] w by (auto simp: q_def sensitive_def split: if_splits)
  moreover have "scrubbed_entries es1 \<and> rk2 = rk1 @ entry_paths es parent \<and> map fst es1 = map fst es"
    using "14.IH"(2) [OF _ es1] w unfolding redact_branch q_def [symmetric] by metis
  ultimately show ?case by (auto simp: eq q_def)
qed (auto split: prod.splits)

lemma redact_walk_unchanged:
  "sensitive_paths v p = [] \<Longrightarrow> redactValue v rk p = (v, rk)"
  "entry_paths es p = [] \<Longrightarrow> redactEntries es rk p = (es, rk)"
  "item_paths xs p = [] \<Longrightarrow> redactItems xs rk p = (xs, rk)"
proof (induction v rk p and es rk p and xs rk p rule: redactValue_redactEntries_redactItems.induct)
  case (14 k v es rk parent)
  then show ?case unfolding redactEntries.simps redact_branch by (auto simp: sensitive_def split: if_splits)
qed auto

lemma redactTop_spec:
  "redactTop es rk = (es', rk') \<Longrightarrow>
     scrubbed_entries es' \<and> rk' = rk @ top_paths es \<and> map fst es' = map fst es"
proof (induction es rk arbitrary: es' rk' rule: redactTop.induct)
  case (2 k v es rk)
  then show ?case unfolding redactTop.simps redact_branch
    by (fastforce simp: top_paths_def split: prod.splits if_splits dest: redact_walk(1))
qed (simp add: top_paths_def)

lemma scrubbed_entries_append [simp]:
  "scrubbed_entries (a @ b) = (scrubbed_entries a \<and> scrubbed_entries b)"
  by (induction a) auto

lemma scrubbed_entries_filter: "scrubbed_entries es \<Longrightarrow> scrubbed_entries (filter P es)"
  by (induction es) (auto split: if_splits)

lemma redacted_keys_not_sensitive [simp]: "\<not> sensitive ''redacted_keys''"
  by code_simp

lemma redactTop_unchanged: "top_paths es = [] \<Longrightarrow> redactTop es rk = (es, rk)"
proof (induction es rk rule: redactTop.induct)
  case (2 k v es rk)
  then have "\<not> sensitive k" "sensitive_paths v k = []" "top_paths es = []"
    by (auto simp: top_paths_def split: if_splits)
  with 2 show ?case unfolding redactTop.simps redact_branch
    by (simp add: redact_walk_unchanged(1))
qed simp

lemma map_of_map_put [simp]: "map_of (map_put k v es) j = (if j = k then Some v else map_of es j)"
proof -
  have "map_of (filter (\<lambda>e. fst e \<noteq> k) es) j = (if j = k then None else map_of es j)"
    by (induction es) auto
  then show ?thesis by (auto simp: map_put_def map_add_def split: option.splits)
qed

section \<open>Properties\<close>

text \<open>
  C39. The redactor is total and scrubs: the result of redacting a details map carries the marker of the key under each credential or
  personal-data key, at every depth that is reached through values of the types \<^verbatim>\<open>map[string]interface{}\<close> and
  \<^verbatim>\<open>[]interface{}\<close>. A value of another type is not entered: a typed container such as \<^verbatim>\<open>map[string]string\<close> below
  a harmless key passes unchanged, whatever its keys are (\<open>redact_typed_map_leaks\<close>).
  When a sensitive key occurs where the walk reaches, the result records in \<open>redacted_keys\<close> exactly the paths of the scrubbed
  keys; when none occurs there, the details are unchanged. An empty map gives the nil map.
\<close>

theorem RedactDetailsForAudit_scrubs:
  "case RedactDetailsForAudit details of
     None \<Rightarrow> details = []
   | Some out \<Rightarrow> scrubbed_entries out \<and>
       (if top_paths details = [] then out = details
        else map_of out ''redacted_keys'' = Some (JStrList (top_paths details)) \<and>
          fst ` set out = insert ''redacted_keys'' (fst ` set details))"
proof (cases "details = []")
  case True
  then show ?thesis by (simp add: RedactDetailsForAudit_def)
next
  case False
  obtain out rk where r: "redactTop details [] = (out, rk)" by (metis surj_pair)
  note spec = redactTop_spec [OF r]
  have keys: "fst ` set out = fst ` set details" using spec by (metis list.set_map)
  show ?thesis
  proof (cases "top_paths details = []")
    case True
    then have "out = details" "rk = []" using redactTop_unchanged [OF True, of "[]"] r by auto
    with True False r spec show ?thesis by (simp add: RedactDetailsForAudit_def)
  next
    case ne: False
    then have "rk = top_paths details" "rk \<noteq> []" using spec by auto
    with False ne r have res: "RedactDetailsForAudit details =
        Some (map_put ''redacted_keys'' (JStrList (top_paths details)) out)"
      by (simp add: RedactDetailsForAudit_def)
    have "scrubbed_entries (map_put ''redacted_keys'' (JStrList (top_paths details)) out)"
      using spec by (simp add: map_put_def scrubbed_entries_filter)
    moreover have "fst ` set (map_put ''redacted_keys'' (JStrList (top_paths details)) out) =
        insert ''redacted_keys'' (fst ` set details)"
      unfolding keys [symmetric] by (force simp: map_put_def)
    ultimately show ?thesis using ne res by simp
  qed
qed

text \<open>
  A typed map below a key that is not itself sensitive passes through unscrubbed: a
  \<^verbatim>\<open>map[string]string\<close> with a password entry is written to the audit log as it is.
\<close>

theorem redact_typed_map_leaks:
  "RedactDetailsForAudit [(''metadata'', JStrMap [(''password'', pw)])] =
     Some [(''metadata'', JStrMap [(''password'', pw)])]"
proof -
  have "\<not> sensitive ''metadata''" by code_simp
  then show ?thesis
    unfolding RedactDetailsForAudit_def redactTop.simps redact_branch by simp
qed

end
