(* ===== verification/Metrics.thy ===== *)
theory Metrics
  imports Certctl_Prelude "HOL-Library.Word" "HOL-Library.Char_ord" "HOL-Library.List_Lexorder"
    "HOL-Library.Product_Lexorder"
begin

text \<open>
  \<^verbatim>\<open>internal/service/approval_metrics.go\<close> and \<^verbatim>\<open>internal/service/expiry_alert_metrics.go\<close>: the
  counter tables the metrics endpoint exposes. A table is an association list from the label tuple
  to a 64-bit counter; an increment adds the label when it is new. The locks of the code make each
  call one step. The sum of the histogram, a floating-point number, is not modelled.
\<close>

section \<open>Counter tables\<close>

type_synonym 'k counters = "('k \<times> 64 word) list"

fun bump :: "'k \<Rightarrow> 'k counters \<Rightarrow> 'k counters" where
  "bump k [] = [(k, 1)]"
| "bump k ((k', n) # cs) = (if k' = k then (k', n + 1) # cs else (k', n) # bump k cs)"

definition snapshot :: "('k :: linorder) counters \<Rightarrow> 'k counters" where
  "snapshot cs = sort_key fst cs"

lemma bump_keys: "fst ` set (bump k cs) = insert k (fst ` set cs)"
  by (induction cs rule: bump.induct [of _ k]) (auto split: if_splits)

lemma bump_distinct: "distinct (map fst cs) \<Longrightarrow> distinct (map fst (bump k cs))"
proof (induction k cs rule: bump.induct)
  case (2 k k' n cs)
  then show ?case using bump_keys [of k cs] by auto
qed simp

lemma bump_lookup: "map_of (bump k cs) j =
    (if j = k then Some (case map_of cs k of None \<Rightarrow> 1 | Some n \<Rightarrow> n + 1) else map_of cs j)"
  by (induction k cs rule: bump.induct) auto

text \<open>A table after a list of increments.\<close>

lemma bumps_keys: "fst ` set (fold bump ks cs) = set ks \<union> fst ` set cs"
  by (induction ks arbitrary: cs) (auto simp: bump_keys)

lemma bumps_distinct: "distinct (map fst cs) \<Longrightarrow> distinct (map fst (fold bump ks cs))"
  by (induction ks arbitrary: cs) (auto simp: bump_distinct)

definition counted :: "'k counters \<Rightarrow> 'k \<Rightarrow> 64 word" where
  "counted cs k = (case map_of cs k of None \<Rightarrow> 0 | Some n \<Rightarrow> n)"

lemma bumps_counted: "counted (fold bump ks cs) k = counted cs k + of_nat (count_list ks k)"
  by (induction ks arbitrary: cs) (auto simp: counted_def bump_lookup split: option.splits)

lemma snapshot_exact:
  assumes "distinct (map fst cs)"
  shows "sorted (map fst (snapshot cs)) \<and> distinct (map fst (snapshot cs)) \<and> map_of (snapshot cs) = map_of cs"
proof -
  have "distinct (map fst (snapshot cs))"
    using assms by (metis distinct_map distinct_sort set_sort snapshot_def)
  moreover have "map_of (snapshot cs) = map_of cs"
    using assms calculation by (intro map_of_inject_set [THEN iffD2]) (auto simp: snapshot_def)
  ultimately show ?thesis by (simp add: snapshot_def)
qed

section \<open>The metrics\<close>

record Metrics =
  m_decisions :: "(string \<times> string) counters"
  m_pendingAge :: "64 word list"
  m_pendingCount :: "64 word"
  m_alerts :: "(string \<times> int \<times> string) counters"

definition age_bounds :: "duration list" where
  "age_bounds = [60 * Second, 300 * Second, 1800 * Second, 3600 * Second, 21600 * Second, 86400 * Second]"

definition newApprovalDurationHistogram :: "64 word list" where
  "newApprovalDurationHistogram = replicate (Suc (length age_bounds)) 0"

definition NewMetrics :: Metrics where
  "NewMetrics = \<lparr> m_decisions = [], m_pendingAge = newApprovalDurationHistogram, m_pendingCount = 0, m_alerts = [] \<rparr>"

definition RecordDecision :: "string \<Rightarrow> string \<Rightarrow> Metrics \<Rightarrow> Metrics" where
  "RecordDecision outcome profileID m = m \<lparr> m_decisions := bump (outcome, profileID) (m_decisions m) \<rparr>"

fun bucket_index :: "duration list \<Rightarrow> duration \<Rightarrow> nat" where
  "bucket_index [] d = 0"
| "bucket_index (b # bs) d = (if d \<le> b then 0 else Suc (bucket_index bs d))"

text \<open>
  The code compares seconds as floating-point numbers; a duration is a whole number of nanoseconds
  and the bounds are small whole numbers of seconds, so comparing the durations is the same test.
\<close>

definition ObservePendingAge :: "duration \<Rightarrow> Metrics \<Rightarrow> Metrics" where
  "ObservePendingAge d m = (let i = bucket_index age_bounds d in
     m \<lparr> m_pendingAge := (m_pendingAge m)[i := m_pendingAge m ! i + 1], m_pendingCount := m_pendingCount m + 1 \<rparr>)"

fun running_sums :: "64 word \<Rightarrow> 64 word list \<Rightarrow> 64 word list" where
  "running_sums c [] = []"
| "running_sums c (b # bs) = (c + b) # running_sums (c + b) bs"

definition SnapshotApprovalDecisions :: "Metrics \<Rightarrow> ((string \<times> string) \<times> 64 word) list" where
  "SnapshotApprovalDecisions m = snapshot (m_decisions m)"

definition SnapshotApprovalPendingAgeHistogram :: "Metrics \<Rightarrow> duration list \<times> 64 word list \<times> 64 word" where
  "SnapshotApprovalPendingAgeHistogram m = (age_bounds, running_sums 0 (m_pendingAge m), m_pendingCount m)"

definition RecordExpiryAlert :: "string \<Rightarrow> int \<Rightarrow> string \<Rightarrow> Metrics \<Rightarrow> Metrics" where
  "RecordExpiryAlert channel threshold result m =
     (if result = ''success'' \<or> result = ''failure'' \<or> result = ''deduped''
      then m \<lparr> m_alerts := bump (channel, threshold, result) (m_alerts m) \<rparr> else m)"

definition SnapshotExpiryAlerts :: "Metrics \<Rightarrow> ((string \<times> int \<times> string) \<times> 64 word) list" where
  "SnapshotExpiryAlerts m = snapshot (m_alerts m)"

section \<open>Correctness of the snapshots\<close>

lemma RecordDecision_fold:
  "m_decisions (fold (\<lambda>(o', p). RecordDecision o' p) ks m) = fold bump ks (m_decisions m)"
  by (induction ks arbitrary: m) (auto simp: RecordDecision_def)

text \<open>
  The decision counters count: after any sequence of decisions the snapshot is sorted by outcome
  and profile, has one row per label that occurred, and the count of a label is the number of its
  occurrences, modulo the width of the counter.
\<close>

theorem decisions_counted:
  "let s = SnapshotApprovalDecisions (fold (\<lambda>(o', p). RecordDecision o' p) ks NewMetrics)
   in sorted (map fst s) \<and> distinct (map fst s) \<and> set (map fst s) = set ks \<and>
      (\<forall>k. counted s k = of_nat (count_list ks k))"
proof -
  let ?cs = "fold bump ks []"
  have d: "distinct (map fst ?cs)" by (rule bumps_distinct) simp
  have "counted (snapshot ?cs) k = of_nat (count_list ks k)" for k
    using bumps_counted [of ks "[]" k] snapshot_exact [OF d] by (simp add: counted_def)
  moreover have "set (map fst (snapshot ?cs)) = set ks"
    using bumps_keys [of ks "[]"] by (simp add: snapshot_def)
  ultimately show ?thesis
    using snapshot_exact [OF d]
    by (simp add: Let_def SnapshotApprovalDecisions_def RecordDecision_fold NewMetrics_def del: list.set_map)
qed

lemma bucket_index_le: "bucket_index bs d \<le> length bs"
  by (induction bs) auto

lemma running_sums_nth: "i < length bs \<Longrightarrow> running_sums c bs ! i = c + sum_list (take (Suc i) bs)"
  by (induction bs arbitrary: c i) (auto simp: nth_Cons' add.assoc split: nat.splits)

lemma running_sums_length [simp]: "length (running_sums c bs) = length bs"
  by (induction bs arbitrary: c) auto

lemma sum_take_update:
  fixes bs :: "64 word list"
  assumes "k < length bs"
  shows "sum_list (take n (bs[k := bs ! k + 1])) = sum_list (take n bs) + (if k < n then 1 else 0)"
  using assms
proof (induction bs arbitrary: k n)
  case (Cons b bs)
  then show ?case by (cases n; cases k) (auto simp: algebra_simps)
qed simp

lemma bucket_index_bound:
  "sorted bs \<Longrightarrow> i < length bs \<Longrightarrow> bucket_index bs d \<le> i \<longleftrightarrow> d \<le> bs ! i"
proof (induction bs arbitrary: i)
  case (Cons b bs)
  have "d \<le> bs ! j" if "d \<le> b" "j < length bs" for j
    using that Cons.prems(1) by (auto simp: dest: nth_mem order_trans)
  with Cons show ?case by (cases i) auto
qed simp

lemma observe_hist:
  assumes "length (m_pendingAge m) = Suc (length age_bounds)"
  shows "length (m_pendingAge (ObservePendingAge d m)) = Suc (length age_bounds)"
    "sum_list (take n (m_pendingAge (ObservePendingAge d m))) =
      sum_list (take n (m_pendingAge m)) + (if bucket_index age_bounds d < n then 1 else 0)"
    "m_pendingCount (ObservePendingAge d m) = m_pendingCount m + 1"
  using assms bucket_index_le [of age_bounds d]
  by (auto simp: ObservePendingAge_def Let_def sum_take_update)

lemma observes_hist:
  assumes "length (m_pendingAge m) = Suc (length age_bounds)"
  shows "length (m_pendingAge (fold ObservePendingAge ds m)) = Suc (length age_bounds) \<and>
    sum_list (take n (m_pendingAge (fold ObservePendingAge ds m))) =
      sum_list (take n (m_pendingAge m)) + of_nat (length (filter (\<lambda>d. bucket_index age_bounds d < n) ds)) \<and>
    m_pendingCount (fold ObservePendingAge ds m) = m_pendingCount m + of_nat (length ds)"
  using assms
proof (induction ds arbitrary: m)
  case (Cons d ds)
  from Cons.IH [OF observe_hist(1) [OF Cons.prems, of d]] show ?case
    using observe_hist(2,3) [OF Cons.prems] by (auto simp: algebra_simps)
qed simp

text \<open>
  The histogram is cumulative: after any observations the entry of a bound is the number of
  observed ages at most that bound, and the last entry and the total are the number of all
  observations, modulo the width of the counters.
\<close>

theorem pending_age_histogram:
  "let (bounds, counts, total) = SnapshotApprovalPendingAgeHistogram (fold ObservePendingAge ds NewMetrics)
   in length counts = Suc (length bounds) \<and> last counts = total \<and> total = of_nat (length ds) \<and>
      list_all (\<lambda>i. counts ! i = of_nat (length (filter (\<lambda>d. d \<le> bounds ! i) ds))) [0 ..< length bounds]"
proof -
  let ?m = "fold ObservePendingAge ds NewMetrics"
  let ?c = "running_sums 0 (m_pendingAge ?m)"
  have z: "length (m_pendingAge NewMetrics) = Suc (length age_bounds)"
    "sum_list (take n (m_pendingAge NewMetrics)) = 0" "m_pendingCount NewMetrics = 0" for n
    by (simp_all add: NewMetrics_def newApprovalDurationHistogram_def sum_list_replicate del: replicate.simps)
  note h = observes_hist [OF z(1), of ds, unfolded z]
  have sorted: "sorted age_bounds" by (simp add: age_bounds_def)
  have nth: "?c ! i = of_nat (length (filter (\<lambda>d. bucket_index age_bounds d < Suc i) ds))" if "i < Suc (length age_bounds)" for i
    using that h by (simp add: running_sums_nth)
  have len: "length ?c = Suc (length age_bounds)" using h by simp
  then have "last ?c = ?c ! length age_bounds" by (metis diff_Suc_1 last_conv_nth length_0_conv nat.distinct(1))
  then have "last ?c = of_nat (length ds)"
    using nth [of "length age_bounds"] bucket_index_le [of age_bounds] by (simp add: less_Suc_eq_le)
  moreover have "?c ! i = of_nat (length (filter (\<lambda>d. d \<le> age_bounds ! i) ds))" if "i < length age_bounds" for i
    using nth [of i] that bucket_index_bound [OF sorted that] by (simp add: less_Suc_eq_le)
  ultimately show ?thesis
    using h by (simp add: SnapshotApprovalPendingAgeHistogram_def Let_def list_all_iff)
qed

end
