(* ===== verification/Store.thy ===== *)
theory Store
  imports Audit_Redact Metrics
begin

text \<open>
  The state of the control plane: the tables of the database, the identifier counter and the metrics
  of the process, and a step counter that indexes the environment. The environment says which database
  calls fail, what the clock shows, which random identifiers are drawn, which messages handed to a
  notification channel are refused, and what \<^verbatim>\<open>AddDate\<close> makes of a number of days in the time zone of the server; every
  property holds for all environments, so for every pattern of failures. On top of the primitives: transactions
  (\<^verbatim>\<open>repository/postgres/tx.go\<close>), the identifier generator, and the audit service
  (\<^verbatim>\<open>service/audit.go\<close>, \<^verbatim>\<open>repository/postgres/audit.go\<close>).
\<close>

section \<open>World and environment\<close>

record world =
  tbl_jobs :: "Job list"
  tbl_approvals :: "ApprovalRequest list"
  tbl_certs :: "ManagedCertificate list"
  tbl_versions :: "CertificateVersion list"
  tbl_targets :: "DeploymentTarget list"
  tbl_mappings :: "(string \<times> string) list"
  tbl_agents :: "Agent list"
  tbl_owners :: "Owner list"
  tbl_profiles :: "CertificateProfile list"
  tbl_policies :: "RenewalPolicy list"
  tbl_notifs :: "NotificationEvent list"
  tbl_rules :: "PolicyRule list"
  tbl_revocations :: "CertificateRevocation list"
  tbl_ocsp :: "OCSPResponseCacheEntry list"
  tbl_audit :: "AuditEvent list"
  idCounter :: nat
  metrics :: Metrics
  steps :: nat

record env =
  fault :: "nat \<Rightarrow> bool"
  clock :: "nat \<Rightarrow> time"
  uuid :: "nat \<Rightarrow> string"
  send :: "nat \<Rightarrow> error option"
  addDays :: "time \<Rightarrow> int \<Rightarrow> time"

type_synonym 'a op = "(world, 'a) state"
type_synonym 'a result = "error + 'a"

text \<open>A page of a list in memory; a slice expression that panics is an error of the call.\<close>

definition paged_result :: "int \<Rightarrow> int \<Rightarrow> 'a list \<Rightarrow> ('a list \<times> nat) result" where
  "paged_result page perPage xs = (case memory_page page perPage xs of
     None \<Rightarrow> Inl (Errorf ''runtime error: slice bounds out of range'')
   | Some ys \<Rightarrow> Inr (ys, length xs))"

definition tick :: "nat op" where
  "tick = State (\<lambda>w. (steps w, w \<lparr> steps := Suc (steps w) \<rparr>))"

definition db_down :: "env \<Rightarrow> bool op" where
  "db_down env = do { n \<leftarrow> tick; State_Monad.return (fault env n) }"

definition now :: "env \<Rightarrow> time op" where
  "now env = do { n \<leftarrow> tick; State_Monad.return (clock env n) }"

definition new_uuid :: "env \<Rightarrow> string op" where
  "new_uuid env = do { n \<leftarrow> tick; State_Monad.return (uuid env n) }"

definition generateID :: "env \<Rightarrow> string \<Rightarrow> string op" where
  "generateID env prefix = do {
     _ \<leftarrow> modify (idCounter_update Suc);
     counter \<leftarrow> gets idCounter;
     t \<leftarrow> now env;
     State_Monad.return (prefix @ ''-'' @ show_int t @ ''-'' @ show_nat counter) }"

section \<open>Queries, statements, transactions\<close>

text \<open>
  \<open>query\<close> reads; \<open>insert_row\<close> appends one row unless a constraint of the table forbids it; \<open>exec\<close>
  runs an \<^verbatim>\<open>UPDATE\<close> and returns the number of rows it affected, which is itself a call that can
  fail after the update has happened.
\<close>

abbreviation ErrConstraint :: error where "ErrConstraint \<equiv> Errorf ''constraint violation''"

definition query :: "env \<Rightarrow> string \<Rightarrow> (world \<Rightarrow> 'a) \<Rightarrow> 'a result op" where
  "query env msg f = do {
     bad \<leftarrow> db_down env;
     if bad then State_Monad.return (Inl (Wrap msg ErrDriver))
     else do { x \<leftarrow> gets f; State_Monad.return (Inr x) } }"

definition insert_row :: "env \<Rightarrow> string \<Rightarrow> (world \<Rightarrow> bool) \<Rightarrow> (world \<Rightarrow> world) \<Rightarrow> unit result op" where
  "insert_row env msg ok ins = do {
     bad \<leftarrow> db_down env;
     allowed \<leftarrow> gets ok;
     if bad then State_Monad.return (Inl (Wrap msg ErrDriver))
     else if \<not> allowed then State_Monad.return (Inl (Wrap msg ErrConstraint))
     else do { _ \<leftarrow> modify ins; State_Monad.return (Inr ()) } }"

definition exec :: "env \<Rightarrow> string \<Rightarrow> (world \<Rightarrow> nat) \<Rightarrow> (world \<Rightarrow> world) \<Rightarrow> nat result op" where
  "exec env msg affected upd = do {
     bad \<leftarrow> db_down env;
     if bad then State_Monad.return (Inl (Wrap msg ErrDriver))
     else do {
       n \<leftarrow> gets affected;
       _ \<leftarrow> modify upd;
       bad' \<leftarrow> db_down env;
       State_Monad.return (if bad' then Inl (Wrap ''failed to get rows affected'' ErrDriver) else Inr n) } }"

definition rollback :: "world \<Rightarrow> world \<Rightarrow> world" where
  "rollback w0 w = w0 \<lparr> idCounter := idCounter w, metrics := metrics w, steps := steps w \<rparr>"

definition abort_tx :: "env \<Rightarrow> bool \<Rightarrow> world \<Rightarrow> error \<Rightarrow> 'a result op" where
  "abort_tx env reportRb w0 e = do {
     _ \<leftarrow> modify (rollback w0);
     rbFails \<leftarrow> db_down env;
     State_Monad.return (Inl (if rbFails \<and> reportRb then Wrap ''rollback'' e else e)) }"

text \<open>
  A transaction with its own messages for a failing begin and commit. \<open>reportRb\<close> tells whether a
  failing rollback is reported (\<^verbatim>\<open>WithinTx\<close>) or discarded (the claim queries).
\<close>

definition tx_with :: "env \<Rightarrow> string \<Rightarrow> ('a \<Rightarrow> string) \<Rightarrow> bool \<Rightarrow> 'a result op \<Rightarrow> 'a result op" where
  "tx_with env beginMsg commitMsg reportRb fn = do {
     bad \<leftarrow> db_down env;
     if bad then State_Monad.return (Inl (Wrap beginMsg ErrDriver))
     else do {
       w0 \<leftarrow> State_Monad.get;
       r \<leftarrow> fn;
       (case r of
          Inl e \<Rightarrow> abort_tx env reportRb w0 e
        | Inr x \<Rightarrow> do {
            commitFails \<leftarrow> db_down env;
            if commitFails then abort_tx env reportRb w0 (Wrap (commitMsg x) ErrDriver)
            else State_Monad.return (Inr x) }) } }"

definition WithinTx :: "env \<Rightarrow> 'a result op \<Rightarrow> 'a result op" where
  "WithinTx env fn = tx_with env ''begin tx'' (\<lambda>_. ''commit tx'') True fn"

section \<open>Audit\<close>

definition AuditRepository_CreateWithTx :: "env \<Rightarrow> AuditEvent \<Rightarrow> unit result op" where
  "AuditRepository_CreateWithTx env event = do {
     i \<leftarrow> (if ae_ID event = '''' then new_uuid env else State_Monad.return (ae_ID event));
     let event' = event \<lparr> ae_ID := i, ae_EventCategory :=
           (if ae_EventCategory event = '''' then EventCategoryCertLifecycle else ae_EventCategory event) \<rparr> in
     insert_row env ''failed to create audit event''
       (\<lambda>w. \<not> has_key ae_ID i (tbl_audit w)) (tbl_audit_update (\<lambda>t. t @ [event'])) }"

definition details_json :: "(string \<times> jval) list \<Rightarrow> jval" where
  "details_json details = (case RedactDetailsForAudit details of None \<Rightarrow> JNull | Some m \<Rightarrow> JMap m)"

definition RecordEventWithCategory ::
  "env \<Rightarrow> string \<Rightarrow> ActorType \<Rightarrow> string \<Rightarrow> string \<Rightarrow> string \<Rightarrow> string \<Rightarrow> (string \<times> jval) list \<Rightarrow> unit result op" where
  "RecordEventWithCategory env actor actorType action eventCategory resourceType resourceID details = do {
     i \<leftarrow> generateID env ''audit'';
     t \<leftarrow> now env;
     r \<leftarrow> AuditRepository_CreateWithTx env
       \<lparr> ae_ID = i, ae_Actor = actor, ae_ActorType = actorType, ae_Action = action,
         ae_ResourceType = resourceType, ae_ResourceID = resourceID,
         ae_Details = details_json details, ae_Timestamp = t, ae_EventCategory = eventCategory \<rparr>;
     State_Monad.return (case r of
       Inl e \<Rightarrow> Inl (Wrap ''failed to record audit event'' e) | Inr u \<Rightarrow> Inr u) }"

definition RecordEvent ::
  "env \<Rightarrow> string \<Rightarrow> ActorType \<Rightarrow> string \<Rightarrow> string \<Rightarrow> string \<Rightarrow> (string \<times> jval) list \<Rightarrow> unit result op" where
  "RecordEvent env actor actorType action resourceType resourceID details =
     RecordEventWithCategory env actor actorType action '''' resourceType resourceID details"

text \<open>
  Inside a transaction the event goes through the transaction's connection; the statement and its
  effect on the table are the same.
\<close>

definition RecordEventWithTx ::
  "env \<Rightarrow> string \<Rightarrow> ActorType \<Rightarrow> string \<Rightarrow> string \<Rightarrow> string \<Rightarrow> (string \<times> jval) list \<Rightarrow> unit result op" where
  "RecordEventWithTx env actor actorType action resourceType resourceID details =
     RecordEventWithCategory env actor actorType action '''' resourceType resourceID details"

section \<open>Frames over the world\<close>

text \<open>Equality of all tables.\<close>

definition same_data :: "world \<Rightarrow> world \<Rightarrow> bool" where
  "same_data w w' = (\<exists>c m n. w' = w \<lparr> idCounter := c, metrics := m, steps := n \<rparr>)"

text \<open>
  \<open>step_frame\<close>: a frame condition that allows the counters to advance; everything but a transaction respects
  it when its statements do. \<open>step_audit\<close> also allows the audit log to change. \<open>world_frame\<close> does not look at the
  counters at all: a transaction around a body that respects it does too, although it restores the tables.
  \<open>audit_blind\<close> does not look at the audit log either.
\<close>

locale step_frame = frame_condition R for R :: "world \<Rightarrow> world \<Rightarrow> bool" +
  assumes R_steps: "R w (steps_update f w)"
    and R_next: "R w (idCounter_update Suc w)"
    and R_metrics: "R w (metrics_update g w)"
begin

lemma keeps_tick: "state_io_rel R tick"
  by (simp add: tick_def state_io_rel_def R_steps)

lemma keeps_db_down: "state_io_rel R (db_down env)"
  unfolding db_down_def by (intro keeps_bind keeps_tick keeps_return)

lemma keeps_now: "state_io_rel R (now env)"
  unfolding now_def by (intro keeps_bind keeps_tick keeps_return)

lemma keeps_uuid: "state_io_rel R (new_uuid env)"
  unfolding new_uuid_def by (intro keeps_bind keeps_tick keeps_return)

lemma keeps_generateID: "state_io_rel R (generateID env p)"
  unfolding generateID_def
  by (intro keeps_bind keeps_modify keeps_gets keeps_now keeps_return R_next)

lemma keeps_metrics: "state_io_rel R (modify (metrics_update g))"
  by (intro keeps_modify R_metrics)

lemma keeps_query: "state_io_rel R (query env msg f)"
  unfolding query_def by (intro keeps_bind keeps_if keeps_db_down keeps_gets keeps_return)

lemma keeps_insert: "(\<And>w. R w (ins w)) \<Longrightarrow> state_io_rel R (insert_row env msg ok ins)"
  unfolding insert_row_def
  by (intro keeps_bind keeps_if keeps_db_down keeps_gets keeps_modify keeps_return)

lemma keeps_exec: "(\<And>w. R w (upd w)) \<Longrightarrow> state_io_rel R (exec env msg n upd)"
  unfolding exec_def
  by (intro keeps_bind keeps_if keeps_db_down keeps_gets keeps_modify keeps_return)

lemma keeps_get: "state_io_rel R State_Monad.get"
  by (simp add: state_io_rel_def frame_refl State_Monad.get_def)

lemmas keeps_steps = keeps_return keeps_gets keeps_bind keeps_if keeps_case_sum keeps_case_option
  keeps_case_prod keeps_let keeps_for_each keeps_for_count keeps_tick keeps_db_down keeps_now keeps_uuid
  keeps_generateID keeps_metrics keeps_query

end

locale step_audit = step_frame +
  assumes R_audit: "R w (tbl_audit_update f w)"
begin

lemma keeps_audit_create: "state_io_rel R (AuditRepository_CreateWithTx env ev)"
  unfolding AuditRepository_CreateWithTx_def Let_def
  by (intro keeps_steps keeps_insert R_audit)

lemma keeps_RecordEventWithCategory: "state_io_rel R (RecordEventWithCategory env a t ac c rt ri d)"
  unfolding RecordEventWithCategory_def
  by (intro keeps_steps keeps_audit_create)

lemma keeps_RecordEvent: "state_io_rel R (RecordEvent env a t ac rt ri d)"
  unfolding RecordEvent_def by (rule keeps_RecordEventWithCategory)

lemma keeps_RecordEventWithTx: "state_io_rel R (RecordEventWithTx env a t ac rt ri d)"
  unfolding RecordEventWithTx_def by (rule keeps_RecordEventWithCategory)

end

locale world_frame = step_frame +
  assumes R_ids: "R w (idCounter_update f w)"
begin

lemma R_rollback: "R w0 (rollback w0 w)"
  unfolding rollback_def by (rule frame_trans [OF frame_trans [OF R_ids R_metrics] R_steps])

lemma keeps_tx:
  fixes fn :: "'a result op"
  assumes "state_io_rel R fn"
  shows "state_io_rel R (tx_with env b0 cm rr fn)"
proof
  fix a s s'
  assume run: "run_state (tx_with env b0 cm rr fn) s = (a, s')"
  obtain b s0 where b: "run_state (db_down env) s = (b, s0)" by (metis surj_pair)
  then have s0: "R s s0" using keeps_db_down by (metis state_io_relD)
  obtain r s1 where r: "run_state fn s0 = (r, s1)" by (metis surj_pair)
  with assms have s1: "R s0 s1" by (metis state_io_relD)
  obtain c s2 where c: "run_state (db_down env) s1 = (c, s2)" by (metis surj_pair)
  then have s2: "R s1 s2" using keeps_db_down by (metis state_io_relD)
  have rb: "R s0 t'" if "run_state (abort_tx env rr s0 e :: 'a result op) t = (x, t')" for e x t t'
    using that R_rollback [of s0 t] keeps_db_down [of env]
    by (auto simp: abort_tx_def split: prod.splits intro: frame_trans)
  have "R s0 s'" if "\<not> b"
    using run that b r c s1 s2 rb
    by (auto simp: tx_with_def State_Monad.get_def split: sum.splits if_splits intro: frame_trans)
  with run b s0 show "R s s'"
    by (cases b) (auto simp: tx_with_def intro: frame_trans)
qed

lemma keeps_WithinTx: "state_io_rel R fn \<Longrightarrow> state_io_rel R (WithinTx env fn)"
  unfolding WithinTx_def by (rule keeps_tx)

lemmas keeps_prims = keeps_steps keeps_tx keeps_WithinTx

end

locale audit_blind = world_frame R + step_audit R for R
begin

lemmas keeps_audit = keeps_prims keeps_RecordEvent keeps_RecordEventWithCategory keeps_RecordEventWithTx

end

text \<open>
  \<open>table_view\<close>: a frame condition that looks at the world only through a projection, which the
  counters and the audit log do not affect. The repository theories add the operations that write
  tables the projection does not look at.
\<close>

locale table_view = frame_condition R for R :: "world \<Rightarrow> world \<Rightarrow> bool" +
  fixes proj :: "world \<Rightarrow> 'p"
  assumes same_proj: "proj w' = proj w \<Longrightarrow> R w w'"
    and proj_steps: "proj (steps_update f w) = proj w"
    and proj_ids: "proj (idCounter_update f w) = proj w"
    and proj_metrics: "proj (metrics_update h w) = proj w"
    and proj_audit: "proj (tbl_audit_update g w) = proj w"

sublocale table_view \<subseteq> audit_blind R
  by unfold_locales (auto intro: same_proj simp: proj_steps proj_ids proj_metrics proj_audit)

section \<open>Equality of all tables is a frame; transactions are atomic\<close>

interpretation same: world_frame same_data
proof
  show "same_data s s" for s
    unfolding same_data_def by (rule exI [of _ "idCounter s"], rule exI [of _ "metrics s"], rule exI [of _ "steps s"]) simp
  show "same_data s u" if "same_data s t" "same_data t u" for s t u
    using that unfolding same_data_def by auto blast
  show "same_data w (steps_update f w)" for f w
    unfolding same_data_def by (rule exI [of _ "idCounter w"], rule exI [of _ "metrics w"], rule exI [of _ "f (steps w)"]) simp
  have ids: "same_data w (idCounter_update f w)" for f w
    unfolding same_data_def by (rule exI [of _ "f (idCounter w)"], rule exI [of _ "metrics w"], rule exI [of _ "steps w"]) simp
  show "same_data w (idCounter_update Suc w)" for w by (rule ids)
  show "same_data w (idCounter_update f w)" for f w by (rule ids)
  show "same_data w (metrics_update g w)" for g w
    unfolding same_data_def by (rule exI [of _ "idCounter w"], rule exI [of _ "g (metrics w)"], rule exI [of _ "steps w"]) simp
qed

lemma abort_tx_same: "run_state (abort_tx env rr w0 e) t = (r, w') \<Longrightarrow> (\<exists>e'. r = Inl e') \<and> same_data w0 w'"
  using same.keeps_db_down [of env] same.R_rollback [of w0 t]
  by (auto simp: abort_tx_def split: prod.splits intro: same.frame_trans)

lemma tx_cases:
  fixes fn :: "'a result op"
  assumes run: "run_state (tx_with env b0 cm rr fn) w = (r, w')"
  obtains (failed) e where "r = Inl e" "same_data w w'"
  | (committed) x w0 w1 where "r = Inr x" "same_data w w0" "run_state fn w0 = (Inr x, w1)" "same_data w1 w'"
proof -
  obtain b w0 where b: "run_state (db_down env) w = (b, w0)" by (metis surj_pair)
  then have w0: "same_data w w0" using same.keeps_db_down by (metis state_io_relD)
  obtain r1 w1 where r1: "run_state fn w0 = (r1, w1)" by (metis surj_pair)
  obtain c w2 where c: "run_state (db_down env) w1 = (c, w2)" by (metis surj_pair)
  then have w2: "same_data w1 w2" using same.keeps_db_down by (metis state_io_relD)
  have "(\<exists>e. r = Inl e \<and> same_data w w') \<or>
    (\<exists>x. r = Inr x \<and> run_state fn w0 = (Inr x, w1) \<and> same_data w1 w')"
    using run b w0 r1 c w2
    by (auto simp: tx_with_def State_Monad.get_def split: if_splits sum.splits
        dest!: abort_tx_same intro: same.frame_trans)
  then show thesis using that w0 by blast
qed

section \<open>Running the primitives\<close>

text \<open>Equations that evaluate an operation on a concrete world.\<close>

lemma run_tick [run_simps]: "run_state tick w = (steps w, w \<lparr> steps := Suc (steps w) \<rparr>)"
  by (simp add: tick_def)

lemma run_db_down [run_simps]: "run_state (db_down env) w = (fault env (steps w), w \<lparr> steps := Suc (steps w) \<rparr>)"
  by (simp add: db_down_def run_tick)

lemma run_now [run_simps]: "run_state (now env) w = (clock env (steps w), w \<lparr> steps := Suc (steps w) \<rparr>)"
  by (simp add: now_def run_tick)

lemma run_uuid [run_simps]: "run_state (new_uuid env) w = (uuid env (steps w), w \<lparr> steps := Suc (steps w) \<rparr>)"
  by (simp add: new_uuid_def run_tick)

lemma run_get [run_simps]: "run_state State_Monad.get w = (w, w)"
  by (simp add: State_Monad.get_def)

lemmas run_defs = run_simps query_def insert_row_def exec_def WithinTx_def tx_with_def abort_tx_def rollback_def
  generateID_def RecordEvent_def RecordEventWithTx_def RecordEventWithCategory_def AuditRepository_CreateWithTx_def

section \<open>Postconditions of the primitives\<close>

text \<open>
  Proof rules for partial correctness: one rule per primitive, quantified over every environment's
  outcome. Worlds are compared up to their counters.
\<close>

lemma same_dataD:
  assumes "same_data w w'"
  shows "tbl_jobs w' = tbl_jobs w" "tbl_approvals w' = tbl_approvals w" "tbl_certs w' = tbl_certs w"
    "tbl_versions w' = tbl_versions w" "tbl_targets w' = tbl_targets w" "tbl_mappings w' = tbl_mappings w"
    "tbl_agents w' = tbl_agents w" "tbl_owners w' = tbl_owners w" "tbl_profiles w' = tbl_profiles w"
    "tbl_policies w' = tbl_policies w" "tbl_notifs w' = tbl_notifs w" "tbl_audit w' = tbl_audit w"
    "tbl_rules w' = tbl_rules w" "tbl_revocations w' = tbl_revocations w" "tbl_ocsp w' = tbl_ocsp w"
  using assms by (auto simp: same_data_def)

lemma post_db_down [vcg]: "(\<And>b w'. same_data w w' \<Longrightarrow> Q b w') \<Longrightarrow> post (db_down env) w Q"
  using post_frame [OF same.keeps_db_down] by (rule post_mono)

lemma post_now [vcg]: "(\<And>t w'. same_data w w' \<Longrightarrow> Q t w') \<Longrightarrow> post (now env) w Q"
  using post_frame [OF same.keeps_now] by (rule post_mono)

lemma post_uuid [vcg]: "(\<And>t w'. same_data w w' \<Longrightarrow> Q t w') \<Longrightarrow> post (new_uuid env) w Q"
  using post_frame [OF same.keeps_uuid] by (rule post_mono)

lemma post_generateID [vcg]: "(\<And>i w'. same_data w w' \<Longrightarrow> Q i w') \<Longrightarrow> post (generateID env p) w Q"
  using post_frame [OF same.keeps_generateID] by (rule post_mono)

lemma post_metrics [vcg]: "(\<And>w'. same_data w w' \<Longrightarrow> Q () w') \<Longrightarrow> post (modify (metrics_update f)) w Q"
  by (simp add: same.R_metrics)

lemma post_query [vcg]:
  assumes "\<And>e w'. same_data w w' \<Longrightarrow> Q (Inl e) w'" and "\<And>w'. same_data w w' \<Longrightarrow> Q (Inr (f w')) w'"
  shows "post (query env msg f) w Q"
  unfolding query_def post_bind by (rule post_db_down) (use assms in \<open>auto simp: post_bind\<close>)

lemma post_insert [vcg]:
  assumes "\<And>e w'. same_data w w' \<Longrightarrow> Q (Inl e) w'"
    and "\<And>w'. same_data w w' \<Longrightarrow> ok w' \<Longrightarrow> Q (Inr ()) (ins w')"
  shows "post (insert_row env msg ok ins) w Q"
  unfolding insert_row_def post_bind by (rule post_db_down) (use assms in \<open>auto simp: post_bind\<close>)

lemma post_exec [vcg]:
  assumes "\<And>e w'. same_data w w' \<Longrightarrow> Q (Inl e) w'"
    and "\<And>r w1 w'. same_data w w1 \<Longrightarrow> same_data (upd w1) w' \<Longrightarrow> r = Inr (n w1) \<or> (\<exists>e. r = Inl e) \<Longrightarrow> Q r w'"
  shows "post (exec env msg n upd) w Q"
  unfolding exec_def post_bind
  by (rule post_db_down) (use assms in \<open>auto simp: post_bind intro!: post_db_down\<close>)

text \<open>The same when no database call fails.\<close>

lemma post_query_ok:
  "fault env = (\<lambda>_. False) \<Longrightarrow> (\<And>w'. same_data w w' \<Longrightarrow> Q (Inr (f w')) w') \<Longrightarrow> post (query env msg f) w Q"
  by (simp add: query_def post_def run_simps same.R_steps)

lemma post_insert_ok:
  assumes "fault env = (\<lambda>_. False)" "\<And>w'. same_data w w' \<Longrightarrow> ok w'" "\<And>w'. same_data w w' \<Longrightarrow> Q (Inr ()) (ins w')"
  shows "post (insert_row env msg ok ins) w Q"
  using assms(2,3) [OF same.R_steps] by (simp add: insert_row_def post_def run_simps assms(1))

lemma post_exec_ok:
  assumes "fault env = (\<lambda>_. False)"
    and "\<And>w1 w'. same_data w w1 \<Longrightarrow> same_data (upd w1) w' \<Longrightarrow> Q (Inr (n w1)) w'"
  shows "post (exec env msg n upd) w Q"
  using assms(2) [OF same.R_steps same.R_steps] by (simp add: exec_def post_def run_simps assms(1))

lemma post_tx [vcg]:
  assumes "\<And>e w'. same_data w w' \<Longrightarrow> Q (Inl e) w'"
    and "\<And>w0. same_data w w0 \<Longrightarrow> post fn w0 (\<lambda>r w1. \<forall>x w'. r = Inr x \<longrightarrow> same_data w1 w' \<longrightarrow> Q (Inr x) w')"
  shows "post (tx_with env b0 cm rr fn) w Q"
proof -
  obtain r w' where run: "run_state (tx_with env b0 cm rr fn) w = (r, w')" by (metis surj_pair)
  then show ?thesis
  proof (cases rule: tx_cases)
    case failed
    with run assms(1) show ?thesis by (simp add: post_def)
  next
    case (committed x w0 w1)
    with assms(2) [of w0] have "Q (Inr x) w'" by (auto simp: post_def)
    with run committed(1) show ?thesis by (simp add: post_def)
  qed
qed

lemma post_if [vcg]: "(b \<Longrightarrow> post m w Q) \<Longrightarrow> (\<not> b \<Longrightarrow> post n w Q) \<Longrightarrow> post (if b then m else n) w Q"
  by simp

lemma post_case_sum [vcg]:
  "(\<And>x. r = Inl x \<Longrightarrow> post (f x) w Q) \<Longrightarrow> (\<And>y. r = Inr y \<Longrightarrow> post (g y) w Q) \<Longrightarrow>
   post (case r of Inl x \<Rightarrow> f x | Inr y \<Rightarrow> g y) w Q"
  by (cases r) auto

lemma post_case_option [vcg]:
  "(r = None \<Longrightarrow> post m w Q) \<Longrightarrow> (\<And>y. r = Some y \<Longrightarrow> post (g y) w Q) \<Longrightarrow>
   post (case r of None \<Rightarrow> m | Some y \<Rightarrow> g y) w Q"
  by (cases r) auto

lemma post_keeps: "state_io_rel R m \<Longrightarrow> (\<And>r w'. R w w' \<Longrightarrow> Q r w') \<Longrightarrow> post m w Q"
  by (rule post_mono [OF post_frame])

lemma post_case_prod [vcg]:
  "(\<And>x y. p = (x, y) \<Longrightarrow> post (f x y) w Q) \<Longrightarrow> post (case p of (x, y) \<Rightarrow> f x y) w Q"
  by (cases p) auto

lemma post_let [vcg]: "(\<And>x. x = e \<Longrightarrow> post (f x) w Q) \<Longrightarrow> post (let x = e in f x) w Q"
  by simp

lemma post_WithinTx [vcg]:
  assumes "\<And>e w'. same_data w w' \<Longrightarrow> Q (Inl e) w'"
    and "\<And>w0. same_data w w0 \<Longrightarrow> post fn w0 (\<lambda>r w1. \<forall>x w'. r = Inr x \<longrightarrow> same_data w1 w' \<longrightarrow> Q (Inr x) w')"
  shows "post (WithinTx env fn) w Q"
  unfolding WithinTx_def using assms by (rule post_tx)

text \<open>
  \<open>same_but_audit\<close>: nothing but the audit log changed, and the log only grew. Recording an audit
  event has this effect, whether it succeeds or not.
\<close>

definition same_but_audit :: "world \<Rightarrow> world \<Rightarrow> bool" where
  "same_but_audit w w' = (\<exists>es. same_data (w \<lparr> tbl_audit := tbl_audit w @ es \<rparr>) w')"

lemma same_data_audit: "same_data w w' \<Longrightarrow> same_data (w \<lparr> tbl_audit := t \<rparr>) (w' \<lparr> tbl_audit := t \<rparr>)"
  unfolding same_data_def
proof (elim exE)
  fix c m n
  assume "w' = w \<lparr> idCounter := c, metrics := m, steps := n \<rparr>"
  then have "w' \<lparr> tbl_audit := t \<rparr> = w \<lparr> tbl_audit := t, idCounter := c, metrics := m, steps := n \<rparr>" by (cases w) simp
  then show "\<exists>c m n. w' \<lparr> tbl_audit := t \<rparr> = w \<lparr> tbl_audit := t, idCounter := c, metrics := m, steps := n \<rparr>" by blast
qed

interpretation logged: world_frame same_but_audit
proof
  have step: "same_but_audit w w'" if "same_data w w'" for w w'
    unfolding same_but_audit_def by (rule exI [of _ "[]"]) (use that in simp)
  show "same_but_audit s s" "same_but_audit s (steps_update f s)" "same_but_audit s (idCounter_update Suc s)"
    "same_but_audit s (idCounter_update f s)" "same_but_audit s (metrics_update g s)" for s f g
    by (intro step same.frame_refl same.R_steps same.R_ids same.R_metrics)+
  show "same_but_audit s u" if "same_but_audit s t" "same_but_audit t u" for s t u
  proof -
    from that obtain es fs where a: "same_data (s \<lparr> tbl_audit := tbl_audit s @ es \<rparr>) t"
      and b: "same_data (t \<lparr> tbl_audit := tbl_audit t @ fs \<rparr>) u" by (auto simp: same_but_audit_def)
    from a have "tbl_audit t = tbl_audit s @ es" by (auto simp: same_data_def)
    with same_data_audit [OF a, of "tbl_audit t @ fs"] b
    have "same_data (s \<lparr> tbl_audit := tbl_audit s @ (es @ fs) \<rparr>) u" by (simp add: same.frame_trans)
    then show ?thesis unfolding same_but_audit_def by blast
  qed
qed

lemma logged_append: "same_but_audit w (tbl_audit_update (\<lambda>t. t @ es) w)"
proof -
  have "tbl_audit_update (\<lambda>t. t @ es) w = w \<lparr> tbl_audit := tbl_audit w @ es \<rparr>" by (cases w) simp
  then show ?thesis unfolding same_but_audit_def by (metis same.frame_refl)
qed

lemma keeps_logged: "state_io_rel same_but_audit (RecordEventWithCategory env a t ac c rt ri d)"
  unfolding RecordEventWithCategory_def AuditRepository_CreateWithTx_def Let_def
  by (intro logged.keeps_prims logged.keeps_insert logged_append)

lemma post_RecordEvent [vcg]: "(\<And>r w'. same_but_audit w w' \<Longrightarrow> Q r w') \<Longrightarrow> post (RecordEvent env a t ac rt ri d) w Q"
  unfolding RecordEvent_def by (rule post_keeps [OF keeps_logged])

lemma post_RecordEventWithCategory [vcg]:
  "(\<And>r w'. same_but_audit w w' \<Longrightarrow> Q r w') \<Longrightarrow> post (RecordEventWithCategory env a t ac c rt ri d) w Q"
  by (rule post_keeps [OF keeps_logged])

lemma logged_id: "state_io_rel same_data (if b then new_uuid env else State_Monad.return i)"
  by (intro same.keeps_prims)

lemma post_RecordEventWithTx [vcg]:
  assumes "\<And>e w'. same_data w w' \<Longrightarrow> Q (Inl e) w'"
    and "\<And>ev w1. same_data w w1 \<Longrightarrow> ae_Actor ev = a \<Longrightarrow> ae_ActorType ev = t \<Longrightarrow> ae_Action ev = ac \<Longrightarrow>
      ae_ResourceType ev = rt \<Longrightarrow> ae_ResourceID ev = ri \<Longrightarrow> ae_Details ev = details_json d \<Longrightarrow>
      Q (Inr ()) (tbl_audit_update (\<lambda>l. l @ [ev]) w1)"
  shows "post (RecordEventWithTx env a t ac rt ri d) w Q"
  unfolding RecordEventWithTx_def RecordEventWithCategory_def AuditRepository_CreateWithTx_def Let_def
proof (intro post_bindI post_generateID post_now post_keeps [OF logged_id] post_insert post_returnI, goal_cases)
  case (1 i w1 t w2 j w3 e w4)
  then have "same_data w w4" by (blast intro: same.frame_trans)
  then show ?case by (simp add: assms(1))
next
  case (2 i w1 t w2 j w3 w4)
  then have "same_data w w4" by (blast intro: same.frame_trans)
  then show ?case by (simp add: assms(2))
qed

lemma same_but_auditD:
  assumes "same_but_audit w w'"
  shows "tbl_jobs w' = tbl_jobs w" "tbl_approvals w' = tbl_approvals w" "tbl_certs w' = tbl_certs w"
    "tbl_versions w' = tbl_versions w" "tbl_targets w' = tbl_targets w" "tbl_mappings w' = tbl_mappings w"
    "tbl_agents w' = tbl_agents w" "tbl_owners w' = tbl_owners w" "tbl_profiles w' = tbl_profiles w"
    "tbl_policies w' = tbl_policies w" "tbl_notifs w' = tbl_notifs w"
    "tbl_rules w' = tbl_rules w" "tbl_revocations w' = tbl_revocations w" "tbl_ocsp w' = tbl_ocsp w"
  using assms by (auto simp: same_but_audit_def dest: same_dataD)

lemma tables_same_data:
  "same_data w w' \<Longrightarrow> tbl_jobs w' = tbl_jobs w \<and> tbl_approvals w' = tbl_approvals w \<and> tbl_certs w' = tbl_certs w \<and>
    tbl_versions w' = tbl_versions w \<and> tbl_targets w' = tbl_targets w \<and> tbl_mappings w' = tbl_mappings w \<and>
    tbl_agents w' = tbl_agents w \<and> tbl_owners w' = tbl_owners w \<and> tbl_profiles w' = tbl_profiles w \<and>
    tbl_policies w' = tbl_policies w \<and> tbl_notifs w' = tbl_notifs w \<and> tbl_audit w' = tbl_audit w \<and>
    tbl_rules w' = tbl_rules w \<and> tbl_revocations w' = tbl_revocations w \<and> tbl_ocsp w' = tbl_ocsp w"
  by (simp add: same_dataD)

lemma tables_same_but_audit:
  "same_but_audit w w' \<Longrightarrow> tbl_jobs w' = tbl_jobs w \<and> tbl_approvals w' = tbl_approvals w \<and> tbl_certs w' = tbl_certs w \<and>
    tbl_versions w' = tbl_versions w \<and> tbl_targets w' = tbl_targets w \<and> tbl_mappings w' = tbl_mappings w \<and>
    tbl_agents w' = tbl_agents w \<and> tbl_owners w' = tbl_owners w \<and> tbl_profiles w' = tbl_profiles w \<and>
    tbl_policies w' = tbl_policies w \<and> tbl_notifs w' = tbl_notifs w \<and>
    tbl_rules w' = tbl_rules w \<and> tbl_revocations w' = tbl_revocations w \<and> tbl_ocsp w' = tbl_ocsp w"
  by (simp add: same_but_auditD)

lemmas tables = tables_same_data tables_same_but_audit
lemma requests_same_data:
  "same_data w w' \<Longrightarrow> tbl_jobs w' = tbl_jobs w \<and> tbl_approvals w' = tbl_approvals w"
  by (simp add: same_dataD)

lemma requests_same_but_audit:
  "same_but_audit w w' \<Longrightarrow> tbl_jobs w' = tbl_jobs w \<and> tbl_approvals w' = tbl_approvals w"
  by (simp add: same_but_auditD)

lemmas requests_tables = requests_same_data requests_same_but_audit
lemmas jobs_tables = same_dataD(1) same_but_auditD(1)
lemmas approvals_tables = same_dataD(2) same_but_auditD(2)
lemmas notifs_tables = same_dataD(11) same_but_auditD(11)

text \<open>A loop over a list, with an invariant of the elements that remain.\<close>

lemma post_for_count:
  assumes "\<And>x rest w. Inv (x # rest) w \<Longrightarrow> post (f x) w (\<lambda>_ w'. Inv rest w')"
    and "Inv xs w" and "\<And>n w'. Inv [] w' \<Longrightarrow> Q n w'"
  shows "post (for_count f xs) w Q"
  using assms(2,3)
proof (induction xs arbitrary: w Q)
  case (Cons x xs)
  show ?case unfolding for_count.simps post_bind
  proof (rule post_mono [OF assms(1) [OF Cons.prems(1)]])
    show "post (for_count f xs) t
        (\<lambda>n t. post (State_Monad.return (if b then Suc n else n)) t Q)" if "Inv xs t" for b t
      by (rule Cons.IH [OF that]) (simp add: Cons.prems(2))
  qed
qed simp

lemma post_for_each:
  assumes "\<And>x rest w. Inv (x # rest) w \<Longrightarrow> post (f x) w (\<lambda>_ w'. Inv rest w')"
    and "Inv xs w" and "\<And>w'. Inv [] w' \<Longrightarrow> Q () w'"
  shows "post (for_each f xs) w Q"
  using assms(2,3)
proof (induction xs arbitrary: w)
  case (Cons x xs)
  show ?case unfolding for_each.simps post_bind
    by (rule post_mono [OF assms(1) [OF Cons.prems(1)]]) (rule Cons.IH [OF _ Cons.prems(2)])
qed simp

text \<open>A sweep: list rows, then handle them one by one; a failing list ends it with a wrapped error.\<close>

lemma post_sweep:
  assumes "\<And>e w'. same_data w w' \<Longrightarrow> Q (Inl e) w'"
    and "\<And>w1. same_data w w1 \<Longrightarrow> Inv (sel w1) w1"
    and "\<And>x rest w. Inv (x # rest) w \<Longrightarrow> post (f x) w (\<lambda>_ w'. Inv rest w')"
    and "\<And>w'. Inv [] w' \<Longrightarrow> Q (Inr ()) w'"
  shows "post (do { q \<leftarrow> query env msg sel; (case q of Inl e \<Rightarrow> State_Monad.return (Inl (Wrap m e))
    | Inr js \<Rightarrow> do { _ \<leftarrow> for_count f js; State_Monad.return (Inr ()) }) }) w Q"
proof (rule post_bindI, rule post_query)
  fix w1
  assume "same_data w w1"
  from assms(2) [OF this] have "post (for_count f (sel w1)) w1 (\<lambda>_ w'. Inv [] w')"
    by (intro post_for_count [where Inv = Inv] assms(3))
  then show "post (case Inr (sel w1) of Inl e \<Rightarrow> State_Monad.return (Inl (Wrap m e))
      | Inr js \<Rightarrow> do { _ \<leftarrow> for_count f js; State_Monad.return (Inr ()) }) w1 Q"
    using assms(4) by (auto intro!: post_bindI elim: post_mono)
qed (use assms(1) in simp)

end
