(* ===== verification/Job_Repository.thy ===== *)
theory Job_Repository
  imports Store "HOL-Library.Option_ord"
begin

text \<open>
  \<^verbatim>\<open>internal/repository/postgres/job.go\<close>: the table of jobs. Foreign keys of the schema
  (\<^verbatim>\<open>migrations/000001_initial_schema.up.sql\<close>) are checked on insert and update. Rows with equal
  sort keys keep their table order.
\<close>

section \<open>Reading\<close>

text \<open>
  Null timestamps sort first, as \<^verbatim>\<open>NULLS FIRST\<close> asks: \<open>None\<close> is the least element of an option.
  \<^verbatim>\<open>scanJob\<close> reads the thirteen columns the queries select; the verification fields keep the zero
  value of the type.
\<close>

definition scanJob :: "Job \<Rightarrow> Job" where
  "scanJob j = j \<lparr> job_VerificationStatus := VerificationNone, job_VerifiedAt := None,
     job_VerificationError := None, job_VerificationFp := None \<rparr>"

definition select_jobs :: "(Job \<Rightarrow> bool) \<Rightarrow> (Job \<Rightarrow> 'k::linorder) \<Rightarrow> Job list \<Rightarrow> Job list" where
  "select_jobs P key tbl = map scanJob (sort_key key (filter P tbl))"

definition JobRepository_List :: "env \<Rightarrow> Job list result op" where
  "JobRepository_List env =
     query env ''failed to query jobs'' (\<lambda>w. select_jobs (\<lambda>_. True) (\<lambda>j. - job_CreatedAt j) (tbl_jobs w))"

definition JobRepository_Get :: "env \<Rightarrow> string \<Rightarrow> Job result op" where
  "JobRepository_Get env i = do {
     bad \<leftarrow> db_down env;
     row \<leftarrow> gets (\<lambda>w. row_of job_ID i (tbl_jobs w));
     let scanned = (if bad then Inl (Wrap ''failed to scan job'' ErrDriver)
       else (case row of None \<Rightarrow> Inl (Wrap ''failed to scan job'' ErrNoRows) | Some j \<Rightarrow> Inr (scanJob j))) in
     State_Monad.return (case scanned of
       Inl err \<Rightarrow> if err = ErrNoRows then Inl (Wrap ''job not found'' ErrNotFound)
         else Inl (Wrap ''failed to query job'' err)
     | Inr job \<Rightarrow> Inr job) }"

definition JobRepository_ListByStatus :: "env \<Rightarrow> JobStatus \<Rightarrow> Job list result op" where
  "JobRepository_ListByStatus env status = query env ''failed to query jobs by status''
     (\<lambda>w. select_jobs (\<lambda>j. job_Status j = status) (\<lambda>j. - job_CreatedAt j) (tbl_jobs w))"

definition JobRepository_ListByCertificate :: "env \<Rightarrow> string \<Rightarrow> Job list result op" where
  "JobRepository_ListByCertificate env certID = query env ''failed to query jobs for certificate''
     (\<lambda>w. select_jobs (\<lambda>j. job_CertificateID j = certID) (\<lambda>j. - job_CreatedAt j) (tbl_jobs w))"

definition JobRepository_GetPendingJobs :: "env \<Rightarrow> JobType \<Rightarrow> Job list result op" where
  "JobRepository_GetPendingJobs env jobType = query env ''failed to query pending jobs''
     (\<lambda>w. select_jobs (\<lambda>j. job_Type j = jobType \<and> job_Status j = JobStatusPending) job_ScheduledAt (tbl_jobs w))"

definition JobRepository_ListTimedOutAwaitingJobs :: "env \<Rightarrow> time \<Rightarrow> time \<Rightarrow> Job list result op" where
  "JobRepository_ListTimedOutAwaitingJobs env csrCutoff approvalCutoff =
     query env ''failed to query timed-out awaiting jobs''
     (\<lambda>w. select_jobs (\<lambda>j. job_Status j = JobStatusAwaitingCSR \<and> job_CreatedAt j < csrCutoff \<or>
         job_Status j = JobStatusAwaitingApproval \<and> job_CreatedAt j < approvalCutoff)
       job_CreatedAt (tbl_jobs w))"

definition agent_offline :: "world \<Rightarrow> time \<Rightarrow> string option \<Rightarrow> bool" where
  "agent_offline w cutoff aid = (case aid of None \<Rightarrow> False | Some i \<Rightarrow>
     (case row_of agent_ID i (tbl_agents w) of None \<Rightarrow> False | Some a \<Rightarrow>
       (case agent_LastHeartbeatAt a of None \<Rightarrow> False | Some t \<Rightarrow> t < cutoff)))"

definition JobRepository_ListJobsWithOfflineAgents :: "env \<Rightarrow> time \<Rightarrow> Job list result op" where
  "JobRepository_ListJobsWithOfflineAgents env agentCutoff = query env ''failed to query jobs with offline agents''
     (\<lambda>w. select_jobs (\<lambda>j. job_Status j = JobStatusRunning \<and> agent_offline w agentCutoff (job_AgentID j))
        job_StartedAt (tbl_jobs w))"

section \<open>Writing\<close>

definition fk_ok :: "('r \<Rightarrow> string) \<Rightarrow> 'r list \<Rightarrow> string option \<Rightarrow> bool" where
  "fk_ok key tbl i = (case i of None \<Rightarrow> True | Some k \<Rightarrow> has_key key k tbl)"

definition job_fks :: "world \<Rightarrow> Job \<Rightarrow> bool" where
  "job_fks w j = (has_key cert_ID (job_CertificateID j) (tbl_certs w) \<and>
     fk_ok target_ID (tbl_targets w) (job_TargetID j) \<and> fk_ok agent_ID (tbl_agents w) (job_AgentID j))"

text \<open>
  An insert writes the thirteen columns; the verification columns take their defaults. The
  identifier of the stored job is returned, because the code writes it back into its argument.
\<close>

definition JobRepository_Create :: "env \<Rightarrow> Job \<Rightarrow> string result op" where
  "JobRepository_Create env job = do {
     i \<leftarrow> (if job_ID job = '''' then new_uuid env else State_Monad.return (job_ID job));
     let row = (scanJob job) \<lparr> job_ID := i, job_VerificationStatus := VerificationPending \<rparr> in do {
     r \<leftarrow> insert_row env ''failed to create job''
       (\<lambda>w. \<not> has_key job_ID i (tbl_jobs w) \<and> job_fks w row) (tbl_jobs_update (\<lambda>t. t @ [row]));
     State_Monad.return (case r of Inl e \<Rightarrow> Inl e | Inr _ \<Rightarrow> Inr i) } }"

definition job_columns :: "Job \<Rightarrow> Job \<Rightarrow> Job" where
  "job_columns job row = row \<lparr> job_Type := job_Type job, job_CertificateID := job_CertificateID job,
     job_TargetID := job_TargetID job, job_AgentID := job_AgentID job, job_Status := job_Status job,
     job_Attempts := job_Attempts job, job_MaxAttempts := job_MaxAttempts job,
     job_LastError := job_LastError job, job_ScheduledAt := job_ScheduledAt job,
     job_StartedAt := job_StartedAt job, job_CompletedAt := job_CompletedAt job \<rparr>"

definition rows_result :: "string \<Rightarrow> nat result \<Rightarrow> unit result" where
  "rows_result msg r = (case r of Inl e \<Rightarrow> Inl e | Inr rows \<Rightarrow>
     if rows = 0 then Inl (Wrap msg ErrNotFound) else Inr ())"

definition count_rows :: "('r \<Rightarrow> bool) \<Rightarrow> 'r list \<Rightarrow> nat" where
  "count_rows P tbl = length (filter P tbl)"

definition JobRepository_Update :: "env \<Rightarrow> Job \<Rightarrow> unit result op" where
  "JobRepository_Update env job = do {
     fks \<leftarrow> gets (\<lambda>w. has_key job_ID (job_ID job) (tbl_jobs w) \<longrightarrow> job_fks w job);
     if \<not> fks then State_Monad.return (Inl (Wrap ''failed to update job'' ErrConstraint))
     else do {
       r \<leftarrow> exec env ''failed to update job''
         (\<lambda>w. count_rows (\<lambda>j. job_ID j = job_ID job) (tbl_jobs w))
         (tbl_jobs_update (update_row job_ID (job_ID job) (job_columns job)));
       State_Monad.return (rows_result ''job not found'' r) } }"

definition JobRepository_Delete :: "env \<Rightarrow> string \<Rightarrow> unit result op" where
  "JobRepository_Delete env i = do {
     r \<leftarrow> exec env ''failed to delete job''
       (\<lambda>w. count_rows (\<lambda>j. job_ID j = i) (tbl_jobs w))
       (tbl_jobs_update (filter (\<lambda>j. job_ID j \<noteq> i)) \<circ>
        tbl_approvals_update (filter (\<lambda>a. ar_JobID a \<noteq> i)));
     State_Monad.return (rows_result ''job not found'' r) }"

definition null_if_empty :: "string \<Rightarrow> string option" where
  "null_if_empty s = (if s = '''' then None else Some s)"

definition set_status :: "JobStatus \<Rightarrow> string \<Rightarrow> time \<Rightarrow> Job \<Rightarrow> Job" where
  "set_status status errMsg t j =
     (if job_terminal status
      then j \<lparr> job_Status := status, job_LastError := null_if_empty errMsg, job_CompletedAt := Some t \<rparr>
      else j \<lparr> job_Status := status, job_LastError := null_if_empty errMsg \<rparr>)"

definition JobRepository_UpdateStatus :: "env \<Rightarrow> string \<Rightarrow> JobStatus \<Rightarrow> string \<Rightarrow> unit result op" where
  "JobRepository_UpdateStatus env i status errMsg = do {
     t \<leftarrow> now env;
     r \<leftarrow> exec env ''failed to update job status''
       (\<lambda>w. count_rows (\<lambda>j. job_ID j = i) (tbl_jobs w))
       (tbl_jobs_update (update_row job_ID i (set_status status errMsg t)));
     State_Monad.return (rows_result ''job not found'' r) }"

section \<open>Claiming\<close>

definition target_has_agent :: "world \<Rightarrow> string option \<Rightarrow> bool" where
  "target_has_agent w tid = (case tid of None \<Rightarrow> False | Some i \<Rightarrow> has_key target_ID i (tbl_targets w))"

definition claimable :: "world \<Rightarrow> JobType option \<Rightarrow> Job \<Rightarrow> bool" where
  "claimable w jobType j = (job_Status j = JobStatusPending \<and>
     \<not> (job_Type j = JobTypeDeployment \<and> (job_AgentID j \<noteq> None \<or> target_has_agent w (job_TargetID j))) \<and>
     (case jobType of None \<Rightarrow> True | Some t \<Rightarrow> job_Type j = t))"

definition claim_row :: "time \<Rightarrow> Job \<Rightarrow> Job" where
  "claim_row t j = j \<lparr> job_Status := JobStatusRunning, job_Attempts := job_Attempts j + 1, job_StartedAt := Some t \<rparr>"

definition claim_rows :: "string list \<Rightarrow> time \<Rightarrow> Job list \<Rightarrow> Job list" where
  "claim_rows ids t tbl = map (\<lambda>j. if job_ID j \<in> set ids then claim_row t j else j) tbl"

definition claim_limit :: "int \<Rightarrow> 'a list \<Rightarrow> 'a list" where
  "claim_limit limit xs = (if limit > 0 then take (nat limit) xs else xs)"

definition claim_jobs :: "env \<Rightarrow> string \<Rightarrow> Job list \<Rightarrow> unit result op" where
  "claim_jobs env msg js = (if js = [] then State_Monad.return (Inr ())
     else do {
       t \<leftarrow> now env;
       insert_row env msg (\<lambda>_. True)
         (tbl_jobs_update (claim_rows (map job_ID js) t)) })"

definition JobRepository_ClaimPendingJobs :: "env \<Rightarrow> JobType option \<Rightarrow> int \<Rightarrow> Job list result op" where
  "JobRepository_ClaimPendingJobs env jobType limit = tx_with env ''failed to begin claim transaction''
     (\<lambda>js. if js = [] then ''failed to commit empty claim tx'' else ''failed to commit claim transaction'') False (do {
     q \<leftarrow> query env ''failed to query claimable jobs''
       (\<lambda>w. claim_limit limit (select_jobs (claimable w jobType) job_ScheduledAt (tbl_jobs w)));
     (case q of
        Inl e \<Rightarrow> State_Monad.return (Inl e)
      | Inr js \<Rightarrow> do {
          r \<leftarrow> claim_jobs env ''failed to transition claimed jobs to Running'' js;
          State_Monad.return (case r of Inl e \<Rightarrow> Inl e
            | Inr _ \<Rightarrow> Inr (map (job_Status_update (\<lambda>_. JobStatusRunning)) js)) }) })"

definition target_agent :: "world \<Rightarrow> string \<Rightarrow> string option \<Rightarrow> bool" where
  "target_agent w agentID tid = (case tid of None \<Rightarrow> False | Some i \<Rightarrow>
     (case row_of target_ID i (tbl_targets w) of None \<Rightarrow> False | Some t \<Rightarrow> target_AgentID t = agentID))"

definition pending_direct :: "string \<Rightarrow> Job \<Rightarrow> bool" where
  "pending_direct agentID j =
     (job_AgentID j = Some agentID \<and> job_Status j = JobStatusPending \<and> job_Type j = JobTypeDeployment)"

definition pending_fallback :: "world \<Rightarrow> string \<Rightarrow> Job \<Rightarrow> bool" where
  "pending_fallback w agentID j =
     (job_AgentID j = None \<and> job_Status j = JobStatusPending \<and> job_Type j = JobTypeDeployment \<and>
      target_agent w agentID (job_TargetID j))"

definition awaiting_csr_for :: "world \<Rightarrow> string \<Rightarrow> Job \<Rightarrow> bool" where
  "awaiting_csr_for w agentID j =
     (job_Status j = JobStatusAwaitingCSR \<and> job_Type j \<in> {JobTypeRenewal, JobTypeIssuance} \<and>
      list_ex (\<lambda>(c, t). c = job_CertificateID j \<and> target_agent w agentID (Some t)) (tbl_mappings w))"

definition JobRepository_ListPendingByAgentID :: "env \<Rightarrow> string \<Rightarrow> Job list result op" where
  "JobRepository_ListPendingByAgentID env agentID = query env ''failed to query pending jobs for agent''
     (\<lambda>w. map scanJob (sort_key job_CreatedAt
        (filter (pending_direct agentID) (tbl_jobs w) @ filter (pending_fallback w agentID) (tbl_jobs w) @
         filter (awaiting_csr_for w agentID) (tbl_jobs w))))"

definition JobRepository_ClaimPendingByAgentID :: "env \<Rightarrow> string \<Rightarrow> Job list result op" where
  "JobRepository_ClaimPendingByAgentID env agentID = tx_with env ''failed to begin agent claim transaction''
     (\<lambda>_. ''failed to commit agent claim transaction'') False (do {
     q1 \<leftarrow> query env ''failed to query pending deployment jobs for agent (direct)''
       (\<lambda>w. select_jobs (pending_direct agentID) job_CreatedAt (tbl_jobs w));
     (case q1 of Inl e \<Rightarrow> State_Monad.return (Inl e) | Inr direct \<Rightarrow> do {
     q2 \<leftarrow> query env ''failed to query pending deployment jobs for agent (fallback)''
       (\<lambda>w. select_jobs (pending_fallback w agentID) job_CreatedAt (tbl_jobs w));
     (case q2 of Inl e \<Rightarrow> State_Monad.return (Inl e) | Inr fallback \<Rightarrow> do {
     q3 \<leftarrow> query env ''failed to query AwaitingCSR jobs for agent''
       (\<lambda>w. select_jobs (awaiting_csr_for w agentID) job_CreatedAt (tbl_jobs w));
     (case q3 of Inl e \<Rightarrow> State_Monad.return (Inl e) | Inr csrJobs \<Rightarrow> do {
     r \<leftarrow> claim_jobs env ''failed to transition claimed deployment jobs to Running'' (direct @ fallback);
     State_Monad.return (case r of Inl e \<Rightarrow> Inl e
       | Inr _ \<Rightarrow> Inr (map (job_Status_update (\<lambda>_. JobStatusRunning)) (direct @ fallback) @ csrJobs)) }) }) }) })"

lemmas job_repo_defs = JobRepository_List_def JobRepository_Get_def JobRepository_ListByStatus_def
  JobRepository_ListByCertificate_def JobRepository_GetPendingJobs_def JobRepository_ListTimedOutAwaitingJobs_def
  JobRepository_ListJobsWithOfflineAgents_def JobRepository_Create_def JobRepository_Update_def
  JobRepository_UpdateStatus_def JobRepository_ClaimPendingJobs_def JobRepository_ClaimPendingByAgentID_def
  scanJob_def select_jobs_def claim_jobs_def claim_rows_def claim_row_def claim_limit_def claimable_def job_columns_def
  rows_result_def count_rows_def set_status_def job_terminal_def null_if_empty_def update_row_def row_of_def
  has_key_def fk_ok_def job_fks_def target_has_agent_def

section \<open>Frames\<close>

context table_view
begin

lemma keeps_JobRepository_reads:
  "state_io_rel R (JobRepository_List env)" "state_io_rel R (JobRepository_Get env i)"
  "state_io_rel R (JobRepository_ListByStatus env st)" "state_io_rel R (JobRepository_ListByCertificate env c)"
  "state_io_rel R (JobRepository_GetPendingJobs env ty)"
  "state_io_rel R (JobRepository_ListTimedOutAwaitingJobs env t1 t2)"
  "state_io_rel R (JobRepository_ListJobsWithOfflineAgents env t)"
  "state_io_rel R (JobRepository_ListPendingByAgentID env a)"
  unfolding JobRepository_List_def JobRepository_Get_def JobRepository_ListByStatus_def
    JobRepository_ListByCertificate_def JobRepository_GetPendingJobs_def
    JobRepository_ListTimedOutAwaitingJobs_def JobRepository_ListJobsWithOfflineAgents_def
    JobRepository_ListPendingByAgentID_def
  by (intro keeps_prims)+

lemma keeps_job_writes:
  assumes p: "\<And>f w. proj (tbl_jobs_update f w) = proj w"
  shows "state_io_rel R (JobRepository_Create env j)" "state_io_rel R (JobRepository_Update env j)"
    "state_io_rel R (JobRepository_UpdateStatus env i st m)"
    "state_io_rel R (JobRepository_ClaimPendingJobs env ty n)"
    "state_io_rel R (JobRepository_ClaimPendingByAgentID env a)"
  unfolding JobRepository_Create_def JobRepository_Update_def JobRepository_UpdateStatus_def
    JobRepository_ClaimPendingJobs_def JobRepository_ClaimPendingByAgentID_def claim_jobs_def
  by (intro keeps_prims keeps_insert keeps_exec same_proj p)+

end

section \<open>Postconditions\<close>

lemma scanJob_simps [simp]:
  "job_ID (scanJob j) = job_ID j" "job_Type (scanJob j) = job_Type j" "job_Status (scanJob j) = job_Status j"
  "job_CertificateID (scanJob j) = job_CertificateID j" "job_TargetID (scanJob j) = job_TargetID j"
  "job_AgentID (scanJob j) = job_AgentID j" "job_Attempts (scanJob j) = job_Attempts j"
  "job_MaxAttempts (scanJob j) = job_MaxAttempts j" "job_StartedAt (scanJob j) = job_StartedAt j"
  "job_CreatedAt (scanJob j) = job_CreatedAt j" "job_ScheduledAt (scanJob j) = job_ScheduledAt j"
  "job_LastError (scanJob j) = job_LastError j" "job_CompletedAt (scanJob j) = job_CompletedAt j"
  by (simp_all add: scanJob_def)

lemma scanJob_idem [simp]: "scanJob (scanJob j) = scanJob j"
  by (simp add: scanJob_def)

lemma set_status_simps [simp]:
  "job_ID (set_status st m t j) = job_ID j" "job_Status (set_status st m t j) = st"
  by (simp_all add: set_status_def)

lemma job_columns_simps [simp]:
  "job_ID (job_columns k j) = job_ID j" "job_Status (job_columns k j) = job_Status k"
  by (simp_all add: job_columns_def)

lemma claim_row_simps [simp]:
  "job_ID (claim_row t j) = job_ID j" "job_Status (claim_row t j) = JobStatusRunning"
  "job_Attempts (claim_row t j) = job_Attempts j + 1"
  by (simp_all add: claim_row_def)

lemma count_rows_pos: "0 < count_rows (\<lambda>r. key r = k) tbl \<longleftrightarrow> has_key key k tbl"
  by (auto simp: count_rows_def has_key_iff filter_empty_conv)

lemma post_JobGet [vcg]:
  assumes "\<And>e w'. same_data w w' \<Longrightarrow> Q (Inl e) w'"
    and "\<And>j w'. same_data w w' \<Longrightarrow> row_of job_ID i (tbl_jobs w) = Some j \<Longrightarrow> Q (Inr (scanJob j)) w'"
  shows "post (JobRepository_Get env i) w Q"
  unfolding JobRepository_Get_def post_bind
  by (rule post_db_down) (use assms in \<open>auto simp: post_bind same_dataD split: option.splits\<close>)

lemma post_UpdateStatus [vcg]:
  assumes "\<And>e w'. same_data w w' \<Longrightarrow> Q (Inl e) w'"
    and "\<And>r t w1 w'. same_data w w1 \<Longrightarrow>
      same_data (tbl_jobs_update (update_row job_ID i (set_status st m t)) w1) w' \<Longrightarrow>
      (r = Inr () \<Longrightarrow> has_key job_ID i (tbl_jobs w)) \<Longrightarrow> Q r w'"
  shows "post (JobRepository_UpdateStatus env i st m) w Q"
  unfolding JobRepository_UpdateStatus_def post_bind
proof (rule post_now, rule post_exec)
  fix t w1 e w2
  assume "same_data w w1" "same_data w1 w2"
  then have "same_data w w2" by (rule same.frame_trans)
  then show "post (State_Monad.return (rows_result ''job not found'' (Inl e))) w2 Q"
    using assms(1) by (simp add: rows_result_def)
next
  fix t w1 and r :: "nat result" and w2 w3
  assume a: "same_data w w1" "same_data w1 w2"
    "same_data (tbl_jobs_update (update_row job_ID i (set_status st m t)) w2) w3"
    "r = Inr (count_rows (\<lambda>j. job_ID j = i) (tbl_jobs w2)) \<or> (\<exists>e. r = Inl e)"
  have w2: "same_data w w2" using a(1,2) by (rule same.frame_trans)
  have "rows_result ''job not found'' r = Inr () \<Longrightarrow> has_key job_ID i (tbl_jobs w)"
    using a(4) same_dataD(1) [OF w2] count_rows_pos [of job_ID i "tbl_jobs w"]
    by (auto simp: rows_result_def split: if_splits)
  with assms(2) [OF w2 a(3)]
  show "post (State_Monad.return (rows_result ''job not found'' r)) w3 Q" by simp
qed

lemma post_JobUpdate [vcg]:
  assumes "\<And>e w'. same_data w w' \<Longrightarrow> Q (Inl e) w'"
    and "\<And>r w1 w'. same_data w w1 \<Longrightarrow>
      same_data (tbl_jobs_update (update_row job_ID (job_ID k) (job_columns k)) w1) w' \<Longrightarrow> Q r w'"
  shows "post (JobRepository_Update env k) w Q"
  unfolding JobRepository_Update_def post_bind post_gets
proof (rule post_if, simp add: assms(1) [OF same.frame_refl], unfold post_bind, rule post_exec)
qed (use assms in \<open>auto simp: rows_result_def\<close>)

lemma select_jobs_set [simp]: "set (select_jobs P key tbl) = scanJob ` {j \<in> set tbl. P j}"
  by (auto simp: select_jobs_def)

lemma select_jobs_ids:
  assumes "distinct (map job_ID tbl)"
  shows "distinct (map job_ID (select_jobs P key tbl))"
proof -
  have "map job_ID (select_jobs P key tbl) = map job_ID (sort_key key (filter P tbl))"
    by (simp add: select_jobs_def comp_def)
  moreover have "distinct (map job_ID (filter P tbl))" using assms by (rule distinct_map_filter)
  ultimately show ?thesis by (simp add: distinct_map)
qed

end
