(* ===== verification/Approval_Repository.thy ===== *)
theory Approval_Repository
  imports Job_Repository
begin

text \<open>
  \<^verbatim>\<open>internal/repository/postgres/approval.go\<close>: the table of approval requests, with the partial
  unique index on the job of a pending request, the check constraints and the foreign keys of
  migrations 000027 and 000033. An empty certificate or job identifier is stored as null, which no
  unique index and no foreign key looks at.
\<close>

definition scanApprovalRow :: "bool \<Rightarrow> ApprovalRequest option \<Rightarrow> ApprovalRequest result" where
  "scanApprovalRow bad row =
     (if bad then Inl (Wrap ''scan approval row'' ErrDriver)
      else (case row of None \<Rightarrow> Inl ErrNotFound | Some r \<Rightarrow> Inr r))"

definition pending_clash :: "ApprovalRequest list \<Rightarrow> ApprovalRequest \<Rightarrow> bool" where
  "pending_clash tbl r = (ar_State r = ApprovalStatePending \<and> ar_JobID r \<noteq> '''' \<and>
     list_ex (\<lambda>a. ar_JobID a = ar_JobID r \<and> ar_State a = ApprovalStatePending) tbl)"

definition approval_checks :: "ApprovalRequest \<Rightarrow> bool" where
  "approval_checks r =
     ((ar_State r = ApprovalStatePending \<and> ar_DecidedBy r = None \<and> ar_DecidedAt r = None \<or>
       IsTerminal (ar_State r) \<and> ar_DecidedAt r \<noteq> None) \<and>
      (ar_Kind r = ApprovalKindCertIssuance \<and> ar_CertificateID r \<noteq> '''' \<and> ar_JobID r \<noteq> '''' \<or>
       ar_Kind r = ApprovalKindProfileEdit \<and> ar_Payload r \<noteq> NoPayload))"

definition approval_fks :: "world \<Rightarrow> ApprovalRequest \<Rightarrow> bool" where
  "approval_fks w r =
     (fk_ok cert_ID (tbl_certs w) (null_if_empty (ar_CertificateID r)) \<and>
      fk_ok job_ID (tbl_jobs w) (null_if_empty (ar_JobID r)) \<and>
      has_key prof_ID (ar_ProfileID r) (tbl_profiles w))"

text \<open>
  The identifier, state and time stamps the code fills in are part of the stored row, which is
  returned because the code writes them back into its argument.
\<close>

definition ApprovalRepository_Create :: "env \<Rightarrow> ApprovalRequest \<Rightarrow> ApprovalRequest result op" where
  "ApprovalRepository_Create env req = do {
     i \<leftarrow> (if ar_ID req = '''' then do { u \<leftarrow> new_uuid env; State_Monad.return (''ar-'' @ u) }
           else State_Monad.return (ar_ID req));
     let st = (if ar_State req = ApprovalStateNone then ApprovalStatePending else ar_State req) in
     if \<not> IsValidApprovalState st then State_Monad.return (Inl (Errorf ''invalid approval state''))
     else do {
       t \<leftarrow> now env;
       let kind = (if ar_Kind req = ApprovalKindNone then ApprovalKindCertIssuance else ar_Kind req) in
       if \<not> IsValidApprovalKind kind then State_Monad.return (Inl (Errorf ''invalid approval kind''))
       else (let row = req \<lparr> ar_ID := i, ar_State := st, ar_Kind := kind,
                 ar_CreatedAt := (if ar_CreatedAt req = zero_time then t else ar_CreatedAt req),
                 ar_UpdatedAt := (if ar_UpdatedAt req = zero_time then t else ar_UpdatedAt req) \<rparr> in do {
         bad \<leftarrow> db_down env;
         w \<leftarrow> State_Monad.get;
         if bad then State_Monad.return (Inl (Wrap ''insert approval request'' ErrDriver))
         else if has_key ar_ID i (tbl_approvals w) \<or> pending_clash (tbl_approvals w) row
         then State_Monad.return (Inl ErrAlreadyExists)
         else if \<not> approval_checks row \<or> \<not> approval_fks w row
         then State_Monad.return (Inl (Wrap ''insert approval request'' ErrConstraint))
         else do {
           _ \<leftarrow> modify (tbl_approvals_update (\<lambda>t. t @ [row]));
           State_Monad.return (Inr row) } }) } }"

definition ApprovalRepository_Get :: "env \<Rightarrow> string \<Rightarrow> ApprovalRequest result op" where
  "ApprovalRepository_Get env i = do {
     bad \<leftarrow> db_down env;
     row \<leftarrow> gets (\<lambda>w. row_of ar_ID i (tbl_approvals w));
     State_Monad.return (scanApprovalRow bad row) }"

definition ApprovalRepository_GetByJobID :: "env \<Rightarrow> string \<Rightarrow> ApprovalRequest result op" where
  "ApprovalRepository_GetByJobID env jobID = do {
     bad \<leftarrow> db_down env;
     rows \<leftarrow> gets (\<lambda>w. sort_key (\<lambda>a. - ar_CreatedAt a)
       (filter (\<lambda>a. ar_JobID a = jobID \<and> ar_JobID a \<noteq> '''') (tbl_approvals w)));
     State_Monad.return (scanApprovalRow bad (case rows of [] \<Rightarrow> None | r # _ \<Rightarrow> Some r)) }"

record ApprovalFilter =
  af_State :: "ApprovalState option"
  af_CertificateID :: string
  af_RequestedBy :: string
  af_Page :: int
  af_PerPage :: int

definition approval_match :: "ApprovalFilter \<Rightarrow> ApprovalRequest \<Rightarrow> bool" where
  "approval_match f a =
     ((case af_State f of None \<Rightarrow> True | Some s \<Rightarrow> ar_State a = s) \<and>
      (af_CertificateID f \<noteq> '''' \<longrightarrow> ar_CertificateID a = af_CertificateID f) \<and>
      (af_RequestedBy f \<noteq> '''' \<longrightarrow> ar_RequestedBy a = af_RequestedBy f))"

text \<open>
  A query with \<^verbatim>\<open>LIMIT\<close> and \<^verbatim>\<open>OFFSET\<close>: the offset is computed in 64-bit arithmetic and the database refuses a negative bound.
\<close>

definition page_slice :: "int \<Rightarrow> int \<Rightarrow> 'a list \<Rightarrow> 'a list" where
  "page_slice page perPage xs = take (nat perPage) (drop (nat (int64 ((page - 1) * perPage))) xs)"

definition query_page :: "env \<Rightarrow> string \<Rightarrow> int \<Rightarrow> int \<Rightarrow> (world \<Rightarrow> 'a list) \<Rightarrow> 'a list result op" where
  "query_page env msg page perPage f =
     (if perPage < 0 then State_Monad.return (Inl (Wrap msg (Errorf ''LIMIT must not be negative'')))
      else if int64 ((page - 1) * perPage) < 0 then State_Monad.return (Inl (Wrap msg (Errorf ''OFFSET must not be negative'')))
      else query env msg (\<lambda>w. page_slice page perPage (f w)))"

definition ApprovalRepository_List :: "env \<Rightarrow> ApprovalFilter \<Rightarrow> ApprovalRequest list result op" where
  "ApprovalRepository_List env f =
     (let page = (if af_Page f < 1 then 1 else af_Page f);
          perPage = (if af_PerPage f < 1 \<or> af_PerPage f > 500 then 50 else af_PerPage f)
      in query_page env ''list approval requests'' page perPage
        (\<lambda>w. sort_key (\<lambda>a. - ar_CreatedAt a) (filter (approval_match f) (tbl_approvals w))))"

definition decide :: "ApprovalState \<Rightarrow> string \<Rightarrow> time \<Rightarrow> string \<Rightarrow> time \<Rightarrow> ApprovalRequest \<Rightarrow> ApprovalRequest" where
  "decide st decidedBy decidedAt note t a =
     (if ar_State a = ApprovalStatePending
      then a \<lparr> ar_State := st, ar_DecidedBy := Some decidedBy, ar_DecidedAt := Some decidedAt,
               ar_DecisionNote := null_if_empty note, ar_UpdatedAt := t \<rparr>
      else a)"

definition ApprovalRepository_UpdateState ::
  "env \<Rightarrow> string \<Rightarrow> ApprovalState \<Rightarrow> string \<Rightarrow> time \<Rightarrow> string \<Rightarrow> unit result op" where
  "ApprovalRepository_UpdateState env i st decidedBy decidedAt note =
     (if \<not> IsValidApprovalState st then State_Monad.return (Inl (Errorf ''invalid approval state''))
      else if \<not> IsTerminal st then State_Monad.return (Inl (Errorf ''UpdateState only accepts terminal states''))
      else do {
        t \<leftarrow> now env;
        res \<leftarrow> exec env ''update approval state''
          (\<lambda>w. count_rows (\<lambda>a. ar_ID a = i \<and> ar_State a = ApprovalStatePending) (tbl_approvals w))
          (tbl_approvals_update (update_row ar_ID i (decide st decidedBy decidedAt note t)));
        (case res of
           Inl e \<Rightarrow> State_Monad.return (Inl e)
         | Inr n \<Rightarrow>
             if n = 0 then do {
               existing \<leftarrow> ApprovalRepository_Get env i;
               State_Monad.return (case existing of
                 Inl e \<Rightarrow> Inl e
               | Inr r \<Rightarrow> if IsTerminal (ar_State r) then Inl ErrAlreadyExists else Inl ErrNotFound) }
             else State_Monad.return (Inr ())) })"

definition stale :: "time \<Rightarrow> ApprovalRequest \<Rightarrow> bool" where
  "stale before a = (ar_State a = ApprovalStatePending \<and> ar_CreatedAt a \<le> before)"

definition expire_note :: string where
  "expire_note = ''auto-expired by scheduler reaper at CERTCTL_JOB_AWAITING_APPROVAL_TIMEOUT''"

definition ApprovalRepository_ExpireStale :: "env \<Rightarrow> time \<Rightarrow> nat result op" where
  "ApprovalRepository_ExpireStale env before = do {
     t \<leftarrow> now env;
     exec env ''expire stale approvals''
       (\<lambda>w. count_rows (stale before) (tbl_approvals w))
       (tbl_approvals_update (map (\<lambda>a. if stale before a
          then decide ApprovalStateExpired ''system-reaper'' t expire_note t a else a))) }"

section \<open>Invariants of the table\<close>

text \<open>
  Identifiers are distinct, no two pending requests share a job, and every row satisfies the check
  constraints. The repository operations keep this; a terminal row never changes.
\<close>

definition approvals_ok :: "ApprovalRequest list \<Rightarrow> bool" where
  "approvals_ok tbl = (distinct (map ar_ID tbl) \<and>
     distinct (map ar_JobID (filter (\<lambda>a. ar_State a = ApprovalStatePending \<and> ar_JobID a \<noteq> '''') tbl)) \<and>
     list_all approval_checks tbl)"

lemma decide_id [simp]: "ar_ID (decide st b t n t' a) = ar_ID a" "ar_JobID (decide st b t n t' a) = ar_JobID a"
  "ar_Kind (decide st b t n t' a) = ar_Kind a" "ar_RequestedBy (decide st b t n t' a) = ar_RequestedBy a"
  "ar_CertificateID (decide st b t n t' a) = ar_CertificateID a" "ar_Payload (decide st b t n t' a) = ar_Payload a"
  "ar_CreatedAt (decide st b t n t' a) = ar_CreatedAt a"
  by (auto simp: decide_def)

lemma decide_checks: "IsTerminal st \<Longrightarrow> approval_checks a \<Longrightarrow> approval_checks (decide st b t n t' a)"
  by (auto simp: approval_checks_def decide_def IsTerminal_def split: ApprovalState.splits)

lemma terminal_not_pending: "IsTerminal st \<Longrightarrow> st \<noteq> ApprovalStatePending"
  by (auto simp: IsTerminal_def)

lemma approvals_ok_map:
  assumes ok: "approvals_ok tbl" and f: "\<And>a. f a = a \<or> (\<exists>st b t n t'. IsTerminal st \<and> f a = decide st b t n t' a)"
  shows "approvals_ok (map f tbl)"
proof -
  have id: "ar_ID (f a) = ar_ID a" "ar_JobID (f a) = ar_JobID a" for a
    using f [of a] by auto
  have pend: "ar_State (f a) = ApprovalStatePending \<Longrightarrow> ar_State a = ApprovalStatePending" for a
    using f [of a] by (auto simp: decide_def terminal_not_pending split: if_splits)
  have chk: "approval_checks a \<Longrightarrow> approval_checks (f a)" for a
    using f [of a] decide_checks by auto
  have "distinct (map ar_JobID (filter (\<lambda>a. ar_State a = ApprovalStatePending \<and> ar_JobID a \<noteq> '''') (map f tbl)))"
    if "distinct (map ar_JobID (filter (\<lambda>a. ar_State a = ApprovalStatePending \<and> ar_JobID a \<noteq> '''') tbl))"
    using that by (induction tbl) (auto simp: id image_iff split: if_splits dest: pend)
  moreover have "map ar_ID (map f tbl) = map ar_ID tbl" by (simp add: id)
  moreover have "list_all approval_checks tbl \<Longrightarrow> list_all approval_checks (map f tbl)"
    using chk by (simp add: list_all_iff)
  ultimately show ?thesis using ok unfolding approvals_ok_def by metis
qed

lemma approvals_ok_insert:
  assumes "approvals_ok tbl" "\<not> has_key ar_ID (ar_ID r) tbl" "\<not> pending_clash tbl r" "approval_checks r"
  shows "approvals_ok (tbl @ [r])"
  using assms by (auto simp: approvals_ok_def has_key_iff pending_clash_def list_ex_iff)

section \<open>Postconditions\<close>

lemma post_ApprovalGet [vcg]:
  assumes "\<And>e w'. same_data w w' \<Longrightarrow> Q (Inl e) w'"
    and "\<And>a w'. same_data w w' \<Longrightarrow> row_of ar_ID i (tbl_approvals w) = Some a \<Longrightarrow> Q (Inr a) w'"
  shows "post (ApprovalRepository_Get env i) w Q"
  unfolding ApprovalRepository_Get_def post_bind
  by (rule post_db_down) (use assms in \<open>auto simp: post_bind same_dataD scanApprovalRow_def split: option.splits\<close>)

definition has_pending :: "string \<Rightarrow> ApprovalRequest list \<Rightarrow> bool" where
  "has_pending i tbl = list_ex (\<lambda>a. ar_ID a = i \<and> ar_State a = ApprovalStatePending) tbl"

lemma post_UpdateState [vcg]:
  assumes "\<And>e w'. same_data w w' \<Longrightarrow> Q (Inl e) w'"
    and "\<And>r t w1 w'. same_data w w1 \<Longrightarrow>
      same_data (tbl_approvals_update (update_row ar_ID i (decide st by' at' note t)) w1) w' \<Longrightarrow> IsTerminal st \<Longrightarrow>
      (r = Inr () \<Longrightarrow> has_pending i (tbl_approvals w)) \<Longrightarrow> Q r w'"
  shows "post (ApprovalRepository_UpdateState env i st by' at' note) w Q"
proof -
  let ?dec = "\<lambda>t. tbl_approvals_update (update_row ar_ID i (decide st by' at' note t))"
  have err: "Q (Inl e) w'" if "same_data w w1" "same_data (?dec t w1) w2" "same_data w2 w'" "IsTerminal st" for e w1 w2 w' t
    by (rule assms(2) [OF that(1) same.frame_trans [OF that(2,3)] that(4)]) simp
  have ok: "Q (Inr ()) w'" if "same_data w w0" "same_data w0 w1" "same_data (?dec t w1) w'" "IsTerminal st"
      "0 < count_rows (\<lambda>a. ar_ID a = i \<and> ar_State a = ApprovalStatePending) (tbl_approvals w1)" for w0 w1 w' t
  proof (rule assms(2) [OF same.frame_trans [OF that(1,2)] that(3,4)])
    show "has_pending i (tbl_approvals w)"
      using that same_dataD(2) [OF same.frame_trans [OF that(1,2)]] by (auto simp: has_pending_def list_ex_iff count_rows_def filter_empty_conv)
  qed
  show ?thesis unfolding ApprovalRepository_UpdateState_def
    by (intro vcg) (auto intro: assms(1) same.frame_refl same.frame_trans ok err)
qed

text \<open>The row a successful \<^verbatim>\<open>Create\<close> stores for a request, and the constraints it has passed.\<close>

definition created_row :: "ApprovalRequest list \<Rightarrow> ApprovalRequest \<Rightarrow> ApprovalRequest \<Rightarrow> bool" where
  "created_row tbl req row = (\<not> has_key ar_ID (ar_ID row) tbl \<and> \<not> pending_clash tbl row \<and> approval_checks row \<and>
     (\<exists>i c u. row = req \<lparr> ar_ID := i,
        ar_State := (if ar_State req = ApprovalStateNone then ApprovalStatePending else ar_State req),
        ar_Kind := (if ar_Kind req = ApprovalKindNone then ApprovalKindCertIssuance else ar_Kind req),
        ar_CreatedAt := c, ar_UpdatedAt := u \<rparr>))"

lemma post_ApprovalCreate [vcg]:
  assumes "\<And>e w'. same_data w w' \<Longrightarrow> Q (Inl e) w'"
    and "\<And>row w'. same_data w w' \<Longrightarrow> created_row (tbl_approvals w) req row \<Longrightarrow>
      Q (Inr row) (tbl_approvals_update (\<lambda>t. t @ [row]) w')"
  shows "post (ApprovalRepository_Create env req) w Q"
proof -
  have get: "post State_Monad.get v P" if "P v v" for v P
    using that by (simp add: post_def State_Monad.get_def)
  have i: "post (if ar_ID req = '''' then do { u \<leftarrow> new_uuid env; State_Monad.return (''ar-'' @ u) }
      else State_Monad.return (ar_ID req)) w (\<lambda>i w'. same_data w w')"
    by (intro vcg) (auto intro: same.frame_refl)
  have err: "Q (Inl e) w2" if "same_data w w0" "same_data w0 w1" "same_data w1 w2" for e w0 w1 w2
    using that by (intro assms(1)) (blast intro: same.frame_trans)
  show ?thesis unfolding ApprovalRepository_Create_def post_bind [of "if _ then _ else _"]
  proof (rule post_mono [OF i], intro vcg get)
    fix i w0 st t w1 k row b w2
    assume a: "same_data w w0" "same_data w0 w1" "same_data w1 w2" and
      st: "st = (if ar_State req = ApprovalStateNone then ApprovalStatePending else ar_State req)" and
      k: "k = (if ar_Kind req = ApprovalKindNone then ApprovalKindCertIssuance else ar_Kind req)" and
      row: "row = req \<lparr> ar_ID := i, ar_State := st, ar_Kind := k,
         ar_CreatedAt := (if ar_CreatedAt req = zero_time then t else ar_CreatedAt req),
         ar_UpdatedAt := (if ar_UpdatedAt req = zero_time then t else ar_UpdatedAt req) \<rparr>" and
      c: "\<not> (has_key ar_ID i (tbl_approvals w2) \<or> pending_clash (tbl_approvals w2) row)"
      "\<not> (\<not> approval_checks row \<or> \<not> approval_fks w2 row)"
    from a have w2: "same_data w w2" by (blast intro: same.frame_trans)
    have "ar_ID row = i" by (simp add: row)
    with c have "created_row (tbl_approvals w) req row"
      unfolding created_row_def same_dataD(2) [OF w2, symmetric]
      by (intro conjI exI, simp_all only: simp_thms de_Morgan_disj) (rule row [unfolded st k])
    with w2 show "Q (Inr row) (tbl_approvals_update (\<lambda>t. t @ [row]) w2)" by (rule assms(2))
  qed (blast intro: err same.frame_refl)+
qed

lemma post_RepositoryExpireStale [vcg]:
  assumes "\<And>e w'. same_data w w' \<Longrightarrow> Q (Inl e) w'"
    and "\<And>r t w1 w'. same_data w w1 \<Longrightarrow>
      same_data (tbl_approvals_update (map (\<lambda>a. if stale before a
        then decide ApprovalStateExpired ''system-reaper'' t expire_note t a else a)) w1) w' \<Longrightarrow>
      r = Inr (count_rows (stale before) (tbl_approvals w)) \<or> (\<exists>e. r = Inl e) \<Longrightarrow> Q r w'"
  shows "post (ApprovalRepository_ExpireStale env before) w Q"
  unfolding ApprovalRepository_ExpireStale_def
proof (intro vcg)
  show "Q (Inl e) w2" if "same_data w w1" "same_data w1 w2" for e w1 w2
    using that by (blast intro: assms(1) same.frame_trans)
  show "Q r w3" if "same_data w w1" "same_data w1 w2"
    "same_data (tbl_approvals_update (map (\<lambda>a. if stale before a
       then decide ApprovalStateExpired ''system-reaper'' t expire_note t a else a)) w2) w3"
    "r = Inr (count_rows (stale before) (tbl_approvals w2)) \<or> (\<exists>e. r = Inl e)" for t w1 r w2 w3
    using that same_dataD(2) [OF same.frame_trans [OF that(1,2)]]
    by (intro assms(2) [OF same.frame_trans [OF that(1,2)] that(3)]) simp
qed

end
