(* ===== verification/Certificate_Repository.thy ===== *)
theory Certificate_Repository
  imports Job_Repository
begin

text \<open>
  \<^verbatim>\<open>internal/repository/postgres/{certificate,target,agent,owner,renewal_policy,profile}.go\<close>: the
  tables of certificates and versions, and the lookups the services make in the others. The target
  identifiers of a certificate are not a column: every read fills them from the mapping table.
\<close>

section \<open>Certificates\<close>

definition getTargetIDs :: "world \<Rightarrow> string \<Rightarrow> string list" where
  "getTargetIDs w certID = sort (map snd (filter (\<lambda>(c, t). c = certID) (tbl_mappings w)))"

definition scan_cert :: "world \<Rightarrow> ManagedCertificate \<Rightarrow> ManagedCertificate" where
  "scan_cert w c = c \<lparr> cert_TargetIDs := getTargetIDs w (cert_ID c) \<rparr>"

text \<open>The lookup is two queries: the row, then its target identifiers; either may fail.\<close>

definition CertificateRepository_Get :: "env \<Rightarrow> string \<Rightarrow> ManagedCertificate result op" where
  "CertificateRepository_Get env i = do {
     bad \<leftarrow> db_down env;
     row \<leftarrow> gets (\<lambda>w. row_of cert_ID i (tbl_certs w));
     scanned \<leftarrow> (if bad then State_Monad.return (Inl (Wrap ''failed to scan certificate'' ErrDriver))
       else (case row of
         None \<Rightarrow> State_Monad.return (Inl (Wrap ''failed to scan certificate'' ErrNoRows))
       | Some c \<Rightarrow> query env ''failed to query target mappings'' (\<lambda>w. scan_cert w c)));
     State_Monad.return (case scanned of
       Inl err \<Rightarrow> if errors_is err ErrNoRows then Inl (Wrap ''certificate not found'' ErrNotFound)
         else Inl (Wrap ''failed to query certificate'' err)
     | Inr c \<Rightarrow> Inr c) }"

text \<open>
  The teams and issuers tables are not part of the state; a violated reference to one of them is a
  failing statement, as any other failure the environment may choose.
\<close>

definition cert_fks :: "world \<Rightarrow> ManagedCertificate \<Rightarrow> bool" where
  "cert_fks w c = (has_key owner_ID (cert_OwnerID c) (tbl_owners w) \<and>
     fk_ok prof_ID (tbl_profiles w) (null_if_empty (cert_CertificateProfileID c)))"

definition CertificateRepository_CreateWithTx :: "env \<Rightarrow> ManagedCertificate \<Rightarrow> string result op" where
  "CertificateRepository_CreateWithTx env cert = do {
     i \<leftarrow> (if cert_ID cert = '''' then new_uuid env else State_Monad.return (cert_ID cert));
     let row = cert \<lparr> cert_ID := i, cert_TargetIDs := [] \<rparr> in do {
     r \<leftarrow> insert_row env ''failed to create certificate''
       (\<lambda>w. \<not> has_key cert_ID i (tbl_certs w) \<and> \<not> has_key cert_Name (cert_Name cert) (tbl_certs w) \<and>
          cert_fks w row \<and> has_key rp_ID (cert_RenewalPolicyID cert) (tbl_policies w))
       (tbl_certs_update (\<lambda>t. t @ [row]));
     State_Monad.return (case r of Inl e \<Rightarrow> Inl e | Inr _ \<Rightarrow> Inr i) } }"

text \<open>
  The statement of \<^verbatim>\<open>UpdateWithTx\<close> sets seventeen columns. The renewal policy and the creation time
  are not among them.
\<close>

definition cert_columns :: "ManagedCertificate \<Rightarrow> ManagedCertificate \<Rightarrow> ManagedCertificate" where
  "cert_columns c row = row \<lparr> cert_Name := cert_Name c, cert_CommonName := cert_CommonName c,
     cert_SANs := cert_SANs c, cert_Environment := cert_Environment c, cert_OwnerID := cert_OwnerID c,
     cert_TeamID := cert_TeamID c, cert_IssuerID := cert_IssuerID c,
     cert_CertificateProfileID := cert_CertificateProfileID c, cert_Status := cert_Status c,
     cert_ExpiresAt := cert_ExpiresAt c, cert_Tags := cert_Tags c,
     cert_LastRenewalAt := cert_LastRenewalAt c, cert_LastDeploymentAt := cert_LastDeploymentAt c,
     cert_RevokedAt := cert_RevokedAt c, cert_RevocationReason := cert_RevocationReason c,
     cert_Source := cert_Source c, cert_UpdatedAt := cert_UpdatedAt c \<rparr>"

definition cert_update_ok :: "world \<Rightarrow> ManagedCertificate \<Rightarrow> bool" where
  "cert_update_ok w c = (has_key cert_ID (cert_ID c) (tbl_certs w) \<longrightarrow>
     cert_fks w c \<and> list_all (\<lambda>d. cert_Name d = cert_Name c \<longrightarrow> cert_ID d = cert_ID c) (tbl_certs w))"

definition CertificateRepository_UpdateWithTx :: "env \<Rightarrow> ManagedCertificate \<Rightarrow> unit result op" where
  "CertificateRepository_UpdateWithTx env cert = do {
     ok \<leftarrow> gets (\<lambda>w. cert_update_ok w cert);
     if \<not> ok then State_Monad.return (Inl (Wrap ''failed to update certificate'' ErrConstraint))
     else do {
       r \<leftarrow> exec env ''failed to update certificate''
         (\<lambda>w. count_rows (\<lambda>c. cert_ID c = cert_ID cert) (tbl_certs w))
         (tbl_certs_update (update_row cert_ID (cert_ID cert) (cert_columns cert)));
       State_Monad.return (rows_result ''certificate not found'' r) } }"

definition CertificateRepository_Update :: "env \<Rightarrow> ManagedCertificate \<Rightarrow> unit result op" where
  "CertificateRepository_Update env cert = CertificateRepository_UpdateWithTx env cert"

definition CertificateRepository_Create :: "env \<Rightarrow> ManagedCertificate \<Rightarrow> string result op" where
  "CertificateRepository_Create env cert = CertificateRepository_CreateWithTx env cert"

definition CertificateRepository_Archive :: "env \<Rightarrow> string \<Rightarrow> unit result op" where
  "CertificateRepository_Archive env i = do {
     t \<leftarrow> now env;
     r \<leftarrow> exec env ''failed to archive certificate''
       (\<lambda>w. count_rows (\<lambda>c. cert_ID c = i) (tbl_certs w))
       (tbl_certs_update (update_row cert_ID i
         (\<lambda>c. c \<lparr> cert_Status := CertificateStatusArchived, cert_UpdatedAt := t \<rparr>)));
     State_Monad.return (rows_result ''certificate not found'' r) }"

definition CertificateRepository_GetExpiringCertificates :: "env \<Rightarrow> time \<Rightarrow> ManagedCertificate list result op" where
  "CertificateRepository_GetExpiringCertificates env before = do {
     q \<leftarrow> query env ''failed to query expiring certificates''
       (\<lambda>w. sort_key cert_ExpiresAt (filter (\<lambda>c. cert_ExpiresAt c < before \<and>
          cert_Status c \<noteq> CertificateStatusArchived) (tbl_certs w)));
     (case q of
        Inl e \<Rightarrow> State_Monad.return (Inl e)
      | Inr certs \<Rightarrow> if certs = [] then State_Monad.return (Inr [])
          else query env ''failed to query target mappings'' (\<lambda>w. map (scan_cert w) certs)) }"

section \<open>Versions\<close>

definition version_columns_ok :: "world \<Rightarrow> CertificateVersion \<Rightarrow> bool" where
  "version_columns_ok w v = (\<not> has_key cv_ID (cv_ID v) (tbl_versions w) \<and>
     \<not> has_key cv_FingerprintSHA256 (cv_FingerprintSHA256 v) (tbl_versions w) \<and>
     has_key cert_ID (cv_CertificateID v) (tbl_certs w))"

definition CertificateRepository_CreateVersionWithTx :: "env \<Rightarrow> CertificateVersion \<Rightarrow> unit result op" where
  "CertificateRepository_CreateVersionWithTx env version = do {
     i \<leftarrow> (if cv_ID version = '''' then new_uuid env else State_Monad.return (cv_ID version));
     let row = version \<lparr> cv_ID := i \<rparr> in
     insert_row env ''failed to create certificate version'' (\<lambda>w. version_columns_ok w row)
       (tbl_versions_update (\<lambda>t. t @ [row])) }"

definition CertificateRepository_CreateVersion :: "env \<Rightarrow> CertificateVersion \<Rightarrow> unit result op" where
  "CertificateRepository_CreateVersion env version = CertificateRepository_CreateVersionWithTx env version"

definition versions_of :: "world \<Rightarrow> string \<Rightarrow> CertificateVersion list" where
  "versions_of w certID =
     sort_key (\<lambda>v. - cv_CreatedAt v) (filter (\<lambda>v. cv_CertificateID v = certID) (tbl_versions w))"

definition CertificateRepository_ListVersions :: "env \<Rightarrow> string \<Rightarrow> CertificateVersion list result op" where
  "CertificateRepository_ListVersions env certID =
     query env ''failed to query certificate versions'' (\<lambda>w. versions_of w certID)"

definition CertificateRepository_GetLatestVersion :: "env \<Rightarrow> string \<Rightarrow> CertificateVersion result op" where
  "CertificateRepository_GetLatestVersion env certID = do {
     q \<leftarrow> query env ''failed to get latest certificate version'' (\<lambda>w. versions_of w certID);
     State_Monad.return (case q of
       Inl e \<Rightarrow> Inl e
     | Inr [] \<Rightarrow> Inl (Wrap ''failed to get latest certificate version'' ErrNoRows)
     | Inr (v # _) \<Rightarrow> Inr v) }"

section \<open>Targets, agents, owners, policies\<close>

text \<open>
  The column lists of the queries leave out the retirement of a target, the plain-text key of an
  agent and the profile of a policy: those fields are always at their zero value after a read.
\<close>

definition lookup_row :: "env \<Rightarrow> string \<Rightarrow> string \<Rightarrow> (world \<Rightarrow> 'r option) \<Rightarrow> 'r result op" where
  "lookup_row env notFound failed f = do {
     bad \<leftarrow> db_down env;
     row \<leftarrow> gets f;
     State_Monad.return (if bad then Inl (Wrap failed ErrDriver)
       else (case row of None \<Rightarrow> Inl (Wrap notFound ErrNotFound) | Some r \<Rightarrow> Inr r)) }"

definition scanTarget :: "DeploymentTarget \<Rightarrow> DeploymentTarget" where
  "scanTarget t = t \<lparr> target_RetiredAt := None, target_RetiredReason := None \<rparr>"

definition scanAgent :: "Agent \<Rightarrow> Agent" where
  "scanAgent a = a \<lparr> agent_PlaintextAPIKey := '''' \<rparr>"

definition TargetRepository_Get :: "env \<Rightarrow> string \<Rightarrow> DeploymentTarget result op" where
  "TargetRepository_Get env i = lookup_row env ''target not found'' ''failed to query target''
     (\<lambda>w. map_option scanTarget (row_of target_ID i (tbl_targets w)))"

definition TargetRepository_ListByCertificate :: "env \<Rightarrow> string \<Rightarrow> DeploymentTarget list result op" where
  "TargetRepository_ListByCertificate env certID = query env ''failed to query targets for certificate''
     (\<lambda>w. map scanTarget (sort_key (\<lambda>t. - target_CreatedAt t)
        (filter (\<lambda>t. (certID, target_ID t) \<in> set (tbl_mappings w)) (tbl_targets w))))"

definition AgentRepository_Get :: "env \<Rightarrow> string \<Rightarrow> Agent result op" where
  "AgentRepository_Get env i = lookup_row env ''agent not found'' ''failed to query agent''
     (\<lambda>w. map_option scanAgent (row_of agent_ID i (tbl_agents w)))"

definition OwnerRepository_Get :: "env \<Rightarrow> string \<Rightarrow> Owner result op" where
  "OwnerRepository_Get env i = lookup_row env ''owner not found'' ''failed to query owner''
     (\<lambda>w. row_of owner_ID i (tbl_owners w))"

definition RenewalPolicyRepository_Get :: "env \<Rightarrow> string \<Rightarrow> RenewalPolicy result op" where
  "RenewalPolicyRepository_Get env i = lookup_row env ''renewal policy not found'' ''failed to query renewal policy''
     (\<lambda>w. map_option (\<lambda>p. p \<lparr> rp_CertificateProfileID := '''' \<rparr>) (row_of rp_ID i (tbl_policies w)))"

section \<open>Profiles\<close>

text \<open>
  The statements of the profile repository neither read nor write the column
  \<^verbatim>\<open>requires_approval\<close>, and write no \<^verbatim>\<open>acme_auth_mode\<close>; \<^verbatim>\<open>scanProfile\<close> leaves the field of the
  first at the zero value. Its wrapped scan error is compared with \<^verbatim>\<open>sql.ErrNoRows\<close> by \<^verbatim>\<open>==\<close>.
\<close>

definition scanProfile :: "CertificateProfile \<Rightarrow> CertificateProfile" where
  "scanProfile p = p \<lparr> prof_RequiresApproval := False \<rparr>"

definition ProfileRepository_Get :: "env \<Rightarrow> string \<Rightarrow> CertificateProfile result op" where
  "ProfileRepository_Get env i = do {
     bad \<leftarrow> db_down env;
     row \<leftarrow> gets (\<lambda>w. row_of prof_ID i (tbl_profiles w));
     let scanned = (if bad then Inl (Wrap ''failed to scan profile'' ErrDriver)
       else (case row of None \<Rightarrow> Inl (Wrap ''failed to scan profile'' ErrNoRows) | Some p \<Rightarrow> Inr (scanProfile p))) in
     State_Monad.return (case scanned of
       Inl err \<Rightarrow> if err = ErrNoRows then Inl (Wrap ''profile not found'' ErrNotFound)
         else Inl (Wrap ''failed to query profile'' err)
     | Inr p \<Rightarrow> Inr p) }"

definition ProfileRepository_Create :: "env \<Rightarrow> CertificateProfile \<Rightarrow> string result op" where
  "ProfileRepository_Create env p = do {
     i \<leftarrow> (if prof_ID p = '''' then new_uuid env else State_Monad.return (prof_ID p));
     c \<leftarrow> (if prof_CreatedAt p = zero_time then now env else State_Monad.return (prof_CreatedAt p));
     u \<leftarrow> (if prof_UpdatedAt p = zero_time then now env else State_Monad.return (prof_UpdatedAt p));
     let row = p \<lparr> prof_ID := i, prof_CreatedAt := c, prof_UpdatedAt := u, prof_RequiresApproval := False,
           prof_ACMEAuthMode := ''trust_authenticated'' \<rparr> in do {
     r \<leftarrow> insert_row env ''failed to create profile''
       (\<lambda>w. \<not> has_key prof_ID i (tbl_profiles w) \<and> \<not> has_key prof_Name (prof_Name p) (tbl_profiles w))
       (tbl_profiles_update (\<lambda>t. t @ [row]));
     State_Monad.return (case r of Inl e \<Rightarrow> Inl e | Inr _ \<Rightarrow> Inr i) } }"

definition profile_columns :: "CertificateProfile \<Rightarrow> time \<Rightarrow> CertificateProfile \<Rightarrow> CertificateProfile" where
  "profile_columns p t row = row \<lparr> prof_Name := prof_Name p, prof_Description := prof_Description p,
     prof_AllowedKeyAlgorithms := prof_AllowedKeyAlgorithms p, prof_MaxTTLSeconds := prof_MaxTTLSeconds p,
     prof_AllowedEKUs := prof_AllowedEKUs p, prof_RequiredSANPatterns := prof_RequiredSANPatterns p,
     prof_SPIFFEURIPattern := prof_SPIFFEURIPattern p, prof_AllowShortLived := prof_AllowShortLived p,
     prof_MustStaple := prof_MustStaple p, prof_RequiredCSRAttributes := prof_RequiredCSRAttributes p,
     prof_Enabled := prof_Enabled p, prof_UpdatedAt := t \<rparr>"

definition ProfileRepository_Update :: "env \<Rightarrow> CertificateProfile \<Rightarrow> unit result op" where
  "ProfileRepository_Update env p = do {
     t \<leftarrow> now env;
     unique \<leftarrow> gets (\<lambda>w. list_all (\<lambda>q. prof_Name q = prof_Name p \<longrightarrow> prof_ID q = prof_ID p) (tbl_profiles w));
     if \<not> unique then State_Monad.return (Inl (Wrap ''failed to update profile'' ErrConstraint))
     else do {
       r \<leftarrow> exec env ''failed to update profile''
         (\<lambda>w. count_rows (\<lambda>q. prof_ID q = prof_ID p) (tbl_profiles w))
         (tbl_profiles_update (update_row prof_ID (prof_ID p) (profile_columns p t)));
       State_Monad.return (rows_result ''profile not found'' r) } }"

definition profile_referenced :: "world \<Rightarrow> string \<Rightarrow> bool" where
  "profile_referenced w i = list_ex (\<lambda>a. ar_ProfileID a = i) (tbl_approvals w)"

definition ProfileRepository_Delete :: "env \<Rightarrow> string \<Rightarrow> unit result op" where
  "ProfileRepository_Delete env i = do {
     ref \<leftarrow> gets (\<lambda>w. profile_referenced w i);
     if ref then State_Monad.return (Inl (Wrap ''failed to delete profile'' ErrConstraint))
     else do {
       r \<leftarrow> exec env ''failed to delete profile''
         (\<lambda>w. count_rows (\<lambda>q. prof_ID q = i) (tbl_profiles w))
         (tbl_profiles_update (filter (\<lambda>q. prof_ID q \<noteq> i)) \<circ>
          tbl_policies_update (map (\<lambda>p. if rp_CertificateProfileID p = i then p \<lparr> rp_CertificateProfileID := '''' \<rparr> else p)) \<circ>
          tbl_certs_update (map (\<lambda>c. if cert_CertificateProfileID c = i then c \<lparr> cert_CertificateProfileID := '''' \<rparr> else c)));
       State_Monad.return (rows_result ''profile not found'' r) } }"

section \<open>Effects of the lookups and updates\<close>

lemma post_now_const: "clock env = (\<lambda>_. t) \<Longrightarrow> (\<And>w'. same_data w w' \<Longrightarrow> Q t w') \<Longrightarrow> post (now env) w Q"
  by (simp add: post_def run_now same.R_steps)

lemma post_GetLatestVersion:
  assumes "fault env = (\<lambda>_. False)"
    and "\<And>w'. same_data w w' \<Longrightarrow> Q (case versions_of w i of [] \<Rightarrow> Inl (Wrap ''failed to get latest certificate version'' ErrNoRows)
      | v # _ \<Rightarrow> Inr v) w'"
  shows "post (CertificateRepository_GetLatestVersion env i) w Q"
proof -
  have "versions_of (w \<lparr> steps := n \<rparr>) i = versions_of w i" for n by (simp add: versions_of_def)
  then show ?thesis
    using assms(2) [OF same.R_steps] by (simp add: CertificateRepository_GetLatestVersion_def query_def post_def run_simps assms(1) split: list.splits)
qed

lemma post_ProfileGet [vcg]:
  assumes "\<And>e w'. same_data w w' \<Longrightarrow> Q (Inl e) w'"
    and "\<And>p w'. same_data w w' \<Longrightarrow> row_of prof_ID i (tbl_profiles w) = Some p \<Longrightarrow> Q (Inr (scanProfile p)) w'"
  shows "post (ProfileRepository_Get env i) w Q"
  unfolding ProfileRepository_Get_def
  by (intro vcg) (use assms in \<open>auto simp: same_dataD split: option.splits\<close>)

lemma scan_cert_same: "same_data w w' \<Longrightarrow> scan_cert w' c = scan_cert w c"
  by (simp add: scan_cert_def getTargetIDs_def same_dataD)

lemma post_CertGet [vcg]:
  assumes "\<And>e w'. same_data w w' \<Longrightarrow> Q (Inl e) w'"
    and "\<And>c w'. same_data w w' \<Longrightarrow> row_of cert_ID i (tbl_certs w) = Some c \<Longrightarrow> Q (Inr (scan_cert w c)) w'"
  shows "post (CertificateRepository_Get env i) w Q"
  unfolding CertificateRepository_Get_def
proof (intro post_bindI post_db_down post_getsI post_if post_case_option post_query post_returnI, goal_cases)
  case (3 b w1 c e w2)
  then have "same_data w w2" by (blast intro: same.frame_trans)
  then show ?case by (simp add: assms(1))
next
  case (4 b w1 c w2)
  then have "same_data w w2" by (blast intro: same.frame_trans)
  with 4 assms(2) [of w2 c] show ?case by (simp add: scan_cert_same same_dataD)
qed (simp_all add: assms(1))

lemma post_CertUpdate [vcg]:
  assumes "\<And>e w'. same_data w w' \<Longrightarrow> Q (Inl e) w'"
    and "\<And>r w1 w'. same_data w w1 \<Longrightarrow> same_data (tbl_certs_update (update_row cert_ID (cert_ID c) (cert_columns c)) w1) w' \<Longrightarrow> Q r w'"
  shows "post (CertificateRepository_UpdateWithTx env c) w Q"
  unfolding CertificateRepository_UpdateWithTx_def
  by (intro vcg) (use assms in \<open>auto simp: rows_result_def same.frame_refl\<close>)

end
