(* ===== verification/Samples.thy ===== *)
theory Samples
  imports Store
begin

text \<open>
  Small concrete values: an empty database, an environment without failures, and rows with the
  zero values of their types. The examples that exercise the properties start from these.
\<close>

definition empty_world :: world where
  "empty_world = \<lparr> tbl_jobs = [], tbl_approvals = [], tbl_certs = [], tbl_versions = [], tbl_targets = [],
     tbl_mappings = [], tbl_agents = [], tbl_owners = [], tbl_profiles = [], tbl_policies = [],
     tbl_notifs = [], tbl_rules = [], tbl_revocations = [], tbl_ocsp = [], tbl_audit = [], idCounter = 0, metrics = NewMetrics, steps = 0 \<rparr>"

definition calm :: "time \<Rightarrow> env" where
  "calm t = \<lparr> fault = (\<lambda>_. False), clock = (\<lambda>_. t), uuid = (\<lambda>n. ''u''), send = (\<lambda>_. None),
     addDays = (\<lambda>u n. u + n * Day) \<rparr>"

definition sample_job :: "string \<Rightarrow> JobType \<Rightarrow> JobStatus \<Rightarrow> Job" where
  "sample_job i ty st = \<lparr> job_ID = i, job_Type = ty, job_CertificateID = ''c1'', job_TargetID = None,
     job_AgentID = None, job_Status = st, job_Attempts = 0, job_MaxAttempts = 3, job_LastError = None,
     job_ScheduledAt = 0, job_StartedAt = None, job_CompletedAt = None, job_CreatedAt = 0,
     job_VerificationStatus = VerificationPending, job_VerifiedAt = None, job_VerificationError = None,
     job_VerificationFp = None \<rparr>"

definition sample_cert :: "string \<Rightarrow> ManagedCertificate" where
  "sample_cert i = \<lparr> cert_ID = i, cert_Name = i, cert_CommonName = ''example.com'', cert_SANs = [],
     cert_Environment = ''prod'', cert_OwnerID = ''o1'', cert_TeamID = ''t1'', cert_IssuerID = ''iss'',
     cert_TargetIDs = [], cert_RenewalPolicyID = ''rp'', cert_CertificateProfileID = ''p1'',
     cert_Status = CertificateStatusActive, cert_ExpiresAt = 0, cert_Tags = [], cert_LastRenewalAt = None,
     cert_LastDeploymentAt = None, cert_RevokedAt = None, cert_RevocationReason = '''', cert_CreatedAt = 0,
     cert_UpdatedAt = 0, cert_Source = CertificateSourceUnspecified \<rparr>"

definition sample_profile :: "string \<Rightarrow> bool \<Rightarrow> CertificateProfile" where
  "sample_profile i gated = \<lparr> prof_ID = i, prof_Name = i, prof_Description = '''', prof_AllowedKeyAlgorithms = [],
     prof_MaxTTLSeconds = 0, prof_AllowedEKUs = [], prof_RequiredSANPatterns = [], prof_SPIFFEURIPattern = '''',
     prof_AllowShortLived = False, prof_MustStaple = False, prof_RequiredCSRAttributes = [],
     prof_ACMEAuthMode = '''', prof_RequiresApproval = gated, prof_Enabled = True, prof_CreatedAt = 0,
     prof_UpdatedAt = 0 \<rparr>"

definition sample_owner :: "string \<Rightarrow> string \<Rightarrow> Owner" where
  "sample_owner i n = \<lparr> owner_ID = i, owner_Name = n, owner_Email = n @ ''@example.com'', owner_TeamID = ''t1'',
     owner_CreatedAt = 0, owner_UpdatedAt = 0 \<rparr>"

definition sample_approval :: "string \<Rightarrow> string \<Rightarrow> string \<Rightarrow> ApprovalRequest" where
  "sample_approval i job by' = \<lparr> ar_ID = i, ar_Kind = ApprovalKindCertIssuance, ar_CertificateID = ''c1'',
     ar_JobID = job, ar_ProfileID = ''p1'', ar_RequestedBy = by', ar_State = ApprovalStatePending,
     ar_DecidedBy = None, ar_DecidedAt = None, ar_DecisionNote = None, ar_Metadata = [], ar_Payload = NoPayload,
     ar_CreatedAt = 0, ar_UpdatedAt = 0 \<rparr>"

lemmas samples = empty_world_def calm_def sample_job_def sample_cert_def sample_profile_def sample_owner_def
  sample_approval_def

end
