(* ===== verification/Jobs.thy ===== *)
theory Jobs
  imports Approval_Repository Certificate_Repository Samples
begin

text \<open>
  \<^verbatim>\<open>internal/service/job.go\<close> without the dispatch of claimed jobs (theory \<open>Dispatch\<close>): retry,
  the two reapers, cancellation, approval and rejection of a job, and listing; and
  \<^verbatim>\<open>internal/service/verification.go\<close>, which stores its results through the job repository.
  Each handler is followed by the set of status transitions it can cause.
\<close>

section \<open>The service\<close>

abbreviation ErrSelfApproval :: error where "ErrSelfApproval \<equiv> Sentinel ''service.ErrSelfApproval''"

text \<open>
  The optional dependencies of the service are flags: whether the certificate and owner
  repositories, and the audit service, are wired.
\<close>

record JobService =
  js_reposWired :: bool
  js_auditWired :: bool
  js_renewalConcurrency :: int
  js_claimLimit :: int

definition NewJobService :: "bool \<Rightarrow> JobService" where
  "NewJobService wired = \<lparr> js_reposWired = wired, js_auditWired = False, js_renewalConcurrency = 0, js_claimLimit = 0 \<rparr>"

definition SetAuditService :: "bool \<Rightarrow> JobService \<Rightarrow> JobService" where
  "SetAuditService wired s = s \<lparr> js_auditWired := wired \<rparr>"

definition SetRenewalConcurrency :: "int \<Rightarrow> JobService \<Rightarrow> JobService" where
  "SetRenewalConcurrency n s = s \<lparr> js_renewalConcurrency := (if n \<le> 0 then 1 else n) \<rparr>"

definition SetClaimLimit :: "int \<Rightarrow> JobService \<Rightarrow> JobService" where
  "SetClaimLimit n s = s \<lparr> js_claimLimit := (if n \<le> 0 then 1000 else n) \<rparr>"

definition discard :: "'a op \<Rightarrow> unit op" where
  "discard m = do { _ \<leftarrow> m; State_Monad.return () }"

definition when_op :: "bool \<Rightarrow> unit op \<Rightarrow> unit op" where
  "when_op b m = (if b then m else State_Monad.return ())"

subsection \<open>Retry\<close>

definition retry_job :: "env \<Rightarrow> JobService \<Rightarrow> Job \<Rightarrow> bool op" where
  "retry_job env s job =
     (if job_Attempts job \<ge> job_MaxAttempts job then State_Monad.return False
      else do {
        let lastRun = (case job_StartedAt job of None \<Rightarrow> job_CreatedAt job | Some t \<Rightarrow> t) in do {
        t \<leftarrow> now env;
        if t - lastRun < Minute then State_Monad.return False
        else do {
          r \<leftarrow> JobRepository_UpdateStatus env (job_ID job) JobStatusPending '''';
          (case r of
             Inl e \<Rightarrow> State_Monad.return False
           | Inr _ \<Rightarrow> do {
               _ \<leftarrow> when_op (js_auditWired s) (discard
                 (RecordEvent env ''system'' ActorTypeSystem ''job_retry'' ''job'' (job_ID job)
                   [(''old_status'', JStr (show_status JobStatusFailed)),
                    (''new_status'', JStr (show_status JobStatusPending)),
                    (''attempts'', JInt (job_Attempts job)),
                    (''max_attempts'', JInt (job_MaxAttempts job))]));
               State_Monad.return True }) } } })"

definition RetryFailedJobs :: "env \<Rightarrow> JobService \<Rightarrow> int \<Rightarrow> unit result op" where
  "RetryFailedJobs env s maxRetries = do {
     q \<leftarrow> JobRepository_ListByStatus env JobStatusFailed;
     (case q of
        Inl e \<Rightarrow> State_Monad.return (Inl (Wrap ''failed to fetch failed jobs'' e))
      | Inr failedJobs \<Rightarrow> do {
          _ \<leftarrow> for_count (retry_job env s) failedJobs;
          State_Monad.return (Inr ()) }) }"

subsection \<open>Reapers\<close>

definition opt_str :: "string option \<Rightarrow> jval" where
  "opt_str x = (case x of None \<Rightarrow> JNull | Some s \<Rightarrow> JStr s)"

definition reap_offline_job :: "env \<Rightarrow> JobService \<Rightarrow> duration \<Rightarrow> Job \<Rightarrow> bool op" where
  "reap_offline_job env s agentTTL job = do {
     let errMsg = ''agent offline (no heartbeat for >'' @ show_duration agentTTL @ '')'';
     let job' = job \<lparr> job_Status := JobStatusFailed, job_LastError := Some errMsg \<rparr>;
     r \<leftarrow> JobRepository_Update env job';
     (case r of
        Inl e \<Rightarrow> State_Monad.return False
      | Inr _ \<Rightarrow> do {
          _ \<leftarrow> when_op (js_auditWired s) (discard
            (RecordEvent env ''system'' ActorTypeSystem ''job_offline_agent_reap'' ''job'' (job_ID job)
              [(''old_status'', JStr (show_status (job_Status job))),
               (''new_status'', JStr (show_status JobStatusFailed)),
               (''timeout_reason'', JStr ''agent_offline''),
               (''agent_id'', opt_str (job_AgentID job))]));
          State_Monad.return True }) }"

definition ReapJobsWithOfflineAgents :: "env \<Rightarrow> JobService \<Rightarrow> duration \<Rightarrow> unit result op" where
  "ReapJobsWithOfflineAgents env s agentTTL =
     (if agentTTL \<le> 0 then State_Monad.return (Inl (Errorf ''ReapJobsWithOfflineAgents: agentTTL must be positive''))
      else do {
        t \<leftarrow> now env;
        q \<leftarrow> JobRepository_ListJobsWithOfflineAgents env (t - agentTTL);
        (case q of
           Inl e \<Rightarrow> State_Monad.return (Inl (Wrap ''list jobs with offline agents'' e))
         | Inr staleJobs \<Rightarrow> do {
             _ \<leftarrow> for_count (reap_offline_job env s agentTTL) staleJobs;
             State_Monad.return (Inr ()) }) })"

definition reap_reason :: "duration \<Rightarrow> duration \<Rightarrow> JobStatus \<Rightarrow> (string \<times> string) option" where
  "reap_reason csrTTL approvalTTL st = (case st of
     JobStatusAwaitingCSR \<Rightarrow>
       Some (''csr_timeout'', ''timed out in '' @ show_status st @ '' after '' @ show_duration csrTTL)
   | JobStatusAwaitingApproval \<Rightarrow>
       Some (''approval_timeout'', ''timed out in '' @ show_status st @ '' after '' @ show_duration approvalTTL)
   | _ \<Rightarrow> None)"

definition reap_timed_out_job :: "env \<Rightarrow> JobService \<Rightarrow> duration \<Rightarrow> duration \<Rightarrow> Job \<Rightarrow> bool op" where
  "reap_timed_out_job env s csrTTL approvalTTL job =
     (case reap_reason csrTTL approvalTTL (job_Status job) of
        None \<Rightarrow> State_Monad.return False
      | Some (reason, newErrMsg) \<Rightarrow> do {
          r \<leftarrow> JobRepository_Update env (job \<lparr> job_Status := JobStatusFailed, job_LastError := Some newErrMsg \<rparr>);
          (case r of
             Inl e \<Rightarrow> State_Monad.return False
           | Inr _ \<Rightarrow> do {
               _ \<leftarrow> when_op (js_auditWired s) (do {
                 t \<leftarrow> now env;
                 discard (RecordEvent env ''system'' ActorTypeSystem ''job_timeout'' ''job'' (job_ID job)
                   [(''old_status'', JStr (show_status (job_Status job))),
                    (''new_status'', JStr (show_status JobStatusFailed)),
                    (''timeout_reason'', JStr reason),
                    (''age_hours'', JFloat (Hours (until t (job_CreatedAt job))))]) });
               State_Monad.return True }) })"

definition ReapTimedOutJobs :: "env \<Rightarrow> JobService \<Rightarrow> duration \<Rightarrow> duration \<Rightarrow> unit result op" where
  "ReapTimedOutJobs env s csrTTL approvalTTL = do {
     t \<leftarrow> now env;
     q \<leftarrow> JobRepository_ListTimedOutAwaitingJobs env (t - csrTTL) (t - approvalTTL);
     (case q of
        Inl e \<Rightarrow> State_Monad.return (Inl (Wrap ''failed to fetch timed-out jobs'' e))
      | Inr timedOutJobs \<Rightarrow> do {
          _ \<leftarrow> for_count (reap_timed_out_job env s csrTTL approvalTTL) timedOutJobs;
          State_Monad.return (Inr ()) }) }"

subsection \<open>Handlers\<close>

definition GetJobStatus :: "env \<Rightarrow> string \<Rightarrow> Job result op" where
  "GetJobStatus env jobID = do {
     r \<leftarrow> JobRepository_Get env jobID;
     State_Monad.return (case r of Inl e \<Rightarrow> Inl (Wrap ''failed to fetch job'' e) | Inr job \<Rightarrow> Inr job) }"

definition CancelJob :: "env \<Rightarrow> string \<Rightarrow> unit result op" where
  "CancelJob env jobID = do {
     r \<leftarrow> JobRepository_Get env jobID;
     (case r of
        Inl e \<Rightarrow> State_Monad.return (Inl (Wrap ''failed to fetch job'' e))
      | Inr job \<Rightarrow>
          if job_Status job \<noteq> JobStatusPending \<and> job_Status job \<noteq> JobStatusRunning
          then State_Monad.return (Inl (Errorf (''cannot cancel job with status '' @ show_status (job_Status job))))
          else do {
            u \<leftarrow> JobRepository_UpdateStatus env jobID JobStatusCancelled ''cancelled by user'';
            State_Monad.return (case u of Inl e \<Rightarrow> Inl (Wrap ''failed to cancel job'' e) | Inr _ \<Rightarrow> Inr ()) }) }"

definition ListJobs :: "env \<Rightarrow> string \<Rightarrow> string \<Rightarrow> int \<Rightarrow> int \<Rightarrow> (Job list \<times> nat) result op" where
  "ListJobs env status jobType page perPage = do {
     r \<leftarrow> JobRepository_List env;
     State_Monad.return (case r of
       Inl e \<Rightarrow> Inl (Wrap ''failed to list jobs'' e)
     | Inr allJobs \<Rightarrow>
         (let filtered = filter (\<lambda>j. (status = '''' \<or> show_status (job_Status j) = status) \<and>
                (jobType = '''' \<or> show_type (job_Type j) = jobType)) allJobs
          in paged_result page perPage filtered)) }"

definition checkNotSelf :: "env \<Rightarrow> JobService \<Rightarrow> Job \<Rightarrow> string \<Rightarrow> error option op" where
  "checkNotSelf env s job actor =
     (if actor = '''' then State_Monad.return None
      else if \<not> js_reposWired s then State_Monad.return None
      else if job_CertificateID job = '''' then State_Monad.return None
      else do {
        c \<leftarrow> CertificateRepository_Get env (job_CertificateID job);
        (case c of
           Inl e \<Rightarrow> State_Monad.return None
         | Inr cert \<Rightarrow>
             if cert_OwnerID cert = '''' then State_Monad.return None
             else do {
               o' \<leftarrow> OwnerRepository_Get env (cert_OwnerID cert);
               State_Monad.return (case o' of
                 Inl e \<Rightarrow> None
               | Inr owner \<Rightarrow>
                   if to_lower (owner_Name owner) = to_lower actor \<or> to_lower (owner_Email owner) = to_lower actor
                   then Some ErrSelfApproval else None) }) })"

definition ApproveJob :: "env \<Rightarrow> JobService \<Rightarrow> string \<Rightarrow> string \<Rightarrow> unit result op" where
  "ApproveJob env s i actor = do {
     r \<leftarrow> JobRepository_Get env i;
     (case r of
        Inl e \<Rightarrow> State_Monad.return (Inl (Wrap ''job not found'' e))
      | Inr job \<Rightarrow>
          if job_Status job \<noteq> JobStatusAwaitingApproval
          then State_Monad.return (Inl (Errorf (''cannot approve job with status '' @ show_status (job_Status job) @
            '' (must be AwaitingApproval)'')))
          else do {
            c \<leftarrow> checkNotSelf env s job actor;
            (case c of
               Some e \<Rightarrow> State_Monad.return (Inl e)
             | None \<Rightarrow> do {
                 u \<leftarrow> JobRepository_UpdateStatus env i JobStatusPending '''';
                 State_Monad.return (case u of Inl e \<Rightarrow> Inl (Wrap ''failed to approve job'' e) | Inr _ \<Rightarrow> Inr ()) }) }) }"

definition RejectJob :: "env \<Rightarrow> string \<Rightarrow> string \<Rightarrow> string \<Rightarrow> unit result op" where
  "RejectJob env i reason actor = do {
     r \<leftarrow> JobRepository_Get env i;
     (case r of
        Inl e \<Rightarrow> State_Monad.return (Inl (Wrap ''job not found'' e))
      | Inr job \<Rightarrow>
          if job_Status job \<noteq> JobStatusAwaitingApproval
          then State_Monad.return (Inl (Errorf (''cannot reject job with status '' @ show_status (job_Status job) @
            '' (must be AwaitingApproval)'')))
          else do {
            let msg = (if reason \<noteq> '''' then ''rejected: '' @ reason else ''rejected by user'');
            u \<leftarrow> JobRepository_UpdateStatus env i JobStatusCancelled msg;
            State_Monad.return (case u of Inl e \<Rightarrow> Inl (Wrap ''failed to reject job'' e) | Inr _ \<Rightarrow> Inr ()) }) }"

section \<open>Verification results\<close>

record VerificationResult =
  vr_JobID :: string
  vr_TargetID :: string
  vr_ExpectedFingerprint :: string
  vr_ActualFingerprint :: string
  vr_Verified :: bool
  vr_VerifiedAt :: time
  vr_Error :: string

definition RecordVerificationResult :: "env \<Rightarrow> VerificationResult option \<Rightarrow> unit result op" where
  "RecordVerificationResult env result = (case result of
     None \<Rightarrow> State_Monad.return (Inl (Errorf ''verification result is required''))
   | Some res \<Rightarrow>
       if vr_JobID res = '''' then State_Monad.return (Inl (Errorf ''job ID is required''))
       else do {
         g \<leftarrow> JobRepository_Get env (vr_JobID res);
         (case g of
            Inl e \<Rightarrow> State_Monad.return (Inl (Wrap ''failed to fetch job for verification'' e))
          | Inr job \<Rightarrow> do {
              let status = (if vr_Error res \<noteq> '''' then VerificationFailed
                else if vr_Verified res then VerificationSuccess else VerificationFailed);
              let job1 = job \<lparr> job_VerificationStatus := status, job_VerifiedAt := Some (vr_VerifiedAt res),
                job_VerificationFp := Some (vr_ActualFingerprint res) \<rparr>;
              let job2 = (if vr_Error res \<noteq> '''' then job1 \<lparr> job_VerificationError := Some (vr_Error res) \<rparr> else job1);
              u \<leftarrow> JobRepository_Update env job2;
              (case u of
                 Inl e \<Rightarrow> State_Monad.return (Inl (Wrap ''failed to update job with verification result'' e))
               | Inr _ \<Rightarrow> do {
                   _ \<leftarrow> RecordEvent env ''agent'' ActorTypeAgent
                     (if vr_Error res \<noteq> '''' then ''job_verification_failed'' else ''job_verification_success'')
                     ''job'' (vr_JobID res)
                     ([(''job_id'', JStr (vr_JobID res)), (''target_id'', JStr (vr_TargetID res)),
                       (''expected_fingerprint'', JStr (vr_ExpectedFingerprint res)),
                       (''actual_fingerprint'', JStr (vr_ActualFingerprint res)),
                       (''verified'', JBool (vr_Verified res))] @
                      (if vr_Error res \<noteq> '''' then [(''error'', JStr (vr_Error res))] else []));
                   State_Monad.return (Inr ()) }) }) })"

definition GetVerificationResult :: "env \<Rightarrow> string \<Rightarrow> VerificationResult result op" where
  "GetVerificationResult env jobID =
     (if jobID = '''' then State_Monad.return (Inl (Errorf ''job ID is required''))
      else do {
        g \<leftarrow> JobRepository_Get env jobID;
        State_Monad.return (case g of
          Inl e \<Rightarrow> Inl (Wrap ''failed to fetch job'' e)
        | Inr job \<Rightarrow> Inr \<lparr> vr_JobID = job_ID job,
            vr_TargetID = (case job_TargetID job of None \<Rightarrow> '''' | Some t \<Rightarrow> t),
            vr_ExpectedFingerprint = '''',
            vr_ActualFingerprint = (case job_VerificationFp job of None \<Rightarrow> '''' | Some f \<Rightarrow> f),
            vr_Verified = (job_VerificationStatus job = VerificationSuccess),
            vr_VerifiedAt = (case job_VerifiedAt job of None \<Rightarrow> zero_time | Some t \<Rightarrow> t),
            vr_Error = (case job_VerificationError job of None \<Rightarrow> '''' | Some e \<Rightarrow> e) \<rparr>) })"

section \<open>The job state machine\<close>

text \<open>
  \<open>job_moves I E t t'\<close>: every job of the table \<open>t\<close> is still there in \<open>t'\<close>, with a status reached
  along the edges \<open>E\<close>, and every new job started in one of the statuses \<open>I\<close>.
\<close>

definition status_in :: "Job list \<Rightarrow> string \<Rightarrow> JobStatus option" where
  "status_in tbl i = map_option job_Status (row_of job_ID i tbl)"

abbreviation status_of :: "world \<Rightarrow> string \<Rightarrow> JobStatus option" where
  "status_of w i \<equiv> status_in (tbl_jobs w) i"

fun move_ok :: "JobStatus set \<Rightarrow> (JobStatus \<times> JobStatus) set \<Rightarrow> JobStatus option \<Rightarrow> JobStatus option \<Rightarrow> bool" where
  "move_ok I E (Some s) (Some s') = ((s, s') \<in> E\<^sup>*)"
| "move_ok I E (Some s) None = False"
| "move_ok I E None (Some s') = (\<exists>s0 \<in> I. (s0, s') \<in> E\<^sup>*)"
| "move_ok I E None None = True"

definition job_moves :: "JobStatus set \<Rightarrow> (JobStatus \<times> JobStatus) set \<Rightarrow> Job list \<Rightarrow> Job list \<Rightarrow> bool" where
  "job_moves I E t t' = (\<forall>i. move_ok I E (status_in t i) (status_in t' i))"

definition retry_edges :: "(JobStatus \<times> JobStatus) set" where
  "retry_edges = {(JobStatusFailed, JobStatusPending)}"

definition timeout_edges :: "(JobStatus \<times> JobStatus) set" where
  "timeout_edges = {(JobStatusAwaitingCSR, JobStatusFailed), (JobStatusAwaitingApproval, JobStatusFailed)}"

definition offline_edges :: "(JobStatus \<times> JobStatus) set" where
  "offline_edges = {(JobStatusRunning, JobStatusFailed)}"

definition jobs_ok :: "Job list \<Rightarrow> bool" where
  "jobs_ok t = distinct (map job_ID t)"

lemma move_ok_refl [simp]: "move_ok I E a a"
  by (cases a) auto

lemma move_ok_trans: "move_ok I E a b \<Longrightarrow> move_ok I E b c \<Longrightarrow> move_ok I E a c"
  by (cases a; cases b; cases c) (auto intro: rtrancl_trans)

lemma job_moves_refl [simp]: "job_moves I E t t"
  by (simp add: job_moves_def)

lemma job_moves_trans: "job_moves I E s t \<Longrightarrow> job_moves I E t u \<Longrightarrow> job_moves I E s u"
  unfolding job_moves_def by (blast intro: move_ok_trans)

interpretation moves: table_view "\<lambda>w w'. job_moves I E (tbl_jobs w) (tbl_jobs w')" tbl_jobs for I E
  by unfold_locales (auto intro: job_moves_trans)

lemma status_in_update:
  assumes "\<And>r. job_ID (f r) = job_ID r" "\<And>r. job_Status (f r) = st"
  shows "status_in (update_row job_ID i f t) j =
    (if j = i then map_option (\<lambda>_. st) (status_in t i) else status_in t j)"
  using assms by (simp add: status_in_def row_of_update_row option.map_comp comp_def)

lemma moves_update:
  assumes "\<And>r. job_ID (f r) = job_ID r" "\<And>r. job_Status (f r) = st"
    "\<And>s. status_in t i = Some s \<Longrightarrow> (s, st) \<in> E"
  shows "job_moves I E t (update_row job_ID i f t)"
  unfolding job_moves_def
proof
  fix j
  show "move_ok I E (status_in t j) (status_in (update_row job_ID i f t) j)"
    using status_in_update [OF assms(1,2), of i t j] assms(3) by (cases "status_in t i") auto
qed

lemma jobs_ok_update [simp]: "(\<And>r. job_ID (f r) = job_ID r) \<Longrightarrow> jobs_ok (update_row job_ID i f t) = jobs_ok t"
  by (simp add: jobs_ok_def)

lemma row_status: "jobs_ok t \<Longrightarrow> j \<in> set t \<Longrightarrow> status_in t (job_ID j) = Some (job_Status j)"
  by (simp add: jobs_ok_def status_in_def row_of_distinct)

subsection \<open>Loops over a snapshot\<close>

text \<open>
  A reaper lists the jobs in certain statuses and then changes them one by one. Each job of the
  snapshot still has its status when its turn comes, because the snapshot's jobs are distinct.
\<close>

definition pending_rest ::
  "JobStatus set \<Rightarrow> (Job \<Rightarrow> bool) \<Rightarrow> Job list \<Rightarrow> (JobStatus \<times> JobStatus) set \<Rightarrow> Job list \<Rightarrow> Job list \<Rightarrow> bool" where
  "pending_rest S elig t0 E rest t = (job_moves {} E t0 t \<and> distinct (map job_ID rest) \<and>
     (\<forall>j \<in> set rest. job_Status j \<in> S \<and> status_in t (job_ID j) = Some (job_Status j) \<and>
        (\<exists>j0. row_of job_ID (job_ID j) t0 = Some j0 \<and> j = scanJob j0)) \<and>
     (\<forall>i j. row_of job_ID i t0 = Some j \<longrightarrow> \<not> elig j \<longrightarrow> row_of job_ID i t = Some j))"

lemma pending_rest_step:
  assumes inv: "pending_rest S elig t0 E (x # rest) t"
    and f: "\<And>r. job_ID (f r) = job_ID r" "\<And>r. job_Status (f r) = st"
    and E: "\<And>s. s \<in> S \<Longrightarrow> (s, st) \<in> E" and el: "\<And>j0. x = scanJob j0 \<Longrightarrow> elig j0"
  shows "pending_rest S elig t0 E rest (update_row job_ID (job_ID x) f t)"
proof -
  let ?t = "update_row job_ID (job_ID x) f t"
  have "job_moves {} E t ?t"
    by (rule moves_update [OF f]) (use inv E in \<open>auto simp: pending_rest_def\<close>)
  then have "job_moves {} E t0 ?t" using inv by (auto simp: pending_rest_def intro: job_moves_trans)
  moreover have "status_in ?t (job_ID j) = status_in t (job_ID j)" if "j \<in> set rest" for j
  proof -
    have "job_ID j \<noteq> job_ID x" using that inv by (auto simp: pending_rest_def image_iff)
    then show ?thesis by (simp add: status_in_update [OF f])
  qed
  moreover have "row_of job_ID i ?t = Some j" if "row_of job_ID i t0 = Some j" "\<not> elig j" for i j
  proof -
    have "i \<noteq> job_ID x" using that inv el by (auto simp: pending_rest_def)
    then show ?thesis using that inv f(1) by (simp add: row_of_update_row pending_rest_def)
  qed
  ultimately show ?thesis using inv by (auto simp: pending_rest_def)
qed

lemma pending_rest_skip: "pending_rest S elig t0 E (x # rest) t \<Longrightarrow> pending_rest S elig t0 E rest t"
  by (auto simp: pending_rest_def)

lemma pending_rest_nil [simp]: "pending_rest S elig t E [] t"
  by (simp add: pending_rest_def)

lemma pending_rest_select:
  assumes ok: "jobs_ok t" and "\<And>j. P j \<Longrightarrow> job_Status j \<in> S"
  shows "pending_rest S elig t E (select_jobs P key t) t"
proof -
  have "status_in t (job_ID j) = Some (job_Status j)" "row_of job_ID (job_ID j) t = Some j" if "j \<in> set t" for j
    using that ok row_status [OF ok that] by (auto simp: jobs_ok_def row_of_distinct)
  with assms select_jobs_ids [of t P key] show ?thesis by (auto simp: pending_rest_def jobs_ok_def)
qed

lemma pending_rest_done:
  "pending_rest S elig t0 E [] t \<Longrightarrow> job_moves {} E t0 t \<and>
     (\<forall>i j. row_of job_ID i t0 = Some j \<longrightarrow> \<not> elig j \<longrightarrow> row_of job_ID i t = Some j)"
  by (simp add: pending_rest_def)

lemma post_when_op [vcg]: "(b \<Longrightarrow> post m w Q) \<Longrightarrow> (\<not> b \<Longrightarrow> Q () w) \<Longrightarrow> post (when_op b m) w Q"
  by (simp add: when_op_def)

lemma post_discard [vcg]: "post m w (\<lambda>_ w'. Q () w') \<Longrightarrow> post (discard m) w Q"
  by (simp add: discard_def post_bind)

lemma edge_members [simp]:
  "(JobStatusFailed, JobStatusPending) \<in> retry_edges"
  "(JobStatusAwaitingCSR, JobStatusFailed) \<in> timeout_edges"
  "(JobStatusAwaitingApproval, JobStatusFailed) \<in> timeout_edges"
  "(JobStatusRunning, JobStatusFailed) \<in> offline_edges"
  by (simp_all add: retry_edges_def timeout_edges_def offline_edges_def)

lemma retry_job_step:
  assumes "pending_rest {JobStatusFailed} (\<lambda>j. job_Attempts j < job_MaxAttempts j) t0 retry_edges (x # rest) (tbl_jobs w)"
  shows "post (retry_job env s x) w (\<lambda>_ w'.
    pending_rest {JobStatusFailed} (\<lambda>j. job_Attempts j < job_MaxAttempts j) t0 retry_edges rest (tbl_jobs w'))"
  unfolding retry_job_def
  by (intro vcg; auto dest!: jobs_tables intro!: pending_rest_skip [OF assms] pending_rest_step [OF assms])

lemma pending_rest_head: "pending_rest S elig t0 E (x # rest) t \<Longrightarrow> job_Status x \<in> S"
  by (simp add: pending_rest_def)

lemma reap_offline_step:
  assumes "pending_rest {JobStatusRunning} (\<lambda>j. job_Status j = JobStatusRunning) t0 offline_edges (x # rest) (tbl_jobs w)"
  shows "post (reap_offline_job env s ttl x) w (\<lambda>_ w'.
    pending_rest {JobStatusRunning} (\<lambda>j. job_Status j = JobStatusRunning) t0 offline_edges rest (tbl_jobs w'))"
  unfolding reap_offline_job_def using pending_rest_head [OF assms]
  by (intro vcg; auto dest!: jobs_tables
      intro!: pending_rest_skip [OF assms] pending_rest_step [OF assms, where st = JobStatusFailed])

definition awaiting :: "JobStatus set" where
  "awaiting = {JobStatusAwaitingCSR, JobStatusAwaitingApproval}"

lemma awaiting_members [simp]: "JobStatusAwaitingCSR \<in> awaiting" "JobStatusAwaitingApproval \<in> awaiting"
  by (simp_all add: awaiting_def)

lemma awaiting_edge [simp]: "s \<in> awaiting \<Longrightarrow> (s, JobStatusFailed) \<in> timeout_edges"
  by (auto simp: awaiting_def)

lemma reap_timed_out_step:
  assumes "pending_rest awaiting (\<lambda>j. job_Status j \<in> awaiting) t0 timeout_edges (x # rest) (tbl_jobs w)"
  shows "post (reap_timed_out_job env s ttl1 ttl2 x) w (\<lambda>_ w'.
    pending_rest awaiting (\<lambda>j. job_Status j \<in> awaiting) t0 timeout_edges rest (tbl_jobs w'))"
  unfolding reap_timed_out_job_def using pending_rest_head [OF assms]
  by (intro vcg; auto dest!: jobs_tables
      intro!: pending_rest_skip [OF assms] pending_rest_step [OF assms, where st = JobStatusFailed])

section \<open>Properties of the background loops\<close>

text \<open>
  The retry loop only moves failed jobs to pending, and leaves every job that has used up its
  attempts, and every job that is not failed, exactly as it was. This holds for every pattern of
  database failures.
\<close>

theorem RetryFailedJobs_moves:
  assumes "jobs_ok (tbl_jobs w)" and "run_state (RetryFailedJobs env s maxRetries) w = (r, w')"
  shows "job_moves {} retry_edges (tbl_jobs w) (tbl_jobs w') \<and>
    (\<forall>i j. row_of job_ID i (tbl_jobs w) = Some j \<longrightarrow> job_Attempts j \<ge> job_MaxAttempts j \<longrightarrow>
       row_of job_ID i (tbl_jobs w') = Some j)"
proof -
  let ?P = "pending_rest {JobStatusFailed} (\<lambda>j. job_Attempts j < job_MaxAttempts j) (tbl_jobs w) retry_edges"
  have "post (RetryFailedJobs env s maxRetries) w (\<lambda>_ w'. ?P [] (tbl_jobs w'))"
    unfolding RetryFailedJobs_def JobRepository_ListByStatus_def
    by (rule post_sweep [where Inv = "\<lambda>rest v. ?P rest (tbl_jobs v)"])
      (auto dest!: jobs_tables intro: pending_rest_select [OF assms(1)] retry_job_step)
  from post_run [OF this assms(2)] show ?thesis by (auto dest: pending_rest_done simp: not_less)
qed

theorem RetryFailedJobs_moves_witness:
  "let w = empty_world \<lparr> tbl_jobs := [sample_job ''j1'' JobTypeRenewal JobStatusFailed,
         (sample_job ''j2'' JobTypeRenewal JobStatusFailed) \<lparr> job_Attempts := 3 \<rparr>] \<rparr>;
       w' = snd (run_state (RetryFailedJobs (calm Hour) (NewJobService True) 3) w)
   in job_moves {} retry_edges (tbl_jobs w) (tbl_jobs w') \<and>
      status_of w' ''j1'' = Some JobStatusPending \<and> status_of w' ''j2'' = Some JobStatusFailed"
proof -
  let ?w = "empty_world \<lparr> tbl_jobs := [sample_job ''j1'' JobTypeRenewal JobStatusFailed,
         (sample_job ''j2'' JobTypeRenewal JobStatusFailed) \<lparr> job_Attempts := 3 \<rparr>] \<rparr>"
  let ?run = "run_state (RetryFailedJobs (calm Hour) (NewJobService True) 3) ?w"
  have "jobs_ok (tbl_jobs ?w)" by (simp add: jobs_ok_def sample_job_def)
  from RetryFailedJobs_moves [OF this prod.collapse [symmetric]]
  have "job_moves {} retry_edges (tbl_jobs ?w) (tbl_jobs (snd ?run))" by blast
  moreover have "status_of (snd ?run) ''j1'' = Some JobStatusPending \<and> status_of (snd ?run) ''j2'' = Some JobStatusFailed"
    by (simp add: RetryFailedJobs_def retry_job_def run_defs job_repo_defs samples status_in_def when_op_def NewJobService_def)
  ultimately show ?thesis by (simp add: Let_def)
qed

text \<open>
  The timeout reaper only moves jobs that await a CSR or an approval to failed, and leaves every
  other job exactly as it was.
\<close>

theorem ReapTimedOutJobs_moves:
  assumes "jobs_ok (tbl_jobs w)" and "run_state (ReapTimedOutJobs env s csrTTL approvalTTL) w = (r, w')"
  shows "job_moves {} timeout_edges (tbl_jobs w) (tbl_jobs w') \<and>
    (\<forall>i j. row_of job_ID i (tbl_jobs w) = Some j \<longrightarrow> job_Status j \<notin> awaiting \<longrightarrow>
       row_of job_ID i (tbl_jobs w') = Some j)"
proof -
  let ?P = "pending_rest awaiting (\<lambda>j. job_Status j \<in> awaiting) (tbl_jobs w) timeout_edges"
  have "post (ReapTimedOutJobs env s csrTTL approvalTTL) w (\<lambda>_ w'. ?P [] (tbl_jobs w'))"
    unfolding ReapTimedOutJobs_def JobRepository_ListTimedOutAwaitingJobs_def
    by (rule post_bindI, rule post_now, rule post_sweep [where Inv = "\<lambda>rest v. ?P rest (tbl_jobs v)"])
      (auto dest!: jobs_tables intro!: pending_rest_select [OF assms(1)] intro: reap_timed_out_step)
  from post_run [OF this assms(2)] show ?thesis by (auto dest: pending_rest_done)
qed

theorem ReapTimedOutJobs_moves_witness:
  "let w = empty_world \<lparr> tbl_jobs := [sample_job ''j1'' JobTypeRenewal JobStatusAwaitingApproval,
         sample_job ''j2'' JobTypeRenewal JobStatusRunning] \<rparr>;
       w' = snd (run_state (ReapTimedOutJobs (calm (2 * Hour)) (NewJobService True) Hour Hour) w)
   in job_moves {} timeout_edges (tbl_jobs w) (tbl_jobs w') \<and> status_of w' ''j2'' = Some JobStatusRunning"
proof -
  let ?w = "empty_world \<lparr> tbl_jobs := [sample_job ''j1'' JobTypeRenewal JobStatusAwaitingApproval,
         sample_job ''j2'' JobTypeRenewal JobStatusRunning] \<rparr>"
  have "jobs_ok (tbl_jobs ?w)" by (simp add: jobs_ok_def sample_job_def)
  from ReapTimedOutJobs_moves [OF this prod.collapse [symmetric], of "calm (2 * Hour)" "NewJobService True" Hour Hour] show ?thesis
    by (auto simp: Let_def status_in_def row_of_def sample_job_def awaiting_def)
qed

text \<open>
  The offline-agent reaper only moves running jobs to failed, and leaves every other job exactly
  as it was.
\<close>

theorem ReapJobsWithOfflineAgents_moves:
  assumes "jobs_ok (tbl_jobs w)" and "run_state (ReapJobsWithOfflineAgents env s agentTTL) w = (r, w')"
  shows "job_moves {} offline_edges (tbl_jobs w) (tbl_jobs w') \<and>
    (\<forall>i j. row_of job_ID i (tbl_jobs w) = Some j \<longrightarrow> job_Status j \<noteq> JobStatusRunning \<longrightarrow>
       row_of job_ID i (tbl_jobs w') = Some j)"
proof -
  let ?P = "pending_rest {JobStatusRunning} (\<lambda>j. job_Status j = JobStatusRunning) (tbl_jobs w) offline_edges"
  have "post (ReapJobsWithOfflineAgents env s agentTTL) w (\<lambda>_ w'. ?P [] (tbl_jobs w'))"
    unfolding ReapJobsWithOfflineAgents_def JobRepository_ListJobsWithOfflineAgents_def
    by (rule post_if, simp, rule post_bindI, rule post_now, rule post_sweep [where Inv = "\<lambda>rest v. ?P rest (tbl_jobs v)"])
      (auto dest!: jobs_tables intro: pending_rest_select [OF assms(1)] reap_offline_step)
  from post_run [OF this assms(2)] show ?thesis by (auto dest: pending_rest_done)
qed

theorem ReapJobsWithOfflineAgents_moves_witness:
  "let w = empty_world \<lparr> tbl_jobs := [sample_job ''j1'' JobTypeRenewal JobStatusRunning,
         sample_job ''j2'' JobTypeRenewal JobStatusPending] \<rparr>;
       w' = snd (run_state (ReapJobsWithOfflineAgents (calm (2 * Hour)) (NewJobService True) Hour) w)
   in job_moves {} offline_edges (tbl_jobs w) (tbl_jobs w') \<and> status_of w' ''j2'' = Some JobStatusPending"
proof -
  let ?w = "empty_world \<lparr> tbl_jobs := [sample_job ''j1'' JobTypeRenewal JobStatusRunning,
         sample_job ''j2'' JobTypeRenewal JobStatusPending] \<rparr>"
  have "jobs_ok (tbl_jobs ?w)" by (simp add: jobs_ok_def sample_job_def)
  from ReapJobsWithOfflineAgents_moves [OF this prod.collapse [symmetric], of "calm (2 * Hour)" "NewJobService True" Hour] show ?thesis
    by (auto simp: Let_def status_in_def row_of_def sample_job_def)
qed

section \<open>Properties of the handlers\<close>

text \<open>
  One handler's effect: either no job changed, or exactly the named job moved from one of the
  statuses the handler accepts to the handler's target status.
\<close>

definition moves_one :: "string \<Rightarrow> JobStatus set \<Rightarrow> JobStatus \<Rightarrow> Job list \<Rightarrow> Job list \<Rightarrow> bool" where
  "moves_one i S st t t' = (\<exists>s \<in> S. status_in t i = Some s \<and> status_in t' i = Some st \<and>
     (\<forall>j. j \<noteq> i \<longrightarrow> row_of job_ID j t' = row_of job_ID j t))"

lemma moves_one_set_status:
  assumes "row_of job_ID i t = Some j" "job_Status j \<in> S"
  shows "moves_one i S st t (update_row job_ID i (set_status st m tm) t)"
  using assms by (auto simp: moves_one_def status_in_def row_of_update_row)

lemma keeps_checkNotSelf: "state_io_rel same_data (checkNotSelf env s job actor)"
  unfolding checkNotSelf_def CertificateRepository_Get_def OwnerRepository_Get_def lookup_row_def
  by (intro same.keeps_prims)

lemma post_checkNotSelf: "(\<And>r w'. same_data w w' \<Longrightarrow> Q r w') \<Longrightarrow> post (checkNotSelf env s job actor) w Q"
  by (rule post_keeps [OF keeps_checkNotSelf])

text \<open>
  Cancelling a job succeeds only on a pending or running job, which becomes cancelled; no other
  job changes. When it reports an error after a failed status update the job may have been
  cancelled; in every other error case the table is unchanged.
\<close>

theorem CancelJob_correct:
  assumes "run_state (CancelJob env i) w = (r, w')"
  shows "(r = Inr () \<longrightarrow> moves_one i {JobStatusPending, JobStatusRunning} JobStatusCancelled (tbl_jobs w) (tbl_jobs w')) \<and>
    (tbl_jobs w' = tbl_jobs w \<or>
     moves_one i {JobStatusPending, JobStatusRunning} JobStatusCancelled (tbl_jobs w) (tbl_jobs w'))"
proof -
  have "post (CancelJob env i) w (\<lambda>r w'.
      (r = Inr () \<longrightarrow> moves_one i {JobStatusPending, JobStatusRunning} JobStatusCancelled (tbl_jobs w) (tbl_jobs w')) \<and>
      (tbl_jobs w' = tbl_jobs w \<or>
       moves_one i {JobStatusPending, JobStatusRunning} JobStatusCancelled (tbl_jobs w) (tbl_jobs w')))"
    unfolding CancelJob_def
    by (intro vcg; auto dest!: jobs_tables intro!: moves_one_set_status)
  from post_run [OF this assms] show ?thesis .
qed

theorem CancelJob_correct_witness:
  "let w = empty_world \<lparr> tbl_jobs := [sample_job ''j1'' JobTypeRenewal JobStatusRunning] \<rparr>
   in moves_one ''j1'' {JobStatusPending, JobStatusRunning} JobStatusCancelled (tbl_jobs w)
     (tbl_jobs (snd (run_state (CancelJob (calm 0) ''j1'') w)))"
proof -
  let ?w = "empty_world \<lparr> tbl_jobs := [sample_job ''j1'' JobTypeRenewal JobStatusRunning] \<rparr>"
  have "fst (run_state (CancelJob (calm 0) ''j1'') ?w) = Inr ()"
    by (simp add: CancelJob_def run_defs job_repo_defs samples)
  with CancelJob_correct [OF prod.collapse [symmetric], of "calm 0" "''j1''" ?w] show ?thesis
    unfolding Let_def by blast
qed

text \<open>
  C34. Approving a job, and rejecting one, only acts on a job that awaits approval: approval makes it
  pending, rejection makes it cancelled, and no other job changes.
\<close>

theorem ApproveJob_RejectJob_correct:
  "(\<forall>r w'. run_state (ApproveJob env s i actor) w = (r, w') \<longrightarrow>
      (r = Inr () \<longrightarrow> moves_one i {JobStatusAwaitingApproval} JobStatusPending (tbl_jobs w) (tbl_jobs w')) \<and>
      (tbl_jobs w' = tbl_jobs w \<or>
       moves_one i {JobStatusAwaitingApproval} JobStatusPending (tbl_jobs w) (tbl_jobs w'))) \<and>
   (\<forall>r w'. run_state (RejectJob env i reason actor) w = (r, w') \<longrightarrow>
      (r = Inr () \<longrightarrow> moves_one i {JobStatusAwaitingApproval} JobStatusCancelled (tbl_jobs w) (tbl_jobs w')) \<and>
      (tbl_jobs w' = tbl_jobs w \<or>
       moves_one i {JobStatusAwaitingApproval} JobStatusCancelled (tbl_jobs w) (tbl_jobs w')))"
proof -
  have "post (ApproveJob env s i actor) w (\<lambda>r w'.
      (r = Inr () \<longrightarrow> moves_one i {JobStatusAwaitingApproval} JobStatusPending (tbl_jobs w) (tbl_jobs w')) \<and>
      (tbl_jobs w' = tbl_jobs w \<or>
       moves_one i {JobStatusAwaitingApproval} JobStatusPending (tbl_jobs w) (tbl_jobs w')))"
    unfolding ApproveJob_def
    by (intro vcg post_checkNotSelf; auto dest!: jobs_tables intro!: moves_one_set_status)
  moreover have "post (RejectJob env i reason actor) w (\<lambda>r w'.
      (r = Inr () \<longrightarrow> moves_one i {JobStatusAwaitingApproval} JobStatusCancelled (tbl_jobs w) (tbl_jobs w')) \<and>
      (tbl_jobs w' = tbl_jobs w \<or>
       moves_one i {JobStatusAwaitingApproval} JobStatusCancelled (tbl_jobs w) (tbl_jobs w')))"
    unfolding RejectJob_def
    by (intro vcg; auto dest!: jobs_tables intro!: moves_one_set_status)
  ultimately show ?thesis by (auto dest: post_run)
qed

theorem ApproveJob_RejectJob_correct_witness:
  "let w = empty_world \<lparr> tbl_jobs := [sample_job ''j1'' JobTypeRenewal JobStatusAwaitingApproval] \<rparr>
   in moves_one ''j1'' {JobStatusAwaitingApproval} JobStatusPending (tbl_jobs w)
        (tbl_jobs (snd (run_state (ApproveJob (calm 0) (NewJobService False) ''j1'' ''alice'') w))) \<and>
      moves_one ''j1'' {JobStatusAwaitingApproval} JobStatusCancelled (tbl_jobs w)
        (tbl_jobs (snd (run_state (RejectJob (calm 0) ''j1'' '''' ''alice'') w)))"
proof -
  let ?w = "empty_world \<lparr> tbl_jobs := [sample_job ''j1'' JobTypeRenewal JobStatusAwaitingApproval] \<rparr>"
  have "fst (run_state (ApproveJob (calm 0) (NewJobService False) ''j1'' ''alice'') ?w) = Inr ()"
    by (simp add: ApproveJob_def checkNotSelf_def NewJobService_def run_defs job_repo_defs samples)
  moreover have "fst (run_state (RejectJob (calm 0) ''j1'' '''' ''alice'') ?w) = Inr ()"
    by (simp add: RejectJob_def run_defs job_repo_defs samples)
  ultimately show ?thesis
    using ApproveJob_RejectJob_correct [of "calm 0" "NewJobService False" "''j1''" "''alice''" ?w "''''"]
    unfolding Let_def by (metis prod.collapse)
qed

text \<open>
  Separation of duties: when no lookup fails, the owner of the certificate, named by name or
  e-mail address in any letter case, cannot approve its job. The call returns the self-approval
  error and the table of jobs is unchanged.
\<close>

theorem ApproveJob_blocks_owner:
  assumes "\<And>n. \<not> fault env n" "js_reposWired s" "actor \<noteq> ''''"
    "row_of job_ID i (tbl_jobs w) = Some j" "job_Status j = JobStatusAwaitingApproval"
    "job_CertificateID j \<noteq> ''''" "row_of cert_ID (job_CertificateID j) (tbl_certs w) = Some c"
    "cert_OwnerID c \<noteq> ''''" "row_of owner_ID (cert_OwnerID c) (tbl_owners w) = Some ow"
    "to_lower (owner_Name ow) = to_lower actor \<or> to_lower (owner_Email ow) = to_lower actor"
  shows "fst (run_state (ApproveJob env s i actor) w) = Inl ErrSelfApproval \<and>
    tbl_jobs (snd (run_state (ApproveJob env s i actor) w)) = tbl_jobs w"
  using assms
  by (auto simp: ApproveJob_def checkNotSelf_def JobRepository_Get_def CertificateRepository_Get_def
      OwnerRepository_Get_def lookup_row_def query_def run_simps scan_cert_def)

definition approval_world :: world where
  "approval_world = empty_world \<lparr> tbl_jobs := [sample_job ''j1'' JobTypeRenewal JobStatusAwaitingApproval],
     tbl_certs := [sample_cert ''c1''], tbl_owners := [sample_owner ''o1'' ''alice''],
     tbl_profiles := [sample_profile ''p1'' True],
     tbl_approvals := [sample_approval ''ar-1'' ''j1'' ''alice''] \<rparr>"

theorem ApproveJob_blocks_owner_witness:
  "fst (run_state (ApproveJob (calm 0) (NewJobService True) ''j1'' ''ALICE'') approval_world) = Inl ErrSelfApproval"
proof -
  have "to_lower ''alice'' = to_lower ''ALICE''" by code_simp
  then have "fst (run_state (ApproveJob (calm 0) (NewJobService True) ''j1'' ''ALICE'') approval_world) = Inl ErrSelfApproval \<and>
    tbl_jobs (snd (run_state (ApproveJob (calm 0) (NewJobService True) ''j1'' ''ALICE'') approval_world)) = tbl_jobs approval_world"
    by (intro ApproveJob_blocks_owner [where j = "sample_job ''j1'' JobTypeRenewal JobStatusAwaitingApproval"
          and c = "sample_cert ''c1''" and ow = "sample_owner ''o1'' ''alice''"])
      (auto simp: approval_world_def samples row_of_def NewJobService_def)
  then show ?thesis ..
qed

text \<open>
  The separation of duties fails open: in the same situation, if the one query for the
  certificate fails, the owner's approval succeeds and the job becomes pending.
\<close>

theorem ApproveJob_self_approval_on_fault:
  "let env = (calm 0) \<lparr> fault := (\<lambda>n. n = 1) \<rparr>;
       (r, w') = run_state (ApproveJob env (NewJobService True) ''j1'' ''alice'') approval_world
   in r = Inr () \<and> status_of approval_world ''j1'' = Some JobStatusAwaitingApproval \<and>
      status_of w' ''j1'' = Some JobStatusPending"
  by (simp add: ApproveJob_def checkNotSelf_def CertificateRepository_Get_def approval_world_def
      NewJobService_def run_defs job_repo_defs samples status_in_def)

text \<open>
  The timeout of an approval releases the job: a job that awaits approval, with its request
  still pending, is failed by the reaper, made pending by the retry loop, and then claimed for
  execution, all without a decision on the request.
\<close>

theorem unapproved_job_is_dispatched:
  "let s = NewJobService True; env = calm (200 * Hour);
       w1 = snd (run_state (ReapTimedOutJobs env s (24 * Hour) (168 * Hour)) approval_world);
       w2 = snd (run_state (RetryFailedJobs env s 3) w1);
       (r, w3) = run_state (JobRepository_ClaimPendingJobs env None 0) w2
   in status_of approval_world ''j1'' = Some JobStatusAwaitingApproval \<and>
      map_sum id (map job_ID) r = Inr [''j1''] \<and> status_of w3 ''j1'' = Some JobStatusRunning \<and>
      map ar_State (tbl_approvals w3) = [ApprovalStatePending]"
  by (simp add: ReapTimedOutJobs_def reap_timed_out_job_def reap_reason_def RetryFailedJobs_def retry_job_def
      when_op_def approval_world_def NewJobService_def run_defs job_repo_defs samples status_in_def Let_def)

text \<open>
  A verification result is not readable: whatever was recorded, the result read back for a job
  is never verified and carries no fingerprint, no time and no error.
\<close>

theorem GetVerificationResult_never_verified:
  "case fst (run_state (GetVerificationResult env jobID) w) of
     Inl e \<Rightarrow> True
   | Inr v \<Rightarrow> \<not> vr_Verified v \<and> vr_ActualFingerprint v = '''' \<and> vr_VerifiedAt v = zero_time \<and> vr_Error v = ''''"
  by (auto simp: GetVerificationResult_def JobRepository_Get_def scanJob_def run_simps split: option.splits)

section \<open>Properties of the claim\<close>

lemma status_in_claim:
  "status_in (claim_rows ids t tbl) i = (if i \<in> set ids \<and> status_in tbl i \<noteq> None then Some JobStatusRunning else status_in tbl i)"
  by (induction tbl) (auto simp: status_in_def row_of_def claim_rows_def)

lemma claim_rows_nil [simp]: "claim_rows [] t tbl = tbl"
  by (simp add: claim_rows_def)

definition claimed :: "int \<Rightarrow> Job list \<Rightarrow> Job list \<Rightarrow> Job list \<Rightarrow> bool" where
  "claimed limit js t t' = (distinct (map job_ID js) \<and> (limit > 0 \<longrightarrow> int (length js) \<le> limit) \<and>
     (\<forall>j \<in> set js. status_in t (job_ID j) = Some JobStatusPending \<and> job_Status j = JobStatusRunning) \<and>
     (\<exists>tm. t' = claim_rows (map job_ID js) tm t))"

lemma claim_limit_sub: "set (claim_limit l xs) \<subseteq> set xs" "limit > 0 \<Longrightarrow> int (length (claim_limit limit xs)) \<le> limit"
  "distinct (map f xs) \<Longrightarrow> distinct (map f (claim_limit l xs))"
  by (auto simp: claim_limit_def take_map [symmetric] intro: distinct_take dest: in_set_takeD)

lemma claimedI:
  assumes "jobs_ok t" "js = claim_limit limit (select_jobs P key t)" "\<And>j. P j \<Longrightarrow> job_Status j = JobStatusPending"
    "t' = claim_rows (map job_ID js) tm t"
  shows "claimed limit (map (job_Status_update (\<lambda>_. JobStatusRunning)) js) t t'"
proof -
  have "distinct (map job_ID js)"
    using assms(1,2) by (auto simp: jobs_ok_def intro!: claim_limit_sub(3) select_jobs_ids)
  moreover have "status_in t (job_ID j) = Some JobStatusPending" if "j \<in> set js" for j
  proof -
    from that assms(2) claim_limit_sub(1) have "j \<in> scanJob ` {j \<in> set t. P j}" by fastforce
    with assms(1,3) show ?thesis by (auto simp: row_status)
  qed
  ultimately show ?thesis
    using assms(2,4) claim_limit_sub(2) by (auto simp: claimed_def comp_def)
qed

lemma ClaimPendingJobs_claimed:
  assumes ok: "jobs_ok (tbl_jobs w)" and run: "run_state (JobRepository_ClaimPendingJobs env jobType limit) w = (r, w')"
  shows "case r of Inl e \<Rightarrow> tbl_jobs w' = tbl_jobs w | Inr js \<Rightarrow> claimed limit js (tbl_jobs w) (tbl_jobs w')"
proof -
  have "post (JobRepository_ClaimPendingJobs env jobType limit) w (\<lambda>r w'.
      case r of Inl e \<Rightarrow> tbl_jobs w' = tbl_jobs w | Inr js \<Rightarrow> claimed limit js (tbl_jobs w) (tbl_jobs w'))"
    unfolding JobRepository_ClaimPendingJobs_def claim_jobs_def
    by (intro vcg; auto dest!: jobs_tables simp del: select_jobs_set
        intro!: claimedI [OF ok] simp: claimable_def claimed_def [where js = "[]"])
  from post_run [OF this run] show ?thesis .
qed

lemma jobs_ok_claim: "jobs_ok (claim_rows ids t tbl) = jobs_ok tbl"
proof -
  have "map job_ID (claim_rows ids t tbl) = map job_ID tbl" by (simp add: claim_rows_def)
  then show ?thesis unfolding jobs_ok_def by simp
qed

text \<open>
  C11. A claim is atomic and exact: when it fails the table of jobs is unchanged; when it succeeds
  the returned jobs are distinct, at most the requested number, were all pending, are returned as
  running, and exactly their rows changed, to running with one more attempt.
\<close>

theorem ClaimPendingJobs_correct:
  assumes "jobs_ok (tbl_jobs w)" and "run_state (JobRepository_ClaimPendingJobs env jobType limit) w = (r, w')"
  shows "case r of Inl e \<Rightarrow> tbl_jobs w' = tbl_jobs w | Inr js \<Rightarrow> claimed limit js (tbl_jobs w) (tbl_jobs w')"
  using assms by (rule ClaimPendingJobs_claimed)

definition two_pending :: world where
  "two_pending = empty_world \<lparr> tbl_jobs := [sample_job ''j1'' JobTypeRenewal JobStatusPending,
     sample_job ''j2'' JobTypeRenewal JobStatusPending] \<rparr>"

theorem ClaimPendingJobs_correct_witness:
  "case run_state (JobRepository_ClaimPendingJobs (calm 5) None 1) two_pending of (r, w') \<Rightarrow>
     (case r of Inl e \<Rightarrow> False | Inr js \<Rightarrow> map job_ID js = [''j1''] \<and> claimed 1 js (tbl_jobs two_pending) (tbl_jobs w'))"
proof -
  let ?run = "run_state (JobRepository_ClaimPendingJobs (calm 5) None 1) two_pending"
  have "jobs_ok (tbl_jobs two_pending)" by (simp add: two_pending_def jobs_ok_def sample_job_def)
  from ClaimPendingJobs_correct [OF this prod.collapse [symmetric], of "calm 5" None 1]
  have "case fst ?run of Inl e \<Rightarrow> tbl_jobs (snd ?run) = tbl_jobs two_pending
    | Inr js \<Rightarrow> claimed 1 js (tbl_jobs two_pending) (tbl_jobs (snd ?run))" .
  moreover have "map_sum id (map job_ID) (fst ?run) = Inr [''j1'']"
    by (simp add: two_pending_def run_defs job_repo_defs samples)
  ultimately show ?thesis by (cases ?run; cases "fst ?run") auto
qed

text \<open>
  C2. No job is dispatched twice: two claims in a row, by any schedulers with any arguments, return
  disjoint sets of jobs.
\<close>

theorem claims_disjoint:
  assumes ok: "jobs_ok (tbl_jobs w)"
    and c1: "run_state (JobRepository_ClaimPendingJobs env1 ty1 n1) w = (Inr js1, w1)"
    and c2: "run_state (JobRepository_ClaimPendingJobs env2 ty2 n2) w1 = (Inr js2, w2)"
  shows "set (map job_ID js1) \<inter> set (map job_ID js2) = {}"
proof -
  from ClaimPendingJobs_claimed [OF ok c1] have a: "claimed n1 js1 (tbl_jobs w) (tbl_jobs w1)" by simp
  then have "jobs_ok (tbl_jobs w1)" using ok by (auto simp: claimed_def jobs_ok_claim)
  from ClaimPendingJobs_claimed [OF this c2] have b: "claimed n2 js2 (tbl_jobs w1) (tbl_jobs w2)" by simp
  have "status_of w1 (job_ID j) = Some JobStatusRunning" if "j \<in> set js1" for j
    using a that by (auto simp: claimed_def status_in_claim)
  moreover have "status_of w1 (job_ID j) = Some JobStatusPending" if "j \<in> set js2" for j
    using b that by (simp add: claimed_def)
  ultimately show ?thesis by fastforce
qed

theorem claims_disjoint_witness:
  "let r1 = run_state (JobRepository_ClaimPendingJobs (calm 5) None 1) two_pending;
       r2 = run_state (JobRepository_ClaimPendingJobs (calm 6) None 0) (snd r1)
   in (case (fst r1, fst r2) of
        (Inr js1, Inr js2) \<Rightarrow> set (map job_ID js1) \<inter> set (map job_ID js2) = {} \<and> js1 \<noteq> [] \<and> js2 \<noteq> []
      | _ \<Rightarrow> False)"
proof -
  let ?r1 = "run_state (JobRepository_ClaimPendingJobs (calm 5) None 1) two_pending"
  let ?r2 = "run_state (JobRepository_ClaimPendingJobs (calm 6) None 0) (snd ?r1)"
  have ids: "map_sum id (map job_ID) (fst ?r1) = Inr [''j1'']" "map_sum id (map job_ID) (fst ?r2) = Inr [''j2'']"
    by (simp_all add: two_pending_def run_defs job_repo_defs samples)
  then obtain js1 js2 where e: "fst ?r1 = Inr js1" "fst ?r2 = Inr js2" "map job_ID js1 = [''j1'']" "map job_ID js2 = [''j2'']"
    by (cases "fst ?r1"; cases "fst ?r2") auto
  have "jobs_ok (tbl_jobs two_pending)" by (simp add: two_pending_def jobs_ok_def sample_job_def)
  moreover have "?r1 = (Inr js1, snd ?r1)" "?r2 = (Inr js2, snd ?r2)" using e by (metis prod.collapse)+
  ultimately have "set (map job_ID js1) \<inter> set (map job_ID js2) = {}" by (rule claims_disjoint)
  with e show ?thesis by (auto simp: Let_def)
qed

end
