(* ===== verification/Approvals.thy ===== *)
theory Approvals
  imports Jobs
begin

text \<open>
  \<^verbatim>\<open>internal/service/approval.go\<close>: the two-person approval workflow, with the callback that
  \<^verbatim>\<open>cmd/server/main.go\<close> registers for profile edits. The invariants say who can have decided a
  request and which states a request can pass through, for every sequence of calls and every
  pattern of database failures.
\<close>

section \<open>The service\<close>

abbreviation ErrApprovalNotFound :: error where "ErrApprovalNotFound \<equiv> Sentinel ''service.ErrApprovalNotFound''"
abbreviation ErrApprovalAlreadyDecided :: error where
  "ErrApprovalAlreadyDecided \<equiv> Sentinel ''service.ErrApprovalAlreadyDecided''"
abbreviation ErrApproveBySameActor :: error where
  "ErrApproveBySameActor \<equiv> Sentinel ''service.ErrApproveBySameActor''"

text \<open>The audit service and the metrics are optional; the profile-edit callback is a stored function.\<close>

record ApprovalService =
  as_auditWired :: bool
  as_metricsWired :: bool
  as_bypassEnabled :: bool
  as_profileEditApply :: "(ApprovalRequest \<Rightarrow> unit result op) option"

definition NewApprovalService :: "bool \<Rightarrow> bool \<Rightarrow> bool \<Rightarrow> ApprovalService" where
  "NewApprovalService audit mets bypassEnabled = \<lparr> as_auditWired = audit, as_metricsWired = mets,
     as_bypassEnabled = bypassEnabled, as_profileEditApply = None \<rparr>"

definition SetProfileEditApply :: "(ApprovalRequest \<Rightarrow> unit result op) \<Rightarrow> ApprovalService \<Rightarrow> ApprovalService" where
  "SetProfileEditApply f s = s \<lparr> as_profileEditApply := Some f \<rparr>"

definition show_approval_state :: "ApprovalState \<Rightarrow> string" where
  "show_approval_state st = (case st of ApprovalStateNone \<Rightarrow> '''' | ApprovalStatePending \<Rightarrow> ''pending''
     | ApprovalStateApproved \<Rightarrow> ''approved'' | ApprovalStateRejected \<Rightarrow> ''rejected''
     | ApprovalStateExpired \<Rightarrow> ''expired'' | ApprovalStateOther x \<Rightarrow> x)"

definition show_approval_kind :: "ApprovalKind \<Rightarrow> string" where
  "show_approval_kind k = (case k of ApprovalKindNone \<Rightarrow> '''' | ApprovalKindCertIssuance \<Rightarrow> ''cert_issuance''
     | ApprovalKindProfileEdit \<Rightarrow> ''profile_edit'' | ApprovalKindOther x \<Rightarrow> x)"

text \<open>Assignments to a Go map, in order: a later value replaces an earlier one.\<close>

definition map_puts :: "(string \<times> jval) list \<Rightarrow> (string \<times> jval) list \<Rightarrow> (string \<times> jval) list" where
  "map_puts es m = fold (\<lambda>(k, v). map_put k v) es m"

definition recordAudit ::
  "env \<Rightarrow> ApprovalService \<Rightarrow> string \<Rightarrow> ActorType \<Rightarrow> string \<Rightarrow> ApprovalRequest \<Rightarrow> (string \<times> jval) list \<Rightarrow> unit op" where
  "recordAudit env s actor actorType action req extra =
     (if \<not> as_auditWired s then State_Monad.return ()
      else discard (RecordEvent env actor actorType action ''approval_request'' (ar_ID req)
        (map_puts extra (map_puts (map (\<lambda>(k, v). (''metadata_'' @ k, JStr v)) (ar_Metadata req))
          [(''approval_id'', JStr (ar_ID req)), (''certificate_id'', JStr (ar_CertificateID req)),
           (''job_id'', JStr (ar_JobID req)), (''profile_id'', JStr (ar_ProfileID req)),
           (''requested_by'', JStr (ar_RequestedBy req)), (''state'', JStr (show_approval_state (ar_State req)))]))))"

definition record_metrics :: "ApprovalService \<Rightarrow> string \<Rightarrow> time \<Rightarrow> ApprovalRequest \<Rightarrow> unit op" where
  "record_metrics s outcome t req =
     when_op (as_metricsWired s) (modify (metrics_update
       (ObservePendingAge (t - ar_CreatedAt req) \<circ> RecordDecision outcome (ar_ProfileID req))))"

text \<open>The translation of a repository error that \<^verbatim>\<open>Approve\<close> and \<^verbatim>\<open>Reject\<close> share.\<close>

definition get_error :: "string \<Rightarrow> error \<Rightarrow> error" where
  "get_error msg e = (if errors_is e ErrNotFound then ErrApprovalNotFound else Wrap msg e)"

definition update_error :: "string \<Rightarrow> error \<Rightarrow> error" where
  "update_error msg e = (if errors_is e ErrNotFound then ErrApprovalNotFound
     else if errors_is e ErrAlreadyExists then ErrApprovalAlreadyDecided else Wrap msg e)"

definition approveInternal ::
  "env \<Rightarrow> ApprovalService \<Rightarrow> string \<Rightarrow> string \<Rightarrow> string \<Rightarrow> string \<Rightarrow> ActorType \<Rightarrow> unit result op" where
  "approveInternal env s requestID decidedBy note outcome actorType = do {
     t \<leftarrow> now env;
     g \<leftarrow> ApprovalRepository_Get env requestID;
     (case g of
        Inl e \<Rightarrow> State_Monad.return (Inl (get_error ''approval: get for transition'' e))
      | Inr req \<Rightarrow>
          if IsTerminal (ar_State req) then State_Monad.return (Inl ErrApprovalAlreadyDecided)
          else do {
            u \<leftarrow> ApprovalRepository_UpdateState env requestID ApprovalStateApproved decidedBy t note;
            (case u of
               Inl e \<Rightarrow> State_Monad.return (Inl (update_error ''approval: update state to approved'' e))
             | Inr _ \<Rightarrow>
                 if ar_Kind req = ApprovalKindProfileEdit then
                   (case as_profileEditApply s of
                      None \<Rightarrow> do {
                        _ \<leftarrow> recordAudit env s decidedBy actorType ''approval_profile_apply_missing'' req
                          [(''error'', JStr ''profileEditApply callback not wired'')];
                        State_Monad.return (Inl (Errorf ''approval: profile-edit apply callback not registered'')) }
                    | Some profileEditApply \<Rightarrow> do {
                        a \<leftarrow> profileEditApply req;
                        (case a of
                           Inl e \<Rightarrow> do {
                             _ \<leftarrow> recordAudit env s decidedBy actorType ''approval_profile_apply_failed'' req
                               [(''error'', JErr e)];
                             State_Monad.return (Inl (Wrap ''approval: apply profile edit'' e)) }
                         | Inr _ \<Rightarrow> do {
                             _ \<leftarrow> recordAudit env s decidedBy actorType (''approval_'' @ outcome) req
                               [(''note'', JStr note), (''outcome'', JStr outcome),
                                (''kind'', JStr (show_approval_kind (ar_Kind req)))];
                             _ \<leftarrow> record_metrics s outcome t req;
                             State_Monad.return (Inr ()) }) })
                 else do {
                   j \<leftarrow> JobRepository_UpdateStatus env (ar_JobID req) JobStatusPending '''';
                   (case j of
                      Inl e \<Rightarrow> do {
                        _ \<leftarrow> recordAudit env s decidedBy actorType ''approval_job_transition_failed'' req
                          [(''target_status'', JStr (show_status JobStatusPending)), (''error'', JErr e)];
                        State_Monad.return (Inl (Wrap ''approval: transition job to Pending'' e)) }
                    | Inr _ \<Rightarrow> do {
                        _ \<leftarrow> recordAudit env s decidedBy actorType (''approval_'' @ outcome) req
                          [(''note'', JStr note), (''outcome'', JStr outcome)];
                        _ \<leftarrow> record_metrics s outcome t req;
                        State_Monad.return (Inr ()) }) }) }) }"

definition bypass_note :: string where
  "bypass_note = ''auto-approved by CERTCTL_APPROVAL_BYPASS '' @ [CHR 0xE2, CHR 0x80, CHR 0x94] @ '' dev/CI mode''"

text \<open>The request's identifier, which the code also returns beside the error, is dropped there.\<close>

definition auto_approve :: "env \<Rightarrow> ApprovalService \<Rightarrow> string \<Rightarrow> string \<Rightarrow> string result op" where
  "auto_approve env s msg requestID =
     (if as_bypassEnabled s then do {
        a \<leftarrow> approveInternal env s requestID ApprovalActorSystemBypass bypass_note ''bypassed'' ActorTypeSystem;
        State_Monad.return (case a of Inl e \<Rightarrow> Inl (Wrap msg e) | Inr _ \<Rightarrow> Inr requestID) }
      else State_Monad.return (Inr requestID))"

definition new_request :: "time \<Rightarrow> string \<Rightarrow> string \<Rightarrow> ApprovalRequest" where
  "new_request t profileID requestedBy = \<lparr> ar_ID = '''', ar_Kind = ApprovalKindNone, ar_CertificateID = '''',
     ar_JobID = '''', ar_ProfileID = profileID, ar_RequestedBy = requestedBy, ar_State = ApprovalStatePending,
     ar_DecidedBy = None, ar_DecidedAt = None, ar_DecisionNote = None, ar_Metadata = [], ar_Payload = NoPayload,
     ar_CreatedAt = t, ar_UpdatedAt = t \<rparr>"

definition RequestApproval ::
  "env \<Rightarrow> ApprovalService \<Rightarrow> ManagedCertificate option \<Rightarrow> string \<Rightarrow> string \<Rightarrow> string \<Rightarrow> (string \<times> string) list \<Rightarrow> string result op" where
  "RequestApproval env s cert jobID profileID requestedBy metadata = (case cert of
     None \<Rightarrow> State_Monad.return (Inl (Errorf ''approval: nil certificate''))
   | Some c \<Rightarrow>
       if jobID = '''' \<or> profileID = '''' \<or> requestedBy = ''''
       then State_Monad.return (Inl (Errorf ''approval: jobID, profileID, requestedBy required''))
       else do {
         t \<leftarrow> now env;
         r \<leftarrow> ApprovalRepository_Create env ((new_request t profileID requestedBy)
           \<lparr> ar_CertificateID := cert_ID c, ar_JobID := jobID, ar_Metadata := metadata \<rparr>);
         (case r of
            Inl e \<Rightarrow> State_Monad.return (Inl (Wrap ''approval: create request'' e))
          | Inr req \<Rightarrow> do {
              _ \<leftarrow> recordAudit env s requestedBy ActorTypeUser ''approval_requested'' req [];
              auto_approve env s ''approval: bypass auto-approve'' (ar_ID req) }) })"

definition RequestProfileEditApproval ::
  "env \<Rightarrow> ApprovalService \<Rightarrow> string \<Rightarrow> string \<Rightarrow> payload \<Rightarrow> string result op" where
  "RequestProfileEditApproval env s profileID requestedBy payload =
     (if profileID = '''' \<or> requestedBy = ''''
      then State_Monad.return (Inl (Errorf ''approval: profileID + requestedBy required''))
      else if payload = NoPayload
      then State_Monad.return (Inl (Errorf ''approval: payload required for profile_edit''))
      else do {
        t \<leftarrow> now env;
        r \<leftarrow> ApprovalRepository_Create env ((new_request t profileID requestedBy)
          \<lparr> ar_Kind := ApprovalKindProfileEdit, ar_Payload := payload \<rparr>);
        (case r of
           Inl e \<Rightarrow> State_Monad.return (Inl (Wrap ''approval: create profile_edit request'' e))
         | Inr req \<Rightarrow> do {
             _ \<leftarrow> recordAudit env s requestedBy ActorTypeUser ''approval_profile_edit_requested'' req [];
             auto_approve env s ''approval: bypass auto-approve profile_edit'' (ar_ID req) }) })"

definition Approve :: "env \<Rightarrow> ApprovalService \<Rightarrow> string \<Rightarrow> string \<Rightarrow> string \<Rightarrow> unit result op" where
  "Approve env s requestID decidedBy note = do {
     g \<leftarrow> ApprovalRepository_Get env requestID;
     (case g of
        Inl e \<Rightarrow> State_Monad.return (Inl (get_error ''approval: get for approve'' e))
      | Inr req \<Rightarrow>
          if IsTerminal (ar_State req) then State_Monad.return (Inl ErrApprovalAlreadyDecided)
          else if decidedBy = ar_RequestedBy req then State_Monad.return (Inl ErrApproveBySameActor)
          else approveInternal env s requestID decidedBy note ''approved'' ActorTypeUser) }"

definition Reject :: "env \<Rightarrow> ApprovalService \<Rightarrow> string \<Rightarrow> string \<Rightarrow> string \<Rightarrow> unit result op" where
  "Reject env s requestID decidedBy note = do {
     g \<leftarrow> ApprovalRepository_Get env requestID;
     (case g of
        Inl e \<Rightarrow> State_Monad.return (Inl (get_error ''approval: get for reject'' e))
      | Inr req \<Rightarrow>
          if IsTerminal (ar_State req) then State_Monad.return (Inl ErrApprovalAlreadyDecided)
          else if decidedBy = ar_RequestedBy req then State_Monad.return (Inl ErrApproveBySameActor)
          else do {
            t \<leftarrow> now env;
            u \<leftarrow> ApprovalRepository_UpdateState env requestID ApprovalStateRejected decidedBy t note;
            (case u of
               Inl e \<Rightarrow> State_Monad.return (Inl (update_error ''approval: update state to rejected'' e))
             | Inr _ \<Rightarrow> do {
                 j \<leftarrow> JobRepository_UpdateStatus env (ar_JobID req) JobStatusCancelled (''approval rejected: '' @ note);
                 (case j of
                    Inl e \<Rightarrow> do {
                      _ \<leftarrow> recordAudit env s decidedBy ActorTypeUser ''approval_job_transition_failed'' req
                        [(''target_status'', JStr (show_status JobStatusCancelled)), (''error'', JErr e)];
                      State_Monad.return (Inl (Wrap ''approval: transition job to Cancelled'' e)) }
                  | Inr _ \<Rightarrow> do {
                      _ \<leftarrow> recordAudit env s decidedBy ActorTypeUser ''approval_rejected'' req
                        [(''note'', JStr note), (''outcome'', JStr ''rejected'')];
                      _ \<leftarrow> record_metrics s ''rejected'' t req;
                      State_Monad.return (Inr ()) }) }) }) }"

definition pending_filter :: "int \<Rightarrow> int \<Rightarrow> ApprovalFilter" where
  "pending_filter page perPage = \<lparr> af_State = Some ApprovalStatePending, af_CertificateID = '''', af_RequestedBy = '''',
     af_Page = page, af_PerPage = perPage \<rparr>"

definition ListPending :: "env \<Rightarrow> int \<Rightarrow> int \<Rightarrow> ApprovalRequest list result op" where
  "ListPending env page perPage = ApprovalRepository_List env (pending_filter page perPage)"

definition GetApproval :: "env \<Rightarrow> string \<Rightarrow> ApprovalRequest result op" where
  "GetApproval env i = do {
     r \<leftarrow> ApprovalRepository_Get env i;
     State_Monad.return (case r of
       Inl e \<Rightarrow> Inl (if errors_is e ErrNotFound then ErrApprovalNotFound else e)
     | Inr req \<Rightarrow> Inr req) }"

definition expire_one :: "env \<Rightarrow> ApprovalService \<Rightarrow> time \<Rightarrow> time \<Rightarrow> ApprovalRequest \<Rightarrow> unit op" where
  "expire_one env s before t req = do {
     j \<leftarrow> JobRepository_UpdateStatus env (ar_JobID req) JobStatusCancelled ''approval expired: timed out without review'';
     _ \<leftarrow> (case j of
        Inl e \<Rightarrow> recordAudit env s ''system-reaper'' ActorTypeSystem ''approval_job_transition_failed'' req
          [(''target_status'', JStr (show_status JobStatusCancelled)), (''error'', JErr e)]
      | Inr _ \<Rightarrow> State_Monad.return ());
     _ \<leftarrow> recordAudit env s ''system-reaper'' ActorTypeSystem ''approval_expired'' req
       [(''outcome'', JStr ''expired''), (''before_cutoff'', JTime before)];
     record_metrics s ''expired'' t req }"

definition ExpireStale :: "env \<Rightarrow> ApprovalService \<Rightarrow> time \<Rightarrow> nat result op" where
  "ExpireStale env s before = do {
     q \<leftarrow> ApprovalRepository_List env (pending_filter 0 500);
     (case q of
        Inl e \<Rightarrow> State_Monad.return (Inl (Wrap ''approval: list pending for expiry'' e))
      | Inr pending \<Rightarrow> do {
          let stale = filter (\<lambda>req. ar_CreatedAt req < before \<or> ar_CreatedAt req = before) pending;
          if stale = [] then State_Monad.return (Inr 0)
          else do {
            c \<leftarrow> ApprovalRepository_ExpireStale env before;
            (case c of
               Inl e \<Rightarrow> State_Monad.return (Inl (Wrap ''approval: bulk expire'' e))
             | Inr count \<Rightarrow> do {
                 t \<leftarrow> now env;
                 _ \<leftarrow> for_each (expire_one env s before t) stale;
                 State_Monad.return (Inr count) }) } }) }"

subsection \<open>The callback for profile edits\<close>

definition apply_profile_edit :: "env \<Rightarrow> ApprovalRequest \<Rightarrow> unit result op" where
  "apply_profile_edit env req = (case ar_Payload req of
     ProfileJSON pendingProfile \<Rightarrow> do {
       r \<leftarrow> ProfileRepository_Update env (pendingProfile \<lparr> prof_ID := ar_ProfileID req \<rparr>);
       (case r of
          Inl e \<Rightarrow> State_Monad.return (Inl (Wrap ''apply profile-edit diff'' e))
        | Inr _ \<Rightarrow> do {
            _ \<leftarrow> RecordEventWithCategory env ''approval-system'' ActorTypeSystem ''profile.edit_applied''
              EventCategoryAuth ''certificate_profile'' (ar_ProfileID req)
              [(''approval_id'', JStr (ar_ID req)), (''requested_by'', JStr (ar_RequestedBy req))];
            State_Monad.return (Inr ()) }) }
   | _ \<Rightarrow> State_Monad.return (Inl (Wrap ''decode profile-edit payload'' (Errorf ''json''))))"

text \<open>The service as \<^verbatim>\<open>cmd/server/main.go\<close> builds it.\<close>

definition server_approvals :: "env \<Rightarrow> bool \<Rightarrow> ApprovalService" where
  "server_approvals env bypassEnabled = SetProfileEditApply (apply_profile_edit env) (NewApprovalService True True bypassEnabled)"

section \<open>Who decides, and what a decision may change\<close>

text \<open>
  \<open>decided_ok\<close>: a pending request has no decider; an approved or rejected one was decided by somebody
  other than the requester, except that the bypass mode approves under its own name; an expired one
  was decided by the reaper. \<open>approvals_keep\<close>: no request disappears, its identity, job, kind and
  requester stay, and once decided it never changes again.
\<close>

fun decided_ok :: "bool \<Rightarrow> ApprovalRequest \<Rightarrow> bool" where
  "decided_ok bypass a = (case ar_State a of
     ApprovalStatePending \<Rightarrow> ar_DecidedBy a = None
   | ApprovalStateApproved \<Rightarrow> (\<exists>d. ar_DecidedBy a = Some d \<and> (d \<noteq> ar_RequestedBy a \<or> bypass \<and> d = ApprovalActorSystemBypass))
   | ApprovalStateRejected \<Rightarrow> (\<exists>d. ar_DecidedBy a = Some d \<and> d \<noteq> ar_RequestedBy a)
   | ApprovalStateExpired \<Rightarrow> ar_DecidedBy a = Some ''system-reaper''
   | _ \<Rightarrow> False)"

definition two_person :: "bool \<Rightarrow> ApprovalRequest list \<Rightarrow> bool" where
  "two_person bypass tbl = (approvals_ok tbl \<and> list_all (decided_ok bypass) tbl)"

definition same_request :: "ApprovalRequest \<Rightarrow> ApprovalRequest \<Rightarrow> bool" where
  "same_request a a' = (ar_Kind a' = ar_Kind a \<and> ar_JobID a' = ar_JobID a \<and> ar_CertificateID a' = ar_CertificateID a \<and>
     ar_ProfileID a' = ar_ProfileID a \<and> ar_RequestedBy a' = ar_RequestedBy a \<and> ar_Payload a' = ar_Payload a \<and>
     (IsTerminal (ar_State a) \<longrightarrow> a' = a))"

definition approvals_keep :: "ApprovalRequest list \<Rightarrow> ApprovalRequest list \<Rightarrow> bool" where
  "approvals_keep t t' = (\<forall>i a. row_of ar_ID i t = Some a \<longrightarrow>
     (\<exists>a'. row_of ar_ID i t' = Some a' \<and> same_request a a'))"

text \<open>One relation for both, so that one pass over the code proves both.\<close>

definition approvals_step :: "bool \<Rightarrow> ApprovalRequest list \<Rightarrow> ApprovalRequest list \<Rightarrow> bool" where
  "approvals_step bypass t t' = ((two_person bypass t \<longrightarrow> two_person bypass t') \<and> approvals_keep t t')"

lemma same_request_refl [simp]: "same_request a a"
  by (simp add: same_request_def)

lemma same_request_trans: "same_request a b \<Longrightarrow> same_request b c \<Longrightarrow> same_request a c"
  by (auto simp: same_request_def)

lemma approvals_step_refl [simp]: "approvals_step b t t"
  by (simp add: approvals_step_def approvals_keep_def)

lemma approvals_step_trans: "approvals_step b s t \<Longrightarrow> approvals_step b t u \<Longrightarrow> approvals_step b s u"
  unfolding approvals_step_def approvals_keep_def by (blast intro: same_request_trans)

interpretation asteps: table_view "\<lambda>w w'. approvals_step b (tbl_approvals w) (tbl_approvals w')" tbl_approvals for b
  by unfold_locales (auto intro: approvals_step_trans)

lemma same_request_decide: "IsTerminal st \<Longrightarrow> same_request a (decide st d at' n t a)"
  by (auto simp: same_request_def decide_def IsTerminal_def)

lemma approvals_keep_map:
  assumes "\<And>a. ar_ID (f a) = ar_ID a" "\<And>a. same_request a (f a)"
  shows "approvals_keep t (map f t)"
proof -
  have "row_of ar_ID i (map f t) = map_option f (row_of ar_ID i t)" for i
    using assms(1) by (induction t) (auto simp: row_of_def)
  with assms(2) show ?thesis by (auto simp: approvals_keep_def)
qed

lemma approvals_step_map:
  assumes "\<And>a. f a = a \<or> (\<exists>st d at' n t'. IsTerminal st \<and> f a = decide st d at' n t' a)"
    and "\<And>a. two_person b t \<Longrightarrow> a \<in> set t \<Longrightarrow> decided_ok b a \<Longrightarrow> decided_ok b (f a)"
  shows "approvals_step b t (map f t)"
proof -
  have "two_person b t \<Longrightarrow> two_person b (map f t)"
    using approvals_ok_map [of t f] assms by (auto simp: two_person_def list_all_iff simp del: decided_ok.simps)
  moreover have "approvals_keep t (map f t)"
  proof (rule approvals_keep_map)
    show "ar_ID (f a) = ar_ID a" "same_request a (f a)" for a
      using assms(1) [of a] same_request_decide by auto
  qed
  ultimately show ?thesis by (simp add: approvals_step_def)
qed

text \<open>A decision by \<open>d\<close> on the request that was read before.\<close>

definition may_decide :: "bool \<Rightarrow> ApprovalState \<Rightarrow> string \<Rightarrow> ApprovalRequest \<Rightarrow> bool" where
  "may_decide b st d a = (case st of
     ApprovalStateApproved \<Rightarrow> d \<noteq> ar_RequestedBy a \<or> b \<and> d = ApprovalActorSystemBypass
   | ApprovalStateRejected \<Rightarrow> d \<noteq> ar_RequestedBy a
   | ApprovalStateExpired \<Rightarrow> d = ''system-reaper''
   | _ \<Rightarrow> False)"

lemma decided_ok_decide: "may_decide b st d a \<Longrightarrow> decided_ok b a \<Longrightarrow> decided_ok b (decide st d at' n t a)"
  by (auto simp: decide_def may_decide_def split: ApprovalState.splits)

lemma may_decide_terminal: "may_decide b st d a \<Longrightarrow> IsTerminal st"
  by (auto simp: may_decide_def IsTerminal_def split: ApprovalState.splits)

lemma approvals_step_decide:
  assumes "row_of ar_ID i t = Some a" "may_decide b st d a"
  shows "approvals_step b t (update_row ar_ID i (decide st d at' n t') t)"
  unfolding update_row_def
proof (rule approvals_step_map, goal_cases)
  case (1 r)
  then show ?case using may_decide_terminal [OF assms(2)] by metis
next
  case (2 r)
  show ?case
  proof (cases "ar_ID r = i")
    case True
    then have "r = a" using 2 assms(1) row_of_distinct [of ar_ID t r] by (simp add: two_person_def approvals_ok_def)
    with True 2(3) assms(2) show ?thesis using decided_ok_decide by (simp del: decided_ok.simps)
  qed (use 2 in simp)
qed

lemma approvals_step_create:
  assumes "created_row t req row" "ar_State req = ApprovalStatePending" "ar_DecidedBy req = None"
  shows "approvals_step b t (t @ [row])"
proof -
  from assms have "\<not> has_key ar_ID (ar_ID row) t" "\<not> pending_clash t row" "approval_checks row"
    "ar_State row = ApprovalStatePending" "ar_DecidedBy row = None" by (auto simp: created_row_def)
  then have "two_person b t \<Longrightarrow> two_person b (t @ [row])" by (simp add: two_person_def approvals_ok_insert)
  moreover have "approvals_keep t (t @ [row])" by (auto simp: approvals_keep_def row_of_append)
  ultimately show ?thesis by (simp add: approvals_step_def)
qed

lemma approvals_step_expire:
  "approvals_step b t (map (\<lambda>a. if stale before a then decide ApprovalStateExpired ''system-reaper'' at' n t' a else a) t)"
proof (rule approvals_step_map, goal_cases)
  case (1 a)
  have "IsTerminal ApprovalStateExpired" by (simp add: IsTerminal_def)
  then show ?case by metis
next
  case (2 a)
  then show ?case
    using decided_ok_decide [of b ApprovalStateExpired "''system-reaper''" a] by (simp add: may_decide_def)
qed

section \<open>Every call is a step\<close>

lemma post_recordAudit [vcg]:
  "(\<And>w'. same_but_audit w w' \<Longrightarrow> Q () w') \<Longrightarrow> post (recordAudit env s a ty ac req ex) w Q"
  unfolding recordAudit_def by (intro vcg) (auto intro: logged.frame_refl)

lemma post_record_metrics [vcg]:
  "(\<And>w'. same_data w w' \<Longrightarrow> Q () w') \<Longrightarrow> post (record_metrics s out t req) w Q"
  unfolding record_metrics_def by (intro vcg) (auto intro: same.frame_refl)

text \<open>The callback for profile edits writes neither requests nor jobs.\<close>

interpretation requests_jobs: table_view
  "\<lambda>w w'. tbl_approvals w' = tbl_approvals w \<and> tbl_jobs w' = tbl_jobs w" "\<lambda>w. (tbl_approvals w, tbl_jobs w)"
  by unfold_locales auto

lemma post_apply_profile_edit [vcg]:
  "(\<And>r w'. tbl_approvals w' = tbl_approvals w \<Longrightarrow> tbl_jobs w' = tbl_jobs w \<Longrightarrow> Q r w') \<Longrightarrow>
   post (apply_profile_edit env req) w Q"
proof (rule post_keeps [where R = "\<lambda>w w'. tbl_approvals w' = tbl_approvals w \<and> tbl_jobs w' = tbl_jobs w"])
  show "state_io_rel (\<lambda>w w'. tbl_approvals w' = tbl_approvals w \<and> tbl_jobs w' = tbl_jobs w) (apply_profile_edit env req)"
    unfolding apply_profile_edit_def ProfileRepository_Update_def
    by (cases "ar_Payload req") (auto intro!: requests_jobs.keeps_audit requests_jobs.keeps_exec)
qed auto

lemma server_approvals_simps [simp]:
  "as_profileEditApply (server_approvals env b) = Some (apply_profile_edit env)"
  "as_bypassEnabled (server_approvals env b) = b" "as_auditWired (server_approvals env b)" "as_metricsWired (server_approvals env b)"
  by (simp_all add: server_approvals_def SetProfileEditApply_def NewApprovalService_def)

lemma approveInternal_step:
  assumes "\<And>a. row_of ar_ID i (tbl_approvals w) = Some a \<Longrightarrow> may_decide b ApprovalStateApproved d a"
  shows "post (approveInternal env (server_approvals env b') i d note out ty) w
    (\<lambda>_ w'. approvals_step b (tbl_approvals w) (tbl_approvals w'))"
  unfolding approveInternal_def
  by (simp only: server_approvals_simps option.case, intro vcg;
      auto dest!: approvals_tables intro!: approvals_step_decide assms)

lemma Approve_step:
  "post (Approve env (server_approvals env b) i d note) w (\<lambda>_ w'. approvals_step b (tbl_approvals w) (tbl_approvals w'))"
proof -
  have "post (approveInternal env (server_approvals env b) i d note out ty) w1
      (\<lambda>_ w'. approvals_step b (tbl_approvals w) (tbl_approvals w'))"
    if "same_data w w1" "row_of ar_ID i (tbl_approvals w) = Some a" "d \<noteq> ar_RequestedBy a" for w1 a out ty
    using approveInternal_step [of i w1 b d env b "note" out ty] that same_dataD(2) [OF that(1)]
    by (simp add: may_decide_def)
  then show ?thesis unfolding Approve_def by (intro vcg; auto dest!: approvals_tables)
qed

lemma auto_approve_step:
  "post (auto_approve env (server_approvals env b) msg i) w (\<lambda>_ w'. approvals_step b (tbl_approvals w) (tbl_approvals w'))"
proof -
  have "post (approveInternal env (server_approvals env b) i ApprovalActorSystemBypass bypass_note ''bypassed'' ActorTypeSystem) w
      (\<lambda>_ w'. approvals_step b (tbl_approvals w) (tbl_approvals w'))" if b
    by (rule approveInternal_step) (simp add: may_decide_def that)
  then show ?thesis unfolding auto_approve_def by (auto simp: post_bind)
qed

lemma request_step:
  assumes "created_row (tbl_approvals w) req row" "ar_State req = ApprovalStatePending" "ar_DecidedBy req = None"
    "tbl_approvals w' = tbl_approvals w @ [row]"
  shows "post (auto_approve env (server_approvals env b) msg i) w' (\<lambda>_ w''. approvals_step b (tbl_approvals w) (tbl_approvals w''))"
  by (rule post_mono [OF auto_approve_step])
    (rule approvals_step_trans [OF approvals_step_create [OF assms(1-3), folded assms(4)]])

lemma RequestApproval_step:
  "post (RequestApproval env (server_approvals env b) c j p by' md) w (\<lambda>_ w'. approvals_step b (tbl_approvals w) (tbl_approvals w'))"
  unfolding RequestApproval_def
  by (intro vcg; auto dest!: approvals_tables intro!: request_step simp: new_request_def)

lemma RequestProfileEditApproval_step:
  "post (RequestProfileEditApproval env (server_approvals env b) p by' pl) w (\<lambda>_ w'. approvals_step b (tbl_approvals w) (tbl_approvals w'))"
  unfolding RequestProfileEditApproval_def
  by (intro vcg; auto dest!: approvals_tables intro!: request_step simp: new_request_def)

lemma Reject_step:
  "post (Reject env s i d note) w (\<lambda>_ w'. approvals_step b (tbl_approvals w) (tbl_approvals w'))"
  unfolding Reject_def
  by (intro vcg; auto dest!: approvals_tables intro!: approvals_step_decide simp: may_decide_def)

lemma expire_one_keeps: "state_io_rel (\<lambda>w w'. approvals_step b (tbl_approvals w) (tbl_approvals w')) (expire_one env s before t req)"
  unfolding expire_one_def recordAudit_def record_metrics_def discard_def when_op_def
  by (intro asteps.keeps_audit asteps.keeps_job_writes asteps.keeps_modify) simp_all

lemma ExpireStale_step:
  "post (ExpireStale env s before) w (\<lambda>_ w'. approvals_step b (tbl_approvals w) (tbl_approvals w'))"
proof -
  have loop: "(\<And>w'. approvals_step b (tbl_approvals w2) (tbl_approvals w') \<Longrightarrow> Q () w') \<Longrightarrow>
      post (for_each (expire_one env s before t) rs) w2 Q" for t rs w2 Q
    by (rule post_keeps [OF asteps.keeps_for_each [OF expire_one_keeps]]) auto
  show ?thesis unfolding ExpireStale_def ApprovalRepository_List_def query_page_def Let_def
    by (intro vcg loop; auto dest!: approvals_tables intro: approvals_step_expire approvals_step_trans [OF approvals_step_expire]
        simp del: if_split)
qed

section \<open>The approval workflow as a state machine\<close>

text \<open>
  Any call of the approval service, or of the job service's handlers and loops, with any arguments
  and in any environment.
\<close>

inductive approval_call :: "bool \<Rightarrow> world \<Rightarrow> world \<Rightarrow> bool" for b where
  request: "run_state (RequestApproval env (server_approvals env b) c j p by' md) w = (r, w') \<Longrightarrow> approval_call b w w'"
| request_edit: "run_state (RequestProfileEditApproval env (server_approvals env b) p by' pl) w = (r, w') \<Longrightarrow> approval_call b w w'"
| approve: "run_state (Approve env (server_approvals env b) i d note) w = (r', w') \<Longrightarrow> approval_call b w w'"
| reject: "run_state (Reject env (server_approvals env b) i d note) w = (r', w') \<Longrightarrow> approval_call b w w'"
| expire: "run_state (ExpireStale env (server_approvals env b) before) w = (n, w') \<Longrightarrow> approval_call b w w'"
| approve_job: "run_state (ApproveJob env s i actor) w = (r', w') \<Longrightarrow> approval_call b w w'"
| reject_job: "run_state (RejectJob env i reason actor) w = (r', w') \<Longrightarrow> approval_call b w w'"
| cancel_job: "run_state (CancelJob env i) w = (r', w') \<Longrightarrow> approval_call b w w'"
| retry: "run_state (RetryFailedJobs env s m) w = (r', w') \<Longrightarrow> approval_call b w w'"
| reap: "run_state (ReapTimedOutJobs env s t1 t2) w = (r', w') \<Longrightarrow> approval_call b w w'"
| reap_offline: "run_state (ReapJobsWithOfflineAgents env s t1) w = (r', w') \<Longrightarrow> approval_call b w w'"
| claim: "run_state (JobRepository_ClaimPendingJobs env ty n) w = (js, w') \<Longrightarrow> approval_call b w w'"

text \<open>The job service does not write approval requests.\<close>

lemmas asteps_jobs = asteps.keeps_audit asteps.keeps_JobRepository_reads asteps.keeps_job_writes

lemma job_service_keeps:
  fixes b
  defines "R \<equiv> \<lambda>w w'. approvals_step b (tbl_approvals w) (tbl_approvals w')"
  shows "state_io_rel R (ApproveJob env s i actor)" "state_io_rel R (RejectJob env i reason actor)"
    "state_io_rel R (CancelJob env i)" "state_io_rel R (RetryFailedJobs env s m)"
    "state_io_rel R (ReapTimedOutJobs env s t1 t2)" "state_io_rel R (ReapJobsWithOfflineAgents env s t1)"
    "state_io_rel R (JobRepository_ClaimPendingJobs env ty n)"
  unfolding R_def ApproveJob_def RejectJob_def CancelJob_def RetryFailedJobs_def ReapTimedOutJobs_def
    ReapJobsWithOfflineAgents_def retry_job_def reap_timed_out_job_def reap_offline_job_def checkNotSelf_def
    CertificateRepository_Get_def OwnerRepository_Get_def lookup_row_def when_op_def discard_def
  by (intro asteps_jobs; simp)+

lemma approval_call_step: "approval_call b w w' \<Longrightarrow> approvals_step b (tbl_approvals w) (tbl_approvals w')"
  by (induction rule: approval_call.induct)
    (blast dest: post_run [OF RequestApproval_step] post_run [OF RequestProfileEditApproval_step]
      post_run [OF Approve_step] post_run [OF Reject_step] post_run [OF ExpireStale_step]
      state_io_relD [OF job_service_keeps(1)] state_io_relD [OF job_service_keeps(2)]
      state_io_relD [OF job_service_keeps(3)] state_io_relD [OF job_service_keeps(4)]
      state_io_relD [OF job_service_keeps(5)] state_io_relD [OF job_service_keeps(6)]
      state_io_relD [OF job_service_keeps(7)])+

lemma approval_calls_step: "(approval_call b)\<^sup>*\<^sup>* w w' \<Longrightarrow> approvals_step b (tbl_approvals w) (tbl_approvals w')"
  by (induction rule: rtranclp_induct) (auto intro: approvals_step_trans approval_call_step)

text \<open>
  C1. The two-person rule: with the bypass mode off, in every state reachable from a database without
  requests, by any sequence of calls and any database failures, no approved or rejected request was
  decided by its requester; identifiers are distinct and at most one request is pending per job.
\<close>

theorem two_person_always:
  assumes "(approval_call False)\<^sup>*\<^sup>* w0 w" and "tbl_approvals w0 = []"
  shows "approvals_ok (tbl_approvals w) \<and>
    (\<forall>a \<in> set (tbl_approvals w). ar_State a \<in> {ApprovalStateApproved, ApprovalStateRejected} \<longrightarrow>
       (\<exists>d. ar_DecidedBy a = Some d \<and> d \<noteq> ar_RequestedBy a))"
proof -
  have "two_person False (tbl_approvals w0)" by (simp add: assms(2) two_person_def approvals_ok_def)
  with approval_calls_step [OF assms(1)] have "two_person False (tbl_approvals w)" by (simp add: approvals_step_def)
  then show ?thesis by (auto simp: two_person_def list_all_iff)
qed

definition request_world :: world where
  "request_world = empty_world \<lparr> tbl_jobs := [sample_job ''j1'' JobTypeRenewal JobStatusAwaitingApproval],
     tbl_certs := [sample_cert ''c1''], tbl_profiles := [sample_profile ''p1'' True] \<rparr>"

lemma row_of_Cons [simp]: "row_of key k (r # rs) = (if key r = k then Some r else row_of key k rs)"
  by (simp add: row_of_def)

lemma row_of_Nil [simp]: "row_of key k [] = None"
  by (simp add: row_of_def)

lemmas approval_run_defs = ApprovalRepository_Create_def ApprovalRepository_Get_def ApprovalRepository_UpdateState_def
  scanApprovalRow_def pending_clash_def approval_checks_def approval_fks_def decide_def IsTerminal_def
  IsValidApprovalState_def IsValidApprovalKind_def new_request_def RequestApproval_def auto_approve_def
  recordAudit_def record_metrics_def when_op_def Approve_def approveInternal_def Reject_def get_error_def update_error_def

theorem two_person_always_witness:
  "let env = calm 5;
       w1 = snd (run_state (RequestApproval env (server_approvals env False) (Some (sample_cert ''c1'')) ''j1'' ''p1'' ''bob'' []) request_world);
       w2 = snd (run_state (Approve env (server_approvals env False) ''ar-u'' ''alice'' '''') w1)
   in approvals_ok (tbl_approvals w2) \<and>
    (\<forall>a \<in> set (tbl_approvals w2). ar_State a \<in> {ApprovalStateApproved, ApprovalStateRejected} \<longrightarrow>
       (\<exists>d. ar_DecidedBy a = Some d \<and> d \<noteq> ar_RequestedBy a))"
proof -
  let ?s = "server_approvals (calm 5) False"
  let ?r1 = "run_state (RequestApproval (calm 5) ?s (Some (sample_cert ''c1'')) ''j1'' ''p1'' ''bob'' []) request_world"
  let ?r2 = "run_state (Approve (calm 5) ?s ''ar-u'' ''alice'' '''') (snd ?r1)"
  have "approval_call False request_world (snd ?r1)" "approval_call False (snd ?r1) (snd ?r2)"
    by (rule approval_call.intros, rule prod.collapse [symmetric])+
  then have "(approval_call False)\<^sup>*\<^sup>* request_world (snd ?r2)" by simp
  moreover have "tbl_approvals request_world = []" by (simp add: request_world_def empty_world_def)
  ultimately show ?thesis unfolding Let_def by (rule two_person_always)
qed

text \<open>
  C10. A decision is final: along any sequence of calls no request disappears or changes its kind, job,
  certificate, profile, requester or payload, and a request that has been decided stays exactly as it is.
\<close>

theorem decisions_are_final:
  assumes "(approval_call b)\<^sup>*\<^sup>* w w'" and "row_of ar_ID i (tbl_approvals w) = Some a"
  shows "\<exists>a'. row_of ar_ID i (tbl_approvals w') = Some a' \<and> same_request a a'"
  using approval_calls_step [OF assms(1)] assms(2) by (simp add: approvals_step_def approvals_keep_def)

theorem decisions_are_final_witness:
  "let env = calm 5; a = (sample_approval ''ar-1'' ''j1'' ''bob'') \<lparr> ar_State := ApprovalStateRejected,
         ar_DecidedBy := Some ''carol'', ar_DecidedAt := Some 0 \<rparr>;
       w = approval_world \<lparr> tbl_approvals := [a] \<rparr>;
       w' = snd (run_state (Approve env (server_approvals env False) ''ar-1'' ''alice'' '''') w)
   in row_of ar_ID ''ar-1'' (tbl_approvals w') = Some a"
proof -
  let ?a = "(sample_approval ''ar-1'' ''j1'' ''bob'') \<lparr> ar_State := ApprovalStateRejected,
         ar_DecidedBy := Some ''carol'', ar_DecidedAt := Some 0 \<rparr>"
  let ?w = "approval_world \<lparr> tbl_approvals := [?a] \<rparr>"
  let ?r = "run_state (Approve (calm 5) (server_approvals (calm 5) False) ''ar-1'' ''alice'' '''') ?w"
  have "approval_call False ?w (snd ?r)" by (rule approval_call.approve, rule prod.collapse [symmetric])
  then have "(approval_call False)\<^sup>*\<^sup>* ?w (snd ?r)" by simp
  moreover have "row_of ar_ID ''ar-1'' (tbl_approvals ?w) = Some ?a" by (simp add: sample_approval_def)
  ultimately have "\<exists>a'. row_of ar_ID ''ar-1'' (tbl_approvals (snd ?r)) = Some a' \<and> same_request ?a a'"
    by (rule decisions_are_final)
  then show ?thesis by (auto simp: Let_def same_request_def IsTerminal_def)
qed

text \<open>
  Nobody decides their own request: whatever fails in the database, approving or rejecting a
  request as its requester is refused and no table changes.
\<close>

theorem self_decision_refused:
  assumes "row_of ar_ID i (tbl_approvals w) = Some a"
  shows "(case run_state (Approve env s i (ar_RequestedBy a) note) w of (r, w') \<Rightarrow> r \<noteq> Inr () \<and> same_data w w') \<and>
    (case run_state (Reject env s i (ar_RequestedBy a) note) w of (r, w') \<Rightarrow> r \<noteq> Inr () \<and> same_data w w')"
proof -
  have "post (Approve env s i (ar_RequestedBy a) note) w (\<lambda>r w'. r \<noteq> Inr () \<and> same_data w w')"
    unfolding Approve_def by (intro vcg; use assms in auto)
  moreover have "post (Reject env s i (ar_RequestedBy a) note) w (\<lambda>r w'. r \<noteq> Inr () \<and> same_data w w')"
    unfolding Reject_def by (intro vcg; use assms in auto)
  ultimately show ?thesis by (simp add: post_def)
qed

theorem self_decision_refused_witness:
  "fst (run_state (Approve (calm 5) (server_approvals (calm 5) False) ''ar-1'' ''alice'' '''') approval_world) \<noteq> Inr ()"
proof -
  have "row_of ar_ID ''ar-1'' (tbl_approvals approval_world) = Some (sample_approval ''ar-1'' ''j1'' ''alice'')"
    by (simp add: approval_world_def sample_approval_def)
  from self_decision_refused [OF this, of "calm 5" "server_approvals (calm 5) False" "''''"] show ?thesis
    by (simp add: sample_approval_def split: prod.splits)
qed

section \<open>What a decision does\<close>

text \<open>
  The effect of a successful decision by \<open>d\<close> on the request \<open>i\<close>: the request was pending and not the
  decider's own, exactly its row is decided, and the job of a certificate request gets the status \<open>js\<close>.
\<close>

definition decided_by ::
  "string \<Rightarrow> ApprovalState \<Rightarrow> string \<Rightarrow> string \<Rightarrow> (ApprovalRequest \<Rightarrow> JobStatus option) \<Rightarrow> world \<Rightarrow> world \<Rightarrow> bool" where
  "decided_by i st d note js w w' = (\<exists>a t t'. row_of ar_ID i (tbl_approvals w) = Some a \<and> ar_State a = ApprovalStatePending \<and>
     d \<noteq> ar_RequestedBy a \<and> tbl_approvals w' = update_row ar_ID i (decide st d t note t') (tbl_approvals w) \<and>
     (case js a of None \<Rightarrow> tbl_jobs w' = tbl_jobs w
      | Some s \<Rightarrow> status_of w' (ar_JobID a) = Some s \<and>
          (\<forall>j. j \<noteq> ar_JobID a \<longrightarrow> row_of job_ID j (tbl_jobs w') = row_of job_ID j (tbl_jobs w))))"

lemma pending_row:
  assumes "approvals_ok t" "row_of ar_ID i t = Some a" "has_pending i t"
  shows "ar_State a = ApprovalStatePending"
  using assms row_of_distinct [of ar_ID t] by (force simp: approvals_ok_def has_pending_def list_ex_iff)

lemma job_set_status:
  assumes "has_key job_ID j t" "t' = update_row job_ID j (set_status st m tm) t"
  shows "status_in t' j = Some st \<and> (\<forall>k. k \<noteq> j \<longrightarrow> row_of job_ID k t' = row_of job_ID k t)"
  using assms by (auto simp: status_in_def row_of_update_row row_of_has_key)

lemma decided_byI:
  assumes "approvals_ok (tbl_approvals w)" "row_of ar_ID i (tbl_approvals w) = Some a"
    "has_pending i (tbl_approvals w)" "d \<noteq> ar_RequestedBy a"
    "tbl_approvals w' = update_row ar_ID i (decide st d t note t') (tbl_approvals w)"
    "js a = None \<Longrightarrow> tbl_jobs w' = tbl_jobs w"
    "\<And>s. js a = Some s \<Longrightarrow> has_key job_ID (ar_JobID a) (tbl_jobs w) \<and>
       (\<exists>m tm. tbl_jobs w' = update_row job_ID (ar_JobID a) (set_status s m tm) (tbl_jobs w))"
  shows "decided_by i st d note js w w'"
  unfolding decided_by_def
proof (intro exI conjI)
  show "ar_State a = ApprovalStatePending" using assms(1-3) by (rule pending_row)
  show "case js a of None \<Rightarrow> tbl_jobs w' = tbl_jobs w
    | Some s \<Rightarrow> status_of w' (ar_JobID a) = Some s \<and>
        (\<forall>j. j \<noteq> ar_JobID a \<longrightarrow> row_of job_ID j (tbl_jobs w') = row_of job_ID j (tbl_jobs w))"
    using assms(6,7) by (cases "js a") (auto dest: job_set_status)
qed (fact assms)+

definition approve_status :: "ApprovalRequest \<Rightarrow> JobStatus option" where
  "approve_status a = (if ar_Kind a = ApprovalKindProfileEdit then None else Some JobStatusPending)"

definition reject_status :: "ApprovalRequest \<Rightarrow> JobStatus option" where
  "reject_status a = Some JobStatusCancelled"

lemma approveInternal_decides:
  assumes "approvals_ok (tbl_approvals w)" "row_of ar_ID i (tbl_approvals w) = Some a" "d \<noteq> ar_RequestedBy a"
  shows "post (approveInternal env (server_approvals env b) i d note out ty) w
    (\<lambda>r w'. r = Inr () \<longrightarrow> decided_by i ApprovalStateApproved d note approve_status w w')"
  unfolding approveInternal_def
  by (simp only: server_approvals_simps option.case, intro vcg;
      auto dest!: requests_tables intro!: decided_byI [OF assms(1)] simp: assms approve_status_def split: if_splits; blast)

text \<open>
  C28. A successful approval: the request was pending and not the approver's own, exactly its row is
  now approved by the approver, and for a certificate request exactly its job is now pending.
\<close>

theorem Approve_correct:
  assumes "approvals_ok (tbl_approvals w)"
    and "run_state (Approve env (server_approvals env b) i d note) w = (Inr (), w')"
  shows "decided_by i ApprovalStateApproved d note approve_status w w'"
proof -
  have "post (approveInternal env (server_approvals env b) i d note out ty) w1
      (\<lambda>r w'. r = Inr () \<longrightarrow> decided_by i ApprovalStateApproved d note approve_status w w')"
    if "same_data w w1" "row_of ar_ID i (tbl_approvals w) = Some a" "d \<noteq> ar_RequestedBy a" for w1 a out ty
  proof -
    have "decided_by i st d note js w1 v = decided_by i st d note js w v" for st js v
      unfolding decided_by_def same_dataD(1,2) [OF that(1)] by (rule refl)
    with approveInternal_decides [of w1 i a d env b "note" out ty] that(2,3) assms(1) same_dataD(2) [OF that(1)]
    show ?thesis by simp
  qed
  then have "post (Approve env (server_approvals env b) i d note) w
      (\<lambda>r w'. r = Inr () \<longrightarrow> decided_by i ApprovalStateApproved d note approve_status w w')"
    unfolding Approve_def by (intro vcg; auto)
  from post_run [OF this assms(2)] show ?thesis by simp
qed

theorem Approve_correct_witness:
  "decided_by ''ar-1'' ApprovalStateApproved ''bob'' ''ok'' approve_status approval_world
     (snd (run_state (Approve (calm 5) (server_approvals (calm 5) False) ''ar-1'' ''bob'' ''ok'') approval_world))"
proof -
  let ?r = "run_state (Approve (calm 5) (server_approvals (calm 5) False) ''ar-1'' ''bob'' ''ok'') approval_world"
  have "approvals_ok (tbl_approvals approval_world)"
    by (simp add: approval_world_def approvals_ok_def sample_approval_def approval_checks_def)
  moreover have "fst ?r = Inr ()"
    by (simp add: approval_run_defs approval_world_def discard_def run_defs job_repo_defs samples)
  then have "?r = (Inr (), snd ?r)" by (metis prod.collapse)
  ultimately show ?thesis by (rule Approve_correct)
qed

text \<open>
  C29. A successful rejection: the request was pending and not the rejecter's own, exactly its row is
  now rejected, and exactly its job is now cancelled.
\<close>

theorem Reject_correct:
  assumes "approvals_ok (tbl_approvals w)" and "run_state (Reject env s i d note) w = (Inr (), w')"
  shows "decided_by i ApprovalStateRejected d note reject_status w w'"
proof -
  have "post (Reject env s i d note) w (\<lambda>r w'. r = Inr () \<longrightarrow> decided_by i ApprovalStateRejected d note reject_status w w')"
    unfolding Reject_def
    by (intro vcg; auto dest!: requests_tables intro!: decided_byI [OF assms(1)] simp: reject_status_def; blast)
  from post_run [OF this assms(2)] show ?thesis by simp
qed

theorem Reject_correct_witness:
  "decided_by ''ar-1'' ApprovalStateRejected ''bob'' ''no'' reject_status approval_world
     (snd (run_state (Reject (calm 5) (NewApprovalService False False False) ''ar-1'' ''bob'' ''no'') approval_world))"
proof -
  let ?r = "run_state (Reject (calm 5) (NewApprovalService False False False) ''ar-1'' ''bob'' ''no'') approval_world"
  have "approvals_ok (tbl_approvals approval_world)"
    by (simp add: approval_world_def approvals_ok_def sample_approval_def approval_checks_def)
  moreover have "fst ?r = Inr ()"
    by (simp add: approval_run_defs NewApprovalService_def approval_world_def run_defs job_repo_defs samples)
  then have "?r = (Inr (), snd ?r)" by (metis prod.collapse)
  ultimately show ?thesis by (rule Reject_correct)
qed

section \<open>Expiry\<close>

lemma pending_page:
  "pending_filter 0 500 = \<lparr> af_State = Some ApprovalStatePending, af_CertificateID = '''', af_RequestedBy = '''', af_Page = 0, af_PerPage = 500 \<rparr>"
  by (simp add: pending_filter_def)

lemma pending_list:
  "ApprovalRepository_List env (pending_filter 0 500) = query env ''list approval requests''
     (\<lambda>w. take 500 (sort_key (\<lambda>a. - ar_CreatedAt a) (filter (\<lambda>a. ar_State a = ApprovalStatePending) (tbl_approvals w))))"
proof -
  have "approval_match (pending_filter 0 500) = (\<lambda>a. ar_State a = ApprovalStatePending)"
    by (rule ext) (simp add: approval_match_def pending_page)
  then show ?thesis by (simp add: ApprovalRepository_List_def query_page_def page_slice_def) (simp add: pending_page)
qed

lemma sorted_take_below:
  assumes "sorted (map k xs)" "n \<le> length (filter (\<lambda>x. k x < c) xs)" "x \<in> set (take n xs)"
  shows "k x < (c :: 'b :: linorder)"
  using assms
proof (induction xs arbitrary: n)
  case (Cons y ys)
  have "k y < c"
  proof (rule ccontr)
    assume "\<not> k y < c"
    with Cons.prems(1) have "filter (\<lambda>x. k x < c) (y # ys) = []" by (auto simp: filter_empty_conv)
    with Cons.prems show False by auto
  qed
  with Cons show ?case by (cases n) (auto split: if_splits)
qed simp

interpretation requests: table_view "\<lambda>w w'. tbl_approvals w' = tbl_approvals w" tbl_approvals
  by unfold_locales auto

lemma post_expire_loop [vcg]:
  assumes "\<And>w'. tbl_approvals w' = tbl_approvals w \<Longrightarrow> Q () w'"
  shows "post (for_each (expire_one env s before t) rs) w Q"
proof (rule post_keeps [OF requests.keeps_for_each])
  show "state_io_rel (\<lambda>w w'. tbl_approvals w' = tbl_approvals w) (expire_one env s before t r)" for r
    unfolding expire_one_def recordAudit_def record_metrics_def discard_def when_op_def
    by (intro requests.keeps_audit requests.keeps_job_writes) simp
qed (simp add: assms)

definition expire_rows :: "time \<Rightarrow> time \<Rightarrow> ApprovalRequest list \<Rightarrow> ApprovalRequest list" where
  "expire_rows before t = map (\<lambda>a. if stale before a
     then decide ApprovalStateExpired ''system-reaper'' t expire_note t a else a)"

lemma no_stale:
  assumes "length (filter (\<lambda>a. ar_State a = ApprovalStatePending) tbl) \<le> 500"
    "filter (\<lambda>a. ar_CreatedAt a < before \<or> ar_CreatedAt a = before)
      (take 500 (sort_key (\<lambda>a. - ar_CreatedAt a) (filter (\<lambda>a. ar_State a = ApprovalStatePending) tbl))) = []"
  shows "filter (stale before) tbl = [] \<and> (\<exists>t. tbl = expire_rows before t tbl)"
proof -
  have "\<not> stale before a" if "a \<in> set tbl" for a
    using assms that by (auto simp: filter_empty_conv stale_def)
  moreover from this have "tbl = expire_rows before t tbl" for t by (auto simp: expire_rows_def intro!: map_idI [symmetric])
  ultimately show ?thesis by (auto simp: filter_empty_conv)
qed

text \<open>
  C33. When at most 500 requests are pending, a successful expiry run leaves no stale request: exactly
  the requests that were pending and created no later than the cut-off are now expired by the reaper,
  every other request is unchanged, and the result is their number.
\<close>

theorem ExpireStale_correct:
  assumes "run_state (ExpireStale env s before) w = (Inr n, w')"
    and "length (filter (\<lambda>a. ar_State a = ApprovalStatePending) (tbl_approvals w)) \<le> 500"
  shows "n = length (filter (stale before) (tbl_approvals w)) \<and>
    (\<exists>t. tbl_approvals w' = expire_rows before t (tbl_approvals w))"
proof -
  have "post (ExpireStale env s before) w (\<lambda>r w'. \<forall>n. r = Inr n \<longrightarrow>
      n = length (filter (stale before) (tbl_approvals w)) \<and> (\<exists>t. tbl_approvals w' = expire_rows before t (tbl_approvals w)))"
    unfolding ExpireStale_def pending_list
    by (intro vcg; auto dest!: approvals_tables no_stale [OF assms(2), OF sym]
        simp: expire_rows_def [symmetric] count_rows_def)
  from post_run [OF this assms(1)] show ?thesis by simp
qed

theorem ExpireStale_correct_witness:
  "let (r, w') = run_state (ExpireStale (calm 5) (NewApprovalService False False False) 3) approval_world
   in r = Inr 1 \<and> map ar_State (tbl_approvals w') = [ApprovalStateExpired]"
proof -
  let ?r = "run_state (ExpireStale (calm 5) (NewApprovalService False False False) 3) approval_world"
  have "fst ?r = Inr 1"
    by (simp add: ExpireStale_def pending_list expire_one_def ApprovalRepository_ExpireStale_def stale_def
        approval_run_defs NewApprovalService_def approval_world_def run_defs job_repo_defs samples)
  then have "?r = (Inr 1, snd ?r)" by (metis prod.collapse)
  moreover have "length (filter (\<lambda>a. ar_State a = ApprovalStatePending) (tbl_approvals approval_world)) \<le> 500"
    by (simp add: approval_world_def)
  ultimately obtain t where "tbl_approvals (snd ?r) = expire_rows 3 t (tbl_approvals approval_world)"
    using ExpireStale_correct by blast
  with \<open>fst ?r = Inr 1\<close> show ?thesis
    by (simp add: case_prod_beta expire_rows_def approval_world_def sample_approval_def stale_def decide_def)
qed

text \<open>
  The expiry run looks at the 500 newest pending requests only: when 500 pending requests are
  newer than the cut-off, it reports success with nothing expired and changes no table, however many
  stale requests there are.
\<close>

theorem ExpireStale_misses_old_requests:
  assumes "\<And>n. \<not> fault env n"
    and "500 \<le> length (filter (\<lambda>a. ar_State a = ApprovalStatePending \<and> before < ar_CreatedAt a) (tbl_approvals w))"
  shows "fst (run_state (ExpireStale env s before) w) = Inr 0 \<and> same_data w (snd (run_state (ExpireStale env s before) w))"
proof -
  let ?p = "filter (\<lambda>a. ar_State a = ApprovalStatePending) (tbl_approvals w)"
  let ?xs = "sort_key (\<lambda>a. - ar_CreatedAt a) ?p"
  have "length (filter (\<lambda>a. - ar_CreatedAt a < - before) ?xs) = length (filter (\<lambda>a. - ar_CreatedAt a < - before) ?p)"
    by (metis filter_sort length_sort)
  also have "\<dots> = length (filter (\<lambda>a. ar_State a = ApprovalStatePending \<and> before < ar_CreatedAt a) (tbl_approvals w))"
    by (simp add: conj_commute)
  finally have "500 \<le> length (filter (\<lambda>a. - ar_CreatedAt a < - before) ?xs)" using assms(2) by simp
  then have "before < ar_CreatedAt a" if "a \<in> set (take 500 ?xs)" for a
    using sorted_take_below [of "\<lambda>a. - ar_CreatedAt a" ?xs 500 "- before" a] that by simp
  then have none: "filter (\<lambda>req. ar_CreatedAt req < before \<or> ar_CreatedAt req = before) (take 500 ?xs) = []"
    by (force simp: filter_empty_conv)
  have "same_data w (w \<lparr> steps := Suc (steps w) \<rparr>)" using same.R_steps [of w "\<lambda>_. Suc (steps w)"] by simp
  with none assms(1) show ?thesis
    by (simp add: ExpireStale_def pending_list query_def run_simps)
qed

definition crowded_world :: world where
  "crowded_world = empty_world \<lparr> tbl_approvals := sample_approval ''old'' ''j0'' ''bob'' #
     map (\<lambda>n. (sample_approval (show_nat n) (''j'' @ show_nat n) ''bob'') \<lparr> ar_CreatedAt := 10 \<rparr>) [0 ..< 500] \<rparr>"

theorem ExpireStale_misses_old_requests_witness:
  "stale 5 (hd (tbl_approvals crowded_world)) \<and>
   fst (run_state (ExpireStale (calm 20) (NewApprovalService True True False) 5) crowded_world) = Inr 0"
proof -
  have "500 \<le> length (filter (\<lambda>a. ar_State a = ApprovalStatePending \<and> 5 < ar_CreatedAt a) (tbl_approvals crowded_world))"
    by (simp add: crowded_world_def sample_approval_def comp_def)
  from ExpireStale_misses_old_requests [OF _ this, of "calm 20"]
  have "fst (run_state (ExpireStale (calm 20) (NewApprovalService True True False) 5) crowded_world) = Inr 0"
    by (simp add: calm_def)
  then show ?thesis by (simp add: crowded_world_def sample_approval_def stale_def)
qed

section \<open>Gaps in the workflow\<close>

text \<open>
  Approving a request revives a job that has been cancelled in the meantime: the job is pending
  again although it was cancelled.
\<close>

theorem approval_revives_cancelled_job:
  "let env = calm 5; w = approval_world \<lparr> tbl_jobs := [sample_job ''j1'' JobTypeRenewal JobStatusCancelled] \<rparr>;
       (r, w') = run_state (Approve env (NewApprovalService False False False) ''ar-1'' ''bob'' '''') w
   in r = Inr () \<and> status_of w ''j1'' = Some JobStatusCancelled \<and> status_of w' ''j1'' = Some JobStatusPending"
  by (simp add: approval_run_defs NewApprovalService_def approval_world_def run_defs job_repo_defs samples status_in_def)

text \<open>
  The job endpoint goes around the request: the requester of a pending approval request, who is
  not the certificate's owner, approves the job directly. The job becomes pending while the request
  stays pending.
\<close>

theorem requester_approves_own_job:
  "let w = approval_world \<lparr> tbl_approvals := [sample_approval ''ar-1'' ''j1'' ''bob''] \<rparr>;
       (r, w') = run_state (ApproveJob (calm 5) (NewJobService True) ''j1'' ''bob'') w
   in r = Inr () \<and> status_of w' ''j1'' = Some JobStatusPending \<and>
      map (\<lambda>a. (ar_RequestedBy a, ar_State a)) (tbl_approvals w') = [(''bob'', ApprovalStatePending)]"
proof -
  have n: "to_lower ''alice'' \<noteq> to_lower ''bob''" "to_lower ''alice@example.com'' \<noteq> to_lower ''bob''" by code_simp+
  show ?thesis using n
    by (simp add: ApproveJob_def checkNotSelf_def CertificateRepository_Get_def OwnerRepository_Get_def lookup_row_def
        scan_cert_def approval_world_def NewJobService_def run_defs job_repo_defs samples status_in_def)
qed

text \<open>
  Rejecting a profile edit rejects the request and then reports an error, because a profile edit
  has no job whose status could be updated.
\<close>

theorem profile_edit_rejection_fails:
  "let a = (sample_approval ''ar-1'' '''' ''alice'') \<lparr> ar_Kind := ApprovalKindProfileEdit, ar_CertificateID := '''',
         ar_Payload := ProfileJSON (sample_profile ''p1'' True) \<rparr>;
       w = approval_world \<lparr> tbl_approvals := [a] \<rparr>;
       (r, w') = run_state (Reject (calm 5) (NewApprovalService False False False) ''ar-1'' ''bob'' '''') w
   in (case r of Inl e \<Rightarrow> True | Inr _ \<Rightarrow> False) \<and> map ar_State (tbl_approvals w') = [ApprovalStateRejected]"
  by (simp add: approval_run_defs NewApprovalService_def approval_world_def run_defs job_repo_defs samples)

end
