(* ===== verification/Notifications.thy ===== *)
theory Notifications
  imports Approvals
begin

text \<open>
  \<^verbatim>\<open>internal/repository/postgres/notification.go\<close> and \<^verbatim>\<open>internal/service/notification.go\<close>: the
  outbox of notifications, the threshold alerts with their deduplication, and the retry sweep.
  Handing a message to a channel is an answer of the environment: accepted, or refused with an error.
\<close>

section \<open>Text\<close>

text \<open>SQL \<^verbatim>\<open>LIKE\<close>: \<^verbatim>\<open>%\<close> matches any text, \<^verbatim>\<open>_\<close> one character, a backslash takes the next literally.\<close>

fun sql_like :: "string \<Rightarrow> string \<Rightarrow> bool" where
  "sql_like [] [] = True"
| "sql_like (c # s) [] = False"
| "sql_like [] (p # ps) = (p = CHR ''%'' \<and> sql_like [] ps)"
| "sql_like (c # s) (p # ps) =
     (if p = CHR ''%'' then sql_like (c # s) ps \<or> sql_like s (p # ps)
      else if p = CHR ''_'' then sql_like s ps
      else if p = CHR 0x5C then (case ps of [] \<Rightarrow> False | q # qs \<Rightarrow> c = q \<and> sql_like s qs)
      else c = p \<and> sql_like s ps)"

definition plain :: "string \<Rightarrow> bool" where
  "plain s = list_all (\<lambda>c. c \<noteq> CHR ''%'' \<and> c \<noteq> CHR ''_'' \<and> c \<noteq> CHR 0x5C) s"

lemma sql_like_rest: "sql_like s ''%''"
  by (induction s) auto

lemma sql_like_prefix: "plain p \<Longrightarrow> sql_like s (p @ ''%'') = has_prefix s p"
proof (induction p arbitrary: s)
  case Nil
  show ?case by (simp add: sql_like_rest)
next
  case (Cons c p)
  then show ?case by (cases s) (auto simp: plain_def)
qed

lemma sql_like_contains: "plain p \<Longrightarrow> sql_like s (''%'' @ p @ ''%'') = contains s p"
proof (induction s)
  case Nil
  then show ?case using sql_like_prefix [of p "[]"] by (cases p) auto
next
  case (Cons c s)
  then show ?case using sql_like_prefix [of p "c # s"] by simp
qed

text \<open>The date of an instant in the format \<^verbatim>\<open>2006-01-02\<close>, in the proleptic Gregorian calendar.\<close>

definition pad :: "nat \<Rightarrow> int \<Rightarrow> string" where
  "pad n i = replicate (n - length (show_int i)) CHR ''0'' @ show_int i"

definition civil :: "int \<Rightarrow> int \<times> int \<times> int" where
  "civil days =
     (let z = days + 719468; era = z div 146097; doe = z mod 146097;
          yoe = (doe - doe div 1460 + doe div 36524 - doe div 146096) div 365;
          doy = doe - (365 * yoe + yoe div 4 - yoe div 100);
          mp = (5 * doy + 2) div 153; d = doy - (153 * mp + 2) div 5 + 1;
          m = (if mp < 10 then mp + 3 else mp - 9); y = yoe + era * 400
      in (if m \<le> 2 then y + 1 else y, m, d))"

definition show_date :: "time \<Rightarrow> string" where
  "show_date t = (case civil (t div Day) of (y, m, d) \<Rightarrow> pad 4 y @ ''-'' @ pad 2 m @ ''-'' @ pad 2 d)"

section \<open>The repository\<close>

definition NotificationRepository_Create :: "env \<Rightarrow> NotificationEvent \<Rightarrow> NotificationEvent result op" where
  "NotificationRepository_Create env notif = do {
     i \<leftarrow> (if ne_ID notif = '''' then new_uuid env else State_Monad.return (ne_ID notif));
     t \<leftarrow> (if ne_CreatedAt notif = zero_time then now env else State_Monad.return (ne_CreatedAt notif));
     let row = notif \<lparr> ne_ID := i, ne_CreatedAt := t, ne_RetryCount := 0, ne_NextRetryAt := None, ne_LastError := None \<rparr> in do {
     r \<leftarrow> insert_row env ''failed to create notification''
       (\<lambda>w. \<not> has_key ne_ID i (tbl_notifs w) \<and> fk_ok cert_ID (tbl_certs w) (ne_CertificateID notif))
       (tbl_notifs_update (\<lambda>t. t @ [row]));
     State_Monad.return (case r of Inl e \<Rightarrow> Inl e | Inr _ \<Rightarrow> Inr (notif \<lparr> ne_ID := i, ne_CreatedAt := t \<rparr>)) } }"

record NotificationFilter =
  nf_CertificateID :: string
  nf_Type :: "NotificationType option"
  nf_Status :: "NotificationStatus option"
  nf_MessageLike :: string
  nf_Channel :: string
  nf_Page :: int
  nf_PerPage :: int

definition no_filter :: NotificationFilter where
  "no_filter = \<lparr> nf_CertificateID = '''', nf_Type = None, nf_Status = None, nf_MessageLike = '''', nf_Channel = '''',
     nf_Page = 0, nf_PerPage = 0 \<rparr>"

definition notif_match :: "NotificationFilter \<Rightarrow> NotificationEvent \<Rightarrow> bool" where
  "notif_match f n =
     ((nf_CertificateID f \<noteq> '''' \<longrightarrow> ne_CertificateID n = Some (nf_CertificateID f)) \<and>
      (case nf_Type f of None \<Rightarrow> True | Some ty \<Rightarrow> ne_Type n = ty) \<and>
      (case nf_Status f of None \<Rightarrow> True | Some st \<Rightarrow> ne_Status n = st) \<and>
      (nf_MessageLike f \<noteq> '''' \<longrightarrow> sql_like (ne_Message n) (nf_MessageLike f)) \<and>
      (nf_Channel f \<noteq> '''' \<longrightarrow> ne_Channel n = nf_Channel f))"

definition newest_sent :: "NotificationEvent \<Rightarrow> nat \<times> int" where
  "newest_sent n = (case ne_SentAt n of None \<Rightarrow> (1, 0) | Some t \<Rightarrow> (0, - t))"

definition NotificationRepository_List :: "env \<Rightarrow> NotificationFilter \<Rightarrow> NotificationEvent list result op" where
  "NotificationRepository_List env f =
     (let page = (if nf_Page f < 1 then 1 else nf_Page f);
          perPage = (if nf_PerPage f = 0 \<or> nf_PerPage f > 500 then 50 else nf_PerPage f) in do {
      c \<leftarrow> query env ''failed to count notifications'' (\<lambda>w. count_rows (notif_match f) (tbl_notifs w));
      (case c of
         Inl e \<Rightarrow> State_Monad.return (Inl e)
       | Inr _ \<Rightarrow>
           query_page env ''failed to query notifications'' page perPage
             (\<lambda>w. sort_key newest_sent (filter (notif_match f) (tbl_notifs w)))) })"

definition update_notif :: "env \<Rightarrow> string \<Rightarrow> string \<Rightarrow> (NotificationEvent \<Rightarrow> NotificationEvent) \<Rightarrow> unit result op" where
  "update_notif env msg i f = do {
     r \<leftarrow> exec env msg (\<lambda>w. count_rows (\<lambda>n. ne_ID n = i) (tbl_notifs w)) (tbl_notifs_update (update_row ne_ID i f));
     State_Monad.return (rows_result ''notification not found'' r) }"

definition NotificationRepository_UpdateStatus :: "env \<Rightarrow> string \<Rightarrow> NotificationStatus \<Rightarrow> time \<Rightarrow> unit result op" where
  "NotificationRepository_UpdateStatus env i st sentAt = update_notif env ''failed to update notification status'' i
     (\<lambda>n. n \<lparr> ne_Status := st, ne_SentAt := Some sentAt \<rparr>)"

definition retry_eligible :: "time \<Rightarrow> int \<Rightarrow> NotificationEvent \<Rightarrow> bool" where
  "retry_eligible t maxAttempts n = (ne_Status n = NotificationStatusFailed \<and>
     (case ne_NextRetryAt n of None \<Rightarrow> False | Some u \<Rightarrow> u \<le> t) \<and> ne_RetryCount n < maxAttempts)"

definition NotificationRepository_ListRetryEligible :: "env \<Rightarrow> time \<Rightarrow> int \<Rightarrow> int \<Rightarrow> NotificationEvent list result op" where
  "NotificationRepository_ListRetryEligible env t maxAttempts limit =
     (let limit = (if limit \<le> 0 then 1000 else limit) in
      query env ''failed to query retry-eligible notifications''
        (\<lambda>w. take (nat limit) (sort_key (\<lambda>n. the (ne_NextRetryAt n)) (filter (retry_eligible t maxAttempts) (tbl_notifs w)))))"

definition NotificationRepository_RecordFailedAttempt :: "env \<Rightarrow> string \<Rightarrow> string \<Rightarrow> time \<Rightarrow> unit result op" where
  "NotificationRepository_RecordFailedAttempt env i lastError nextRetryAt =
     update_notif env ''failed to record notification retry attempt'' i
       (\<lambda>n. n \<lparr> ne_RetryCount := ne_RetryCount n + 1, ne_LastError := Some lastError, ne_NextRetryAt := Some nextRetryAt \<rparr>)"

definition NotificationRepository_MarkAsDead :: "env \<Rightarrow> string \<Rightarrow> string \<Rightarrow> unit result op" where
  "NotificationRepository_MarkAsDead env i lastError = update_notif env ''failed to mark notification as dead'' i
     (\<lambda>n. n \<lparr> ne_Status := NotificationStatusDead, ne_NextRetryAt := None, ne_LastError := Some lastError \<rparr>)"

definition NotificationRepository_Requeue :: "env \<Rightarrow> string \<Rightarrow> unit result op" where
  "NotificationRepository_Requeue env i = update_notif env ''failed to requeue notification'' i
     (\<lambda>n. n \<lparr> ne_Status := NotificationStatusPending, ne_RetryCount := 0, ne_NextRetryAt := None, ne_LastError := None \<rparr>)"

definition NotificationRepository_CountByStatus :: "env \<Rightarrow> NotificationStatus \<Rightarrow> nat result op" where
  "NotificationRepository_CountByStatus env st = query env ''failed to count notifications by status''
     (\<lambda>w. count_rows (\<lambda>n. ne_Status n = st) (tbl_notifs w))"

section \<open>The service\<close>

text \<open>
  The registry of notifiers is the list of channels that have one; the two optional collaborators
  are wired or not. Handing a message to a notifier takes the next answer of the environment.
\<close>

record NotificationService =
  ns_notifierRegistry :: "string list"
  ns_ownerRepo :: bool
  ns_expiryAlertMetrics :: bool

definition NewNotificationService :: "string list \<Rightarrow> NotificationService" where
  "NewNotificationService channels =
     \<lparr> ns_notifierRegistry = channels, ns_ownerRepo = False, ns_expiryAlertMetrics = False \<rparr>"

definition SetOwnerRepo :: "bool \<Rightarrow> NotificationService \<Rightarrow> NotificationService" where
  "SetOwnerRepo b s = s \<lparr> ns_ownerRepo := b \<rparr>"

definition SetExpiryAlertMetrics :: "bool \<Rightarrow> NotificationService \<Rightarrow> NotificationService" where
  "SetExpiryAlertMetrics b s = s \<lparr> ns_expiryAlertMetrics := b \<rparr>"

definition RegisterNotifier :: "string \<Rightarrow> NotificationService \<Rightarrow> NotificationService" where
  "RegisterNotifier channel s = s \<lparr> ns_notifierRegistry := List.insert channel (ns_notifierRegistry s) \<rparr>"

definition notifier_Send :: "env \<Rightarrow> error option op" where
  "notifier_Send env = do { n \<leftarrow> tick; State_Monad.return (send env n) }"

definition recordExpiryAlert :: "NotificationService \<Rightarrow> string \<Rightarrow> int \<Rightarrow> string \<Rightarrow> unit op" where
  "recordExpiryAlert s channel threshold result =
     (if \<not> ns_expiryAlertMetrics s then State_Monad.return ()
      else modify (metrics_update (RecordExpiryAlert channel threshold result)))"

definition RecordExpiryAlertDeduped :: "NotificationService \<Rightarrow> string \<Rightarrow> int \<Rightarrow> unit op" where
  "RecordExpiryAlertDeduped s channel threshold = recordExpiryAlert s channel threshold ''deduped''"

definition resolveRecipient :: "env \<Rightarrow> NotificationService \<Rightarrow> string \<Rightarrow> string op" where
  "resolveRecipient env s ownerID =
     (if \<not> ns_ownerRepo s \<or> ownerID = '''' then State_Monad.return ownerID
      else do {
        o' \<leftarrow> OwnerRepository_Get env ownerID;
        State_Monad.return (case o' of Inl e \<Rightarrow> ownerID
          | Inr owner \<Rightarrow> if owner_Email owner = '''' then ownerID else owner_Email owner) })"

definition sendNotification :: "env \<Rightarrow> NotificationService \<Rightarrow> NotificationEvent \<Rightarrow> unit result op" where
  "sendNotification env s notif =
     (if ne_Channel notif \<notin> set (ns_notifierRegistry s) then do {
        t \<leftarrow> now env;
        _ \<leftarrow> NotificationRepository_UpdateStatus env (ne_ID notif) NotificationStatusSent t;
        State_Monad.return (Inr ()) }
      else do {
        err \<leftarrow> notifier_Send env;
        (case err of
           Some e \<Rightarrow> do {
             _ \<leftarrow> NotificationRepository_UpdateStatus env (ne_ID notif) NotificationStatusFailed zero_time;
             State_Monad.return (Inl (Wrap (''failed to send via '' @ ne_Channel notif) e)) }
         | None \<Rightarrow> do {
             t \<leftarrow> now env;
             _ \<leftarrow> NotificationRepository_UpdateStatus env (ne_ID notif) NotificationStatusSent t;
             State_Monad.return (Inr ()) }) })"

text \<open>
  Every sending operation builds a pending event for the certificate, stores it, and hands it to
  its channel.
\<close>

definition new_notification ::
  "env \<Rightarrow> NotificationService \<Rightarrow> ManagedCertificate \<Rightarrow> NotificationType \<Rightarrow> string \<Rightarrow> string \<Rightarrow> NotificationEvent op" where
  "new_notification env s cert ty channel body = do {
     i \<leftarrow> generateID env ''notif'';
     r \<leftarrow> resolveRecipient env s (cert_OwnerID cert);
     t \<leftarrow> now env;
     State_Monad.return \<lparr> ne_ID = i, ne_Type = ty, ne_CertificateID = Some (cert_ID cert), ne_Channel = channel,
       ne_Recipient = r, ne_Message = body, ne_SentAt = None, ne_Status = NotificationStatusPending,
       ne_Error = None, ne_RetryCount = 0, ne_NextRetryAt = None, ne_LastError = None, ne_CreatedAt = t \<rparr> }"

definition store_and_send ::
  "env \<Rightarrow> NotificationService \<Rightarrow> ManagedCertificate \<Rightarrow> NotificationType \<Rightarrow> string \<Rightarrow> string \<Rightarrow> string \<Rightarrow> unit result op" where
  "store_and_send env s cert ty channel body createMsg = do {
     notif \<leftarrow> new_notification env s cert ty channel body;
     c \<leftarrow> NotificationRepository_Create env notif;
     (case c of
        Inl e \<Rightarrow> State_Monad.return (Inl (Wrap createMsg e))
      | Inr notif' \<Rightarrow> sendNotification env s notif') }"

definition nl :: string where "nl = [CHR 0x0A]"

definition threshold_tag :: "int \<Rightarrow> string" where
  "threshold_tag threshold = ''[threshold:'' @ show_int threshold @ '']''"

definition threshold_body :: "ManagedCertificate \<Rightarrow> int \<Rightarrow> int \<Rightarrow> string" where
  "threshold_body cert daysUntilExpiry threshold =
     (if threshold \<le> 0
      then ''[EXPIRED] The certificate for '' @ cert_CommonName cert @ '' has expired ('' @ show_date (cert_ExpiresAt cert) @
        '').'' @ nl @ nl @ ''Immediate action required.'' @ nl @ nl @ threshold_tag threshold
      else ''The certificate for '' @ cert_CommonName cert @ '' will expire in '' @ show_int daysUntilExpiry @ '' days ('' @
        show_date (cert_ExpiresAt cert) @ '').'' @ nl @ nl @ ''Please schedule renewal.'' @ nl @ nl @ threshold_tag threshold)"

definition SendThresholdAlertOnChannel ::
  "env \<Rightarrow> NotificationService \<Rightarrow> ManagedCertificate \<Rightarrow> int \<Rightarrow> int \<Rightarrow> string \<Rightarrow> unit result op" where
  "SendThresholdAlertOnChannel env s cert daysUntilExpiry threshold channel =
     (if \<not> IsValidNotificationChannel channel then do {
        _ \<leftarrow> recordExpiryAlert s channel threshold ''failure'';
        State_Monad.return (Inl (Errorf (''invalid notification channel '' @ channel @ '' for threshold '' @ show_int threshold))) }
      else do {
        notif \<leftarrow> new_notification env s cert NotificationTypeExpirationWarning channel
          (threshold_body cert daysUntilExpiry threshold);
        c \<leftarrow> NotificationRepository_Create env notif;
        (case c of
           Inl e \<Rightarrow> do {
             _ \<leftarrow> recordExpiryAlert s channel threshold ''failure'';
             State_Monad.return (Inl (Wrap ''failed to create notification'' e)) }
         | Inr notif' \<Rightarrow> do {
             r \<leftarrow> sendNotification env s notif';
             (case r of
                Inl e \<Rightarrow> do { _ \<leftarrow> recordExpiryAlert s channel threshold ''failure''; State_Monad.return (Inl e) }
              | Inr _ \<Rightarrow> do { _ \<leftarrow> recordExpiryAlert s channel threshold ''success''; State_Monad.return (Inr ()) }) }) })"

definition SendThresholdAlert :: "env \<Rightarrow> NotificationService \<Rightarrow> ManagedCertificate \<Rightarrow> int \<Rightarrow> int \<Rightarrow> unit result op" where
  "SendThresholdAlert env s cert daysUntilExpiry threshold =
     SendThresholdAlertOnChannel env s cert daysUntilExpiry threshold ''Webhook''"

definition SendExpirationWarning :: "env \<Rightarrow> NotificationService \<Rightarrow> ManagedCertificate \<Rightarrow> int \<Rightarrow> unit result op" where
  "SendExpirationWarning env s cert daysUntilExpiry = SendThresholdAlert env s cert daysUntilExpiry daysUntilExpiry"

definition HasThresholdNotificationOnChannel :: "env \<Rightarrow> string \<Rightarrow> int \<Rightarrow> string \<Rightarrow> bool result op" where
  "HasThresholdNotificationOnChannel env certID threshold channel = do {
     r \<leftarrow> NotificationRepository_List env (no_filter \<lparr> nf_CertificateID := certID,
       nf_Type := Some NotificationTypeExpirationWarning, nf_MessageLike := ''%'' @ threshold_tag threshold @ ''%'',
       nf_Channel := channel, nf_PerPage := 1 \<rparr>);
     State_Monad.return (case r of
       Inl e \<Rightarrow> Inl (Wrap ''failed to check existing notifications'' e)
     | Inr existing \<Rightarrow> Inr (0 < length existing)) }"

definition HasThresholdNotification :: "env \<Rightarrow> string \<Rightarrow> int \<Rightarrow> bool result op" where
  "HasThresholdNotification env certID threshold = HasThresholdNotificationOnChannel env certID threshold ''Webhook''"

definition show_error_value :: "error option \<Rightarrow> string" where
  "show_error_value err = (case err of None \<Rightarrow> ''<nil>'' | Some e \<Rightarrow> error_text e)"

definition SendRenewalNotification ::
  "env \<Rightarrow> NotificationService \<Rightarrow> ManagedCertificate \<Rightarrow> bool \<Rightarrow> error option \<Rightarrow> unit result op" where
  "SendRenewalNotification env s cert success err =
     store_and_send env s cert
       (if success then NotificationTypeRenewalSuccess else NotificationTypeRenewalFailure) ''Webhook''
       (if success
        then ''The certificate for '' @ cert_CommonName cert @ '' has been successfully renewed.'' @ nl @ nl @
          ''New expiry: '' @ show_date (cert_ExpiresAt cert)
        else ''The certificate for '' @ cert_CommonName cert @ '' failed to renew.'' @ nl @ nl @
          ''Error: '' @ show_error_value err @ nl @ nl @ ''Please investigate.'')
       ''failed to create notification''"

definition SendDeploymentNotification ::
  "env \<Rightarrow> NotificationService \<Rightarrow> ManagedCertificate \<Rightarrow> DeploymentTarget \<Rightarrow> bool \<Rightarrow> error option \<Rightarrow> unit result op" where
  "SendDeploymentNotification env s cert target success err =
     store_and_send env s cert
       (if \<not> success then NotificationTypeDeploymentFailure else NotificationTypeDeploymentSuccess) ''Webhook''
       (if success
        then ''The certificate for '' @ cert_CommonName cert @ '' has been successfully deployed to '' @ target_Name target @ ''.''
        else ''The certificate for '' @ cert_CommonName cert @ '' failed to deploy to '' @ target_Name target @ ''.'' @ nl @ nl @
          ''Error: '' @ show_error_value err @ nl @ nl @ ''Please investigate.'')
       ''failed to create notification''"

definition SendRevocationNotification :: "env \<Rightarrow> NotificationService \<Rightarrow> ManagedCertificate \<Rightarrow> string \<Rightarrow> unit result op" where
  "SendRevocationNotification env s cert reason =
     store_and_send env s cert NotificationTypeRevocation ''Webhook''
       (''[REVOKED] The certificate for '' @ cert_CommonName cert @ '' has been revoked.'' @ nl @ nl @
        ''Reason: '' @ reason @ nl @ nl @ ''This certificate is no longer valid.'')
       ''failed to create revocation notification''"

definition send_pending :: "env \<Rightarrow> NotificationService \<Rightarrow> NotificationEvent \<Rightarrow> bool op" where
  "send_pending env s notif = do {
     r \<leftarrow> sendNotification env s notif;
     State_Monad.return (case r of Inl e \<Rightarrow> True | Inr _ \<Rightarrow> False) }"

definition ProcessPendingNotifications :: "env \<Rightarrow> NotificationService \<Rightarrow> unit result op" where
  "ProcessPendingNotifications env s = do {
     r \<leftarrow> NotificationRepository_List env (no_filter \<lparr> nf_Status := Some NotificationStatusPending, nf_PerPage := 1000 \<rparr>);
     (case r of
        Inl e \<Rightarrow> State_Monad.return (Inl (Wrap ''failed to list pending notifications'' e))
      | Inr pending \<Rightarrow> do {
          failedCount \<leftarrow> for_count (send_pending env s) pending;
          State_Monad.return (if 0 < failedCount
            then Inl (Errorf (''failed to send '' @ show_nat failedCount @ '' out of '' @ show_nat (length pending) @ '' notifications''))
            else Inr ()) }) }"

definition GetNotificationHistory :: "env \<Rightarrow> string \<Rightarrow> NotificationEvent list result op" where
  "GetNotificationHistory env certID = do {
     r \<leftarrow> NotificationRepository_List env (no_filter \<lparr> nf_CertificateID := certID, nf_PerPage := 1000 \<rparr>);
     State_Monad.return (case r of Inl e \<Rightarrow> Inl (Wrap ''failed to list notifications'' e) | Inr ns \<Rightarrow> Inr ns) }"

definition ListNotificationsByStatus ::
  "env \<Rightarrow> NotificationStatus option \<Rightarrow> int \<Rightarrow> int \<Rightarrow> (NotificationEvent list \<times> nat) result op" where
  "ListNotificationsByStatus env status page perPage =
     (let page = (if page < 1 then 1 else page); perPage = (if perPage < 1 then 50 else perPage) in do {
      r \<leftarrow> NotificationRepository_List env (no_filter \<lparr> nf_Status := status, nf_Page := page, nf_PerPage := perPage \<rparr>);
      State_Monad.return (case r of
        Inl e \<Rightarrow> Inl (Wrap ''failed to list notifications by status'' e)
      | Inr ns \<Rightarrow> Inr (ns, length ns)) })"

definition ListNotifications :: "env \<Rightarrow> int \<Rightarrow> int \<Rightarrow> (NotificationEvent list \<times> nat) result op" where
  "ListNotifications env page perPage =
     (let page = (if page < 1 then 1 else page); perPage = (if perPage < 1 then 50 else perPage) in do {
      r \<leftarrow> NotificationRepository_List env (no_filter \<lparr> nf_Page := page, nf_PerPage := perPage \<rparr>);
      State_Monad.return (case r of
        Inl e \<Rightarrow> Inl (Wrap ''failed to list notifications'' e)
      | Inr ns \<Rightarrow> Inr (ns, length ns)) })"

definition GetNotification :: "env \<Rightarrow> string \<Rightarrow> NotificationEvent result op" where
  "GetNotification env i = do {
     r \<leftarrow> NotificationRepository_List env (no_filter \<lparr> nf_PerPage := 1 \<rparr>);
     State_Monad.return (case r of
       Inl e \<Rightarrow> Inl (Wrap ''failed to get notification'' e)
     | Inr ns \<Rightarrow> (case row_of ne_ID i ns of None \<Rightarrow> Inl (Errorf ''notification not found'') | Some n \<Rightarrow> Inr n)) }"

definition MarkAsRead :: "env \<Rightarrow> string \<Rightarrow> unit result op" where
  "MarkAsRead env i = do { t \<leftarrow> now env; NotificationRepository_UpdateStatus env i NotificationStatusRead t }"

definition RequeueNotification :: "env \<Rightarrow> string \<Rightarrow> unit result op" where
  "RequeueNotification env i = do {
     r \<leftarrow> NotificationRepository_Requeue env i;
     State_Monad.return (case r of Inl e \<Rightarrow> Inl (Wrap ''failed to requeue notification'' e) | Inr _ \<Rightarrow> Inr ()) }"

abbreviation notifRetryMaxAttempts :: int where "notifRetryMaxAttempts \<equiv> 5"
abbreviation notifRetryBackoffCap :: duration where "notifRetryBackoffCap \<equiv> Hour"
abbreviation notifRetrySweepLimit :: int where "notifRetrySweepLimit \<equiv> 1000"

text \<open>
  The delay is computed in 64-bit arithmetic. Shifting by a negative count panics; the panic ends the sweep and is the error of the
  call here.
\<close>

definition backoff :: "int \<Rightarrow> duration option" where
  "backoff retryCount =
     (if retryCount < 0 then None
      else let wait = int64 (int64 (2 ^ nat retryCount) * Minute)
           in Some (if wait > notifRetryBackoffCap then notifRetryBackoffCap else wait))"

definition retry_notification :: "env \<Rightarrow> NotificationService \<Rightarrow> NotificationEvent \<Rightarrow> unit result op" where
  "retry_notification env s row =
     (if ne_Channel row \<notin> set (ns_notifierRegistry s) then do {
        t \<leftarrow> now env;
        _ \<leftarrow> NotificationRepository_UpdateStatus env (ne_ID row) NotificationStatusSent t;
        State_Monad.return (Inr ()) }
      else do {
        sendErr \<leftarrow> notifier_Send env;
        (case sendErr of
           None \<Rightarrow> do {
             t \<leftarrow> now env;
             _ \<leftarrow> NotificationRepository_UpdateStatus env (ne_ID row) NotificationStatusSent t;
             State_Monad.return (Inr ()) }
         | Some e \<Rightarrow> (case backoff (ne_RetryCount row) of
             None \<Rightarrow> State_Monad.return (Inl (Errorf ''runtime error: negative shift amount''))
           | Some wait \<Rightarrow>
               if ne_RetryCount row \<ge> notifRetryMaxAttempts - 1 then do {
                 _ \<leftarrow> NotificationRepository_MarkAsDead env (ne_ID row) (error_text e);
                 State_Monad.return (Inr ()) }
               else do {
                 t \<leftarrow> now env;
                 _ \<leftarrow> NotificationRepository_RecordFailedAttempt env (ne_ID row) (error_text e) (t + wait);
                 State_Monad.return (Inr ()) })) })"

fun retry_rows :: "env \<Rightarrow> NotificationService \<Rightarrow> NotificationEvent list \<Rightarrow> unit result op" where
  "retry_rows env s [] = State_Monad.return (Inr ())"
| "retry_rows env s (row # rows) = do {
     r \<leftarrow> retry_notification env s row;
     (case r of Inl e \<Rightarrow> State_Monad.return (Inl e) | Inr _ \<Rightarrow> retry_rows env s rows) }"

definition RetryFailedNotifications :: "env \<Rightarrow> NotificationService \<Rightarrow> unit result op" where
  "RetryFailedNotifications env s = do {
     t \<leftarrow> now env;
     q \<leftarrow> NotificationRepository_ListRetryEligible env t notifRetryMaxAttempts notifRetrySweepLimit;
     (case q of
        Inl e \<Rightarrow> State_Monad.return (Inl (Wrap ''failed to list retry-eligible notifications'' e))
      | Inr rows \<Rightarrow> retry_rows env s rows) }"

section \<open>Effects on the outbox\<close>

lemma post_update_notif [vcg]:
  assumes "\<And>e w'. same_data w w' \<Longrightarrow> Q (Inl e) w'"
    and "\<And>r w1 w'. same_data w w1 \<Longrightarrow> same_data (tbl_notifs_update (update_row ne_ID i f) w1) w' \<Longrightarrow> Q r w'"
  shows "post (update_notif env msg i f) w Q"
  unfolding update_notif_def by (intro vcg) (use assms in \<open>auto simp: rows_result_def\<close>)

lemmas notif_updates = NotificationRepository_UpdateStatus_def NotificationRepository_RecordFailedAttempt_def
  NotificationRepository_MarkAsDead_def NotificationRepository_Requeue_def

lemma post_notifier_Send [vcg]: "(\<And>x w'. same_data w w' \<Longrightarrow> Q x w') \<Longrightarrow> post (notifier_Send env) w Q"
  unfolding notifier_Send_def by (rule post_keeps [OF same.keeps_bind [OF same.keeps_tick same.keeps_return]])

lemma keeps_resolveRecipient: "state_io_rel same_data (resolveRecipient env s i)"
  unfolding resolveRecipient_def OwnerRepository_Get_def lookup_row_def by (intro same.keeps_prims)

lemma keeps_recordExpiryAlert: "state_io_rel same_data (recordExpiryAlert s ch t res)"
  unfolding recordExpiryAlert_def by (intro same.keeps_prims)

lemma keeps_notif_list: "state_io_rel same_data (NotificationRepository_List env f)"
  unfolding NotificationRepository_List_def query_page_def by (intro same.keeps_prims)

lemma post_recordExpiryAlert [vcg]: "(\<And>x w'. same_data w w' \<Longrightarrow> Q x w') \<Longrightarrow> post (recordExpiryAlert s ch t res) w Q"
  by (rule post_keeps [OF keeps_recordExpiryAlert])

lemma post_new_notification [vcg]:
  assumes "\<And>n w'. same_data w w' \<Longrightarrow> ne_Type n = ty \<Longrightarrow> ne_CertificateID n = Some (cert_ID cert) \<Longrightarrow>
    ne_Channel n = channel \<Longrightarrow> ne_Message n = body \<Longrightarrow> ne_Status n = NotificationStatusPending \<Longrightarrow> Q n w'"
  shows "post (new_notification env s cert ty channel body) w Q"
  unfolding new_notification_def
  by (intro vcg post_keeps [OF keeps_resolveRecipient] assms) (auto intro: same.frame_trans)

lemma post_notif_create [vcg]:
  assumes "\<And>e w'. same_data w w' \<Longrightarrow> Q (Inl e) w'"
    and "\<And>i t row w1 w'. same_data w w1 \<Longrightarrow> w' = tbl_notifs_update (\<lambda>t. t @ [row]) w1 \<Longrightarrow>
      row = n \<lparr> ne_ID := i, ne_CreatedAt := t, ne_RetryCount := 0, ne_NextRetryAt := None, ne_LastError := None \<rparr> \<Longrightarrow>
      \<not> has_key ne_ID i (tbl_notifs w) \<Longrightarrow> Q (Inr (n \<lparr> ne_ID := i, ne_CreatedAt := t \<rparr>)) w'"
  shows "post (NotificationRepository_Create env n) w Q"
proof -
  let ?i = "if ne_ID n = '''' then new_uuid env else State_Monad.return (ne_ID n)"
  let ?t = "if ne_CreatedAt n = zero_time then now env else State_Monad.return (ne_CreatedAt n)"
  have "state_io_rel same_data ?i" "state_io_rel same_data ?t" by (intro same.keeps_prims)+
  then show ?thesis unfolding NotificationRepository_Create_def
  proof (intro post_bindI, elim post_keeps, intro post_bindI, elim post_keeps, intro post_let post_bindI post_insert, goal_cases)
    case (1 i w1 t w2 row e w3)
    then have "same_data w w3" by (blast intro: same.frame_trans)
    then show ?case by (simp add: assms(1))
  next
    case (2 i w1 t w2 row w3)
    then have w3: "same_data w w3" by (blast intro: same.frame_trans)
    show ?case using assms(2) [OF w3 refl refl, of i t] 2 same_dataD [OF w3] by simp
  qed
qed

subsection \<open>Retry times\<close>

definition no_retry :: "NotificationEvent list \<Rightarrow> bool" where
  "no_retry t = (\<forall>n \<in> set t. ne_NextRetryAt n = None)"

interpretation quiet: table_view "\<lambda>w w'. no_retry (tbl_notifs w) \<longrightarrow> no_retry (tbl_notifs w')" tbl_notifs
  by unfold_locales auto

abbreviation quiet_op :: "'a op \<Rightarrow> bool" where
  "quiet_op m \<equiv> state_io_rel (\<lambda>w w'. no_retry (tbl_notifs w) \<longrightarrow> no_retry (tbl_notifs w')) m"

lemma quiet_updates:
  "quiet_op (NotificationRepository_UpdateStatus env i st t)"
  "quiet_op (NotificationRepository_Requeue env i)"
  "quiet_op (NotificationRepository_Create env n)"
  unfolding notif_updates update_notif_def NotificationRepository_Create_def
  by (intro quiet.keeps_prims quiet.keeps_exec quiet.keeps_insert; auto simp: no_retry_def set_update_row)+

lemma quiet_sendNotification:
  "quiet_op (sendNotification env s n)"
  unfolding sendNotification_def notifier_Send_def by (intro quiet.keeps_prims quiet_updates)

lemma quiet_new_notification:
  "quiet_op (new_notification env s c ty ch b)"
  unfolding new_notification_def resolveRecipient_def OwnerRepository_Get_def lookup_row_def by (intro quiet.keeps_prims)

lemma quiet_service:
  "quiet_op (SendThresholdAlertOnChannel env s c d th ch)"
  "quiet_op (SendRenewalNotification env s c b err)"
  "quiet_op (SendDeploymentNotification env s c tg b err)"
  "quiet_op (SendRevocationNotification env s c rs)"
  "quiet_op (ProcessPendingNotifications env s)"
  "quiet_op (MarkAsRead env i)"
  "quiet_op (RequeueNotification env i)"
  unfolding SendThresholdAlertOnChannel_def SendRenewalNotification_def SendDeploymentNotification_def
    SendRevocationNotification_def ProcessPendingNotifications_def MarkAsRead_def RequeueNotification_def
    store_and_send_def send_pending_def recordExpiryAlert_def NotificationRepository_List_def query_page_def Let_def
  by (intro quiet.keeps_prims quiet_updates quiet_sendNotification quiet_new_notification)+

lemma retry_sweep_idle:
  assumes "no_retry (tbl_notifs w)"
  shows "snd (run_state (RetryFailedNotifications env s) w) = w \<lparr> steps := Suc (Suc (steps w)) \<rparr>"
proof -
  have "filter (retry_eligible t m) (tbl_notifs w) = []" for t m
    using assms by (auto simp: filter_empty_conv retry_eligible_def no_retry_def)
  then show ?thesis
    by (simp add: RetryFailedNotifications_def NotificationRepository_ListRetryEligible_def run_defs)
qed

text \<open>Any call of the service that writes, at any time and with any outcome of its effects.\<close>

inductive notification_call :: "world \<Rightarrow> world \<Rightarrow> bool" where
  "run_state (SendThresholdAlertOnChannel env s c d th ch) w = (r, w') \<Longrightarrow> notification_call w w'"
| "run_state (SendRenewalNotification env s c b err) w = (r, w') \<Longrightarrow> notification_call w w'"
| "run_state (SendDeploymentNotification env s c tg b err) w = (r, w') \<Longrightarrow> notification_call w w'"
| "run_state (SendRevocationNotification env s c rs) w = (r, w') \<Longrightarrow> notification_call w w'"
| "run_state (ProcessPendingNotifications env s) w = (r, w') \<Longrightarrow> notification_call w w'"
| "run_state (RetryFailedNotifications env s) w = (r, w') \<Longrightarrow> notification_call w w'"
| "run_state (MarkAsRead env i) w = (r, w') \<Longrightarrow> notification_call w w'"
| "run_state (RequeueNotification env i) w = (r, w') \<Longrightarrow> notification_call w w'"

lemma notification_call_quiet:
  assumes "notification_call w w'" "no_retry (tbl_notifs w)"
  shows "no_retry (tbl_notifs w')"
  using assms
proof (induction rule: notification_call.induct)
  case (6 env s w r w')
  then show ?case using retry_sweep_idle [of w env s] by simp
qed (auto dest!: state_io_relD [OF quiet_service(1)] state_io_relD [OF quiet_service(2)] state_io_relD [OF quiet_service(3)]
    state_io_relD [OF quiet_service(4)] state_io_relD [OF quiet_service(5)] state_io_relD [OF quiet_service(6)]
    state_io_relD [OF quiet_service(7)])

lemma notification_calls_quiet: "notification_call\<^sup>*\<^sup>* w w' \<Longrightarrow> no_retry (tbl_notifs w) \<Longrightarrow> no_retry (tbl_notifs w')"
  by (induction rule: rtranclp_induct) (auto intro: notification_call_quiet)

text \<open>
  The retry sweep never retries: starting from an empty outbox, after any sequence of calls of
  the notification service, the sweep reads the clock, runs its query and stops. It hands nothing to
  a channel and changes no row, however many notifications have failed.
\<close>

theorem failed_notifications_never_retried:
  assumes "tbl_notifs w0 = []" and "notification_call\<^sup>*\<^sup>* w0 w" and "run_state (RetryFailedNotifications env s) w = (r, w')"
  shows "w' = w \<lparr> steps := Suc (Suc (steps w)) \<rparr>"
proof -
  have "no_retry (tbl_notifs w)" using notification_calls_quiet [OF assms(2)] assms(1) by (simp add: no_retry_def)
  from retry_sweep_idle [OF this, of env s] assms(3) show ?thesis by simp
qed

definition refusing :: env where
  "refusing = (calm 0) \<lparr> send := \<lambda>_. Some (Errorf ''503'') \<rparr>"

definition notif_world :: world where
  "notif_world = empty_world \<lparr> tbl_certs := [sample_cert ''c1''] \<rparr>"

lemmas notif_run_defs = run_defs new_notification_def store_and_send_def sendNotification_def notifier_Send_def resolveRecipient_def
  NotificationRepository_Create_def notif_updates update_notif_def rows_result_def count_rows_def update_row_def
  NewNotificationService_def zero_time_def

theorem failed_notifications_never_retried_witness:
  "let s = NewNotificationService [''Webhook''];
       w = snd (run_state (SendRevocationNotification refusing s (sample_cert ''c1'') ''r'') notif_world)
   in map ne_Status (tbl_notifs w) = [NotificationStatusFailed] \<and>
      snd (run_state (RetryFailedNotifications refusing s) w) = w \<lparr> steps := Suc (Suc (steps w)) \<rparr>"
proof -
  let ?s = "NewNotificationService [''Webhook'']"
  let ?run = "run_state (SendRevocationNotification refusing ?s (sample_cert ''c1'') ''r'') notif_world"
  have "notification_call\<^sup>*\<^sup>* notif_world (snd ?run)"
    by (intro r_into_rtranclp notification_call.intros(4) [where r = "fst ?run"]) (rule prod.collapse [symmetric])
  moreover have "tbl_notifs notif_world = []" by (simp add: notif_world_def empty_world_def)
  moreover have "map ne_Status (tbl_notifs (snd ?run)) = [NotificationStatusFailed]"
    by (simp add: SendRevocationNotification_def notif_run_defs notif_world_def refusing_def samples has_key_def fk_ok_def)
  ultimately show ?thesis
    using failed_notifications_never_retried [of notif_world "snd ?run" refusing ?s] by (simp add: Let_def) (metis prod.collapse)
qed

subsection \<open>Deduplication of threshold alerts\<close>

text \<open>The outbox holds an alert for the certificate, threshold and channel.\<close>

definition alerted :: "NotificationEvent list \<Rightarrow> string \<Rightarrow> int \<Rightarrow> string \<Rightarrow> bool" where
  "alerted t certID threshold channel = (\<exists>n \<in> set t. ne_CertificateID n = Some certID \<and>
     ne_Type n = NotificationTypeExpirationWarning \<and> ne_Channel n = channel \<and> contains (ne_Message n) (threshold_tag threshold))"

lemma plain_threshold_tag: "plain (threshold_tag th)"
proof -
  have "c \<noteq> CHR ''%'' \<and> c \<noteq> CHR ''_'' \<and> c \<noteq> CHR 0x5C" if "c \<in> set (show_int th)" for c
    using show_int_chars [OF that] by fastforce
  then show ?thesis by (auto simp: plain_def threshold_tag_def list_all_iff)
qed

lemma page_slice_one: "(page_slice 1 1 xs = []) = (xs = [])"
  by (cases xs) (auto simp: page_slice_def)

lemma post_query_page:
  assumes "\<And>e w'. same_data w w' \<Longrightarrow> Q (Inl e) w'" and "\<And>w'. same_data w w' \<Longrightarrow> Q (Inr (page_slice page perPage (f w'))) w'"
  shows "post (query_page env msg page perPage f) w Q"
  unfolding query_page_def by (intro vcg) (use assms same.frame_refl in auto)

lemma post_List:
  assumes "\<And>e w'. same_data w w' \<Longrightarrow> Q (Inl e) w'"
    and "\<And>w'. same_data w w' \<Longrightarrow> Q (Inr (page_slice (if nf_Page f < 1 then 1 else nf_Page f)
      (if nf_PerPage f = 0 \<or> nf_PerPage f > 500 then 50 else nf_PerPage f)
      (sort_key newest_sent (filter (notif_match f) (tbl_notifs w))))) w'"
  shows "post (NotificationRepository_List env f) w Q"
proof -
  define page where "page = (if nf_Page f < 1 then 1 else nf_Page f)"
  define perPage where "perPage = (if nf_PerPage f = 0 \<or> nf_PerPage f > 500 then 50 else nf_PerPage f)"
  show ?thesis unfolding NotificationRepository_List_def Let_def page_def [symmetric] perPage_def [symmetric] post_bind
  proof (rule post_query, goal_cases)
    case (1 e w')
    then show ?case by (simp add: assms(1))
  next
    case (2 w')
    note w' = this
    have "post (query_page env ''failed to query notifications'' page perPage
        (\<lambda>w. sort_key newest_sent (filter (notif_match f) (tbl_notifs w)))) w' Q"
    proof (rule post_query_page)
      fix e v
      assume "same_data w' v"
      with w' show "Q (Inl e) v" by (blast intro: assms(1) same.frame_trans)
    next
      fix v
      assume "same_data w' v"
      with w' have "same_data w v" by (blast intro: same.frame_trans)
      then show "Q (Inr (page_slice page perPage (sort_key newest_sent (filter (notif_match f) (tbl_notifs v))))) v"
        using assms(2) [folded page_def perPage_def] by (simp add: same_dataD)
    qed
    then show ?case by simp
  qed
qed

lemma sort_key_empty: "(sort_key k xs = []) = (xs = [])"
  by (metis length_0_conv length_sort)

lemma post_HasThreshold:
  assumes "certID \<noteq> ''''" "channel \<noteq> ''''"
  shows "post (HasThresholdNotificationOnChannel env certID th channel) w
    (\<lambda>r w'. \<forall>b. r = Inr b \<longrightarrow> b = alerted (tbl_notifs w) certID th channel)"
proof -
  define f where "f = no_filter \<lparr> nf_CertificateID := certID, nf_Type := Some NotificationTypeExpirationWarning,
    nf_MessageLike := ''%'' @ threshold_tag th @ ''%'', nf_Channel := channel, nf_PerPage := 1 \<rparr>"
  have "notif_match f n = (ne_CertificateID n = Some certID \<and> ne_Type n = NotificationTypeExpirationWarning \<and>
      ne_Channel n = channel \<and> contains (ne_Message n) (threshold_tag th))" for n
    using sql_like_contains [OF plain_threshold_tag, of "ne_Message n" th] assms
    unfolding notif_match_def f_def no_filter_def by (simp add: conj_commute)
  then have "filter (notif_match f) t = [] \<longleftrightarrow> \<not> alerted t certID th channel" for t
    by (simp add: filter_empty_conv alerted_def)
  moreover have "nf_Page f = 0" "nf_PerPage f = 1" by (simp_all add: f_def no_filter_def)
  ultimately have "post (NotificationRepository_List env f) w
      (\<lambda>r w'. \<forall>ns. r = Inr ns \<longrightarrow> (ns = []) = (\<not> alerted (tbl_notifs w) certID th channel))"
    by (intro post_List) (simp_all add: page_slice_one sort_key_empty)
  then show ?thesis unfolding HasThresholdNotificationOnChannel_def f_def [symmetric] post_bind
    by (rule post_mono) (auto split: sum.splits)
qed

lemma keeps_HasThreshold: "state_io_rel same_data (HasThresholdNotificationOnChannel env c th ch)"
  unfolding HasThresholdNotificationOnChannel_def by (intro same.keeps_prims keeps_notif_list)

lemma contains_skip: "CHR ''['' \<notin> set u \<Longrightarrow> contains (u @ v) (CHR ''['' # p) = contains v (CHR ''['' # p)"
  by (induction u) (auto simp: has_prefix_iff)

lemma contains_none: "CHR ''['' \<notin> set u \<Longrightarrow> \<not> contains u (CHR ''['' # p)"
  by (auto simp: contains_iff)

lemma show_date_no_bracket [simp]: "CHR ''['' \<notin> set (show_date t)"
  by (auto simp: show_date_def pad_def split: prod.splits)

lemma tag_matches: "contains (threshold_tag th) (threshold_tag th') = (th' = th)"
proof -
  have tw: "takeWhile (\<lambda>c. c \<noteq> CHR '']'') (show_int i @ CHR '']'' # r) = show_int i" for i r
    using show_int_no_bracket(2) [of i] by (subst takeWhile_append2) auto
  have "th' = th" if "show_int th @ '']'' = (show_int th' @ '']'') @ r" for r
    using arg_cong [OF that, of "takeWhile (\<lambda>c. c \<noteq> CHR '']'')"] tw [of th "[]"] tw [of th' r]
    by (auto intro: show_int_inj)
  then have "has_prefix (show_int th @ '']'') (show_int th' @ '']'') \<longleftrightarrow> th' = th"
    unfolding has_prefix_iff by auto
  moreover have "\<not> contains (''threshold:'' @ show_int th @ '']'') (CHR ''['' # p)" for p
    by (rule contains_none) auto
  ultimately show ?thesis by (simp add: threshold_tag_def)
qed

lemma contains_bracket: "contains (CHR ''['' # u) (CHR ''['' # p) = (has_prefix u p \<or> contains u (CHR ''['' # p))"
  by simp

lemma body_tag:
  assumes "CHR ''['' \<notin> set (cert_CommonName cert)"
  shows "contains (threshold_body cert d th) (threshold_tag th') = (th' = th)"
proof -
  obtain p where p: "threshold_tag th' = CHR ''['' # CHR ''t'' # p" by (simp add: threshold_tag_def)
  have "\<exists>u. CHR ''['' \<notin> set u \<and> (threshold_body cert d th = u @ threshold_tag th \<or>
      threshold_body cert d th = CHR ''['' # CHR ''E'' # u @ threshold_tag th)"
  proof (cases "th \<le> 0")
    case True
    have "threshold_body cert d th = CHR ''['' # CHR ''E'' # (''XPIRED] The certificate for '' @ cert_CommonName cert @
      '' has expired ('' @ show_date (cert_ExpiresAt cert) @ '').'' @ nl @ nl @ ''Immediate action required.'' @ nl @ nl) @ threshold_tag th"
      using True by (simp add: threshold_body_def)
    then show ?thesis using assms by (intro exI conjI disjI2) (auto simp: nl_def)
  next
    case False
    have "threshold_body cert d th = (''The certificate for '' @ cert_CommonName cert @ '' will expire in '' @ show_int d @ '' days ('' @
        show_date (cert_ExpiresAt cert) @ '').'' @ nl @ nl @ ''Please schedule renewal.'' @ nl @ nl) @ threshold_tag th"
      using False by (simp add: threshold_body_def)
    then show ?thesis using assms by (intro exI conjI disjI1) (auto simp: nl_def)
  qed
  then obtain u where u: "CHR ''['' \<notin> set u" "threshold_body cert d th = u @ threshold_tag th \<or>
      threshold_body cert d th = CHR ''['' # (CHR ''E'' # u) @ threshold_tag th" by auto
  have "contains (u @ threshold_tag th) (threshold_tag th') = (th' = th)"
    "contains ((CHR ''E'' # u) @ threshold_tag th) (threshold_tag th') = (th' = th)"
    using contains_skip [OF u(1), of "threshold_tag th" "CHR ''t'' # p"] tag_matches [of th th']
      contains_skip [of "CHR ''E'' # u" "threshold_tag th" "CHR ''t'' # p"] u(1) by (simp_all add: p)
  then show ?thesis using u(2) p by auto
qed

lemma alerted_append:
  "alerted (t @ [n]) c th ch = (alerted t c th ch \<or> (ne_CertificateID n = Some c \<and>
     ne_Type n = NotificationTypeExpirationWarning \<and> ne_Channel n = ch \<and> contains (ne_Message n) (threshold_tag th)))"
  by (auto simp: alerted_def)

lemma alerted_update [simp]:
  assumes "\<And>n. ne_CertificateID (f n) = ne_CertificateID n" "\<And>n. ne_Type (f n) = ne_Type n"
    "\<And>n. ne_Channel (f n) = ne_Channel n" "\<And>n. ne_Message (f n) = ne_Message n"
  shows "alerted (update_row ne_ID i f t) c th ch = alerted t c th ch"
  by (induction t) (auto simp: alerted_def update_row_def assms)

definition delivered :: "string \<Rightarrow> NotificationEvent list \<Rightarrow> NotificationEvent list \<Rightarrow> bool" where
  "delivered i t t' = (t' = t \<or> (\<exists>st ts. st \<in> {NotificationStatusSent, NotificationStatusFailed} \<and>
     t' = update_row ne_ID i (\<lambda>n. n \<lparr> ne_Status := st, ne_SentAt := Some ts \<rparr>) t))"

lemma deliveredI:
  "delivered i t t"
  "delivered i t (update_row ne_ID i (\<lambda>n. n \<lparr> ne_Status := NotificationStatusSent, ne_SentAt := Some ts \<rparr>) t)"
  "delivered i t (update_row ne_ID i (\<lambda>n. n \<lparr> ne_Status := NotificationStatusFailed, ne_SentAt := Some ts \<rparr>) t)"
  by (auto simp: delivered_def)

lemma post_sendNotification:
  assumes "\<And>r w'. delivered (ne_ID n) (tbl_notifs w) (tbl_notifs w') \<Longrightarrow>
      (\<And>e. r = Inl e \<Longrightarrow> \<exists>e'. e = Wrap (''failed to send via '' @ ne_Channel n) e') \<Longrightarrow> Q r w'"
  shows "post (sendNotification env s n) w Q"
  unfolding sendNotification_def notif_updates
  by (intro vcg; rule assms; auto dest!: notifs_tables intro!: deliveredI)

lemma delivered_alerted: "delivered i t t' \<Longrightarrow> alerted t' c th ch = alerted t c th ch"
  by (auto simp: delivered_def)

lemma SendThreshold_alerted:
  assumes "CHR ''['' \<notin> set (cert_CommonName cert)"
  shows "post (SendThresholdAlertOnChannel env s cert d th ch) w (\<lambda>r w'.
    r = Inr () \<or> (\<exists>e. r = Inl (Wrap (''failed to send via '' @ ch) e)) \<longrightarrow>
    alerted (tbl_notifs w') c th' ch' = (alerted (tbl_notifs w) c th' ch' \<or> (c, th', ch') = (cert_ID cert, th, ch)))"
  unfolding SendThresholdAlertOnChannel_def
  by (intro vcg post_sendNotification)
    (auto dest!: notifs_tables delivered_alerted simp: alerted_append body_tag [OF assms])

text \<open>
  Deduplication is exact: after an alert has been stored, whether its delivery succeeded or was
  refused, the check answers yes for precisely that certificate, threshold and channel and for those
  it answered yes before, provided the common name contains no opening bracket. A refused delivery
  therefore suppresses every later alert of the same kind.
\<close>

theorem threshold_dedup_exact:
  assumes "CHR ''['' \<notin> set (cert_CommonName cert)" "certID \<noteq> ''''" "channel' \<noteq> ''''"
    and "run_state (HasThresholdNotificationOnChannel env0 certID th' channel') w = (Inr before, w0)"
    and "run_state (SendThresholdAlertOnChannel env s cert d th channel) w0 = (r, w1)"
    and "r = Inr () \<or> (\<exists>e. r = Inl (Wrap (''failed to send via '' @ channel) e))"
    and "run_state (HasThresholdNotificationOnChannel env1 certID th' channel') w1 = (Inr after, w2)"
  shows "after = (before \<or> (certID, th', channel') = (cert_ID cert, th, channel))"
proof -
  have "tbl_notifs w0 = tbl_notifs w"
    using assms(4) same_dataD(11) [OF state_io_relD [OF keeps_HasThreshold]] by metis
  then have "before = alerted (tbl_notifs w0) certID th' channel'"
    using post_run [OF post_HasThreshold [OF assms(2,3)] assms(4)] by simp
  moreover have "after = alerted (tbl_notifs w1) certID th' channel'"
    using post_run [OF post_HasThreshold [OF assms(2,3)] assms(7)] by simp
  ultimately show ?thesis
    using post_run [OF SendThreshold_alerted [OF assms(1)] assms(5)] assms(6) by blast
qed

theorem threshold_dedup_exact_witness:
  "\<exists>r w0 w1 w2 before after.
     run_state (HasThresholdNotificationOnChannel (calm 0) ''c1'' 30 ''Slack'') notif_world = (Inr before, w0) \<and>
     run_state (SendThresholdAlertOnChannel refusing (NewNotificationService [''Slack'']) (sample_cert ''c1'') 29 30 ''Slack'') w0 = (r, w1) \<and>
     r = Inl (Wrap ''failed to send via Slack'' (Errorf ''503'')) \<and>
     run_state (HasThresholdNotificationOnChannel (calm 0) ''c1'' 30 ''Slack'') w1 = (Inr after, w2) \<and> \<not> before \<and> after"
proof -
  obtain r0 w0 where w0: "run_state (HasThresholdNotificationOnChannel (calm 0) ''c1'' 30 ''Slack'') notif_world = (r0, w0)"
    by (metis surj_pair)
  have r0: "r0 = Inr False \<and> w0 = notif_world \<lparr> steps := Suc (Suc 0) \<rparr>"
    using w0 by (auto simp: HasThresholdNotificationOnChannel_def NotificationRepository_List_def query_page_def run_defs no_filter_def
      notif_world_def samples page_slice_def)
  let ?s = "NewNotificationService [''Slack'']" and ?c = "sample_cert ''c1''"
  obtain r w1 where w1: "run_state (SendThresholdAlertOnChannel refusing ?s ?c 29 30 ''Slack'') w0 = (r, w1)"
    by (metis surj_pair)
  have r: "r = Inl (Wrap ''failed to send via Slack'' (Errorf ''503''))"
    using w1 r0 by (auto simp: SendThresholdAlertOnChannel_def IsValidNotificationChannel_def notif_run_defs recordExpiryAlert_def
      notif_world_def refusing_def samples has_key_def fk_ok_def)
  obtain r2 w2 where w2: "run_state (HasThresholdNotificationOnChannel (calm 0) ''c1'' 30 ''Slack'') w1 = (r2, w2)"
    by (metis surj_pair)
  have "\<exists>b. r2 = Inr b"
    using w2 by (auto simp: HasThresholdNotificationOnChannel_def NotificationRepository_List_def query_page_def run_defs no_filter_def calm_def)
  then obtain after where after: "r2 = Inr after" by blast
  have "after = (False \<or> (''c1'', 30, ''Slack'') = (cert_ID ?c, 30::int, ''Slack''))"
    using threshold_dedup_exact [of ?c "''c1''" "''Slack''" "calm 0" 30 notif_world False w0 refusing ?s 29 30 "''Slack''" r w1
        "calm 0" after w2] w0 r0 w1 r w2 after by (simp add: sample_cert_def)
  then have "after" by (simp add: sample_cert_def)
  with w0 r0 w1 r w2 \<open>r2 = Inr after\<close> show ?thesis by blast
qed

subsection \<open>The retry sweep row by row\<close>

definition retried :: "env \<Rightarrow> time \<Rightarrow> NotificationEvent \<Rightarrow> NotificationEvent \<Rightarrow> bool" where
  "retried env t0 n n' = (retry_eligible t0 notifRetryMaxAttempts n \<and>
     ((\<exists>k. n' = n \<lparr> ne_Status := NotificationStatusSent, ne_SentAt := Some (clock env k) \<rparr>) \<or>
      (ne_RetryCount n = notifRetryMaxAttempts - 1 \<and>
        (\<exists>e. n' = n \<lparr> ne_Status := NotificationStatusDead, ne_NextRetryAt := None, ne_LastError := Some e \<rparr>)) \<or>
      (0 \<le> ne_RetryCount n \<and> ne_RetryCount n < notifRetryMaxAttempts - 1 \<and>
        (\<exists>k e. n' = n \<lparr> ne_RetryCount := ne_RetryCount n + 1, ne_LastError := Some e,
           ne_NextRetryAt := Some (clock env k + 2 ^ nat (ne_RetryCount n) * Minute) \<rparr>))))"

lemma post_now_clock: "(\<And>k w'. same_data w w' \<Longrightarrow> Q (clock env k) w') \<Longrightarrow> post (now env) w Q"
  by (simp add: post_def run_now same.R_steps)

lemma backoff_small:
  assumes "backoff r = Some d" "\<not> r \<ge> notifRetryMaxAttempts - 1"
  shows "0 \<le> r \<and> d = 2 ^ nat r * Minute"
proof -
  have r: "0 \<le> r" using assms(1) by (auto simp: backoff_def split: if_splits)
  then have "r = 0 \<or> r = 1 \<or> r = 2 \<or> r = 3" using assms(2) by arith
  then show ?thesis using r assms(1) by (elim disjE) (simp_all add: backoff_def int64_def Let_def)
qed

lemma retried_intros:
  assumes "retry_eligible t0 notifRetryMaxAttempts n"
  shows "retried env t0 n (n \<lparr> ne_Status := NotificationStatusSent, ne_SentAt := Some (clock env k) \<rparr>)"
    "ne_RetryCount n \<ge> notifRetryMaxAttempts - 1 \<Longrightarrow>
      retried env t0 n (n \<lparr> ne_Status := NotificationStatusDead, ne_NextRetryAt := None, ne_LastError := Some e \<rparr>)"
    "backoff (ne_RetryCount n) = Some d \<Longrightarrow> \<not> ne_RetryCount n \<ge> notifRetryMaxAttempts - 1 \<Longrightarrow> retried env t0 n
      (n \<lparr> ne_RetryCount := ne_RetryCount n + 1, ne_LastError := Some e, ne_NextRetryAt := Some (clock env k + d) \<rparr>)"
  using assms backoff_small [of "ne_RetryCount n" d] by (auto simp: retried_def retry_eligible_def)

lemma retry_notification_step:
  assumes inv: "swept ne_ID (retried env t0) t (x # rest) (tbl_notifs w)"
    and el: "retry_eligible t0 notifRetryMaxAttempts x"
  shows "post (retry_notification env s x) w (\<lambda>_ w'. swept ne_ID (retried env t0) t rest (tbl_notifs w'))"
  unfolding retry_notification_def notif_updates
  by (intro post_now_clock vcg; auto dest!: notifs_tables
      intro: swept_skip [OF inv] intro!: swept_step [OF inv] retried_intros [OF el])

lemma swept_none: "swept key R t0 rest t \<Longrightarrow> swept key R t0 [] t"
  by (induction rest) (auto dest: swept_skip)

lemma retry_rows_swept:
  assumes "swept ne_ID (retried env t0) t rows (tbl_notifs w)" "\<forall>x \<in> set rows. retry_eligible t0 notifRetryMaxAttempts x"
  shows "post (retry_rows env s rows) w (\<lambda>_ w'. swept ne_ID (retried env t0) t [] (tbl_notifs w'))"
  using assms
proof (induction rows arbitrary: w)
  case (Cons x rows)
  show ?case unfolding retry_rows.simps post_bind
    by (rule post_mono [OF retry_notification_step [OF Cons.prems(1)]])
      (use Cons in \<open>auto intro: swept_none split: sum.splits\<close>)
qed simp

lemma swept_filter:
  assumes "distinct (map key t)"
  shows "swept key R t (take k (sort_key g (filter P t))) t"
proof (rule swept_start [OF assms])
  show "set (take k (sort_key g (filter P t))) \<subseteq> set t" using set_take_subset [of k "sort_key g (filter P t)"] by auto
  have "distinct (map key (filter P t))" using assms by (rule distinct_map_filter)
  then have "distinct (map key (sort_key g (filter P t)))" by (simp add: distinct_map)
  then show "distinct (map key (take k (sort_key g (filter P t))))" by (simp add: distinct_take flip: take_map)
qed

text \<open>
  C32. One retry sweep, whatever fails: no row appears or disappears, and a row that changes was
  failed, due, and below five attempts. It is now sent; or, when this was its fifth attempt, dead; or
  still failed with one more attempt, and its next attempt is due two to the power of \<open>n\<close> minutes after a reading of the clock,
  where \<open>n\<close> is its number of earlier attempts, which is at least 0. (A negative count in a row panics at the shift and ends the
  sweep after the rows before it; the statement covers that sweep too.)
\<close>

theorem RetryFailedNotifications_correct:
  assumes "distinct (map ne_ID (tbl_notifs w))" and "run_state (RetryFailedNotifications env s) w = (r, w')"
  shows "map ne_ID (tbl_notifs w') = map ne_ID (tbl_notifs w) \<and>
    (\<forall>i n'. row_of ne_ID i (tbl_notifs w') = Some n' \<longrightarrow>
       (\<exists>n. row_of ne_ID i (tbl_notifs w) = Some n \<and> (n' = n \<or> (\<exists>k. retried env (clock env k) n n'))))"
proof -
  let ?R = "\<lambda>k. retried env (clock env k)" and ?t = "tbl_notifs w"
  have "post (RetryFailedNotifications env s) w (\<lambda>_ w'. \<exists>k. swept ne_ID (?R k) ?t [] (tbl_notifs w'))"
    unfolding RetryFailedNotifications_def NotificationRepository_ListRetryEligible_def Let_def post_bind
  proof (rule post_now_clock, rule post_query, goal_cases)
    case (1 k w1 e w2)
    then show ?case using swept_start [OF assms(1), of "[]"] by (auto dest!: notifs_tables)
  next
    case (2 k w1 w2)
    have t: "tbl_notifs w1 = ?t" "tbl_notifs w2 = ?t" using 2 by (auto dest!: notifs_tables)
    show ?case unfolding sum.case t
      by (rule post_mono [OF retry_rows_swept [of env "clock env k" ?t]])
        (use swept_filter [OF assms(1)] in \<open>auto simp: t dest!: in_set_takeD\<close>)
  qed
  from post_run [OF this assms(2)] show ?thesis by (blast dest: swept_done)
qed

definition sample_notif :: "string \<Rightarrow> NotificationStatus \<Rightarrow> int \<Rightarrow> time option \<Rightarrow> NotificationEvent" where
  "sample_notif i st n next' = \<lparr> ne_ID = i, ne_Type = NotificationTypeRevocation, ne_CertificateID = None,
     ne_Channel = ''Webhook'', ne_Recipient = '''', ne_Message = '''', ne_SentAt = None, ne_Status = st,
     ne_Error = None, ne_RetryCount = n, ne_NextRetryAt = next', ne_LastError = None, ne_CreatedAt = 0 \<rparr>"

theorem RetryFailedNotifications_correct_witness:
  "let w = notif_world \<lparr> tbl_notifs := [sample_notif ''a'' NotificationStatusFailed 4 (Some 0),
         sample_notif ''b'' NotificationStatusFailed 3 (Some 0)] \<rparr>;
       w' = snd (run_state (RetryFailedNotifications refusing (NewNotificationService [''Webhook''])) w)
   in map ne_Status (tbl_notifs w') = [NotificationStatusDead, NotificationStatusFailed] \<and>
      map ne_NextRetryAt (tbl_notifs w') = [None, Some (8 * Minute)] \<and>
      (\<exists>n. row_of ne_ID ''a'' (tbl_notifs w) = Some n \<and> (\<exists>k. retried refusing (clock refusing k) n (hd (tbl_notifs w'))))"
proof -
  let ?s = "NewNotificationService [''Webhook'']"
  let ?w = "notif_world \<lparr> tbl_notifs := [sample_notif ''a'' NotificationStatusFailed 4 (Some 0),
    sample_notif ''b'' NotificationStatusFailed 3 (Some 0)] \<rparr>"
  obtain r w' where run: "run_state (RetryFailedNotifications refusing ?s) ?w = (r, w')" by (metis surj_pair)
  have "tbl_notifs (snd (run_state (RetryFailedNotifications refusing ?s) ?w)) = [(sample_notif ''a'' NotificationStatusFailed 4 (Some 0)) \<lparr> ne_Status := NotificationStatusDead,
      ne_NextRetryAt := None, ne_LastError := Some ''503'' \<rparr>, (sample_notif ''b'' NotificationStatusFailed 3 (Some 0))
      \<lparr> ne_RetryCount := 4, ne_LastError := Some ''503'', ne_NextRetryAt := Some (8 * Minute) \<rparr>]"
    by (simp add: RetryFailedNotifications_def NotificationRepository_ListRetryEligible_def retry_eligible_def
      retry_notification_def notif_run_defs backoff_def int64_def Let_def notif_world_def refusing_def samples sample_notif_def)
  note t = this [unfolded run snd_conv]
  have d: "distinct (map ne_ID (tbl_notifs ?w))" by (simp add: sample_notif_def)
  have a: "row_of ne_ID ''a'' (tbl_notifs w') = Some (hd (tbl_notifs w'))" by (simp add: t sample_notif_def row_of_def)
  obtain n where n: "row_of ne_ID ''a'' (tbl_notifs ?w) = Some n"
    "hd (tbl_notifs w') = n \<or> (\<exists>k. retried refusing (clock refusing k) n (hd (tbl_notifs w')))"
    using RetryFailedNotifications_correct [OF d run, THEN conjunct2, rule_format, OF a] by blast
  then have "hd (tbl_notifs w') \<noteq> n" by (auto simp: t sample_notif_def row_of_def)
  with n have "\<exists>n. row_of ne_ID ''a'' (tbl_notifs ?w) = Some n \<and> (\<exists>k. retried refusing (clock refusing k) n (hd (tbl_notifs w')))"
    by blast
  moreover have "map ne_Status (tbl_notifs w') = [NotificationStatusDead, NotificationStatusFailed]"
    "map ne_NextRetryAt (tbl_notifs w') = [None, Some (8 * Minute)]" by (simp_all add: t sample_notif_def)
  ultimately show ?thesis unfolding Let_def run snd_conv by blast
qed

subsection \<open>The pending batch\<close>

lemma post_for_count_n:
  assumes "\<And>x rest n w. Inv (x # rest) n w \<Longrightarrow> post (f x) w (\<lambda>b w'. Inv rest (if b then Suc n else n) w')"
    and "Inv xs m w" and "\<And>n w'. Inv [] (n + m) w' \<Longrightarrow> Q n w'"
  shows "post (for_count f xs) w Q"
  using assms(2,3)
proof (induction xs arbitrary: m w Q)
  case (Cons x xs)
  show ?case unfolding for_count.simps post_bind
  proof (rule post_mono [OF assms(1) [OF Cons.prems(1)]])
    fix b v
    assume inv: "Inv xs (if b then Suc m else m) v"
    show "post (for_count f xs) v (\<lambda>n t. post (State_Monad.return (if b then Suc n else n)) t Q)"
    proof (rule Cons.IH [OF inv])
      fix n w'
      assume "Inv [] (n + (if b then Suc m else m)) w'"
      then show "post (State_Monad.return (if b then Suc n else n)) w' Q"
        using Cons.prems(2) [of "if b then Suc n else n"] by (cases b) simp_all
    qed
  qed
qed simp

definition is_pending :: "NotificationEvent \<Rightarrow> bool" where
  "is_pending n = (ne_Status n = NotificationStatusPending)"

text \<open>What one pass does to a pending row, when \<open>k\<close> deliveries have been refused so far.\<close>

definition handed_over :: "nat \<Rightarrow> NotificationEvent \<Rightarrow> NotificationEvent \<Rightarrow> bool" where
  "handed_over k n n' = (is_pending n \<and>
     ((\<exists>t. n' = n \<lparr> ne_Status := NotificationStatusSent, ne_SentAt := Some t \<rparr>) \<or>
      0 < k \<and> n' = n \<lparr> ne_Status := NotificationStatusFailed, ne_SentAt := Some zero_time \<rparr>))"

definition batch_inv :: "NotificationEvent list \<Rightarrow> NotificationEvent list \<Rightarrow> nat \<Rightarrow> NotificationEvent list \<Rightarrow> bool" where
  "batch_inv t0 rest k t = (swept ne_ID (handed_over k) t0 rest t \<and> (\<forall>n \<in> set rest. is_pending n) \<and>
     (\<forall>n \<in> set t. is_pending n \<longrightarrow> n \<in> set rest))"

lemma swept_mono: "swept key R t0 rest t \<Longrightarrow> (\<And>r r'. R r r' \<Longrightarrow> R' r r') \<Longrightarrow> swept key R' t0 rest t"
  unfolding swept_def by blast

lemma handed_over_intros:
  "is_pending n \<Longrightarrow> handed_over k n (n \<lparr> ne_Status := NotificationStatusSent, ne_SentAt := Some t \<rparr>)"
  "is_pending n \<Longrightarrow> handed_over (Suc k) n (n \<lparr> ne_Status := NotificationStatusFailed, ne_SentAt := Some zero_time \<rparr>)"
  by (auto simp: handed_over_def)

lemma handed_over_mono: "k \<le> k' \<or> 0 < k' \<Longrightarrow> handed_over k n n' \<Longrightarrow> handed_over k' n n'"
  by (auto simp: handed_over_def)

lemma batch_inv_mono: "batch_inv t0 rest k t \<Longrightarrow> k \<le> k' \<or> 0 < k' \<Longrightarrow> batch_inv t0 rest k' t"
  unfolding batch_inv_def using swept_mono [of ne_ID "handed_over k" t0 rest t "handed_over k'"] handed_over_mono by blast

lemma batch_inv_step:
  assumes inv: "batch_inv t0 (x # rest) k t" and d: "distinct (map ne_ID t0)"
    and f: "\<And>n. ne_ID (f n) = ne_ID n" "\<And>n. \<not> is_pending (f n)" "is_pending x \<Longrightarrow> handed_over k' x (f x)" and k: "k \<le> k'"
  shows "batch_inv t0 rest k' (update_row ne_ID (ne_ID x) f t)"
proof -
  have sw: "swept ne_ID (handed_over k') t0 (x # rest) t"
    using batch_inv_mono [OF inv, of k'] k by (simp add: batch_inv_def)
  have x: "is_pending x" "row_of ne_ID (ne_ID x) t = Some x" using inv by (auto simp: batch_inv_def swept_def)
  have "distinct (map ne_ID t)" using d sw by (simp add: swept_def)
  then have same: "n = x" if "n \<in> set t" "ne_ID n = ne_ID x" for n
    using that x row_of_distinct [of ne_ID t n] by simp
  have "n \<in> set rest" if "n \<in> set (update_row ne_ID (ne_ID x) f t)" "is_pending n" for n
    using that f(2) inv same by (auto simp: set_update_row batch_inv_def)
  then show ?thesis
    using swept_step [OF sw, of f, OF f(1) f(3) [OF x(1)]] inv by (auto simp: batch_inv_def)
qed

lemma post_UpdateStatus_ok:
  assumes "fault env = (\<lambda>_. False)"
    and "\<And>r w'. tbl_notifs w' = update_row ne_ID i (\<lambda>n. n \<lparr> ne_Status := st, ne_SentAt := Some t \<rparr>) (tbl_notifs w) \<Longrightarrow> Q r w'"
  shows "post (NotificationRepository_UpdateStatus env i st t) w Q"
  by (simp add: post_def notif_updates update_notif_def exec_def run_simps assms)

lemma send_pending_step:
  assumes env: "fault env = (\<lambda>_. False)" and d: "distinct (map ne_ID t0)" and inv: "batch_inv t0 (x # rest) k (tbl_notifs w)"
  shows "post (send_pending env s x) w (\<lambda>b w'. batch_inv t0 rest (if b then Suc k else k) (tbl_notifs w'))"
  unfolding send_pending_def sendNotification_def
  by (intro post_UpdateStatus_ok [OF env] vcg)
    (auto dest!: notifs_tables intro!: batch_inv_step [OF inv d] handed_over_intros simp: is_pending_def [of "_ \<lparr> ne_Status := _, ne_SentAt := _ \<rparr>"])

lemma take_pending: "length (filter P t) \<le> 50 \<Longrightarrow> page_slice 1 50 (sort_key g (filter P t)) = sort_key g (filter P t)"
  by (simp add: page_slice_def)

lemma batch_inv_start:
  assumes "distinct (map ne_ID t)"
  shows "batch_inv t (sort_key g (filter is_pending t)) 0 t"
  using swept_filter [OF assms, of "handed_over 0" "length t" g is_pending]
  by (auto simp: batch_inv_def)

text \<open>
  C35. A batch drains: when the database answers and at most 50 notifications are pending, afterwards
  none is. Each pending row is sent, or, if the run reports an error, failed; every other row is
  unchanged.
\<close>

theorem ProcessPendingNotifications_drains:
  assumes "fault env = (\<lambda>_. False)" and "distinct (map ne_ID (tbl_notifs w))"
    and "length (filter is_pending (tbl_notifs w)) \<le> 50"
    and "run_state (ProcessPendingNotifications env s) w = (r, w')"
  shows "(\<forall>n \<in> set (tbl_notifs w'). \<not> is_pending n) \<and> map ne_ID (tbl_notifs w') = map ne_ID (tbl_notifs w) \<and>
    (\<forall>i n'. row_of ne_ID i (tbl_notifs w') = Some n' \<longrightarrow>
       (\<exists>n. row_of ne_ID i (tbl_notifs w) = Some n \<and> (n' = n \<or> handed_over (if r = Inr () then 0 else 1) n n')))"
proof -
  let ?t = "tbl_notifs w"
  define f where "f = no_filter \<lparr> nf_Status := Some NotificationStatusPending, nf_PerPage := 1000 \<rparr>"
  have f: "notif_match f = is_pending" "nf_Page f = 0" "nf_PerPage f = 1000"
    by (auto simp: f_def no_filter_def notif_match_def is_pending_def fun_eq_iff)
  have list: "post (NotificationRepository_List env f) w
      (\<lambda>r w'. r = Inr (sort_key newest_sent (filter is_pending ?t)) \<and> tbl_notifs w' = ?t)"
    using assms(1,3) by (simp add: NotificationRepository_List_def query_page_def post_def run_defs f take_pending)
  have "post (ProcessPendingNotifications env s) w (\<lambda>r w'. batch_inv ?t [] (if r = Inr () then 0 else 1) (tbl_notifs w'))"
    unfolding ProcessPendingNotifications_def f_def [symmetric]
  proof (rule post_bindI, rule post_mono [OF list], clarify)
    fix v :: world
    assume v: "tbl_notifs v = ?t"
    let ?rows = "sort_key newest_sent (filter is_pending ?t)"
    have "post (for_count (send_pending env s) ?rows) v (\<lambda>k w'. batch_inv ?t [] k (tbl_notifs w'))"
      by (rule post_for_count_n [where Inv = "\<lambda>rest k u. batch_inv ?t rest k (tbl_notifs u)" and m = 0])
        (auto simp: v intro!: send_pending_step [OF assms(1,2)] batch_inv_start [OF assms(2)])
    moreover have "batch_inv ?t [] 1 t'" if "batch_inv ?t [] k t'" "0 < k" for k t'
      using that by (auto elim: batch_inv_mono)
    ultimately show "post (case Inr ?rows of Inl e \<Rightarrow> State_Monad.return (Inl (Wrap ''failed to list pending notifications'' e))
        | Inr pending \<Rightarrow> do {
            failedCount \<leftarrow> for_count (send_pending env s) pending;
            State_Monad.return (if 0 < failedCount
              then Inl (Errorf (''failed to send '' @ show_nat failedCount @ '' out of '' @ show_nat (length pending) @ '' notifications''))
              else Inr ()) }) v (\<lambda>r w'. batch_inv ?t [] (if r = Inr () then 0 else 1) (tbl_notifs w'))"
      by (auto simp: post_bind elim!: post_mono)
  qed
  from post_run [OF this assms(4)] show ?thesis by (auto simp: batch_inv_def dest: swept_done)
qed

theorem ProcessPendingNotifications_drains_witness:
  "let w = notif_world \<lparr> tbl_notifs := [sample_notif ''a'' NotificationStatusPending 0 None, sample_notif ''b'' NotificationStatusRead 0 None] \<rparr>;
       (r, w') = run_state (ProcessPendingNotifications refusing (NewNotificationService [''Webhook''])) w
   in (\<exists>e. r = Inl e) \<and> (\<forall>n \<in> set (tbl_notifs w'). \<not> is_pending n)"
proof -
  let ?s = "NewNotificationService [''Webhook'']"
  let ?w = "notif_world \<lparr> tbl_notifs := [sample_notif ''a'' NotificationStatusPending 0 None, sample_notif ''b'' NotificationStatusRead 0 None] \<rparr>"
  obtain r w' where run: "run_state (ProcessPendingNotifications refusing ?s) ?w = (r, w')" by (metis surj_pair)
  have "\<exists>e. fst (run_state (ProcessPendingNotifications refusing ?s) ?w) = Inl e"
    by (simp add: ProcessPendingNotifications_def NotificationRepository_List_def query_page_def no_filter_def notif_match_def page_slice_def
      send_pending_def notif_run_defs notif_world_def refusing_def samples sample_notif_def)
  note r = this [unfolded run fst_conv]
  have "\<forall>n \<in> set (tbl_notifs w'). \<not> is_pending n"
    using ProcessPendingNotifications_drains [OF _ _ _ run]
    by (simp add: refusing_def calm_def sample_notif_def is_pending_def)
  with r show ?thesis unfolding Let_def run by simp
qed

lemma delivered_other: "delivered j t t' \<Longrightarrow> i \<noteq> j \<Longrightarrow> row_of ne_ID i t' = row_of ne_ID i t"
  by (auto simp: delivered_def row_of_update_row)

text \<open>
  A batch is at most 50 notifications: one run changes at most 50 rows, although it asks for
  1000, because the repository replaces a page size above 500 by its default.
\<close>

theorem ProcessPendingNotifications_batch:
  "card {i. row_of ne_ID i (tbl_notifs (snd (run_state (ProcessPendingNotifications env s) w))) \<noteq>
     row_of ne_ID i (tbl_notifs w)} \<le> 50"
proof -
  obtain r w' where run: "run_state (ProcessPendingNotifications env s) w = (r, w')" by (metis surj_pair)
  let ?t = "tbl_notifs w"
  define f where "f = no_filter \<lparr> nf_Status := Some NotificationStatusPending, nf_PerPage := 1000 \<rparr>"
  define L where "L = page_slice 1 50 (sort_key newest_sent (filter (notif_match f) ?t))"
  let ?Inv = "\<lambda>rest t'. set rest \<subseteq> set L \<and> (\<forall>i. i \<notin> ne_ID ` set L \<longrightarrow> row_of ne_ID i t' = row_of ne_ID i ?t)"
  have list: "post (NotificationRepository_List env f) w (\<lambda>r w'. (\<forall>ns. r = Inr ns \<longrightarrow> ns = L) \<and> tbl_notifs w' = ?t)"
    by (rule post_List) (auto simp: f_def no_filter_def L_def same_dataD)
  have step: "post (send_pending env s x) v (\<lambda>_ v'. ?Inv rest (tbl_notifs v'))" if "?Inv (x # rest) (tbl_notifs v)" for x rest v
    unfolding send_pending_def post_bind
  proof (rule post_sendNotification, goal_cases)
    case (1 r v')
    have "row_of ne_ID i (tbl_notifs v') = row_of ne_ID i (tbl_notifs v)" if "i \<notin> ne_ID ` set L" for i
      by (rule delivered_other [OF 1(1)]) (use that \<open>?Inv (x # rest) (tbl_notifs v)\<close> in auto)
    with that show ?case by simp
  qed
  have "post (ProcessPendingNotifications env s) w (\<lambda>_ w'. ?Inv [] (tbl_notifs w'))"
    unfolding ProcessPendingNotifications_def f_def [symmetric]
  proof (rule post_bindI, rule post_mono [OF list], intro post_case_sum post_bindI post_returnI, simp)
    fix r and v :: world and pending
    assume "(\<forall>ns. r = Inr ns \<longrightarrow> ns = L) \<and> tbl_notifs v = ?t" "r = Inr pending"
    then have start: "?Inv pending (tbl_notifs v)" by simp
    have "post (for_count (send_pending env s) pending) v (\<lambda>_ v'. ?Inv [] (tbl_notifs v'))"
      by (rule post_for_count [where Inv = "\<lambda>rest v. ?Inv rest (tbl_notifs v)", OF step start])
    then show "post (for_count (send_pending env s) pending) v (\<lambda>a t. post (State_Monad.return (if 0 < a
        then Inl (Errorf (''failed to send '' @ show_nat a @ '' out of '' @ show_nat (length pending) @ '' notifications''))
        else Inr ())) t (\<lambda>_ w'. ?Inv [] (tbl_notifs w')))" by simp
  qed
  from post_run [OF this run] have "{i. row_of ne_ID i (tbl_notifs w') \<noteq> row_of ne_ID i ?t} \<subseteq> ne_ID ` set L" by auto
  then have "card {i. row_of ne_ID i (tbl_notifs w') \<noteq> row_of ne_ID i ?t} \<le> card (ne_ID ` set L)" by (simp add: card_mono)
  also have "\<dots> \<le> length L" using card_image_le [of "set L" ne_ID] card_length [of L] by simp
  also have "\<dots> \<le> 50" by (simp add: L_def page_slice_def)
  finally show ?thesis by (simp add: run)
qed

end
