(* ===== verification/Profiles.thy ===== *)
theory Profiles
  imports Approvals
begin

text \<open>
  \<^verbatim>\<open>internal/service/profile.go\<close>: certificate profiles, their validation, and the gate that routes an
  edit of an approval-tier profile through the approval workflow. The caller's identity, which the
  code reads from the request context, is an argument.
\<close>

section \<open>Defaults and validation\<close>

definition DefaultKeyAlgorithms :: "KeyAlgorithmRule list" where
  "DefaultKeyAlgorithms = [\<lparr> kar_Algorithm = ''ECDSA'', kar_MinSize = 256 \<rparr>, \<lparr> kar_Algorithm = ''RSA'', kar_MinSize = 2048 \<rparr>]"

definition DefaultEKUs :: "string list" where
  "DefaultEKUs = [''serverAuth'']"

definition ValidKeyAlgorithms :: "string list" where
  "ValidKeyAlgorithms = [''RSA'', ''ECDSA'', ''Ed25519'']"

definition ValidEKUs :: "string list" where
  "ValidEKUs = [''serverAuth'', ''clientAuth'', ''codeSigning'', ''emailProtection'', ''timeStamping'']"

definition check_algorithm :: "KeyAlgorithmRule \<Rightarrow> error option" where
  "check_algorithm alg =
     (if kar_Algorithm alg \<notin> set ValidKeyAlgorithms then Some (Errorf (''invalid key algorithm: '' @ kar_Algorithm alg))
      else if kar_Algorithm alg = ''RSA'' \<and> kar_MinSize alg < 2048
      then Some (Errorf (''RSA minimum key size must be at least 2048, got '' @ show_int (kar_MinSize alg)))
      else if kar_Algorithm alg = ''ECDSA'' \<and> kar_MinSize alg < 256
      then Some (Errorf (''ECDSA minimum key size must be at least 256, got '' @ show_int (kar_MinSize alg)))
      else None)"

fun first_error :: "('a \<Rightarrow> error option) \<Rightarrow> 'a list \<Rightarrow> error option" where
  "first_error f [] = None"
| "first_error f (x # xs) = (case f x of Some e \<Rightarrow> Some e | None \<Rightarrow> first_error f xs)"

definition validateProfile :: "CertificateProfile \<Rightarrow> error option" where
  "validateProfile p =
     (if prof_Name p = '''' then Some (Errorf ''profile name is required'')
      else if length (prof_Name p) > 255 then Some (Errorf ''profile name exceeds 255 characters'')
      else (case first_error check_algorithm (prof_AllowedKeyAlgorithms p) of
        Some e \<Rightarrow> Some e
      | None \<Rightarrow> (case first_error (\<lambda>eku. if eku \<notin> set ValidEKUs then Some (Errorf (''invalid EKU: '' @ eku)) else None) (prof_AllowedEKUs p) of
          Some e \<Rightarrow> Some e
        | None \<Rightarrow>
            if prof_MaxTTLSeconds p < 0 then Some (Errorf ''max_ttl_seconds cannot be negative'')
            else if prof_AllowShortLived p \<and> prof_MaxTTLSeconds p \<ge> 3600
            then Some (Errorf ''allow_short_lived is true but max_ttl_seconds is >= 3600'')
            else None)))"

section \<open>The service\<close>

abbreviation ErrProfileEditPendingApproval :: error where
  "ErrProfileEditPendingApproval \<equiv> Sentinel ''service.ErrProfileEditPendingApproval''"

record ProfileService =
  pfs_auditService :: bool
  pfs_approvalService :: "ApprovalService option"

definition CreateProfile :: "env \<Rightarrow> ProfileService \<Rightarrow> CertificateProfile \<Rightarrow> CertificateProfile result op" where
  "CreateProfile env s profile = (case validateProfile profile of
     Some e \<Rightarrow> State_Monad.return (Inl e)
   | None \<Rightarrow> do {
       i \<leftarrow> (if prof_ID profile = '''' then generateID env ''prof'' else State_Monad.return (prof_ID profile));
       t \<leftarrow> now env;
       let p = profile \<lparr> prof_ID := i,
             prof_CreatedAt := (if prof_CreatedAt profile = zero_time then t else prof_CreatedAt profile),
             prof_UpdatedAt := (if prof_UpdatedAt profile = zero_time then t else prof_UpdatedAt profile),
             prof_AllowedKeyAlgorithms := (if prof_AllowedKeyAlgorithms profile = [] then DefaultKeyAlgorithms else prof_AllowedKeyAlgorithms profile),
             prof_AllowedEKUs := (if prof_AllowedEKUs profile = [] then DefaultEKUs else prof_AllowedEKUs profile) \<rparr> in do {
       r \<leftarrow> ProfileRepository_Create env p;
       (case r of
          Inl e \<Rightarrow> State_Monad.return (Inl (Wrap ''failed to create profile'' e))
        | Inr i' \<Rightarrow> do {
            _ \<leftarrow> when_op (pfs_auditService s) (discard
              (RecordEvent env ''api'' ActorTypeUser ''create_profile'' ''certificate_profile'' i' []));
            State_Monad.return (Inr (p \<lparr> prof_ID := i' \<rparr>)) }) } })"

definition apply_update :: "env \<Rightarrow> ProfileService \<Rightarrow> CertificateProfile \<Rightarrow> CertificateProfile result op" where
  "apply_update env s profile = do {
     r \<leftarrow> ProfileRepository_Update env profile;
     (case r of
        Inl e \<Rightarrow> State_Monad.return (Inl (Wrap ''failed to update profile'' e))
      | Inr _ \<Rightarrow> do {
          _ \<leftarrow> when_op (pfs_auditService s) (discard
            (RecordEvent env ''api'' ActorTypeUser ''update_profile'' ''certificate_profile'' (prof_ID profile) []));
          State_Monad.return (Inr profile) }) }"

definition gate_edit :: "env \<Rightarrow> ProfileService \<Rightarrow> ApprovalService \<Rightarrow> string \<Rightarrow> CertificateProfile \<Rightarrow> CertificateProfile result op" where
  "gate_edit env s approvals requester profile = do {
     a \<leftarrow> RequestProfileEditApproval env approvals (prof_ID profile) requester (ProfileJSON profile);
     (case a of
        Inl e \<Rightarrow> State_Monad.return (Inl (Wrap ''approval gate'' e))
      | Inr approvalID \<Rightarrow> do {
          _ \<leftarrow> when_op (pfs_auditService s) (discard
            (RecordEventWithCategory env requester ActorTypeUser ''profile.edit_request'' EventCategoryAuth
              ''certificate_profile'' (prof_ID profile) [(''approval_id'', JStr approvalID)]));
          State_Monad.return (Inl (Wrap (''approval='' @ approvalID) ErrProfileEditPendingApproval)) }) }"

definition UpdateProfile ::
  "env \<Rightarrow> ProfileService \<Rightarrow> string \<Rightarrow> string \<Rightarrow> CertificateProfile \<Rightarrow> CertificateProfile result op" where
  "UpdateProfile env s requester i profile = (case validateProfile profile of
     Some e \<Rightarrow> State_Monad.return (Inl e)
   | None \<Rightarrow>
       let profile' = profile \<lparr> prof_ID := i \<rparr> in
       (case pfs_approvalService s of
          None \<Rightarrow> apply_update env s profile'
        | Some approvals \<Rightarrow> do {
            g \<leftarrow> ProfileRepository_Get env i;
            (case g of
               Inl e \<Rightarrow> State_Monad.return (Inl (Wrap ''failed to load live profile'' e))
             | Inr live \<Rightarrow>
                 if prof_RequiresApproval live \<or> prof_RequiresApproval profile'
                 then gate_edit env s approvals requester profile'
                 else apply_update env s profile') }))"

definition DeleteProfile :: "env \<Rightarrow> ProfileService \<Rightarrow> string \<Rightarrow> unit result op" where
  "DeleteProfile env s i = do {
     r \<leftarrow> ProfileRepository_Delete env i;
     (case r of
        Inl e \<Rightarrow> State_Monad.return (Inl (Wrap ''failed to delete profile'' e))
      | Inr _ \<Rightarrow> do {
          _ \<leftarrow> when_op (pfs_auditService s) (discard
            (RecordEvent env ''api'' ActorTypeUser ''delete_profile'' ''certificate_profile'' i []));
          State_Monad.return (Inr ()) }) }"

section \<open>Validation\<close>

lemma first_error_None: "first_error f xs = None \<longleftrightarrow> (\<forall>x \<in> set xs. f x = None)"
  by (induction xs) (auto split: option.splits)

text \<open>A profile that passes validation allows only known algorithms with strong keys and known usages.\<close>

lemma validateProfile_sound:
  assumes "validateProfile p = None"
  shows "0 < length (prof_Name p) \<and> length (prof_Name p) \<le> 255 \<and>
    (\<forall>a \<in> set (prof_AllowedKeyAlgorithms p). kar_Algorithm a \<in> set ValidKeyAlgorithms \<and>
       (kar_Algorithm a = ''RSA'' \<longrightarrow> 2048 \<le> kar_MinSize a) \<and> (kar_Algorithm a = ''ECDSA'' \<longrightarrow> 256 \<le> kar_MinSize a)) \<and>
    set (prof_AllowedEKUs p) \<subseteq> set ValidEKUs \<and> 0 \<le> prof_MaxTTLSeconds p \<and>
    (prof_AllowShortLived p \<longrightarrow> prof_MaxTTLSeconds p < 3600)"
proof -
  from assms have e: "first_error check_algorithm (prof_AllowedKeyAlgorithms p) = None"
    "first_error (\<lambda>eku. if eku \<notin> set ValidEKUs then Some (Errorf (''invalid EKU: '' @ eku)) else None) (prof_AllowedEKUs p) = None"
    "prof_Name p \<noteq> ''''" "length (prof_Name p) \<le> 255" "0 \<le> prof_MaxTTLSeconds p"
    "prof_AllowShortLived p \<longrightarrow> prof_MaxTTLSeconds p < 3600"
    unfolding validateProfile_def by (auto split: if_splits option.splits)
  have "kar_Algorithm a \<in> set ValidKeyAlgorithms \<and>
      (kar_Algorithm a = ''RSA'' \<longrightarrow> 2048 \<le> kar_MinSize a) \<and> (kar_Algorithm a = ''ECDSA'' \<longrightarrow> 256 \<le> kar_MinSize a)"
    if "a \<in> set (prof_AllowedKeyAlgorithms p)" for a
    using e(1) that unfolding first_error_None check_algorithm_def by (auto split: if_splits)
  moreover have "set (prof_AllowedEKUs p) \<subseteq> set ValidEKUs"
    using e(2) unfolding first_error_None by (auto split: if_splits)
  ultimately show ?thesis using e by auto
qed

section \<open>The gate\<close>

interpretation profs: table_view "\<lambda>w w'. tbl_profiles w' = tbl_profiles w" tbl_profiles
  by unfold_locales auto

lemma profs_request:
  "state_io_rel (\<lambda>w w'. tbl_profiles w' = tbl_profiles w) (RequestProfileEditApproval env (server_approvals env False) p by' pl)"
  unfolding RequestProfileEditApproval_def ApprovalRepository_Create_def auto_approve_def recordAudit_def when_op_def discard_def
  by (simp only: server_approvals_simps, intro profs.keeps_audit profs.keeps_insert profs.keeps_get profs.keeps_modify) simp_all

lemma reqs_apply_update: "state_io_rel (\<lambda>w w'. tbl_approvals w' = tbl_approvals w) (apply_update env s p)"
  unfolding apply_update_def ProfileRepository_Update_def when_op_def discard_def
  by (intro requests.keeps_audit requests.keeps_exec) simp_all

lemma scanProfile_ungated [simp]: "\<not> prof_RequiresApproval (scanProfile p)"
  by (simp add: scanProfile_def)

text \<open>
  C38. What the gate on profile edits does while the bypass is off: with the approval workflow wired as the server wires it without
  \<^verbatim>\<open>CERTCTL_APPROVAL_BYPASS\<close>, an edit that asks for approval never changes a profile and always returns an error; an edit that
  does not ask for approval never creates an approval request, whatever the stored profile says. (With the bypass on, the
  request is approved at once and the edit applied, so the first half does not hold.)
\<close>

theorem profile_edit_gate:
  assumes "pfs_approvalService s = Some (server_approvals env False)"
    and "run_state (UpdateProfile env s requester i p) w = (r, w')"
  shows "if prof_RequiresApproval p then tbl_profiles w' = tbl_profiles w \<and> (\<exists>e. r = Inl e)
    else tbl_approvals w' = tbl_approvals w"
proof -
  have "post (UpdateProfile env s requester i p) w (\<lambda>r w'.
    (if prof_RequiresApproval p then tbl_profiles w' = tbl_profiles w \<and> (\<exists>e. r = Inl e)
     else tbl_approvals w' = tbl_approvals w))"
    unfolding UpdateProfile_def assms(1) gate_edit_def Let_def option.case(2)
    by (intro vcg post_keeps [OF profs_request] post_keeps [OF reqs_apply_update])
      (auto dest!: tables)
  from post_run [OF this assms(2)] show ?thesis .
qed

definition tier_world :: world where
  "tier_world = empty_world \<lparr> tbl_profiles := [sample_profile ''p1'' True] \<rparr>"

definition server_profiles :: "env \<Rightarrow> bool \<Rightarrow> ProfileService" where
  "server_profiles env bypass = \<lparr> pfs_auditService = True, pfs_approvalService = Some (server_approvals env bypass) \<rparr>"

theorem profile_edit_gate_witness:
  "let edit = (sample_profile ''p1'' False) \<lparr> prof_MaxTTLSeconds := 99 \<rparr>;
       (r, w') = run_state (UpdateProfile (calm 0) (server_profiles (calm 0) False) ''alice'' ''p1'' edit) tier_world
   in r = Inr edit \<and> tbl_approvals w' = [] \<and> map prof_MaxTTLSeconds (tbl_profiles w') = [99] \<and>
      map prof_RequiresApproval (tbl_profiles w') = [True]"
proof -
  let ?edit = "(sample_profile ''p1'' False) \<lparr> prof_MaxTTLSeconds := 99 \<rparr>"
  let ?run = "run_state (UpdateProfile (calm 0) (server_profiles (calm 0) False) ''alice'' ''p1'' ?edit) tier_world"
  obtain r w' where run: "?run = (r, w')" by (metis surj_pair)
  have "tbl_approvals w' = []"
    using profile_edit_gate [OF _ run] by (simp add: server_profiles_def sample_profile_def tier_world_def empty_world_def)
  moreover have "fst ?run = Inr ?edit" "map prof_MaxTTLSeconds (tbl_profiles (snd ?run)) = [99]"
    "map prof_RequiresApproval (tbl_profiles (snd ?run)) = [True]"
    by (simp_all add: UpdateProfile_def validateProfile_def server_profiles_def apply_update_def ProfileRepository_Get_def
      ProfileRepository_Update_def scanProfile_def profile_columns_def rows_result_def count_rows_def update_row_def
      row_of_def run_defs tier_world_def samples when_op_def discard_def Let_def has_key_def)
  ultimately show ?thesis unfolding Let_def run by simp
qed

end
