(* ===== verification/Key_Paths.thy ===== *)
theory Key_Paths
  imports Store
begin

text \<open>
  Certificate identifiers and the file names derived from them:
  \<^verbatim>\<open>internal/validation/certificate_id.go\<close> on the server and \<^verbatim>\<open>validateAgentCertID\<close> and
  \<^verbatim>\<open>safeAgentKeyPath\<close> of \<^verbatim>\<open>cmd/agent/keymem.go\<close> on the agent, over the functions of
  \<^verbatim>\<open>path/filepath\<close> they call, for a system whose separator is the slash.
\<close>

section \<open>Paths\<close>

fun split_slash :: "string \<Rightarrow> string \<Rightarrow> string list" where
  "split_slash acc [] = [rev acc]"
| "split_slash acc (c # cs) = (if c = CHR ''/'' then rev acc # split_slash [] cs else split_slash (c # acc) cs)"

fun join_slash :: "string list \<Rightarrow> string" where
  "join_slash [] = ''''"
| "join_slash [s] = s"
| "join_slash (s # ss) = s @ ''/'' @ join_slash ss"

text \<open>\<open>clean_parts\<close> keeps the components seen so far in reverse order.\<close>

fun clean_parts :: "bool \<Rightarrow> string list \<Rightarrow> string list \<Rightarrow> string list" where
  "clean_parts rooted out [] = rev out"
| "clean_parts rooted out (c # cs) =
     (if c = '''' \<or> c = ''.'' then clean_parts rooted out cs
      else if c = ''..'' then
        (case out of
           [] \<Rightarrow> if rooted then clean_parts rooted [] cs else clean_parts rooted [''..''] cs
         | d # ds \<Rightarrow> if d = ''..'' then clean_parts rooted (''..'' # out) cs else clean_parts rooted ds cs)
      else clean_parts rooted (c # out) cs)"

definition is_abs :: "string \<Rightarrow> bool" where
  "is_abs p = (case p of [] \<Rightarrow> False | c # cs \<Rightarrow> c = CHR ''/'')"

definition parts :: "string \<Rightarrow> string list" where
  "parts p = clean_parts (is_abs p) [] (split_slash [] p)"

definition filepath_Clean :: "string \<Rightarrow> string" where
  "filepath_Clean p = (if is_abs p then ''/'' @ join_slash (parts p)
     else if parts p = [] then ''.'' else join_slash (parts p))"

definition filepath_Join :: "string list \<Rightarrow> string" where
  "filepath_Join elems = (case filter (\<lambda>e. e \<noteq> '''') elems of [] \<Rightarrow> '''' | es \<Rightarrow> filepath_Clean (join_slash es))"

definition filepath_Abs :: "string result \<Rightarrow> string \<Rightarrow> string result" where
  "filepath_Abs cwd p = (if is_abs p then Inr (filepath_Clean p)
     else (case cwd of Inl e \<Rightarrow> Inl e | Inr wd \<Rightarrow> Inr (filepath_Join [wd, p])))"

fun strip_common :: "string list \<Rightarrow> string list \<Rightarrow> string list \<times> string list" where
  "strip_common (b # bs) (t # ts) = (if b = t then strip_common bs ts else (b # bs, t # ts))"
| "strip_common bs ts = (bs, ts)"

definition filepath_Rel :: "string \<Rightarrow> string \<Rightarrow> string result" where
  "filepath_Rel basepath targpath = (
     if filepath_Clean basepath = filepath_Clean targpath then Inr ''.''
     else if is_abs (filepath_Clean basepath) \<noteq> is_abs (filepath_Clean targpath)
     then Inl (Errorf (''Rel: can't make '' @ targpath @ '' relative to '' @ basepath))
     else (let (bs, ts) = strip_common (parts basepath) (parts targpath) in
       if bs \<noteq> [] \<and> hd bs = ''..'' then Inl (Errorf (''Rel: can't make '' @ targpath @ '' relative to '' @ basepath))
       else Inr (join_slash (replicate (length bs) ''..'' @ ts))))"

section \<open>Identifiers\<close>

text \<open>The verb \<^verbatim>\<open>%q\<close> on the printable strings identifiers and serial numbers are.\<close>

definition go_quote :: "string \<Rightarrow> string" where
  "go_quote s = [CHR 0x22] @
     concat (map (\<lambda>c. if c = CHR 0x22 \<or> c = CHR 0x5C then [CHR 0x5C, c] else [c]) s) @ [CHR 0x22]"

definition id_char :: "char \<Rightarrow> bool" where
  "id_char c = (let n = (of_char c :: nat) in
     65 \<le> n \<and> n \<le> 90 \<or> 97 \<le> n \<and> n \<le> 122 \<or> 48 \<le> n \<and> n \<le> 57 \<or> c = CHR ''.'' \<or> c = CHR ''_'' \<or> c = CHR ''-'')"

definition certificateIDPattern :: "string \<Rightarrow> bool" where
  "certificateIDPattern i = (list_all id_char i \<and> 1 \<le> length i \<and> length i \<le> 128)"

definition ValidateCertificateID :: "string \<Rightarrow> unit result" where
  "ValidateCertificateID i = (
     if i = '''' then Inl (Errorf ''certificate_id is required'')
     else if 128 < length i then Inl (Errorf (''certificate_id length '' @ show_nat (length i) @ '' exceeds 128''))
     else if \<not> certificateIDPattern i
     then Inl (Errorf (''certificate_id '' @ go_quote i @ '' contains disallowed characters; allowed: A-Z a-z 0-9 . _ -''))
     else if i = ''..'' \<or> i = ''.'' then Inl (Errorf (''certificate_id '' @ go_quote i @ '' is a relative-path token''))
     else Inr ())"

definition agentCertIDPattern :: "string \<Rightarrow> bool" where
  "agentCertIDPattern i = (list_all id_char i \<and> 1 \<le> length i \<and> length i \<le> 128)"

definition validateAgentCertID :: "string \<Rightarrow> unit result" where
  "validateAgentCertID i = (
     if i = '''' then Inl (Errorf ''certificate_id is required'')
     else if 128 < length i then Inl (Errorf (''certificate_id length '' @ show_nat (length i) @ '' exceeds 128''))
     else if \<not> agentCertIDPattern i
     then Inl (Errorf (''certificate_id '' @ go_quote i @ '' contains disallowed characters''))
     else if i = ''.'' \<or> i = ''..'' then Inl (Errorf (''certificate_id '' @ go_quote i @ '' is a relative-path token''))
     else Inr ())"

definition safeAgentKeyPath :: "string result \<Rightarrow> string \<Rightarrow> string \<Rightarrow> string result" where
  "safeAgentKeyPath cwd keyDir certificateID = (case validateAgentCertID certificateID of
     Inl e \<Rightarrow> Inl e
   | Inr _ \<Rightarrow>
       if keyDir = '''' then Inl (Errorf ''safeAgentKeyPath: empty keyDir'')
       else (case filepath_Abs cwd (filepath_Clean keyDir) of
         Inl e \<Rightarrow> Inl (Wrap ''safeAgentKeyPath: resolve keyDir'' e)
       | Inr cleanDir \<Rightarrow>
           let joined = filepath_Join [cleanDir, certificateID @ ''.key''];
               cleanJoined = filepath_Clean joined in
           (case filepath_Rel cleanDir cleanJoined of
              Inl e \<Rightarrow> Inl (Wrap (''safeAgentKeyPath: rel('' @ go_quote cleanDir @ '','' @ go_quote cleanJoined @ '')'') e)
            | Inr relp \<Rightarrow>
                if relp = ''..'' \<or> take 3 relp = ''../''
                then Inl (Errorf (''safeAgentKeyPath: '' @ go_quote certificateID @ '' escapes keyDir '' @ go_quote cleanDir @
                  '' (rel='' @ go_quote relp @ '')''))
                else if CHR 0x00 \<in> set relp then Inl (Errorf ''safeAgentKeyPath: NUL byte in computed path'')
                else Inr cleanJoined)))"

section \<open>Key files stay in their directory\<close>

definition normal :: "string \<Rightarrow> bool" where
  "normal c = (c \<noteq> '''' \<and> c \<noteq> ''.'' \<and> c \<noteq> ''..'' \<and> CHR ''/'' \<notin> set c)"

lemma split_no_slash: "CHR ''/'' \<notin> set s \<Longrightarrow> split_slash acc s = [rev acc @ s]"
  by (induction s arbitrary: acc) auto

lemma split_append: "split_slash acc (s @ CHR ''/'' # t) = split_slash acc s @ split_slash [] t"
  by (induction s arbitrary: acc) auto

lemma split_join: "cs \<noteq> [] \<Longrightarrow> list_all normal cs \<Longrightarrow> split_slash [] (join_slash cs) = cs"
  by (induction cs rule: join_slash.induct) (auto simp: split_append split_no_slash normal_def)

lemma split_parts_no_slash: "CHR ''/'' \<notin> set acc \<Longrightarrow> list_all (\<lambda>c. CHR ''/'' \<notin> set c) (split_slash acc s)"
  by (induction s arbitrary: acc) auto

lemma clean_normal: "list_all normal cs \<Longrightarrow> clean_parts r out cs = rev out @ cs"
  by (induction cs arbitrary: out) (auto simp: normal_def)

lemma clean_rooted: "list_all (\<lambda>c. CHR ''/'' \<notin> set c) cs \<Longrightarrow> list_all normal out \<Longrightarrow> list_all normal (clean_parts True out cs)"
  by (induction "True" out cs rule: clean_parts.induct) (auto simp: normal_def split: list.splits)

lemma parts_normal: "is_abs p \<Longrightarrow> list_all normal (parts p)"
  unfolding parts_def by (simp add: clean_rooted split_parts_no_slash)

lemma parts_rooted: "list_all normal cs \<Longrightarrow> parts (CHR ''/'' # join_slash cs) = cs"
  by (cases "cs = []") (simp_all add: parts_def is_abs_def split_join clean_normal)

lemma Clean_abs: "is_abs p \<Longrightarrow> filepath_Clean p = CHR ''/'' # join_slash (parts p)"
  by (simp add: filepath_Clean_def)

lemma Clean_rooted: "list_all normal cs \<Longrightarrow> filepath_Clean (CHR ''/'' # join_slash cs) = CHR ''/'' # join_slash cs"
  by (simp add: Clean_abs is_abs_def parts_rooted)

lemma join_slash_snoc: "cs \<noteq> [] \<Longrightarrow> join_slash (cs @ [x]) = join_slash cs @ ''/'' @ x"
  by (induction cs rule: join_slash.induct) (auto simp: neq_Nil_conv)

lemma Join_rooted:
  assumes "list_all normal cs" "normal x"
  shows "filepath_Join [CHR ''/'' # join_slash cs, x] = CHR ''/'' # join_slash (cs @ [x])"
proof -
  have "parts (CHR ''/'' # join_slash cs @ CHR ''/'' # x) = cs @ [x]"
    using assms by (cases "cs = []") (simp_all add: parts_def is_abs_def split_append split_join split_no_slash clean_normal normal_def)
  moreover have "x \<noteq> ''''" using assms(2) by (simp add: normal_def)
  ultimately show ?thesis by (simp add: filepath_Join_def Clean_abs is_abs_def)
qed

lemma strip_prefix: "strip_common cs (cs @ ts) = ([], ts)"
  by (induction cs) simp_all

lemma Rel_below:
  assumes "list_all normal cs" "normal x"
  shows "filepath_Rel (CHR ''/'' # join_slash cs) (CHR ''/'' # join_slash (cs @ [x])) = Inr x"
proof -
  have n: "list_all normal (cs @ [x])" using assms by simp
  have "join_slash cs \<noteq> join_slash (cs @ [x])" using parts_rooted [OF assms(1)] parts_rooted [OF n] by (metis append_self_conv not_Cons_self2)
  then show ?thesis by (simp add: filepath_Rel_def Clean_rooted [OF n] Clean_rooted [OF assms(1)] is_abs_def parts_rooted assms n strip_prefix)
qed

lemma Abs_rooted:
  assumes "\<And>wd. cwd = Inr wd \<Longrightarrow> is_abs wd" "filepath_Abs cwd p = Inr d"
  obtains cs where "list_all normal cs" "d = CHR ''/'' # join_slash cs"
proof (cases "is_abs p")
  case True
  with assms(2) that [OF parts_normal] show ?thesis by (auto simp: filepath_Abs_def Clean_abs)
next
  case False
  with assms obtain wd where wd: "is_abs wd" "filepath_Join [wd, p] = d" by (auto simp: filepath_Abs_def split: sum.splits)
  obtain es where es: "filter (\<lambda>e. e \<noteq> '''') [wd, p] = wd # es" using wd(1) by (cases wd) (auto simp: is_abs_def)
  have "is_abs (join_slash (wd # es))" using wd(1) by (cases wd; cases es) (auto simp: is_abs_def)
  with wd(2) es that [OF parts_normal] show ?thesis by (auto simp: filepath_Join_def Clean_abs)
qed

lemma agent_id_normal:
  assumes "validateAgentCertID i = Inr ()"
  shows "normal (i @ ''.key'')" "CHR 0x00 \<notin> set (i @ ''.key'')"
proof -
  from assms have "list_all id_char i" "i \<noteq> ''''"
    by (auto simp: validateAgentCertID_def agentCertIDPattern_def split: if_splits)
  then show "normal (i @ ''.key'')" "CHR 0x00 \<notin> set (i @ ''.key'')"
    by (auto simp: normal_def list_all_iff id_char_def Let_def append_eq_Cons_conv dest!: bspec)
qed

text \<open>
  C18. Containment of key files. For every certificate identifier the agent accepts and every non-empty key
  directory whose absolute path the system can determine, \<^verbatim>\<open>safeAgentKeyPath\<close> returns a path, and the path is the identifier with \<^verbatim>\<open>.key\<close> as a
  single component directly below the absolute, cleaned key directory: the component is no relative-path
  token and holds no separator and no NUL. The working directory the system reports is absolute.
\<close>

theorem key_path_contained:
  assumes "\<And>wd. cwd = Inr wd \<Longrightarrow> is_abs wd"
    and "keyDir \<noteq> ''''" "filepath_Abs cwd (filepath_Clean keyDir) = Inr d" "validateAgentCertID i = Inr ()"
  shows "safeAgentKeyPath cwd keyDir i = Inr ((if d = ''/'' then d else d @ ''/'') @ i @ ''.key'') \<and>
    i @ ''.key'' \<notin> {''.'', ''..''} \<and> CHR ''/'' \<notin> set (i @ ''.key'') \<and> CHR 0x00 \<notin> set (i @ ''.key'')"
proof -
  obtain cs where cs: "list_all normal cs" "d = CHR ''/'' # join_slash cs" by (rule Abs_rooted [OF assms(1,3)])
  let ?x = "i @ ''.key''"
  note x = agent_id_normal [OF assms(4)]
  have n: "list_all normal (cs @ [?x])" using cs(1) x(1) by simp
  have "set (take 3 ?x) \<subseteq> set ?x" by (rule set_take_subset)
  with x(1) have rel: "\<not> (?x = ''..'' \<or> take 3 ?x = ''../'')" by (force simp: normal_def simp del: take_append)
  have "safeAgentKeyPath cwd keyDir i = Inr (CHR ''/'' # join_slash (cs @ [?x]))"
    unfolding safeAgentKeyPath_def Let_def assms(3,4) sum.case cs(2) Join_rooted [OF cs(1) x(1)] Clean_rooted [OF n] Rel_below [OF cs(1) x(1)]
    using assms(2) rel x(2) by simp
  moreover have "CHR ''/'' # join_slash (cs @ [?x]) = (if d = ''/'' then d else d @ ''/'') @ ?x"
  proof (cases "cs = []")
    case False
    then have "join_slash cs \<noteq> ''''" using cs(1) by (cases cs rule: join_slash.cases) (auto simp: normal_def)
    with False show ?thesis by (simp add: join_slash_snoc cs(2))
  qed (simp add: cs(2))
  ultimately show ?thesis using x by (auto simp: normal_def)
qed

theorem key_path_contained_witness:
  "safeAgentKeyPath (Inr ''/srv'') ''keys/../k'' ''mc-1'' = Inr ''/srv/k/mc-1.key''"
proof -
  have d: "filepath_Abs (Inr ''/srv'') (filepath_Clean ''keys/../k'') = Inr ''/srv/k''" by code_simp
  have v: "validateAgentCertID ''mc-1'' = Inr ()" by code_simp
  have "is_abs wd" if "Inr ''/srv'' = (Inr wd :: string result)" for wd using that by (auto simp: is_abs_def)
  from key_path_contained [OF this _ d v] show ?thesis by simp
qed

text \<open>The two ends accept the same identifiers.\<close>

lemma identifier_gates_agree: "(ValidateCertificateID i = Inr ()) = (validateAgentCertID i = Inr ())"
  by (auto simp: ValidateCertificateID_def validateAgentCertID_def certificateIDPattern_def agentCertIDPattern_def split: if_splits)

end
