(* ===== verification/Revocation.thy ===== *)
theory Revocation
  imports Notifications Profiles Key_Paths "HOL-Library.Sublist"
begin

text \<open>
  Revocation: \<^verbatim>\<open>internal/service/revocation_svc.go\<close>, \<^verbatim>\<open>ca_operations.go\<close> and
  \<^verbatim>\<open>ocsp_response_cache.go\<close> over \<^verbatim>\<open>internal/repository/postgres/revocation.go\<close> and
  \<^verbatim>\<open>ocsp_response_cache.go\<close>. The issuer connectors sign responses and lists with keys the model does
  not have: signing is a function of the connector, and the answer of a connector to a revocation is
  an answer of the environment.
\<close>

section \<open>Repositories\<close>

definition same_serial :: "string \<Rightarrow> string \<Rightarrow> CertificateRevocation \<Rightarrow> bool" where
  "same_serial issuerID serial r = (rev_IssuerID r = issuerID \<and> rev_SerialNumber r = serial)"

definition RevocationRepository_CreateWithTx :: "env \<Rightarrow> CertificateRevocation \<Rightarrow> unit result op" where
  "RevocationRepository_CreateWithTx env r = insert_row env ''failed to create revocation record''
     (\<lambda>w. list_ex (same_serial (rev_IssuerID r) (rev_SerialNumber r)) (tbl_revocations w) \<or>
        \<not> has_key rev_ID (rev_ID r) (tbl_revocations w) \<and> has_key cert_ID (rev_CertificateID r) (tbl_certs w))
     (tbl_revocations_update (\<lambda>t. if list_ex (same_serial (rev_IssuerID r) (rev_SerialNumber r)) t then t else t @ [r]))"

definition RevocationRepository_Create :: "env \<Rightarrow> CertificateRevocation \<Rightarrow> unit result op" where
  "RevocationRepository_Create env r = RevocationRepository_CreateWithTx env r"

definition RevocationRepository_GetByIssuerAndSerial :: "env \<Rightarrow> string \<Rightarrow> string \<Rightarrow> CertificateRevocation result op" where
  "RevocationRepository_GetByIssuerAndSerial env issuerID serial = do {
     q \<leftarrow> query env ''failed to get revocation by issuer and serial'' (\<lambda>w. find (same_serial issuerID serial) (tbl_revocations w));
     State_Monad.return (case q of
       Inl e \<Rightarrow> Inl e
     | Inr None \<Rightarrow> Inl (Wrap ''failed to get revocation by issuer and serial'' ErrNoRows)
     | Inr (Some r) \<Rightarrow> Inr r) }"

definition RevocationRepository_ListAll :: "env \<Rightarrow> CertificateRevocation list result op" where
  "RevocationRepository_ListAll env = query env ''failed to list revocations''
     (\<lambda>w. sort_key rev_RevokedAt (tbl_revocations w))"

definition RevocationRepository_ListByIssuer :: "env \<Rightarrow> string \<Rightarrow> CertificateRevocation list result op" where
  "RevocationRepository_ListByIssuer env issuerID = query env ''failed to list revocations by issuer''
     (\<lambda>w. sort_key rev_RevokedAt (filter (\<lambda>r. rev_IssuerID r = issuerID) (tbl_revocations w)))"

definition RevocationRepository_ListByCertificate :: "env \<Rightarrow> string \<Rightarrow> CertificateRevocation list result op" where
  "RevocationRepository_ListByCertificate env certID = query env ''failed to list revocations by certificate''
     (\<lambda>w. sort_key rev_RevokedAt (filter (\<lambda>r. rev_CertificateID r = certID) (tbl_revocations w)))"

definition RevocationRepository_MarkIssuerNotified :: "env \<Rightarrow> string \<Rightarrow> unit result op" where
  "RevocationRepository_MarkIssuerNotified env i = do {
     r \<leftarrow> exec env ''failed to mark issuer notified'' (\<lambda>w. count_rows (\<lambda>r. rev_ID r = i) (tbl_revocations w))
       (tbl_revocations_update (update_row rev_ID i (rev_IssuerNotified_update (\<lambda>_. True))));
     State_Monad.return (rows_result ''revocation not found'' r) }"

definition issued_as :: "world \<Rightarrow> string \<Rightarrow> string \<Rightarrow> ManagedCertificate \<Rightarrow> bool" where
  "issued_as w issuerID serial c = (cert_IssuerID c = issuerID \<and>
     list_ex (\<lambda>v. cv_CertificateID v = cert_ID c \<and> cv_SerialNumber v = serial) (tbl_versions w))"

definition CertificateRepository_GetByIssuerAndSerial :: "env \<Rightarrow> string \<Rightarrow> string \<Rightarrow> ManagedCertificate result op" where
  "CertificateRepository_GetByIssuerAndSerial env issuerID serial = do {
     bad \<leftarrow> db_down env;
     row \<leftarrow> gets (\<lambda>w. find (issued_as w issuerID serial) (tbl_certs w));
     scanned \<leftarrow> (if bad then State_Monad.return (Inl (Wrap ''failed to scan certificate'' ErrDriver))
       else (case row of
         None \<Rightarrow> State_Monad.return (Inl (Wrap ''failed to scan certificate'' ErrNoRows))
       | Some c \<Rightarrow> query env ''failed to query target mappings'' (\<lambda>w. scan_cert w c)));
     State_Monad.return (case scanned of
       Inl err \<Rightarrow> if errors_is err ErrNoRows then Inl ErrNoRows
         else Inl (Wrap ''failed to query certificate by issuer+serial'' err)
     | Inr c \<Rightarrow> Inr c) }"

definition same_entry :: "string \<Rightarrow> string \<Rightarrow> OCSPResponseCacheEntry \<Rightarrow> bool" where
  "same_entry issuerID serialHex e = (oc_IssuerID e = issuerID \<and> oc_SerialHex e = serialHex)"

definition OCSPResponseCacheRepository_Get :: "env \<Rightarrow> string \<Rightarrow> string \<Rightarrow> OCSPResponseCacheEntry option result op" where
  "OCSPResponseCacheRepository_Get env issuerID serialHex =
     query env ''OCSPResponseCacheRepository.Get'' (\<lambda>w. find (same_entry issuerID serialHex) (tbl_ocsp w))"

definition OCSPResponseCacheRepository_Put :: "env \<Rightarrow> OCSPResponseCacheEntry \<Rightarrow> unit result op" where
  "OCSPResponseCacheRepository_Put env e = insert_row env ''OCSPResponseCacheRepository.Put'' (\<lambda>_. True)
     (tbl_ocsp_update (\<lambda>t. filter (\<lambda>x. \<not> same_entry (oc_IssuerID e) (oc_SerialHex e) x) t @
        [if oc_CertStatus e = ''revoked'' then e else e \<lparr> oc_RevokedAt := zero_time, oc_RevocationReason := 0 \<rparr>]))"

definition OCSPResponseCacheRepository_Delete :: "env \<Rightarrow> string \<Rightarrow> string \<Rightarrow> unit result op" where
  "OCSPResponseCacheRepository_Delete env issuerID serialHex =
     insert_row env ''OCSPResponseCacheRepository.Delete'' (\<lambda>_. True)
       (tbl_ocsp_update (filter (\<lambda>x. \<not> same_entry issuerID serialHex x)))"

section \<open>Connectors\<close>

text \<open>
  Serial numbers are read in base 16, with an optional sign; for a string that is not a number the
  result of \<^verbatim>\<open>SetString\<close> is undefined.
\<close>

definition hex_digit :: "char \<Rightarrow> int option" where
  "hex_digit c = (let n = (of_char c :: int) in
     if 48 \<le> n \<and> n \<le> 57 then Some (n - 48)
     else if 97 \<le> n \<and> n \<le> 102 then Some (n - 87)
     else if 65 \<le> n \<and> n \<le> 70 then Some (n - 55) else None)"

fun hex_acc :: "int \<Rightarrow> string \<Rightarrow> int option" where
  "hex_acc a [] = Some a"
| "hex_acc a (c # cs) = (case hex_digit c of None \<Rightarrow> None | Some d \<Rightarrow> hex_acc (16 * a + d) cs)"

definition hex_number :: "string \<Rightarrow> int option" where
  "hex_number s = (if s = '''' then None else hex_acc 0 s)"

definition parse_serial :: "string \<Rightarrow> int option" where
  "parse_serial s = (case s of
     c # cs \<Rightarrow> if c = CHR ''-'' then map_option uminus (hex_number cs)
       else if c = CHR ''+'' then hex_number cs else hex_number s
   | [] \<Rightarrow> None)"

record CRLEntry =
  crl_SerialNumber :: "int option"
  crl_RevokedAt :: time
  crl_ReasonCode :: nat

record OCSPSignRequest =
  os_CertSerial :: "int option"
  os_CertStatus :: nat
  os_RevokedAt :: time
  os_RevocationReason :: nat
  os_ThisUpdate :: time
  os_NextUpdate :: time
  os_Nonce :: "string option"

record IssuanceResult =
  ir_Serial :: string
  ir_CertPEM :: string
  ir_ChainPEM :: string
  ir_NotBefore :: time
  ir_NotAfter :: time

text \<open>
  Issued certificates and renewal information may differ from call to call, so their answers depend on the number of
  the step. \<open>ic_GetRenewalInfo\<close> gives the suggested window, or nothing when the issuer does not
  support it.
\<close>

record IssuerConnector =
  ic_IssueCertificate :: "nat \<Rightarrow> string \<Rightarrow> string list \<Rightarrow> string \<Rightarrow> string list \<Rightarrow> int \<Rightarrow> bool \<Rightarrow> IssuanceResult result"
  ic_RenewCertificate :: "nat \<Rightarrow> string \<Rightarrow> string list \<Rightarrow> string \<Rightarrow> string list \<Rightarrow> int \<Rightarrow> bool \<Rightarrow> IssuanceResult result"
  ic_GetRenewalInfo :: "nat \<Rightarrow> string \<Rightarrow> (time \<times> time) option result"
  ic_SignOCSPResponse :: "OCSPSignRequest \<Rightarrow> string result"
  ic_GenerateCRL :: "CRLEntry list \<Rightarrow> string result"

definition ic_RevokeCertificate :: "env \<Rightarrow> error option op" where
  "ic_RevokeCertificate env = do { n \<leftarrow> tick; State_Monad.return (send env n) }"

section \<open>CA operations\<close>

record CAOperationsSvc =
  ca_revocationRepo :: bool
  ca_certRepo :: bool
  ca_profileRepo :: bool
  ca_issuerRegistry :: "(string \<Rightarrow> IssuerConnector option) option"
  ca_ocspCacheSvc :: bool

definition short_lived_cert :: "env \<Rightarrow> string \<Rightarrow> bool op" where
  "short_lived_cert env certID = do {
     c \<leftarrow> CertificateRepository_Get env certID;
     (case c of
        Inl e \<Rightarrow> State_Monad.return False
      | Inr cert \<Rightarrow>
          if cert_CertificateProfileID cert = '''' then State_Monad.return False
          else do {
            p \<leftarrow> ProfileRepository_Get env (cert_CertificateProfileID cert);
            State_Monad.return (case p of Inl e \<Rightarrow> False | Inr profile \<Rightarrow> IsShortLived profile) }) }"

definition crl_entry :: "CertificateRevocation \<Rightarrow> CRLEntry" where
  "crl_entry rv = \<lparr> crl_SerialNumber = parse_serial (rev_SerialNumber rv), crl_RevokedAt = rev_RevokedAt rv,
     crl_ReasonCode = CRLReasonCode (rev_Reason rv) \<rparr>"

fun crl_entries :: "env \<Rightarrow> CAOperationsSvc \<Rightarrow> CertificateRevocation list \<Rightarrow> CRLEntry list op" where
  "crl_entries env s [] = State_Monad.return []"
| "crl_entries env s (rv # revs) = do {
     skip \<leftarrow> (if ca_profileRepo s \<and> ca_certRepo s then short_lived_cert env (rev_CertificateID rv) else State_Monad.return False);
     rest \<leftarrow> crl_entries env s revs;
     State_Monad.return (if skip then rest else crl_entry rv # rest) }"

definition GenerateDERCRL :: "env \<Rightarrow> CAOperationsSvc \<Rightarrow> string \<Rightarrow> string result op" where
  "GenerateDERCRL env s issuerID =
     (if \<not> ca_revocationRepo s then State_Monad.return (Inl (Errorf ''revocation repository not configured''))
      else (case ca_issuerRegistry s of
        None \<Rightarrow> State_Monad.return (Inl (Errorf ''issuer registry not configured''))
      | Some registry \<Rightarrow> (case registry issuerID of
          None \<Rightarrow> State_Monad.return (Inl (Errorf (''issuer not found: '' @ issuerID)))
        | Some conn \<Rightarrow> do {
            q \<leftarrow> RevocationRepository_ListByIssuer env issuerID;
            (case q of
               Inl e \<Rightarrow> State_Monad.return (Inl (Wrap (''failed to list revocations for issuer '' @ issuerID) e))
             | Inr revs \<Rightarrow> do {
                 entries \<leftarrow> crl_entries env s revs;
                 State_Monad.return (ic_GenerateCRL conn entries) }) })))"

definition ocsp_request :: "string \<Rightarrow> nat \<Rightarrow> time \<Rightarrow> string option \<Rightarrow> OCSPSignRequest" where
  "ocsp_request serialHex status t nonce = \<lparr> os_CertSerial = parse_serial serialHex, os_CertStatus = status,
     os_RevokedAt = zero_time, os_RevocationReason = 0, os_ThisUpdate = t, os_NextUpdate = t + Hour, os_Nonce = nonce \<rparr>"

definition LiveSignOCSPResponse :: "env \<Rightarrow> CAOperationsSvc \<Rightarrow> string \<Rightarrow> string \<Rightarrow> string option \<Rightarrow> string result op" where
  "LiveSignOCSPResponse env s issuerID serialHex nonce =
     (if \<not> ca_revocationRepo s then State_Monad.return (Inl (Errorf ''revocation repository not configured''))
      else (case ca_issuerRegistry s of
        None \<Rightarrow> State_Monad.return (Inl (Errorf ''issuer registry not configured''))
      | Some registry \<Rightarrow> (case registry issuerID of
          None \<Rightarrow> State_Monad.return (Inl (Errorf (''issuer not found: '' @ issuerID)))
        | Some conn \<Rightarrow> do {
            t \<leftarrow> now env;
            exempt \<leftarrow> (if ca_profileRepo s \<and> ca_certRepo s then do {
                r \<leftarrow> RevocationRepository_GetByIssuerAndSerial env issuerID serialHex;
                (case r of Inl e \<Rightarrow> State_Monad.return False | Inr rv \<Rightarrow> short_lived_cert env (rev_CertificateID rv)) }
              else State_Monad.return False);
            if exempt then State_Monad.return (ic_SignOCSPResponse conn (ocsp_request serialHex 0 t nonce))
            else do {
              r \<leftarrow> RevocationRepository_GetByIssuerAndSerial env issuerID serialHex;
              (case r of
                 Inr rv \<Rightarrow> State_Monad.return (ic_SignOCSPResponse conn ((ocsp_request serialHex 1 t nonce)
                   \<lparr> os_RevokedAt := rev_RevokedAt rv, os_RevocationReason := CRLReasonCode (rev_Reason rv) \<rparr>))
               | Inl e \<Rightarrow>
                   if ca_certRepo s then do {
                     c \<leftarrow> CertificateRepository_GetByIssuerAndSerial env issuerID serialHex;
                     State_Monad.return (ic_SignOCSPResponse conn
                       (ocsp_request serialHex (case c of Inl e' \<Rightarrow> 2 | Inr cert \<Rightarrow> 0) t nonce)) }
                   else State_Monad.return (ic_SignOCSPResponse conn (ocsp_request serialHex 0 t nonce))) } })))"

section \<open>The response cache\<close>

definition IsStale :: "OCSPResponseCacheEntry \<Rightarrow> time \<Rightarrow> bool" where
  "IsStale e t = (\<not> t < oc_NextUpdate e)"

definition store_response :: "env \<Rightarrow> string \<Rightarrow> string \<Rightarrow> string \<Rightarrow> unit op" where
  "store_response env issuerID serialHex der = do {
     t \<leftarrow> now env;
     _ \<leftarrow> OCSPResponseCacheRepository_Put env \<lparr> oc_IssuerID = issuerID, oc_SerialHex = serialHex, oc_ResponseDER = der,
       oc_CertStatus = ''good'', oc_RevocationReason = 0, oc_RevokedAt = zero_time, oc_ThisUpdate = t,
       oc_NextUpdate = t + Hour, oc_GeneratedAt = t \<rparr>;
     State_Monad.return () }"

definition regenerate :: "env \<Rightarrow> CAOperationsSvc \<Rightarrow> string \<Rightarrow> string \<Rightarrow> string result op" where
  "regenerate env s issuerID serialHex = do {
     r \<leftarrow> LiveSignOCSPResponse env s issuerID serialHex None;
     (case r of
        Inl e \<Rightarrow> State_Monad.return (Inl e)
      | Inr der \<Rightarrow> do { _ \<leftarrow> store_response env issuerID serialHex der; State_Monad.return (Inr der) }) }"

definition OCSPResponseCacheService_Get :: "env \<Rightarrow> CAOperationsSvc \<Rightarrow> string \<Rightarrow> string \<Rightarrow> string result op" where
  "OCSPResponseCacheService_Get env s issuerID serialHex = do {
     t \<leftarrow> now env;
     g \<leftarrow> OCSPResponseCacheRepository_Get env issuerID serialHex;
     (case g of
        Inl e \<Rightarrow> State_Monad.return (Inl (Wrap (''ocsp_response_cache get '' @ go_quote issuerID @ ''/'' @ go_quote serialHex) e))
      | Inr entry \<Rightarrow>
          (case (case entry of Some e \<Rightarrow> if IsStale e t then None else Some e | None \<Rightarrow> None) of
             Some e \<Rightarrow> State_Monad.return (Inr (oc_ResponseDER e))
           | None \<Rightarrow> do {
               r \<leftarrow> regenerate env s issuerID serialHex;
               State_Monad.return (case r of Inl e \<Rightarrow> Inl (Wrap (''ocsp_response_cache regenerate '' @ go_quote issuerID @ ''/'' @ go_quote serialHex) e) | Inr der \<Rightarrow> Inr der) })) }"

definition InvalidateOnRevoke :: "env \<Rightarrow> string \<Rightarrow> string \<Rightarrow> unit result op" where
  "InvalidateOnRevoke env issuerID serialHex = OCSPResponseCacheRepository_Delete env issuerID serialHex"

definition GetOCSPResponseWithNonce ::
  "env \<Rightarrow> CAOperationsSvc \<Rightarrow> string \<Rightarrow> string \<Rightarrow> string option \<Rightarrow> string result op" where
  "GetOCSPResponseWithNonce env s issuerID serialHex nonce =
     (if ca_ocspCacheSvc s \<and> (nonce = None \<or> nonce = Some '''') then OCSPResponseCacheService_Get env s issuerID serialHex
      else LiveSignOCSPResponse env s issuerID serialHex nonce)"

definition GetOCSPResponse :: "env \<Rightarrow> CAOperationsSvc \<Rightarrow> string \<Rightarrow> string \<Rightarrow> string result op" where
  "GetOCSPResponse env s issuerID serialHex = GetOCSPResponseWithNonce env s issuerID serialHex None"

section \<open>The revocation service\<close>

record RevocationSvc =
  rs_revocationRepo :: bool
  rs_notificationSvc :: "NotificationService option"
  rs_issuerRegistry :: "(string \<Rightarrow> IssuerConnector option) option"
  rs_tx :: bool
  rs_ocspCacheInvalidator :: bool

definition new_revocation ::
  "env \<Rightarrow> ManagedCertificate \<Rightarrow> CertificateVersion \<Rightarrow> string \<Rightarrow> string \<Rightarrow> time \<Rightarrow> CertificateRevocation op" where
  "new_revocation env cert version reason actor t = do {
     i \<leftarrow> generateID env ''rev'';
     State_Monad.return \<lparr> rev_ID = i, rev_CertificateID = cert_ID cert, rev_SerialNumber = cv_SerialNumber version,
       rev_Reason = reason, rev_RevokedBy = actor, rev_RevokedAt = t, rev_IssuerID = cert_IssuerID cert,
       rev_IssuerNotified = False, rev_CreatedAt = t \<rparr> }"

definition revocation_details :: "ManagedCertificate \<Rightarrow> CertificateVersion \<Rightarrow> string \<Rightarrow> (string \<times> jval) list" where
  "revocation_details cert version reason = [(''common_name'', JStr (cert_CommonName cert)),
     (''serial'', JStr (cv_SerialNumber version)), (''reason'', JStr reason)]"

definition revoke_in_tx ::
  "env \<Rightarrow> RevocationSvc \<Rightarrow> ManagedCertificate \<Rightarrow> CertificateVersion \<Rightarrow> string \<Rightarrow> string \<Rightarrow> time \<Rightarrow> unit result op" where
  "revoke_in_tx env s cert version reason actor t = WithinTx env (do {
     u \<leftarrow> CertificateRepository_UpdateWithTx env cert;
     (case u of
        Inl e \<Rightarrow> State_Monad.return (Inl (Wrap ''failed to update certificate status'' e))
      | Inr _ \<Rightarrow> do {
          c \<leftarrow> (if rs_revocationRepo s then do {
                 rv \<leftarrow> new_revocation env cert version reason actor t;
                 RevocationRepository_CreateWithTx env rv }
               else State_Monad.return (Inr ()));
          (case c of
             Inl e \<Rightarrow> State_Monad.return (Inl (Wrap ''failed to record revocation'' e))
           | Inr _ \<Rightarrow> do {
               a \<leftarrow> RecordEventWithTx env actor ActorTypeUser ''certificate_revoked'' ''certificate'' (cert_ID cert)
                 (revocation_details cert version reason);
               State_Monad.return (case a of Inl e \<Rightarrow> Inl (Wrap ''failed to record audit event'' e) | Inr _ \<Rightarrow> Inr ()) }) }) })"

definition revoke_legacy ::
  "env \<Rightarrow> RevocationSvc \<Rightarrow> ManagedCertificate \<Rightarrow> CertificateVersion \<Rightarrow> string \<Rightarrow> string \<Rightarrow> time \<Rightarrow> unit result op" where
  "revoke_legacy env s cert version reason actor t = do {
     u \<leftarrow> CertificateRepository_Update env cert;
     (case u of
        Inl e \<Rightarrow> State_Monad.return (Inl (Wrap ''failed to update certificate status'' e))
      | Inr _ \<Rightarrow> do {
          _ \<leftarrow> when_op (rs_revocationRepo s) (do {
            rv \<leftarrow> new_revocation env cert version reason actor t;
            _ \<leftarrow> RevocationRepository_Create env rv;
            State_Monad.return () });
          State_Monad.return (Inr ()) }) }"

definition mark_notified :: "env \<Rightarrow> CertificateVersion \<Rightarrow> CertificateRevocation \<Rightarrow> unit op" where
  "mark_notified env version rv =
     when_op (rev_SerialNumber rv = cv_SerialNumber version) (discard (RevocationRepository_MarkIssuerNotified env (rev_ID rv)))"

definition notify_issuer :: "env \<Rightarrow> RevocationSvc \<Rightarrow> ManagedCertificate \<Rightarrow> CertificateVersion \<Rightarrow> unit op" where
  "notify_issuer env s cert version =
     (case rs_issuerRegistry s of
        None \<Rightarrow> State_Monad.return ()
      | Some registry \<Rightarrow> (case registry (cert_IssuerID cert) of
          None \<Rightarrow> State_Monad.return ()
        | Some conn \<Rightarrow> do {
            err \<leftarrow> ic_RevokeCertificate env;
            (case err of
               Some e \<Rightarrow> State_Monad.return ()
             | None \<Rightarrow> when_op (rs_revocationRepo s) (do {
                 q \<leftarrow> RevocationRepository_ListByCertificate env (cert_ID cert);
                 for_each (mark_notified env version) (case q of Inl e \<Rightarrow> [] | Inr revocations \<Rightarrow> revocations) })) }))"

definition after_revoke ::
  "env \<Rightarrow> RevocationSvc \<Rightarrow> ManagedCertificate \<Rightarrow> CertificateVersion \<Rightarrow> string \<Rightarrow> string \<Rightarrow> unit op" where
  "after_revoke env s cert version reason actor = do {
     _ \<leftarrow> notify_issuer env s cert version;
     _ \<leftarrow> when_op (rs_ocspCacheInvalidator s) (discard (InvalidateOnRevoke env (cert_IssuerID cert) (cv_SerialNumber version)));
     _ \<leftarrow> when_op (\<not> rs_tx s) (discard (RecordEvent env actor ActorTypeUser ''certificate_revoked'' ''certificate'' (cert_ID cert)
       (revocation_details cert version reason)));
     (case rs_notificationSvc s of
        None \<Rightarrow> State_Monad.return ()
      | Some n \<Rightarrow> discard (SendRevocationNotification env n cert reason)) }"

definition revoked_cert :: "ManagedCertificate \<Rightarrow> string \<Rightarrow> time \<Rightarrow> ManagedCertificate" where
  "revoked_cert cert reason t = cert \<lparr> cert_Status := CertificateStatusRevoked, cert_RevokedAt := Some t,
     cert_RevocationReason := reason, cert_UpdatedAt := t \<rparr>"

definition effective_reason :: "string \<Rightarrow> string" where
  "effective_reason reason = (if reason = '''' then ''unspecified'' else reason)"

definition RevokeCertificateWithActor :: "env \<Rightarrow> RevocationSvc \<Rightarrow> string \<Rightarrow> string \<Rightarrow> string \<Rightarrow> unit result op" where
  "RevokeCertificateWithActor env s certID reason0 actor = do {
     c \<leftarrow> CertificateRepository_Get env certID;
     (case c of
        Inl e \<Rightarrow> State_Monad.return (Inl (Wrap ''failed to fetch certificate'' e))
      | Inr cert \<Rightarrow>
          if cert_Status cert = CertificateStatusRevoked
          then State_Monad.return (Inl (Errorf ''certificate is already revoked''))
          else if cert_Status cert = CertificateStatusArchived
          then State_Monad.return (Inl (Errorf ''cannot revoke archived certificate''))
          else let reason = effective_reason reason0 in
            if \<not> IsValidRevocationReason reason
            then State_Monad.return (Inl (Errorf (''invalid revocation reason: '' @ reason)))
            else do {
              v \<leftarrow> CertificateRepository_GetLatestVersion env certID;
              (case v of
                 Inl e \<Rightarrow> State_Monad.return (Inl (Wrap ''failed to get certificate version'' e))
               | Inr version \<Rightarrow> do {
                   t \<leftarrow> now env;
                   let cert' = revoked_cert cert reason t in do {
                   r \<leftarrow> (if rs_tx s then revoke_in_tx env s cert' version reason actor t
                        else revoke_legacy env s cert' version reason actor t);
                   (case r of
                      Inl e \<Rightarrow> State_Monad.return (Inl e)
                    | Inr _ \<Rightarrow> do {
                        _ \<leftarrow> after_revoke env s cert' version reason actor;
                        State_Monad.return (Inr ()) }) } }) }) }"

definition GetRevokedCertificates :: "env \<Rightarrow> RevocationSvc \<Rightarrow> CertificateRevocation list result op" where
  "GetRevokedCertificates env s =
     (if \<not> rs_revocationRepo s then State_Monad.return (Inl (Errorf ''revocation repository not configured''))
      else RevocationRepository_ListAll env)"

section \<open>Revoking is atomic\<close>

text \<open>
  What revocation is about: the certificates, the revocations up to the flag that the issuer was
  told, the audit log. The steps after the transaction leave it as it is.
\<close>

definition revocation_view :: "world \<Rightarrow> ManagedCertificate list \<times> CertificateRevocation list \<times> AuditEvent list" where
  "revocation_view w = (tbl_certs w, map (rev_IssuerNotified_update (\<lambda>_. False)) (tbl_revocations w), tbl_audit w)"

interpretation settled: world_frame "\<lambda>w w'. revocation_view w' = revocation_view w"
  by unfold_locales (simp_all add: revocation_view_def)

lemma same_serial_notified [simp]: "same_serial i s (rev_IssuerNotified_update f r) = same_serial i s r"
  by (simp add: same_serial_def)

lemma revoked_view: "revocation_view w' = revocation_view w \<Longrightarrow>
   list_ex (same_serial i s) (tbl_revocations w') = list_ex (same_serial i s) (tbl_revocations w)"
proof -
  have "list_ex (same_serial i s) t = list_ex (same_serial i s) (map (rev_IssuerNotified_update (\<lambda>_. False)) t)" for t
    by (simp add: list.pred_map list_ex_iff)
  then show "revocation_view w' = revocation_view w \<Longrightarrow> ?thesis" by (metis revocation_view_def prod.inject)
qed

lemma settled_flag: "map (rev_IssuerNotified_update (\<lambda>_. False)) (update_row rev_ID i (rev_IssuerNotified_update (\<lambda>_. True)) t) =
   map (rev_IssuerNotified_update (\<lambda>_. False)) t"
  by (simp add: update_row_def)

lemma settled_mark: "state_io_rel (\<lambda>w w'. revocation_view w' = revocation_view w) (mark_notified env version rv)"
  unfolding mark_notified_def RevocationRepository_MarkIssuerNotified_def when_op_def discard_def
  by (intro settled.keeps_prims settled.keeps_exec) (simp add: revocation_view_def settled_flag)

lemma settled_for_each:
  assumes "\<And>x. state_io_rel (\<lambda>w w'. revocation_view w' = revocation_view w) (f x)"
  shows "state_io_rel (\<lambda>w w'. revocation_view w' = revocation_view w) (for_each f xs)"
  by (induction xs) (auto intro!: settled.keeps_bind settled.keeps_return assms)

lemma settled_notify: "state_io_rel (\<lambda>w w'. revocation_view w' = revocation_view w) (notify_issuer env s cert version)"
  unfolding notify_issuer_def ic_RevokeCertificate_def RevocationRepository_ListByCertificate_def when_op_def
  by (intro settled.keeps_prims settled_for_each settled_mark)

lemma settled_notification:
  "state_io_rel (\<lambda>w w'. revocation_view w' = revocation_view w) (SendRevocationNotification env n cert reason)"
  unfolding SendRevocationNotification_def store_and_send_def new_notification_def resolveRecipient_def OwnerRepository_Get_def
    lookup_row_def NotificationRepository_Create_def sendNotification_def notif_updates update_notif_def notifier_Send_def Let_def
  by (intro settled.keeps_prims settled.keeps_exec settled.keeps_insert) (simp_all add: revocation_view_def)

lemma settled_after:
  "rs_tx s \<Longrightarrow> state_io_rel (\<lambda>w w'. revocation_view w' = revocation_view w) (after_revoke env s cert version reason actor)"
  unfolding after_revoke_def when_op_def discard_def InvalidateOnRevoke_def OCSPResponseCacheRepository_Delete_def
  by (simp only: not_True_eq_False if_False, intro settled.keeps_prims settled_notify settled_notification settled.keeps_insert)
    (simp add: revocation_view_def)

definition revocation_recorded ::
  "world \<Rightarrow> world \<Rightarrow> ManagedCertificate \<Rightarrow> CertificateVersion \<Rightarrow> string \<Rightarrow> string \<Rightarrow> bool" where
  "revocation_recorded w w' cert v reason actor = (
     tbl_certs w' = update_row cert_ID (cert_ID cert) (cert_columns cert) (tbl_certs w) \<and>
     list_ex (same_serial (cert_IssuerID cert) (cv_SerialNumber v)) (tbl_revocations w') \<and>
     (\<exists>ev. tbl_audit w' = tbl_audit w @ [ev] \<and> ae_Actor ev = actor \<and> ae_Action ev = ''certificate_revoked'' \<and>
        ae_ResourceID ev = cert_ID cert \<and> ae_Details ev = details_json (revocation_details cert v reason)))"

lemma post_new_revocation [vcg]:
  assumes "\<And>rv w'. same_data w w' \<Longrightarrow> rev_IssuerID rv = cert_IssuerID cert \<Longrightarrow> rev_SerialNumber rv = cv_SerialNumber v \<Longrightarrow>
    rev_CertificateID rv = cert_ID cert \<Longrightarrow> rev_RevokedAt rv = t \<Longrightarrow> rev_Reason rv = reason \<Longrightarrow> Q rv w'"
  shows "post (new_revocation env cert v reason actor t) w Q"
  unfolding new_revocation_def by (intro vcg assms) auto

lemma post_RevocationCreate [vcg]:
  assumes "\<And>e w'. same_data w w' \<Longrightarrow> Q (Inl e) w'"
    and "\<And>w'. tbl_certs w' = tbl_certs w \<Longrightarrow> tbl_audit w' = tbl_audit w \<Longrightarrow>
      list_ex (same_serial (rev_IssuerID rv) (rev_SerialNumber rv)) (tbl_revocations w') \<Longrightarrow> Q (Inr ()) w'"
  shows "post (RevocationRepository_CreateWithTx env rv) w Q"
  unfolding RevocationRepository_CreateWithTx_def
  by (intro post_insert assms) (simp_all add: same_dataD same_serial_def)

lemma recorded_tables:
  "same_data w w' \<Longrightarrow> tbl_certs w' = tbl_certs w \<and> tbl_revocations w' = tbl_revocations w \<and> tbl_audit w' = tbl_audit w"
  by (simp add: same_dataD)

lemma post_revoke_in_tx:
  assumes "rs_revocationRepo s"
    and err: "\<And>e w'. same_data w w' \<Longrightarrow> Q (Inl e) w'"
    and ok: "\<And>w'. revocation_recorded w w' cert v reason actor \<Longrightarrow> Q (Inr ()) w'"
  shows "post (revoke_in_tx env s cert v reason actor t) w Q"
  unfolding revoke_in_tx_def
proof (rule post_WithinTx, goal_cases)
  case (2 w0)
  note start = 2
  have "post (new_revocation env cert v reason actor t) w1 (\<lambda>rv w'. rev_IssuerID rv = cert_IssuerID cert \<and>
    rev_SerialNumber rv = cv_SerialNumber v \<and> same_data w1 w')" for w1
    by (rule post_new_revocation) simp
  note new = post_mono [OF this]
  show ?case
  proof (intro post_bindI post_CertUpdate post_case_sum post_returnI post_if new post_RevocationCreate post_RecordEventWithTx,
      simp_all only: sum.case sum.distinct sum.inject assms(1) not_True_eq_False simp_thms, intro allI impI, goal_cases)
    case (1 r w1 w2 x rv w3 w4 xa ev w5 xb w6)
    then show ?case
      using start by (auto intro!: ok simp: revocation_recorded_def dest!: recorded_tables)
  qed
qed (rule err)

lemma versions_same: "same_data w w' \<Longrightarrow> versions_of w' i = versions_of w i"
  by (simp add: versions_of_def same_dataD)

lemma post_LatestVersion [vcg]:
  assumes "\<And>e w'. same_data w w' \<Longrightarrow> Q (Inl e) w'"
    and "\<And>v vs w'. same_data w w' \<Longrightarrow> versions_of w i = v # vs \<Longrightarrow> Q (Inr v) w'"
  shows "post (CertificateRepository_GetLatestVersion env i) w Q"
  unfolding CertificateRepository_GetLatestVersion_def
  by (intro post_bindI post_query post_returnI) (use assms in \<open>auto simp: versions_same split: list.splits\<close>)

lemma revoke_post:
  assumes "rs_tx s" "rs_revocationRepo s"
  shows "post (RevokeCertificateWithActor env s certID reason actor) w (\<lambda>r w'. case r of Inl e \<Rightarrow> same_data w w'
    | Inr _ \<Rightarrow> \<exists>c v vs t. row_of cert_ID certID (tbl_certs w) = Some c \<and>
        cert_Status c \<notin> {CertificateStatusRevoked, CertificateStatusArchived} \<and>
        IsValidRevocationReason (effective_reason reason) \<and> versions_of w certID = v # vs \<and>
        revocation_recorded w w' (revoked_cert (scan_cert w c) (effective_reason reason) t) v (effective_reason reason) actor)"
proof -
  have view: "revocation_recorded w v2 c v re a" if "revocation_view v2 = revocation_view v1" "revocation_recorded w v1 c v re a"
    for v1 v2 :: world and c v re a
    using that revoked_view [OF that(1)] by (simp add: revocation_recorded_def revocation_view_def)
  have same: "revocation_recorded v2 v1 c v re a = revocation_recorded w v1 c v re a" if "same_data w v2"
    for v1 v2 :: world and c v re a
    using same_dataD [OF that] by (simp add: revocation_recorded_def)
  show ?thesis
    unfolding RevokeCertificateWithActor_def Let_def if_P [OF assms(1)]
  proof (intro post_bindI post_CertGet post_case_sum post_if post_LatestVersion post_now post_returnI
      post_revoke_in_tx [OF assms(2)] post_keeps [OF settled_after [OF assms(1)]], simp_all, goal_cases)
    case 1
    then show ?case by (blast intro: same.frame_trans)
  next
    case 2
    then show ?case by (blast intro: same.frame_trans)
  next
    case 3
    note rec = view [OF 3(12) 3(11) [unfolded same [OF same.frame_trans [OF same.frame_trans [OF 3(1) 3(7)] 3(10)]]]]
    show ?case using 3(2-9) rec versions_same [OF 3(1), of certID] by (auto simp: scan_cert_def)
  qed
qed

text \<open>
  C7. Revocation is atomic and recorded. With the transactor and the revocation table wired as the
  server wires them, a failing \<^verbatim>\<open>RevokeCertificateWithActor\<close> leaves every table as it was. When it
  succeeds, the certificate was neither revoked nor archived, its reason is one of the valid ones,
  its row is stored as revoked at that time and for that reason, the revocation table holds the serial
  number of its latest version under its issuer, and the audit log grew by one \<^verbatim>\<open>certificate_revoked\<close>
  event of the actor. This holds for every failure of the database, the issuer or the notifier.
\<close>

theorem revocation_atomic:
  assumes "rs_tx s" "rs_revocationRepo s"
    and "run_state (RevokeCertificateWithActor env s certID reason actor) w = (r, w')"
  shows "case r of Inl e \<Rightarrow> same_data w w'
    | Inr _ \<Rightarrow> \<exists>c v vs t. row_of cert_ID certID (tbl_certs w) = Some c \<and>
        cert_Status c \<notin> {CertificateStatusRevoked, CertificateStatusArchived} \<and>
        IsValidRevocationReason (effective_reason reason) \<and> versions_of w certID = v # vs \<and>
        revocation_recorded w w' (revoked_cert (scan_cert w c) (effective_reason reason) t) v (effective_reason reason) actor"
  using post_run [OF revoke_post [OF assms(1,2)] assms(3)] .

section \<open>CRLs and OCSP\<close>

subsection \<open>Short-lived certificates\<close>

definition short_lived_in :: "world \<Rightarrow> string \<Rightarrow> bool" where
  "short_lived_in w certID = (case row_of cert_ID certID (tbl_certs w) of
     None \<Rightarrow> False
   | Some c \<Rightarrow> cert_CertificateProfileID c \<noteq> '''' \<and>
       (case row_of prof_ID (cert_CertificateProfileID c) (tbl_profiles w) of None \<Rightarrow> False | Some p \<Rightarrow> IsShortLived p))"

lemma IsShortLived_scan [simp]: "IsShortLived (scanProfile p) = IsShortLived p"
  by (simp add: IsShortLived_def scanProfile_def)

lemma scan_cert_profile [simp]: "cert_CertificateProfileID (scan_cert w c) = cert_CertificateProfileID c"
  by (simp add: scan_cert_def)

lemma short_lived_same: "same_data w w' \<Longrightarrow> short_lived_in w' i = short_lived_in w i"
  by (simp add: short_lived_in_def same_dataD split: option.split)

lemma keeps_short_lived: "state_io_rel same_data (short_lived_cert env i)"
  unfolding short_lived_cert_def CertificateRepository_Get_def ProfileRepository_Get_def by (intro same.keeps_prims)

lemma short_lived_sound: "post (short_lived_cert env i) w (\<lambda>b w'. b \<longrightarrow> short_lived_in w i)"
  unfolding short_lived_cert_def
  by (intro post_bindI post_CertGet post_case_sum post_if post_ProfileGet post_returnI)
    (auto simp: short_lived_in_def same_dataD)

lemma post_db_up: "fault env = (\<lambda>_. False) \<Longrightarrow> (\<And>w'. same_data w w' \<Longrightarrow> Q False w') \<Longrightarrow> post (db_down env) w Q"
  by (simp add: post_def run_db_down same.R_steps)

lemma post_query_up:
  "fault env = (\<lambda>_. False) \<Longrightarrow> (\<And>w'. same_data w w' \<Longrightarrow> Q (Inr (f w')) w') \<Longrightarrow> post (query env msg f) w Q"
  unfolding query_def by (intro post_bindI post_db_up) (auto simp: post_bind)

lemma short_lived_exact:
  assumes "fault env = (\<lambda>_. False)"
  shows "post (short_lived_cert env i) w (\<lambda>b w'. b = short_lived_in w i)"
  unfolding short_lived_cert_def CertificateRepository_Get_def ProfileRepository_Get_def
  by (intro post_bindI post_db_up [OF assms] post_query_up [OF assms] post_getsI post_case_sum post_case_option post_if post_returnI)
    (auto simp: short_lived_in_def same_dataD errors_is_def split: option.splits sum.splits if_splits)

subsection \<open>The certificate revocation list\<close>

definition crl_of :: "world \<Rightarrow> string \<Rightarrow> CertificateRevocation list" where
  "crl_of w issuerID = sort_key rev_RevokedAt (filter (\<lambda>r. rev_IssuerID r = issuerID) (tbl_revocations w))"

abbreviation lasting :: "world \<Rightarrow> CertificateRevocation \<Rightarrow> bool" where
  "lasting w r \<equiv> \<not> short_lived_in w (rev_CertificateID r)"

lemma crl_entries_complete:
  "post (crl_entries env s revs) w (\<lambda>es _. \<exists>kept. es = map crl_entry kept \<and> subseq kept revs \<and>
     filter (lasting w) kept = filter (lasting w) revs)"
proof (induction revs arbitrary: w)
  case (Cons r revs)
  let ?skip = "if ca_profileRepo s \<and> ca_certRepo s then short_lived_cert env (rev_CertificateID r) else State_Monad.return False"
  have skip: "post ?skip w (\<lambda>b w'. same_data w w' \<and> (b \<longrightarrow> short_lived_in w (rev_CertificateID r)))"
    using short_lived_sound [of env "rev_CertificateID r" w] post_frame [OF keeps_short_lived, of env "rev_CertificateID r" w]
    by (auto simp: post_def same.frame_refl split: prod.splits)
  show ?case unfolding crl_entries.simps
  proof (rule post_bindI, rule post_mono [OF skip], rule post_bindI, rule post_mono [OF Cons.IH], rule post_returnI, elim conjE exE)
    fix b es kept and v v' :: world
    assume b: "same_data w v" "b \<longrightarrow> short_lived_in w (rev_CertificateID r)"
      and es: "es = map crl_entry kept" "subseq kept revs" "filter (lasting v) kept = filter (lasting v) revs"
    have same: "filter (lasting w) kept = filter (lasting w) revs" using es(3) by (simp add: short_lived_same [OF b(1)])
    show "\<exists>kept'. (if b then es else crl_entry r # es) = map crl_entry kept' \<and> subseq kept' (r # revs) \<and>
      filter (lasting w) kept' = filter (lasting w) (r # revs)"
    proof (cases b)
      case True
      with b es same show ?thesis by (intro exI [of _ kept]) (auto intro: list_emb_Cons)
    next
      case False
      with es same show ?thesis by (intro exI [of _ "r # kept"]) auto
    qed
  qed
qed simp

text \<open>
  C17. A signed CRL is complete. When \<^verbatim>\<open>GenerateDERCRL\<close> returns a list, the connector of that issuer
  signed it over entries made of revocations of that issuer in order of revocation time, and every
  revocation of a certificate that is not short-lived is among them, whichever of the lookups of the
  short-lived exemption fail.
\<close>

theorem GenerateDERCRL_complete:
  assumes "ca_issuerRegistry s = Some registry" "registry issuerID = Some conn"
    and "run_state (GenerateDERCRL env s issuerID) w = (Inr der, w')"
  shows "\<exists>kept. ic_GenerateCRL conn (map crl_entry kept) = Inr der \<and> subseq kept (crl_of w issuerID) \<and>
    filter (lasting w) kept = filter (lasting w) (crl_of w issuerID)"
proof -
  have "post (GenerateDERCRL env s issuerID) w (\<lambda>r _. \<forall>der. r = Inr der \<longrightarrow>
    (\<exists>kept. ic_GenerateCRL conn (map crl_entry kept) = Inr der \<and> subseq kept (crl_of w issuerID) \<and>
      filter (lasting w) kept = filter (lasting w) (crl_of w issuerID)))"
    unfolding GenerateDERCRL_def assms(1) option.case RevocationRepository_ListByIssuer_def assms(2)
  proof (intro post_if post_bindI post_query post_case_sum post_returnI post_mono [OF crl_entries_complete])
  qed (auto simp: crl_of_def same_dataD short_lived_same)
  from post_run [OF this assms(3)] show ?thesis by blast
qed

subsection \<open>OCSP responses\<close>

text \<open>What an OCSP response is to say: the status of the serial number in the database.\<close>

definition ocsp_answer :: "world \<Rightarrow> time \<Rightarrow> string \<Rightarrow> string \<Rightarrow> string option \<Rightarrow> OCSPSignRequest" where
  "ocsp_answer w t issuerID serial nonce =
     (case find (same_serial issuerID serial) (tbl_revocations w) of
        Some rv \<Rightarrow> if short_lived_in w (rev_CertificateID rv) then ocsp_request serial 0 t nonce
          else (ocsp_request serial 1 t nonce) \<lparr> os_RevokedAt := rev_RevokedAt rv, os_RevocationReason := CRLReasonCode (rev_Reason rv) \<rparr>
      | None \<Rightarrow> if list_ex (issued_as w issuerID serial) (tbl_certs w) then ocsp_request serial 0 t nonce
          else ocsp_request serial 2 t nonce)"

definition server_ca :: "(string \<Rightarrow> IssuerConnector option) \<Rightarrow> CAOperationsSvc" where
  "server_ca registry = \<lparr> ca_revocationRepo = True, ca_certRepo = True, ca_profileRepo = True,
     ca_issuerRegistry = Some registry, ca_ocspCacheSvc = True \<rparr>"

lemma server_ca_simps [simp]: "ca_revocationRepo (server_ca g)" "ca_certRepo (server_ca g)" "ca_profileRepo (server_ca g)"
  "ca_issuerRegistry (server_ca g) = Some g" "ca_ocspCacheSvc (server_ca g)"
  by (simp_all add: server_ca_def)

lemma post_revocation_lookup:
  assumes "fault env = (\<lambda>_. False)"
    and "\<And>w'. same_data w w' \<Longrightarrow> Q (case find (same_serial i s) (tbl_revocations w) of
      None \<Rightarrow> Inl (Wrap ''failed to get revocation by issuer and serial'' ErrNoRows) | Some r \<Rightarrow> Inr r) w'"
  shows "post (RevocationRepository_GetByIssuerAndSerial env i s) w Q"
  unfolding RevocationRepository_GetByIssuerAndSerial_def
  by (intro post_bindI post_query_up [OF assms(1)] post_returnI)
    (use assms(2) in \<open>auto simp: same_dataD split: option.splits\<close>)

lemma find_list_ex: "find P xs = None \<longleftrightarrow> \<not> list_ex P xs"
  by (auto simp: find_None_iff list_ex_iff)

lemma issued_same: "same_data w w' \<Longrightarrow> issued_as w' = issued_as w"
  by (simp add: issued_as_def fun_eq_iff same_dataD)

lemma post_cert_lookup:
  assumes "fault env = (\<lambda>_. False)"
    and "\<And>r w'. isl r = (\<not> list_ex (issued_as w i s) (tbl_certs w)) \<Longrightarrow> Q r w'"
  shows "post (CertificateRepository_GetByIssuerAndSerial env i s) w Q"
  unfolding CertificateRepository_GetByIssuerAndSerial_def
  by (intro post_bindI post_db_up [OF assms(1)] post_query_up [OF assms(1)] post_getsI post_case_option post_if post_returnI assms(2))
    (auto simp: issued_same find_list_ex [symmetric] same_dataD split: if_splits)

lemma keeps_LiveSign: "state_io_rel same_data (LiveSignOCSPResponse env s i ser n)"
  unfolding LiveSignOCSPResponse_def RevocationRepository_GetByIssuerAndSerial_def CertificateRepository_GetByIssuerAndSerial_def
  by (intro same.keeps_prims keeps_short_lived)

lemma LiveSign_exact:
  assumes up: "fault env = (\<lambda>_. False)" and clock: "clock env = (\<lambda>_. t)" and conn: "registry issuerID = Some conn"
  shows "post (LiveSignOCSPResponse env (server_ca registry) issuerID serial nonce) w
    (\<lambda>r w'. r = ic_SignOCSPResponse conn (ocsp_answer w t issuerID serial nonce))"
proof (cases "find (same_serial issuerID serial) (tbl_revocations w)")
  case None
  then show ?thesis unfolding LiveSignOCSPResponse_def server_ca_simps conn option.case
    apply (simp, intro post_bindI post_now_const [OF clock] post_revocation_lookup [OF up])
    apply (simp add: same_dataD)
    apply (intro post_bindI post_revocation_lookup [OF up])
    apply (simp add: same_dataD)
    apply (intro post_bindI post_cert_lookup [OF up])
    apply (auto simp: ocsp_answer_def same_dataD issued_same split: sum.splits)
    done
next
  case (Some rv)
  let ?i = "rev_CertificateID rv"
  have short: "post (short_lived_cert env ?i) v (\<lambda>b v'. b = short_lived_in v ?i \<and> same_data v v')" for v :: world
    using short_lived_exact [OF up, of ?i v] post_frame [OF keeps_short_lived, of env ?i v] by (simp add: post_def split: prod.splits)
  from Some show ?thesis unfolding LiveSignOCSPResponse_def server_ca_simps conn option.case
    apply (simp, intro post_bindI post_now_const [OF clock] post_revocation_lookup [OF up])
    apply (simp add: same_dataD)
    apply (intro post_mono [OF short] post_if post_bindI post_revocation_lookup [OF up] post_returnI)
    apply (auto simp: ocsp_answer_def same_dataD short_lived_same)
    done
qed

text \<open>
  C16. Exactness of OCSP for requests with a nonce. Such a request goes around the cache and is signed live. While the database
  answers and the clock stands still, the response to a request with a non-empty nonce is the connector's signature over the status in
  the tables: revoked, with the time and the reason, when the serial number is in the revocation table and its certificate is
  not short-lived; good when it is in the revocation table and its certificate is short-lived, or when it is not in the revocation table
  and a certificate of that issuer has a version with that serial number; unknown otherwise. A request without a nonce may be
  answered from the cache, which can be stale; the statement is not about it.
\<close>

theorem OCSP_status_exact:
  assumes "fault env = (\<lambda>_. False)" "clock env = (\<lambda>_. t)" "registry issuerID = Some conn" "nonce \<noteq> ''''"
  shows "fst (run_state (GetOCSPResponseWithNonce env (server_ca registry) issuerID serial (Some nonce)) w) =
    ic_SignOCSPResponse conn (ocsp_answer w t issuerID serial (Some nonce))"
  using LiveSign_exact [of env t registry issuerID conn serial "Some nonce" w] assms
  by (auto simp: GetOCSPResponseWithNonce_def post_def split: prod.splits)

text \<open>Sample data: one certificate with two versions, and a connector that signs by naming the status.\<close>

definition sample_version :: "string \<Rightarrow> string \<Rightarrow> time \<Rightarrow> CertificateVersion" where
  "sample_version i serial t = \<lparr> cv_ID = i, cv_CertificateID = ''c1'', cv_SerialNumber = serial, cv_NotBefore = 0, cv_NotAfter = Day,
     cv_FingerprintSHA256 = i, cv_PEMChain = '''', cv_CSRPEM = '''', cv_KeyAlgorithm = ''RSA'', cv_KeySize = 2048, cv_CreatedAt = t \<rparr>"

definition issuing_world :: world where
  "issuing_world = empty_world \<lparr> tbl_owners := [sample_owner ''o1'' ''alice''], tbl_profiles := [sample_profile ''p1'' False],
     tbl_certs := [sample_cert ''c1''], tbl_versions := [sample_version ''v1'' ''0a'' 1, sample_version ''v2'' ''0b'' 2] \<rparr>"

definition naming_connector :: IssuerConnector where
  "naming_connector = \<lparr> ic_IssueCertificate = (\<lambda>n cn sans csr ekus ttl staple. Inr \<lparr> ir_Serial = ''0d'', ir_CertPEM = ''issued'', ir_ChainPEM = ''chain'',
       ir_NotBefore = 0, ir_NotAfter = 90 * Day \<rparr>), ic_RenewCertificate = (\<lambda>n cn sans csr ekus ttl staple. Inr \<lparr> ir_Serial = ''0c'', ir_CertPEM = ''cert'', ir_ChainPEM = ''chain'',
       ir_NotBefore = 0, ir_NotAfter = 90 * Day \<rparr>), ic_GetRenewalInfo = (\<lambda>n pem. Inr None), ic_SignOCSPResponse = (\<lambda>r. Inr (if os_CertStatus r = 0 then ''good'' else if os_CertStatus r = 1 then ''revoked'' else ''unknown'')),
     ic_GenerateCRL = (\<lambda>es. Inr (concat (map (\<lambda>e. case crl_SerialNumber e of None \<Rightarrow> ''?'' | Some n \<Rightarrow> show_int n) es))) \<rparr>"

definition sample_registry :: "string \<Rightarrow> IssuerConnector option" where
  "sample_registry i = (if i = ''iss'' then Some naming_connector else None)"

definition server_revocation :: "(string \<Rightarrow> IssuerConnector option) \<Rightarrow> NotificationService \<Rightarrow> RevocationSvc" where
  "server_revocation registry n = \<lparr> rs_revocationRepo = True, rs_notificationSvc = Some n, rs_issuerRegistry = Some registry,
     rs_tx = True, rs_ocspCacheInvalidator = True \<rparr>"

definition sample_revocation :: "string \<Rightarrow> CertificateRevocation" where
  "sample_revocation serial = \<lparr> rev_ID = ''r1'', rev_CertificateID = ''c1'', rev_SerialNumber = serial, rev_Reason = ''keyCompromise'',
     rev_RevokedBy = ''alice'', rev_RevokedAt = 7, rev_IssuerID = ''iss'', rev_IssuerNotified = False, rev_CreatedAt = 7 \<rparr>"

lemmas revocation_samples = samples sample_version_def issuing_world_def naming_connector_def sample_registry_def
  server_revocation_def sample_revocation_def

theorem OCSP_status_exact_witness:
  "let w = issuing_world \<lparr> tbl_revocations := [sample_revocation ''0b''] \<rparr>;
       status = (\<lambda>serial. fst (run_state (GetOCSPResponseWithNonce (calm 9) (server_ca sample_registry) ''iss'' serial (Some ''n'')) w))
   in status ''0a'' = Inr ''good'' \<and> status ''0b'' = Inr ''revoked'' \<and> status ''0c'' = Inr ''unknown''"
proof -
  have "sample_registry ''iss'' = Some naming_connector" by (simp add: sample_registry_def)
  then have exact: "fst (run_state (GetOCSPResponseWithNonce (calm 9) (server_ca sample_registry) ''iss'' serial (Some ''n'')) w) =
    ic_SignOCSPResponse naming_connector (ocsp_answer w 9 ''iss'' serial (Some ''n''))" for serial w
    by (intro OCSP_status_exact) (simp_all add: calm_def)
  show ?thesis unfolding Let_def exact
    by (simp add: ocsp_answer_def same_serial_def issued_as_def short_lived_in_def row_of_def IsShortLived_def ocsp_request_def revocation_samples)
qed

text \<open>
  C40. A failing revocation lookup counts as \<open>not revoked\<close>. When both lookups of the revocation table
  fail and the rest of the database answers, the signed status of every serial number of a known
  certificate is good, whatever the revocation table holds.
\<close>

theorem OCSP_fails_open:
  assumes "fault env = (\<lambda>n. n = steps w + 1 \<or> n = steps w + 2)" "clock env = (\<lambda>_. t)" "registry issuerID = Some conn"
    and "list_ex (issued_as w issuerID serial) (tbl_certs w)"
  shows "fst (run_state (LiveSignOCSPResponse env (server_ca registry) issuerID serial nonce) w) =
    ic_SignOCSPResponse conn (ocsp_request serial 0 t nonce)"
proof -
  obtain c where "find (issued_as w issuerID serial) (tbl_certs w) = Some c" using assms(4) find_list_ex [of _ "tbl_certs w"] by fast
  then show ?thesis
    by (simp add: LiveSignOCSPResponse_def assms(1-3) run_defs RevocationRepository_GetByIssuerAndSerial_def
      CertificateRepository_GetByIssuerAndSerial_def issued_same [OF same.R_steps])
qed

theorem OCSP_fails_open_witness:
  "let w = issuing_world \<lparr> tbl_revocations := [sample_revocation ''0b''] \<rparr>;
       flaky = (calm 9) \<lparr> fault := (\<lambda>n. n = 1 \<or> n = 2) \<rparr>
   in fst (run_state (LiveSignOCSPResponse flaky (server_ca sample_registry) ''iss'' ''0b'' None) w) = Inr ''good'' \<and>
      os_CertStatus (ocsp_answer w 9 ''iss'' ''0b'' None) = 1"
proof -
  let ?w = "issuing_world \<lparr> tbl_revocations := [sample_revocation ''0b''] \<rparr>"
  let ?flaky = "(calm 9) \<lparr> fault := (\<lambda>n. n = 1 \<or> n = 2) \<rparr>"
  have "fst (run_state (LiveSignOCSPResponse ?flaky (server_ca sample_registry) ''iss'' ''0b'' None) ?w) =
      ic_SignOCSPResponse naming_connector (ocsp_request ''0b'' 0 9 None)"
    by (rule OCSP_fails_open) (simp_all add: issued_as_def revocation_samples numeral_2_eq_2)
  then show ?thesis
    by (simp add: Let_def ocsp_answer_def same_serial_def short_lived_in_def row_of_def IsShortLived_def ocsp_request_def revocation_samples)
qed

lemma filter_single: "filter P xs = [x] \<Longrightarrow> length xs \<le> Suc 0 \<Longrightarrow> xs = [x]"
  by (cases xs) (auto split: if_splits)

theorem GenerateDERCRL_complete_witness:
  "let w = issuing_world \<lparr> tbl_revocations := [sample_revocation ''0b''] \<rparr>
   in \<exists>kept. ic_GenerateCRL naming_connector (map crl_entry kept) = fst (run_state (GenerateDERCRL (calm 9) (server_ca sample_registry) ''iss'') w) \<and>
      kept = [sample_revocation ''0b'']"
proof -
  let ?w = "issuing_world \<lparr> tbl_revocations := [sample_revocation ''0b''] \<rparr>"
  let ?run = "run_state (GenerateDERCRL (calm 9) (server_ca sample_registry) ''iss'') ?w"
  have "isl (fst ?run) = False"
    by (simp add: GenerateDERCRL_def run_defs RevocationRepository_ListByIssuer_def short_lived_cert_def CertificateRepository_Get_def
      ProfileRepository_Get_def row_of_def scan_cert_def scanProfile_def IsShortLived_def revocation_samples)
  then obtain der w' where run: "?run = (Inr der, w')" by (metis isl_def old.sum.exhaust prod.collapse)
  have "lasting ?w (sample_revocation ''0b'')"
    by (simp add: short_lived_in_def row_of_def IsShortLived_def revocation_samples)
  moreover have "crl_of ?w ''iss'' = [sample_revocation ''0b'']" by (simp add: crl_of_def sample_revocation_def)
  ultimately show ?thesis
    using GenerateDERCRL_complete [OF _ _ run, of sample_registry naming_connector]
    by (auto simp: Let_def run sample_registry_def dest!: list_emb_length filter_single)
qed

lemmas revocation_run_defs = notif_run_defs RevokeCertificateWithActor_def revoke_in_tx_def after_revoke_def notify_issuer_def
  ic_RevokeCertificate_def mark_notified_def InvalidateOnRevoke_def OCSPResponseCacheRepository_Delete_def
  RevocationRepository_CreateWithTx_def RevocationRepository_ListByCertificate_def RevocationRepository_MarkIssuerNotified_def
  new_revocation_def revocation_details_def revoked_cert_def effective_reason_def SendRevocationNotification_def
  CertificateRepository_Get_def CertificateRepository_UpdateWithTx_def CertificateRepository_GetLatestVersion_def versions_of_def
  cert_update_ok_def cert_fks_def fk_ok_def null_if_empty_def cert_columns_def scan_cert_def getTargetIDs_def rows_result_def
  count_rows_def update_row_def row_of_def has_key_def same_serial_def same_entry_def when_op_def discard_def RecordEventWithTx_def
  RecordEventWithCategory_def AuditRepository_CreateWithTx_def generateID_def IsValidRevocationReason_def ValidRevocationReasons_def

theorem revocation_atomic_witness:
  "let s = server_revocation sample_registry (NewNotificationService [''Webhook'']);
       (r, w') = run_state (RevokeCertificateWithActor (calm 9) s ''c1'' '''' ''alice'') issuing_world
   in r = Inr () \<and> (\<exists>ev. tbl_audit w' = [ev] \<and> ae_Actor ev = ''alice'') \<and>
      list_ex (same_serial ''iss'' ''0b'') (tbl_revocations w')"
proof -
  let ?s = "server_revocation sample_registry (NewNotificationService [''Webhook''])"
  let ?run = "run_state (RevokeCertificateWithActor (calm 9) ?s ''c1'' '''' ''alice'') issuing_world"
  obtain r w' where run: "?run = (r, w')" by (metis surj_pair)
  have "fst ?run = Inr ()"
    by (simp add: revocation_run_defs revocation_samples Let_def)
  note r = this [unfolded run fst_conv]
  have v: "versions_of issuing_world ''c1'' = [sample_version ''v2'' ''0b'' 2, sample_version ''v1'' ''0a'' 1]"
    by (simp add: versions_of_def revocation_samples)
  show ?thesis unfolding Let_def run
    using revocation_atomic [OF _ _ run] r v
    by (auto simp: server_revocation_def revocation_recorded_def issuing_world_def empty_world_def row_of_def sample_cert_def
      revoked_cert_def scan_cert_def sample_version_def)
qed

subsection \<open>From revocation to OCSP\<close>

interpretation cached: world_frame "\<lambda>w w'. tbl_ocsp w' = tbl_ocsp w"
  by unfold_locales simp_all

lemma cached_notification:
  "state_io_rel (\<lambda>w w'. tbl_ocsp w' = tbl_ocsp w) (SendRevocationNotification env n cert reason)"
  unfolding SendRevocationNotification_def store_and_send_def new_notification_def resolveRecipient_def OwnerRepository_Get_def
    lookup_row_def NotificationRepository_Create_def sendNotification_def notif_updates update_notif_def notifier_Send_def Let_def
  by (intro cached.keeps_prims cached.keeps_exec cached.keeps_insert) simp_all

lemma post_insert_up:
  assumes "fault env = (\<lambda>_. False)" "\<And>w'. ok w' \<Longrightarrow> Q (Inr ()) (ins w')" "\<And>e w'. \<not> ok w' \<Longrightarrow> Q (Inl e) w'"
  shows "post (insert_row env msg ok ins) w Q"
  unfolding insert_row_def by (intro post_bindI post_db_up [OF assms(1)]) (use assms(2,3) in \<open>auto simp: post_bind\<close>)

lemma after_revoke_invalidates:
  assumes "fault env = (\<lambda>_. False)" "rs_tx s" "rs_ocspCacheInvalidator s"
  shows "post (after_revoke env s cert v reason actor) w (\<lambda>_ w'.
    \<not> list_ex (same_entry (cert_IssuerID cert) (cv_SerialNumber v)) (tbl_ocsp w'))"
proof -
  have gone: "\<not> list_ex P (filter (\<lambda>x. \<not> P x) t)" for P and t :: "OCSPResponseCacheEntry list" by (simp add: list_ex_iff)
  show ?thesis unfolding after_revoke_def when_op_def InvalidateOnRevoke_def OCSPResponseCacheRepository_Delete_def if_P [OF assms(3)]
    by (intro post_bindI post_keeps [OF settled_notify] post_discard post_insert_up [OF assms(1)] post_if post_returnI
        post_case_option post_keeps [OF cached_notification]) (use assms(2) gone in auto)
qed

lemma revoke_invalidates:
  assumes "fault env = (\<lambda>_. False)" "rs_tx s" "rs_ocspCacheInvalidator s" "rs_revocationRepo s"
  shows "post (RevokeCertificateWithActor env s certID reason actor) w (\<lambda>r w'. r = Inr () \<longrightarrow>
    (\<forall>c v vs. row_of cert_ID certID (tbl_certs w) = Some c \<longrightarrow> versions_of w certID = v # vs \<longrightarrow>
      \<not> list_ex (same_entry (cert_IssuerID c) (cv_SerialNumber v)) (tbl_ocsp w')))"
  unfolding RevokeCertificateWithActor_def Let_def if_P [OF assms(2)]
  by (intro post_bindI post_CertGet post_case_sum post_if post_LatestVersion post_now post_returnI
      post_revoke_in_tx [OF assms(4)] post_mono [OF after_revoke_invalidates [OF assms(1-3)]])
    (auto simp: versions_same revoked_cert_def scan_cert_def)

lemma cache_miss:
  assumes up: "fault env = (\<lambda>_. False)" and clock: "clock env = (\<lambda>_. t)" and conn: "registry issuerID = Some conn"
    and "\<not> list_ex (same_entry issuerID serial) (tbl_ocsp w)"
  shows "post (GetOCSPResponse env (server_ca registry) issuerID serial) w (\<lambda>r _.
    r = (case ic_SignOCSPResponse conn (ocsp_answer w t issuerID serial None) of
      Inl e \<Rightarrow> Inl (Wrap (''ocsp_response_cache regenerate '' @ go_quote issuerID @ ''/'' @ go_quote serial) e) | Inr der \<Rightarrow> Inr der))"
proof -
  have same: "ocsp_answer v t issuerID serial None = ocsp_answer w t issuerID serial None" if "same_data w v" for v :: world
    unfolding ocsp_answer_def issued_same [OF that] short_lived_same [OF that] same_dataD [OF that] ..
  have miss: "find (same_entry issuerID serial) (tbl_ocsp w) = None" using assms(4) by (simp add: find_list_ex)
  have store: "post m v (\<lambda>_ _. True)" for m :: "unit op" and v by (simp add: post_def split: prod.splits)
  have get: "GetOCSPResponse env (server_ca registry) issuerID serial = OCSPResponseCacheService_Get env (server_ca registry) issuerID serial"
    by (simp add: GetOCSPResponse_def GetOCSPResponseWithNonce_def)
  show ?thesis unfolding get OCSPResponseCacheService_Get_def regenerate_def OCSPResponseCacheRepository_Get_def
  proof (intro post_bindI post_now_const [OF clock] post_query_up [OF up], goal_cases)
    case (1 w1 w2)
    then have "same_data w w2" by (blast intro: same.frame_trans)
    then show ?case
      using LiveSign_exact [of env t registry issuerID conn serial None w2, OF up clock conn]
      by (auto simp: same_dataD miss same post_bind elim!: post_mono intro!: store split: sum.splits)
  qed
qed

text \<open>
  C8. A revocation reaches OCSP. After a successful revocation, with the server's wiring and a database
  that answers, an OCSP request for the revoked serial number is signed as revoked, although responses
  are cached and whatever the cache held before: the table holds the revocation, and unless its
  certificate is short-lived the response is the signature over status revoked with its time and reason.
\<close>

theorem revocation_reaches_OCSP:
  assumes "fault env = (\<lambda>_. False)" "rs_tx s" "rs_ocspCacheInvalidator s" "rs_revocationRepo s"
    and "run_state (RevokeCertificateWithActor env s certID reason actor) w = (Inr (), w1)"
    and "row_of cert_ID certID (tbl_certs w) = Some c" "versions_of w certID = v # vs"
    and "fault env' = (\<lambda>_. False)" "clock env' = (\<lambda>_. t)" "registry (cert_IssuerID c) = Some conn"
  shows "\<exists>rv. find (same_serial (cert_IssuerID c) (cv_SerialNumber v)) (tbl_revocations w1) = Some rv \<and>
    (lasting w1 rv \<longrightarrow> (\<forall>der. ic_SignOCSPResponse conn ((ocsp_request (cv_SerialNumber v) 1 t None)
        \<lparr> os_RevokedAt := rev_RevokedAt rv, os_RevocationReason := CRLReasonCode (rev_Reason rv) \<rparr>) = Inr der \<longrightarrow>
      fst (run_state (GetOCSPResponse env' (server_ca registry) (cert_IssuerID c) (cv_SerialNumber v)) w1) = Inr der))"
proof -
  let ?i = "cert_IssuerID c" and ?n = "cv_SerialNumber v"
  from post_run [OF revoke_post [OF assms(2,4)] assms(5)] assms(6,7)
  have "list_ex (same_serial ?i ?n) (tbl_revocations w1)"
    by (auto simp: revocation_recorded_def revoked_cert_def scan_cert_def)
  then obtain rv where rv: "find (same_serial ?i ?n) (tbl_revocations w1) = Some rv" using find_list_ex by fast
  have "\<not> list_ex (same_entry ?i ?n) (tbl_ocsp w1)"
    using post_run [OF revoke_invalidates [OF assms(1-4)] assms(5)] assms(6,7) by blast
  from cache_miss [of env' t registry ?i conn ?n, OF assms(8-10) this] rv show ?thesis
    by (auto simp: ocsp_answer_def post_def split: prod.splits)
qed

theorem revocation_reaches_OCSP_witness:
  "let s = server_revocation sample_registry (NewNotificationService [''Webhook'']);
       w1 = snd (run_state (RevokeCertificateWithActor (calm 9) s ''c1'' '''' ''alice'') issuing_world)
   in fst (run_state (GetOCSPResponse (calm 10) (server_ca sample_registry) ''iss'' ''0b'') w1) = Inr ''revoked''"
proof -
  let ?s = "server_revocation sample_registry (NewNotificationService [''Webhook''])"
  let ?run = "run_state (RevokeCertificateWithActor (calm 9) ?s ''c1'' '''' ''alice'') issuing_world"
  have r: "fst ?run = Inr ()" "tbl_profiles (snd ?run) = [sample_profile ''p1'' False]" "map cert_CertificateProfileID (tbl_certs (snd ?run)) = [''p1'']"
    by (simp_all add: revocation_run_defs revocation_samples Let_def)
  then obtain w1 where run: "?run = (Inr (), w1)" by (metis prod.collapse)
  have "lasting w1 rv" for rv
    using r(2,3) by (auto simp: run short_lived_in_def row_of_def IsShortLived_def sample_profile_def split: option.splits if_splits)
  moreover have v: "versions_of issuing_world ''c1'' = [sample_version ''v2'' ''0b'' 2, sample_version ''v1'' ''0a'' 1]"
    by (simp add: versions_of_def revocation_samples)
  moreover have c: "row_of cert_ID ''c1'' (tbl_certs issuing_world) = Some (sample_cert ''c1'')"
    by (simp add: issuing_world_def row_of_def sample_cert_def)
  ultimately show ?thesis unfolding Let_def run snd_conv
    using revocation_reaches_OCSP [of "calm 9" ?s, OF _ _ _ _ run c v, of "calm 10" 10 sample_registry naming_connector]
    by (simp add: run calm_def server_revocation_def sample_registry_def sample_cert_def sample_version_def naming_connector_def
      ocsp_request_def)
qed

text \<open>A request and a revocation interleaved at the calls of the request.\<close>

definition stale_race :: "env \<Rightarrow> RevocationSvc \<Rightarrow> CAOperationsSvc \<Rightarrow> (unit result \<times> string result) op" where
  "stale_race env rs ca = do {
     signed \<leftarrow> LiveSignOCSPResponse env ca ''iss'' ''0b'' None;
     r \<leftarrow> RevokeCertificateWithActor env rs ''c1'' ''keyCompromise'' ''alice'';
     _ \<leftarrow> (case signed of Inl e \<Rightarrow> State_Monad.return () | Inr der \<Rightarrow> store_response env ''iss'' ''0b'' der);
     answer \<leftarrow> GetOCSPResponse env ca ''iss'' ''0b'';
     State_Monad.return (r, answer) }"

text \<open>
  The cache can outlive an invalidation. A request finds no cached response and signs \<open>good\<close>; the
  certificate is revoked, which deletes the cached response; then the request stores what it signed.
  The next request is answered \<open>good\<close> from the cache after the revocation has succeeded.
\<close>

theorem stale_good_after_revocation:
  "let s = server_revocation sample_registry (NewNotificationService [''Webhook'']);
       (out, w') = run_state (stale_race (calm 9) s (server_ca sample_registry)) issuing_world
   in out = (Inr (), Inr ''good'') \<and> os_CertStatus (ocsp_answer w' 9 ''iss'' ''0b'' None) = 1"
  by (simp add: stale_race_def revocation_run_defs revocation_samples Let_def LiveSignOCSPResponse_def
    RevocationRepository_GetByIssuerAndSerial_def CertificateRepository_GetByIssuerAndSerial_def issued_as_def
    store_response_def OCSPResponseCacheRepository_Put_def GetOCSPResponse_def GetOCSPResponseWithNonce_def
    OCSPResponseCacheService_Get_def OCSPResponseCacheRepository_Get_def IsStale_def ocsp_request_def
    ocsp_answer_def short_lived_in_def IsShortLived_def)

text \<open>
  Only the serial number of the latest version is revoked: the versions before it, which may not have
  expired, keep the status good.
\<close>

theorem older_version_stays_good:
  "let s = server_revocation sample_registry (NewNotificationService [''Webhook'']);
       (r, w') = run_state (RevokeCertificateWithActor (calm 9) s ''c1'' ''keyCompromise'' ''alice'') issuing_world
   in r = Inr () \<and> cv_NotAfter (sample_version ''v1'' ''0a'' 1) > 9 \<and> os_CertStatus (ocsp_answer w' 9 ''iss'' ''0a'' None) = 0"
  by (simp add: revocation_run_defs revocation_samples Let_def issued_as_def ocsp_request_def ocsp_answer_def)

end
