(* ===== verification/Policies.thy ===== *)
theory Policies
  imports Certificate_Repository Samples
begin

text \<open>
  \<^verbatim>\<open>internal/service/policy.go\<close> and \<^verbatim>\<open>internal/repository/postgres/policy.go\<close>: policy rules and their
  evaluation against a certificate. Numbers of days are floating-point numbers, as in the code.
\<close>

section \<open>Go string functions\<close>

definition has_suffix :: "string \<Rightarrow> string \<Rightarrow> bool" where
  "has_suffix s p = has_prefix (rev s) (rev p)"

definition trim_suffix :: "string \<Rightarrow> string \<Rightarrow> string" where
  "trim_suffix s p = (if has_suffix s p then take (length s - length p) s else s)"

lemma has_suffix_iff: "has_suffix s p \<longleftrightarrow> (\<exists>u. s = u @ p)"
  by (metis has_prefix_iff has_suffix_def rev_append rev_swap)

section \<open>The repository\<close>

definition PolicyRepository_ListRules :: "env \<Rightarrow> PolicyRule list result op" where
  "PolicyRepository_ListRules env = query env ''failed to query policy rules''
     (\<lambda>w. sort_key (\<lambda>r. - pr_CreatedAt r) (tbl_rules w))"

definition PolicyRepository_GetRule :: "env \<Rightarrow> string \<Rightarrow> PolicyRule result op" where
  "PolicyRepository_GetRule env i = lookup_row env ''policy rule not found'' ''failed to query policy rule''
     (\<lambda>w. row_of pr_ID i (tbl_rules w))"

definition rule_columns_ok :: "PolicyRule \<Rightarrow> bool" where
  "rule_columns_ok r = (pr_Config r \<noteq> NoConfig \<and> pr_Severity r \<in> {''Warning'', ''Error'', ''Critical''})"

definition PolicyRepository_CreateRule :: "env \<Rightarrow> PolicyRule \<Rightarrow> string result op" where
  "PolicyRepository_CreateRule env rule = do {
     i \<leftarrow> (if pr_ID rule = '''' then new_uuid env else State_Monad.return (pr_ID rule));
     r \<leftarrow> insert_row env ''failed to create policy rule''
       (\<lambda>w. \<not> has_key pr_ID i (tbl_rules w) \<and> \<not> has_key pr_Name (pr_Name rule) (tbl_rules w) \<and> rule_columns_ok rule)
       (tbl_rules_update (\<lambda>t. t @ [rule \<lparr> pr_ID := i \<rparr>]));
     State_Monad.return (case r of Inl e \<Rightarrow> Inl e | Inr _ \<Rightarrow> Inr i) }"

definition rule_columns :: "PolicyRule \<Rightarrow> PolicyRule \<Rightarrow> PolicyRule" where
  "rule_columns rule old = old \<lparr> pr_Name := pr_Name rule, pr_Type := pr_Type rule, pr_Config := pr_Config rule,
     pr_Enabled := pr_Enabled rule, pr_Severity := pr_Severity rule, pr_UpdatedAt := pr_UpdatedAt rule \<rparr>"

definition PolicyRepository_UpdateRule :: "env \<Rightarrow> PolicyRule \<Rightarrow> unit result op" where
  "PolicyRepository_UpdateRule env rule = do {
     ok \<leftarrow> gets (\<lambda>w. has_key pr_ID (pr_ID rule) (tbl_rules w) \<longrightarrow> rule_columns_ok rule \<and>
       list_all (\<lambda>r. pr_Name r = pr_Name rule \<longrightarrow> pr_ID r = pr_ID rule) (tbl_rules w));
     if \<not> ok then State_Monad.return (Inl (Wrap ''failed to update policy rule'' ErrConstraint))
     else do {
       r \<leftarrow> exec env ''failed to update policy rule'' (\<lambda>w. count_rows (\<lambda>r. pr_ID r = pr_ID rule) (tbl_rules w))
         (tbl_rules_update (update_row pr_ID (pr_ID rule) (rule_columns rule)));
       State_Monad.return (rows_result ''policy rule not found'' r) } }"

definition PolicyRepository_DeleteRule :: "env \<Rightarrow> string \<Rightarrow> unit result op" where
  "PolicyRepository_DeleteRule env i = do {
     r \<leftarrow> exec env ''failed to delete policy rule'' (\<lambda>w. count_rows (\<lambda>r. pr_ID r = i) (tbl_rules w))
       (tbl_rules_update (filter (\<lambda>r. pr_ID r \<noteq> i)));
     State_Monad.return (rows_result ''policy rule not found'' r) }"

section \<open>Evaluation of a rule\<close>

definition containsString :: "string list \<Rightarrow> string \<Rightarrow> bool" where
  "containsString haystack needle = list_ex (\<lambda>s. s = needle) haystack"

fun domain_match :: "string \<Rightarrow> string list \<Rightarrow> bool" where
  "domain_match san [] = False"
| "domain_match san (p # allowed) =
     (let pattern = to_lower (trim_space p) in
      if pattern = san then True
      else if has_prefix pattern ''*.'' \<and> has_suffix san (drop 1 pattern) \<and>
        trim_suffix san (drop 1 pattern) \<noteq> '''' \<and> \<not> contains (trim_suffix san (drop 1 pattern)) ''.'' then True
      else domain_match san allowed)"

definition domainAllowed :: "string \<Rightarrow> string list \<Rightarrow> bool" where
  "domainAllowed san allowed = domain_match (to_lower (trim_space san)) allowed"

text \<open>What \<^verbatim>\<open>json.Unmarshal\<close> gives an arm that decodes a list of strings, and one that decodes a number.\<close>

definition cfg_strings :: "rule_config \<Rightarrow> string list option" where
  "cfg_strings c = (case c of NoConfig \<Rightarrow> Some [] | StringsConfig xs \<Rightarrow> Some xs | DaysConfig _ \<Rightarrow> Some [] | BadConfig \<Rightarrow> None)"

definition cfg_days :: "rule_config \<Rightarrow> int option" where
  "cfg_days c = (case c of NoConfig \<Rightarrow> Some 0 | StringsConfig _ \<Rightarrow> Some 0 | DaysConfig n \<Rightarrow> Some n | BadConfig \<Rightarrow> None)"

definition invalid_config :: "PolicyRule \<Rightarrow> error" where
  "invalid_config rule = Wrap (''invalid config for rule '' @ pr_ID rule) (Errorf ''json'')"

record PolicyService =
  ps_certRepo :: bool

definition violation :: "env \<Rightarrow> PolicyRule \<Rightarrow> ManagedCertificate \<Rightarrow> violation_msg \<Rightarrow> PolicyViolation op" where
  "violation env rule cert msg = do {
     i \<leftarrow> generateID env ''violation'';
     t \<leftarrow> now env;
     State_Monad.return \<lparr> pv_ID = i, pv_CertificateID = cert_ID cert, pv_RuleID = pr_ID rule, pv_Message = msg,
       pv_Severity = pr_Severity rule, pv_CreatedAt = t \<rparr> }"

definition fires :: "env \<Rightarrow> PolicyRule \<Rightarrow> ManagedCertificate \<Rightarrow> violation_msg \<Rightarrow> PolicyViolation option result op" where
  "fires env rule cert msg = do { v \<leftarrow> violation env rule cert msg; State_Monad.return (Inr (Some v)) }"

abbreviation passes :: "PolicyViolation option result op" where
  "passes \<equiv> State_Monad.return (Inr None)"

definition evaluateRule ::
  "env \<Rightarrow> PolicyService \<Rightarrow> PolicyRule \<Rightarrow> ManagedCertificate \<Rightarrow> PolicyViolation option result op" where
  "evaluateRule env s rule cert = (case pr_Type rule of
     PolicyTypeAllowedIssuers \<Rightarrow> (case cfg_strings (pr_Config rule) of
       None \<Rightarrow> State_Monad.return (Inl (invalid_config rule))
     | Some allowed \<Rightarrow>
         if cert_IssuerID cert = '''' then fires env rule cert NoIssuer
         else if allowed \<noteq> [] \<and> \<not> containsString allowed (cert_IssuerID cert)
         then fires env rule cert (IssuerNotAllowed (cert_IssuerID cert)) else passes)
   | PolicyTypeAllowedDomains \<Rightarrow> (case cfg_strings (pr_Config rule) of
       None \<Rightarrow> State_Monad.return (Inl (invalid_config rule))
     | Some allowed \<Rightarrow>
         if cert_SANs cert = [] then fires env rule cert NoSANs
         else if allowed \<noteq> [] then
           (case find (\<lambda>san. \<not> domainAllowed san allowed) (cert_SANs cert) of
              Some san \<Rightarrow> fires env rule cert (SANNotAllowed san) | None \<Rightarrow> passes)
         else passes)
   | PolicyTypeRequiredMetadata \<Rightarrow> (case cfg_strings (pr_Config rule) of
       None \<Rightarrow> State_Monad.return (Inl (invalid_config rule))
     | Some keys \<Rightarrow>
         if cert_Tags cert = [] then fires env rule cert NoTags
         else (case find (\<lambda>k. map_of (cert_Tags cert) k = None) keys of
              Some k \<Rightarrow> fires env rule cert (MissingTag k) | None \<Rightarrow> passes))
   | PolicyTypeAllowedEnvironments \<Rightarrow> (case cfg_strings (pr_Config rule) of
       None \<Rightarrow> State_Monad.return (Inl (invalid_config rule))
     | Some allowed \<Rightarrow>
         if cert_Environment cert = '''' then fires env rule cert NoEnvironment
         else if allowed \<noteq> [] \<and> \<not> containsString allowed (cert_Environment cert)
         then fires env rule cert (EnvironmentNotAllowed (cert_Environment cert)) else passes)
   | PolicyTypeRenewalLeadTime \<Rightarrow> (case cfg_days (pr_Config rule) of
       None \<Rightarrow> State_Monad.return (Inl (invalid_config rule))
     | Some d \<Rightarrow> do {
         t \<leftarrow> now env;
         let leadDays = (if d \<le> 0 then 30 else d); daysUntilExpiry = days_of (until (cert_ExpiresAt cert) t) in
         (if daysUntilExpiry < f64 (of_int leadDays) \<and> daysUntilExpiry > 0
          then fires env rule cert (ExpiresSoon daysUntilExpiry leadDays) else passes) })
   | PolicyTypeCertificateLifetime \<Rightarrow>
       if \<not> ps_certRepo s then State_Monad.return (Inl (Errorf (''CertificateLifetime rule '' @ pr_ID rule @
         '' requires cert repository (not wired via SetCertRepo)'')))
       else (case cfg_days (pr_Config rule) of
         None \<Rightarrow> State_Monad.return (Inl (invalid_config rule))
       | Some maxDays \<Rightarrow>
           if maxDays \<le> 0 then passes
           else do {
             version \<leftarrow> CertificateRepository_GetLatestVersion env (cert_ID cert);
             (case version of
                Inl e \<Rightarrow> passes
              | Inr v \<Rightarrow>
                  let lifetimeDays = days_of (until (cv_NotAfter v) (cv_NotBefore v)) in
                  if lifetimeDays > f64 (of_int maxDays) then fires env rule cert (LifetimeExceeds lifetimeDays maxDays) else passes) })
   | PolicyTypeOther ty \<Rightarrow> State_Monad.return (Inl (Errorf (''unknown policy rule type: '' @ ty))))"

section \<open>The service\<close>

fun validate_rules ::
  "env \<Rightarrow> PolicyService \<Rightarrow> ManagedCertificate \<Rightarrow> PolicyRule list \<Rightarrow> PolicyViolation list op" where
  "validate_rules env s cert [] = State_Monad.return []"
| "validate_rules env s cert (rule # rules) =
     (if \<not> pr_Enabled rule then validate_rules env s cert rules
      else do {
        v \<leftarrow> evaluateRule env s rule cert;
        vs \<leftarrow> validate_rules env s cert rules;
        State_Monad.return (case v of Inr (Some x) \<Rightarrow> x # vs | _ \<Rightarrow> vs) })"

definition ValidateCertificate :: "env \<Rightarrow> PolicyService \<Rightarrow> ManagedCertificate \<Rightarrow> PolicyViolation list result op" where
  "ValidateCertificate env s cert = do {
     q \<leftarrow> PolicyRepository_ListRules env;
     (case q of
        Inl e \<Rightarrow> State_Monad.return (Inl (Wrap ''failed to list policy rules'' e))
      | Inr rules \<Rightarrow> do { vs \<leftarrow> validate_rules env s cert rules; State_Monad.return (Inr vs) }) }"

definition show_policy_type :: "PolicyType \<Rightarrow> string" where
  "show_policy_type ty = (case ty of PolicyTypeAllowedIssuers \<Rightarrow> ''AllowedIssuers'' | PolicyTypeAllowedDomains \<Rightarrow> ''AllowedDomains''
     | PolicyTypeRequiredMetadata \<Rightarrow> ''RequiredMetadata'' | PolicyTypeAllowedEnvironments \<Rightarrow> ''AllowedEnvironments''
     | PolicyTypeRenewalLeadTime \<Rightarrow> ''RenewalLeadTime'' | PolicyTypeCertificateLifetime \<Rightarrow> ''CertificateLifetime''
     | PolicyTypeOther s \<Rightarrow> s)"

definition rule_defaults :: "env \<Rightarrow> PolicyRule \<Rightarrow> PolicyRule op" where
  "rule_defaults env rule = do {
     i \<leftarrow> (if pr_ID rule = '''' then generateID env ''rule'' else State_Monad.return (pr_ID rule));
     t \<leftarrow> (if pr_CreatedAt rule = zero_time then now env else State_Monad.return (pr_CreatedAt rule));
     State_Monad.return (rule \<lparr> pr_ID := i, pr_CreatedAt := t \<rparr>) }"

definition CreateRule :: "env \<Rightarrow> PolicyRule \<Rightarrow> string \<Rightarrow> unit result op" where
  "CreateRule env rule actor = do {
     rule' \<leftarrow> rule_defaults env rule;
     r \<leftarrow> PolicyRepository_CreateRule env rule';
     (case r of
        Inl e \<Rightarrow> State_Monad.return (Inl (Wrap ''failed to create policy rule'' e))
      | Inr i \<Rightarrow> do {
          _ \<leftarrow> RecordEvent env actor ActorTypeUser ''policy_rule_created'' ''policy'' i
            [(''rule_type'', JStr (show_policy_type (pr_Type rule')))];
          State_Monad.return (Inr ()) }) }"

definition UpdateRule :: "env \<Rightarrow> PolicyRule \<Rightarrow> string \<Rightarrow> unit result op" where
  "UpdateRule env rule actor = do {
     g \<leftarrow> PolicyRepository_GetRule env (pr_ID rule);
     (case g of
        Inl e \<Rightarrow> State_Monad.return (Inl (Wrap ''failed to fetch existing rule'' e))
      | Inr existing \<Rightarrow> do {
          t \<leftarrow> now env;
          r \<leftarrow> PolicyRepository_UpdateRule env (rule \<lparr> pr_UpdatedAt := t \<rparr>);
          (case r of
             Inl e \<Rightarrow> State_Monad.return (Inl (Wrap ''failed to update policy rule'' e))
           | Inr _ \<Rightarrow> do {
               _ \<leftarrow> RecordEvent env actor ActorTypeUser ''policy_rule_updated'' ''policy'' (pr_ID rule)
                 (if pr_Enabled existing \<noteq> pr_Enabled rule then [(''enabled'', JBool (pr_Enabled rule))] else []);
               State_Monad.return (Inr ()) }) }) }"

definition DeleteRule :: "env \<Rightarrow> string \<Rightarrow> string \<Rightarrow> unit result op" where
  "DeleteRule env i actor = do {
     g \<leftarrow> PolicyRepository_GetRule env i;
     (case g of
        Inl e \<Rightarrow> State_Monad.return (Inl (Wrap ''failed to fetch rule'' e))
      | Inr rule \<Rightarrow> do {
          r \<leftarrow> PolicyRepository_DeleteRule env i;
          (case r of
             Inl e \<Rightarrow> State_Monad.return (Inl (Wrap ''failed to delete policy rule'' e))
           | Inr _ \<Rightarrow> do {
               _ \<leftarrow> RecordEvent env actor ActorTypeUser ''policy_rule_deleted'' ''policy'' i
                 [(''rule_type'', JStr (show_policy_type (pr_Type rule)))];
               State_Monad.return (Inr ()) }) }) }"

definition CreatePolicy :: "env \<Rightarrow> PolicyRule \<Rightarrow> PolicyRule result op" where
  "CreatePolicy env policy = do {
     policy' \<leftarrow> rule_defaults env policy;
     r \<leftarrow> PolicyRepository_CreateRule env policy';
     State_Monad.return (case r of
       Inl e \<Rightarrow> Inl (Wrap ''failed to create policy'' e) | Inr i \<Rightarrow> Inr (policy' \<lparr> pr_ID := i \<rparr>)) }"

definition UpdatePolicy :: "env \<Rightarrow> string \<Rightarrow> PolicyRule \<Rightarrow> PolicyRule result op" where
  "UpdatePolicy env i policy = do {
     t \<leftarrow> now env;
     let policy1 = policy \<lparr> pr_ID := i, pr_UpdatedAt := t \<rparr> in do {
     g \<leftarrow> (if pr_Severity policy1 = '''' then do {
             e \<leftarrow> PolicyRepository_GetRule env i;
             State_Monad.return (case e of
               Inl err \<Rightarrow> Inl (Wrap ''failed to fetch existing rule for severity preservation'' err)
             | Inr existing \<Rightarrow> Inr (policy1 \<lparr> pr_Severity := pr_Severity existing \<rparr>)) }
           else State_Monad.return (Inr policy1));
     (case g of
        Inl e \<Rightarrow> State_Monad.return (Inl e)
      | Inr policy2 \<Rightarrow> do {
          r \<leftarrow> PolicyRepository_UpdateRule env policy2;
          State_Monad.return (case r of Inl e \<Rightarrow> Inl (Wrap ''failed to update policy'' e) | Inr _ \<Rightarrow> Inr policy2) }) } }"

definition DeletePolicy :: "env \<Rightarrow> string \<Rightarrow> unit result op" where
  "DeletePolicy env i = PolicyRepository_DeleteRule env i"

definition ListPolicies :: "env \<Rightarrow> int \<Rightarrow> int \<Rightarrow> (PolicyRule list \<times> nat) result op" where
  "ListPolicies env page perPage =
     do {
       q \<leftarrow> PolicyRepository_ListRules env;
       State_Monad.return (case q of
         Inl e \<Rightarrow> Inl (Wrap ''failed to list policies'' e)
       | Inr rules \<Rightarrow> paged_result page perPage rules) }"

section \<open>Domain patterns\<close>

text \<open>A pattern matches a name: they are equal, or the pattern is a wildcard for exactly one label.\<close>

definition wildcard_match :: "string \<Rightarrow> string \<Rightarrow> bool" where
  "wildcard_match pattern name = (name = pattern \<or>
     (\<exists>label rest. pattern = ''*.'' @ rest \<and> name = label @ ''.'' @ rest \<and> label \<noteq> '''' \<and> CHR ''.'' \<notin> set label))"

lemma contains_char: "contains s [c] = (c \<in> set s)"
  by (induction s) auto

lemma wildcard_step:
  "(pattern = name \<or> has_prefix pattern ''*.'' \<and> has_suffix name (drop 1 pattern) \<and>
     trim_suffix name (drop 1 pattern) \<noteq> '''' \<and> \<not> contains (trim_suffix name (drop 1 pattern)) ''.'') =
   wildcard_match pattern name"
  by (auto simp: wildcard_match_def has_prefix_iff has_suffix_iff trim_suffix_def contains_char)

text \<open>
  C36. The domain list allows exactly the names that one of its patterns matches, after trimming
  white space and mapping to lower case, both as Unicode defines them: the pattern is the name itself, or it begins with a wildcard,
  which stands for exactly one non-empty label. The comment of the rule (\<^verbatim>\<open>policy.go:121\<close>) says that \<^verbatim>\<open>*.foo\<close> matches
  anything that ends in \<^verbatim>\<open>.foo\<close>; the code, and the comment of the function, admit a single label.
\<close>

theorem domainAllowed_exact:
  "domainAllowed san allowed =
     list_ex (\<lambda>p. wildcard_match (to_lower (trim_space p)) (to_lower (trim_space san))) allowed"
proof -
  have "domain_match s allowed = list_ex (\<lambda>p. wildcard_match (to_lower (trim_space p)) s) allowed" for s
    by (induction allowed) (auto simp: Let_def wildcard_step [symmetric] simp del: drop_Suc)
  then show ?thesis by (simp add: domainAllowed_def)
qed

section \<open>Violations are exactly the rules that are not complied with\<close>

text \<open>
  What a rule demands of a certificate at a time, given the latest version of the certificate. A
  rule of an unknown type, with a configuration that does not decode, or on the lifetime without a
  certificate repository demands nothing.
\<close>

definition complies ::
  "time \<Rightarrow> PolicyService \<Rightarrow> CertificateVersion list \<Rightarrow> PolicyRule \<Rightarrow> ManagedCertificate \<Rightarrow> bool" where
  "complies t s versions rule cert = (case pr_Type rule of
     PolicyTypeAllowedIssuers \<Rightarrow> (case cfg_strings (pr_Config rule) of None \<Rightarrow> True
       | Some allowed \<Rightarrow> cert_IssuerID cert \<noteq> '''' \<and> (allowed = [] \<or> cert_IssuerID cert \<in> set allowed))
   | PolicyTypeAllowedDomains \<Rightarrow> (case cfg_strings (pr_Config rule) of None \<Rightarrow> True
       | Some allowed \<Rightarrow> cert_SANs cert \<noteq> [] \<and> (allowed = [] \<or> (\<forall>san \<in> set (cert_SANs cert). domainAllowed san allowed)))
   | PolicyTypeRequiredMetadata \<Rightarrow> (case cfg_strings (pr_Config rule) of None \<Rightarrow> True
       | Some keys \<Rightarrow> cert_Tags cert \<noteq> [] \<and> set keys \<subseteq> fst ` set (cert_Tags cert))
   | PolicyTypeAllowedEnvironments \<Rightarrow> (case cfg_strings (pr_Config rule) of None \<Rightarrow> True
       | Some allowed \<Rightarrow> cert_Environment cert \<noteq> '''' \<and> (allowed = [] \<or> cert_Environment cert \<in> set allowed))
   | PolicyTypeRenewalLeadTime \<Rightarrow> (case cfg_days (pr_Config rule) of None \<Rightarrow> True
       | Some d \<Rightarrow> days_of (until (cert_ExpiresAt cert) t) \<le> 0 \<or>
           f64 (of_int (if d \<le> 0 then 30 else d)) \<le> days_of (until (cert_ExpiresAt cert) t))
   | PolicyTypeCertificateLifetime \<Rightarrow> (case cfg_days (pr_Config rule) of None \<Rightarrow> True
       | Some d \<Rightarrow> \<not> ps_certRepo s \<or> d \<le> 0 \<or> versions = [] \<or>
           days_of (until (cv_NotAfter (hd versions)) (cv_NotBefore (hd versions))) \<le> f64 (of_int d))
   | PolicyTypeOther _ \<Rightarrow> True)"

text \<open>
  How far the floating-point comparison of a lifetime is from the comparison of durations: a lifetime of at most the allowed days
  complies, and one that is a second or more above them does not; between the two the rounding decides.
\<close>

lemma lifetime_margin:
  assumes "pr_Type rule = PolicyTypeCertificateLifetime" "cfg_days (pr_Config rule) = Some n" "1 \<le> n" "n \<le> 100000"
    and "ps_certRepo s" "versions = v # vs"
  shows "cv_NotAfter v - cv_NotBefore v \<le> n * Day \<Longrightarrow> complies t s versions rule cert"
    and "n * Day + Second \<le> cv_NotAfter v - cv_NotBefore v \<Longrightarrow> \<not> complies t s versions rule cert"
proof -
  define d where "d = until (cv_NotAfter v) (cv_NotBefore v)"
  have d: "d < 2 ^ 63" unfolding d_def by (rule until_range)
  have n: "f64 (of_int n) = of_int n" using assms(3,4) by (intro f64_int) simp_all
  have c: "complies t s versions rule cert = (days_of d \<le> of_int n)" using assms n by (simp add: complies_def d_def)
  show "complies t s versions rule cert" if "cv_NotAfter v - cv_NotBefore v \<le> n * Day"
  proof -
    have "d \<le> n * Day" using that assms(3) by (simp add: d_def until_def)
    then show ?thesis unfolding c using days_of_le [OF d, of n] assms(3,4) by simp
  qed
  show "\<not> complies t s versions rule cert" if "n * Day + Second \<le> cv_NotAfter v - cv_NotBefore v"
  proof -
    have "n * Day + Second \<le> d" using that assms(4) by (simp add: d_def until_def)
    then show ?thesis unfolding c using days_of_greater [OF d, of n] assms(3,4) by simp
  qed
qed

definition verdict :: "PolicyRule \<Rightarrow> ManagedCertificate \<Rightarrow> bool \<Rightarrow> PolicyViolation option result \<Rightarrow> bool" where
  "verdict rule cert ok r = (case r of
     Inr (Some v) \<Rightarrow> \<not> ok \<and> pv_RuleID v = pr_ID rule \<and> pv_Severity v = pr_Severity rule \<and> pv_CertificateID v = cert_ID cert
   | _ \<Rightarrow> ok)"

lemma post_fires [vcg]:
  assumes "\<And>r w'. same_data w w' \<Longrightarrow> (\<And>ok. verdict rule cert ok r = (\<not> ok)) \<Longrightarrow> Q r w'"
  shows "post (fires env rule cert msg) w Q"
  unfolding fires_def violation_def
  by (intro vcg assms) (auto simp: verdict_def intro: same.frame_trans)

lemma verdict_passes [simp]: "verdict rule cert ok (Inr None) = ok" "verdict rule cert ok (Inl e) = ok"
  by (simp_all add: verdict_def)

lemma find_SomeD: "find P xs = Some x \<Longrightarrow> x \<in> set xs \<and> P x"
  by (auto simp: find_Some_iff)

lemma map_of_None: "map_of xs k = None \<longleftrightarrow> k \<notin> fst ` set xs"
  by (simp add: map_of_eq_None_iff)

lemma keeps_evaluateRule: "state_io_rel same_data (evaluateRule env s rule cert)"
  unfolding evaluateRule_def fires_def violation_def CertificateRepository_GetLatestVersion_def
  by (cases "pr_Type rule") (simp_all only: PolicyType.case, (intro same.keeps_prims)+)

lemma evaluateRule_verdict:
  assumes "fault env = (\<lambda>_. False)" "clock env = (\<lambda>_. t)"
  shows "post (evaluateRule env s rule cert) w
    (\<lambda>r _. verdict rule cert (complies t s (versions_of w (cert_ID cert)) rule cert) r)"
proof (cases "pr_Type rule")
  case PolicyTypeAllowedIssuers
  then show ?thesis unfolding evaluateRule_def complies_def
    by (simp, intro vcg) (auto simp: containsString_def list_ex_iff)
next
  case PolicyTypeAllowedDomains
  then show ?thesis unfolding evaluateRule_def complies_def
    by (simp, intro vcg) (auto simp: find_None_iff dest!: find_SomeD)
next
  case PolicyTypeRequiredMetadata
  then show ?thesis unfolding evaluateRule_def complies_def
    by (simp, intro vcg) (auto simp: find_None_iff map_of_None dest!: find_SomeD)
next
  case PolicyTypeAllowedEnvironments
  then show ?thesis unfolding evaluateRule_def complies_def
    by (simp, intro vcg) (auto simp: containsString_def list_ex_iff)
next
  case PolicyTypeRenewalLeadTime
  have due: "(x \<le> 0 \<or> y \<le> x) = (\<not> (x < y \<and> x > 0))" for x y :: rat by linarith
  show ?thesis unfolding evaluateRule_def complies_def Let_def PolicyTypeRenewalLeadTime PolicyType.case due
    by (intro post_now_const [OF assms(2)] vcg) simp_all
next
  case PolicyTypeCertificateLifetime
  have long: "(a \<le> d) = (\<not> a > d)" for a d :: rat by linarith
  show ?thesis unfolding evaluateRule_def complies_def Let_def PolicyTypeCertificateLifetime PolicyType.case long
    by (intro post_GetLatestVersion [OF assms(1)] vcg) (simp_all split: list.splits option.splits)
qed (simp add: evaluateRule_def complies_def)

lemma post_if_else: "b \<Longrightarrow> post (if \<not> b then m else n) w Q = post n w Q"
  by simp

lemma validate_rules_exact:
  assumes "fault env = (\<lambda>_. False)" "clock env = (\<lambda>_. t)"
  shows "post (validate_rules env s cert rules) w (\<lambda>vs _.
    map (\<lambda>v. (pv_RuleID v, pv_Severity v, pv_CertificateID v)) vs =
    map (\<lambda>r. (pr_ID r, pr_Severity r, cert_ID cert))
      (filter (\<lambda>r. pr_Enabled r \<and> \<not> complies t s (versions_of w (cert_ID cert)) r cert) rules))"
proof (induction rules arbitrary: w)
  case (Cons r rules)
  let ?V = "\<lambda>w. versions_of w (cert_ID cert)"
  show ?case
  proof (cases "pr_Enabled r")
    case True
    have ev: "post (evaluateRule env s r cert) w (\<lambda>v w'. ?V w' = ?V w \<and> verdict r cert (complies t s (?V w) r cert) v)"
      using evaluateRule_verdict [OF assms, of s r cert w] post_frame [OF keeps_evaluateRule, of env s r cert w]
      by (auto simp: post_def versions_of_def same_dataD split: prod.splits)
    show ?thesis unfolding validate_rules.simps post_if_else [OF True]
    proof (rule post_bindI, rule post_mono [OF ev], rule post_bindI, rule post_mono [OF Cons.IH], rule post_returnI)
    qed (auto simp: verdict_def True split: sum.splits option.splits)
  qed (simp add: Cons.IH)
qed simp

text \<open>
  C31. Policy evaluation is exact: when the database answers and the clock stands still, the
  violations are, in the order of the rules, one for each enabled rule the certificate does not
  comply with, and each carries the identifier and the severity of its rule. Days are the code's floating-point numbers of
  saturated durations: a lifetime of 397 days and one nanosecond complies with a limit of 397 days, one of 397 days and one second does not.
  A wildcard of a domain rule stands for one label, although the comment of the rule (\<^verbatim>\<open>policy.go:121\<close>) says that it matches
  anything that ends in its suffix.
\<close>

theorem ValidateCertificate_exact:
  assumes "fault env = (\<lambda>_. False)" "clock env = (\<lambda>_. t)"
    and "run_state (ValidateCertificate env s cert) w = (r, w')"
  shows "\<exists>vs. r = Inr vs \<and>
    map (\<lambda>v. (pv_RuleID v, pv_Severity v, pv_CertificateID v)) vs =
    map (\<lambda>r. (pr_ID r, pr_Severity r, cert_ID cert))
      (filter (\<lambda>r. pr_Enabled r \<and> \<not> complies t s (versions_of w (cert_ID cert)) r cert)
        (sort_key (\<lambda>r. - pr_CreatedAt r) (tbl_rules w)))"
proof -
  have v: "versions_of (w \<lparr> steps := n \<rparr>) i = versions_of w i" for n i by (simp add: versions_of_def)
  show ?thesis
    using assms(3) post_run [OF validate_rules_exact [OF assms(1,2), of s cert _ "w \<lparr> steps := Suc (steps w) \<rparr>"]]
    by (auto simp: ValidateCertificate_def PolicyRepository_ListRules_def query_def run_simps assms(1) v split: prod.splits)
qed

definition sample_rule :: "string \<Rightarrow> PolicyType \<Rightarrow> rule_config \<Rightarrow> PolicyRule" where
  "sample_rule i ty c = \<lparr> pr_ID = i, pr_Name = i, pr_Type = ty, pr_Config = c, pr_Enabled = True, pr_Severity = ''Error'',
     pr_CreatedAt = 0, pr_UpdatedAt = 0 \<rparr>"

theorem ValidateCertificate_exact_witness:
  "\<exists>vs. fst (run_state (ValidateCertificate (calm 0) \<lparr> ps_certRepo = False \<rparr> (sample_cert ''c1''))
      (empty_world \<lparr> tbl_rules := [sample_rule ''r1'' PolicyTypeAllowedIssuers (StringsConfig [''iss'']),
         sample_rule ''r2'' PolicyTypeAllowedEnvironments (StringsConfig [''dev''])] \<rparr>)) = Inr vs \<and>
    map pv_RuleID vs = [''r2''] \<and> map pv_Severity vs = [''Error'']"
proof -
  let ?s = "\<lparr> ps_certRepo = False \<rparr>" and ?c = "sample_cert ''c1''"
  let ?w = "empty_world \<lparr> tbl_rules := [sample_rule ''r1'' PolicyTypeAllowedIssuers (StringsConfig [''iss'']),
    sample_rule ''r2'' PolicyTypeAllowedEnvironments (StringsConfig [''dev''])] \<rparr>"
  obtain r w' where run: "run_state (ValidateCertificate (calm 0) ?s ?c) ?w = (r, w')" by (metis surj_pair)
  obtain vs where vs: "r = Inr vs" "map (\<lambda>v. (pv_RuleID v, pv_Severity v, pv_CertificateID v)) vs = [(''r2'', ''Error'', ''c1'')]"
    using ValidateCertificate_exact [OF _ _ run, of 0]
    by (auto simp: calm_def complies_def cfg_strings_def sample_rule_def sample_cert_def empty_world_def)
  then have "map pv_RuleID vs = [''r2'']" "map pv_Severity vs = [''Error'']" by auto
  with run vs(1) show ?thesis by simp
qed

end
