(* ===== verification/Certificates.thy ===== *)
theory Certificates
  imports Revocation Policies
begin

text \<open>
  The certificate service, \<^verbatim>\<open>internal/service/certificate.go\<close>: creation with policy validation and audit,
  the update, archive and renewal triggers behind the REST handlers, and the delegations to the
  revocation and CA operations services.
\<close>

section \<open>The service\<close>

record CertificateService =
  cs_jobRepo :: bool
  cs_targetRepo :: bool
  cs_policyService :: PolicyService
  cs_revSvc :: "RevocationSvc option"
  cs_caSvc :: "CAOperationsSvc option"
  cs_tx :: bool
  cs_keygenMode :: string
  cs_approvalSvc :: "ApprovalService option"
  cs_profileRepo :: bool

definition CertificateService_Get :: "env \<Rightarrow> string \<Rightarrow> ManagedCertificate result op" where
  "CertificateService_Get env i = do {
     c \<leftarrow> CertificateRepository_Get env i;
     State_Monad.return (case c of Inl e \<Rightarrow> Inl (Wrap (''failed to get certificate '' @ i) e) | Inr cert \<Rightarrow> Inr cert) }"

definition record_violation :: "env \<Rightarrow> string \<Rightarrow> string \<Rightarrow> PolicyViolation \<Rightarrow> unit op" where
  "record_violation env actor certID v = discard (RecordEvent env actor ActorTypeUser ''policy_violation_detected'' ''certificate'' certID
     [(''rule_id'', JStr (pv_RuleID v)), (''message'', JMsg (pv_Message v))])"

definition create_in_tx :: "env \<Rightarrow> ManagedCertificate \<Rightarrow> string \<Rightarrow> unit result op" where
  "create_in_tx env cert actor = WithinTx env (do {
     c \<leftarrow> CertificateRepository_CreateWithTx env cert;
     (case c of
        Inl e \<Rightarrow> State_Monad.return (Inl (Wrap ''failed to create certificate'' e))
      | Inr _ \<Rightarrow> do {
          a \<leftarrow> RecordEventWithTx env actor ActorTypeUser ''certificate_created'' ''certificate'' (cert_ID cert)
            [(''common_name'', JStr (cert_CommonName cert))];
          State_Monad.return (case a of Inl e \<Rightarrow> Inl (Wrap ''failed to record audit event'' e) | Inr _ \<Rightarrow> Inr ()) }) })"

definition create_legacy :: "env \<Rightarrow> ManagedCertificate \<Rightarrow> string \<Rightarrow> unit result op" where
  "create_legacy env cert actor = do {
     c \<leftarrow> CertificateRepository_Create env cert;
     (case c of
        Inl e \<Rightarrow> State_Monad.return (Inl (Wrap ''failed to create certificate'' e))
      | Inr _ \<Rightarrow> do {
          _ \<leftarrow> discard (RecordEvent env actor ActorTypeUser ''certificate_created'' ''certificate'' (cert_ID cert)
            [(''common_name'', JStr (cert_CommonName cert))]);
          State_Monad.return (Inr ()) }) }"

definition CertificateService_Create :: "env \<Rightarrow> CertificateService \<Rightarrow> ManagedCertificate \<Rightarrow> string \<Rightarrow> unit result op" where
  "CertificateService_Create env s cert actor =
     (if cert_ID cert = '''' \<or> cert_CommonName cert = '''' \<or> cert_IssuerID cert = ''''
      then State_Monad.return (Inl (Errorf ''invalid certificate: missing required fields''))
      else (case ValidateCertificateID (cert_ID cert) of
        Inl e \<Rightarrow> State_Monad.return (Inl (Wrap ''invalid certificate id'' e))
      | Inr _ \<Rightarrow> do {
          v \<leftarrow> ValidateCertificate env (cs_policyService s) cert;
          (case v of
             Inl e \<Rightarrow> State_Monad.return (Inl (Wrap ''policy validation failed'' e))
           | Inr violations \<Rightarrow> do {
               _ \<leftarrow> for_each (record_violation env actor (cert_ID cert)) violations;
               if cs_tx s then create_in_tx env cert actor else create_legacy env cert actor }) }))"

definition CertificateService_Archive :: "env \<Rightarrow> string \<Rightarrow> string \<Rightarrow> unit result op" where
  "CertificateService_Archive env i actor = do {
     c \<leftarrow> CertificateRepository_Get env i;
     (case c of
        Inl e \<Rightarrow> State_Monad.return (Inl (Wrap ''failed to fetch certificate'' e))
      | Inr cert \<Rightarrow> do {
          r \<leftarrow> CertificateRepository_Archive env i;
          (case r of
             Inl e \<Rightarrow> State_Monad.return (Inl (Wrap ''failed to archive certificate'' e))
           | Inr _ \<Rightarrow> do {
               _ \<leftarrow> discard (RecordEvent env actor ActorTypeUser ''certificate_archived'' ''certificate'' i
                 [(''common_name'', JStr (cert_CommonName cert))]);
               State_Monad.return (Inr ()) }) }) }"

definition GetVersions :: "env \<Rightarrow> string \<Rightarrow> CertificateVersion list result op" where
  "GetVersions env certID = do {
     q \<leftarrow> CertificateRepository_ListVersions env certID;
     State_Monad.return (case q of Inl e \<Rightarrow> Inl (Wrap ''failed to list certificate versions'' e) | Inr vs \<Rightarrow> Inr vs) }"

text \<open>The first moment of the year 2000.\<close>

definition year_2000 :: time where
  "year_2000 = 946684800 * Second"

definition needs_approval :: "env \<Rightarrow> CertificateService \<Rightarrow> ManagedCertificate \<Rightarrow> (bool \<times> string) op" where
  "needs_approval env s cert =
     (if cs_approvalSvc s \<noteq> None \<and> cs_profileRepo s \<and> cert_CertificateProfileID cert \<noteq> '''' then do {
        p \<leftarrow> ProfileRepository_Get env (cert_CertificateProfileID cert);
        State_Monad.return (case p of
          Inl e \<Rightarrow> (False, '''')
        | Inr profile \<Rightarrow> if prof_RequiresApproval profile then (True, prof_ID profile) else (False, '''')) }
      else State_Monad.return (False, ''''))"

definition new_renewal_job :: "env \<Rightarrow> CertificateService \<Rightarrow> ManagedCertificate \<Rightarrow> bool \<Rightarrow> Job op" where
  "new_renewal_job env s cert needsApproval = do {
     i \<leftarrow> generateID env ''job'';
     scheduled \<leftarrow> now env;
     created \<leftarrow> now env;
     State_Monad.return \<lparr> job_ID = i,
       job_Type = (if cert_ExpiresAt cert = zero_time \<or> cert_ExpiresAt cert < year_2000 then JobTypeIssuance else JobTypeRenewal),
       job_CertificateID = cert_ID cert, job_TargetID = None, job_AgentID = None,
       job_Status = (if needsApproval then JobStatusAwaitingApproval
         else if cs_keygenMode s = ''agent'' then JobStatusAwaitingCSR else JobStatusPending),
       job_Attempts = 0, job_MaxAttempts = 3, job_LastError = None, job_ScheduledAt = scheduled, job_StartedAt = None,
       job_CompletedAt = None, job_CreatedAt = created, job_VerificationStatus = VerificationPending, job_VerifiedAt = None,
       job_VerificationError = None, job_VerificationFp = None \<rparr> }"

definition request_or_cancel ::
  "env \<Rightarrow> ApprovalService \<Rightarrow> ManagedCertificate \<Rightarrow> string \<Rightarrow> string \<Rightarrow> string \<Rightarrow> unit result op" where
  "request_or_cancel env approvals cert jobID profileID actor = do {
     a \<leftarrow> RequestApproval env approvals (Some cert) jobID profileID actor [(''common_name'', cert_CommonName cert)];
     (case a of
        Inl e \<Rightarrow> do {
          _ \<leftarrow> JobRepository_UpdateStatus env jobID JobStatusCancelled (''approval request creation failed: '' @ error_text e);
          State_Monad.return (Inl (Wrap ''failed to create approval request'' e)) }
      | Inr _ \<Rightarrow> State_Monad.return (Inr ())) }"

definition create_renewal_job :: "env \<Rightarrow> CertificateService \<Rightarrow> ManagedCertificate \<Rightarrow> string \<Rightarrow> unit result op" where
  "create_renewal_job env s cert actor = do {
     gate \<leftarrow> needs_approval env s cert;
     job \<leftarrow> new_renewal_job env s cert (fst gate);
     j \<leftarrow> JobRepository_Create env job;
     (case j of
        Inl e \<Rightarrow> State_Monad.return (Inl (Wrap ''failed to create renewal job'' e))
      | Inr jobID \<Rightarrow>
          if fst gate
          then (case cs_approvalSvc s of
            None \<Rightarrow> State_Monad.return (Inr ())
          | Some approvals \<Rightarrow> request_or_cancel env approvals cert jobID (snd gate) actor)
          else State_Monad.return (Inr ())) }"

definition TriggerRenewal :: "env \<Rightarrow> CertificateService \<Rightarrow> string \<Rightarrow> string \<Rightarrow> bool \<Rightarrow> unit result op" where
  "TriggerRenewal env s certID actor force = do {
     c \<leftarrow> CertificateRepository_Get env certID;
     (case c of
        Inl e \<Rightarrow> State_Monad.return (Inl (Wrap ''failed to fetch certificate'' e))
      | Inr cert \<Rightarrow>
          if cert_Status cert = CertificateStatusArchived
          then State_Monad.return (Inl (Errorf ''cannot renew archived certificate''))
          else if cert_Status cert = CertificateStatusExpired
          then State_Monad.return (Inl (Errorf ''cannot renew expired certificate; reissue instead''))
          else if cert_Status cert = CertificateStatusRenewalInProgress \<and> \<not> force
          then State_Monad.return (Inl (Errorf ''certificate renewal already in progress''))
          else do {
            u \<leftarrow> CertificateRepository_Update env (cert \<lparr> cert_Status := CertificateStatusRenewalInProgress \<rparr>);
            (case u of
               Inl e \<Rightarrow> State_Monad.return (Inl (Wrap ''failed to update certificate status'' e))
             | Inr _ \<Rightarrow> do {
                 j \<leftarrow> (if cs_jobRepo s
                   then create_renewal_job env s (cert \<lparr> cert_Status := CertificateStatusRenewalInProgress \<rparr>) actor
                   else State_Monad.return (Inr ()));
                 (case j of
                    Inl e \<Rightarrow> State_Monad.return (Inl e)
                  | Inr _ \<Rightarrow> do {
                      _ \<leftarrow> discard (RecordEvent env actor ActorTypeUser ''renewal_triggered'' ''certificate'' certID
                        [(''common_name'', JStr (cert_CommonName cert))]);
                      State_Monad.return (Inr ()) }) }) }) }"

text \<open>The target identifier of the request is not used, and no deployment job is created.\<close>

definition TriggerDeployment :: "env \<Rightarrow> string \<Rightarrow> string \<Rightarrow> string \<Rightarrow> unit result op" where
  "TriggerDeployment env certID targetID actor = do {
     c \<leftarrow> CertificateRepository_Get env certID;
     (case c of
        Inl e \<Rightarrow> State_Monad.return (Inl (Wrap ''failed to fetch certificate'' e))
      | Inr cert \<Rightarrow>
          if cert_Status cert = CertificateStatusArchived
          then State_Monad.return (Inl (Errorf ''cannot deploy archived certificate''))
          else do {
            _ \<leftarrow> discard (RecordEvent env actor ActorTypeUser ''deployment_triggered'' ''certificate'' certID
              [(''common_name'', JStr (cert_CommonName cert))]);
            State_Monad.return (Inr ()) }) }"

section \<open>Methods of the handler interface\<close>

definition CreateCertificate :: "env \<Rightarrow> ManagedCertificate \<Rightarrow> ManagedCertificate result op" where
  "CreateCertificate env cert = do {
     i \<leftarrow> (if cert_ID cert = '''' then generateID env ''cert'' else State_Monad.return (cert_ID cert));
     t \<leftarrow> now env;
     let cert' = cert \<lparr> cert_ID := i,
       cert_CreatedAt := (if cert_CreatedAt cert = zero_time then t else cert_CreatedAt cert),
       cert_UpdatedAt := (if cert_UpdatedAt cert = zero_time then t else cert_UpdatedAt cert),
       cert_Status := (if cert_Status cert = CertificateStatusNone then CertificateStatusPending else cert_Status cert) \<rparr> in do {
     c \<leftarrow> CertificateRepository_Create env cert';
     State_Monad.return (case c of Inl e \<Rightarrow> Inl (Wrap ''failed to create certificate'' e) | Inr _ \<Rightarrow> Inr cert') } }"

text \<open>A patch is a certificate whose zero fields are ignored; its tags may be absent.\<close>

definition patched :: "string \<Rightarrow> string \<Rightarrow> string" where
  "patched new old = (if new \<noteq> '''' then new else old)"

definition apply_patch ::
  "ManagedCertificate \<Rightarrow> (string \<times> string) list option \<Rightarrow> time \<Rightarrow> ManagedCertificate \<Rightarrow> ManagedCertificate" where
  "apply_patch patch tags t existing = existing \<lparr>
     cert_Name := patched (cert_Name patch) (cert_Name existing),
     cert_CommonName := patched (cert_CommonName patch) (cert_CommonName existing),
     cert_SANs := (if cert_SANs patch \<noteq> [] then cert_SANs patch else cert_SANs existing),
     cert_Environment := patched (cert_Environment patch) (cert_Environment existing),
     cert_OwnerID := patched (cert_OwnerID patch) (cert_OwnerID existing),
     cert_TeamID := patched (cert_TeamID patch) (cert_TeamID existing),
     cert_IssuerID := patched (cert_IssuerID patch) (cert_IssuerID existing),
     cert_RenewalPolicyID := patched (cert_RenewalPolicyID patch) (cert_RenewalPolicyID existing),
     cert_CertificateProfileID := patched (cert_CertificateProfileID patch) (cert_CertificateProfileID existing),
     cert_Status := (if cert_Status patch \<noteq> CertificateStatusNone then cert_Status patch else cert_Status existing),
     cert_Tags := (case tags of Some ts \<Rightarrow> ts | None \<Rightarrow> cert_Tags existing),
     cert_UpdatedAt := t \<rparr>"

definition UpdateCertificate ::
  "env \<Rightarrow> string \<Rightarrow> ManagedCertificate \<Rightarrow> (string \<times> string) list option \<Rightarrow> ManagedCertificate result op" where
  "UpdateCertificate env i patch tags = do {
     c \<leftarrow> CertificateRepository_Get env i;
     (case c of
        Inl e \<Rightarrow> State_Monad.return (Inl (Wrap ''certificate not found'' e))
      | Inr existing \<Rightarrow> do {
          t \<leftarrow> now env;
          let cert = apply_patch patch tags t existing in do {
          u \<leftarrow> CertificateRepository_Update env cert;
          State_Monad.return (case u of Inl e \<Rightarrow> Inl (Wrap ''failed to update certificate'' e) | Inr _ \<Rightarrow> Inr cert) } }) }"

definition ArchiveCertificate :: "env \<Rightarrow> string \<Rightarrow> unit result op" where
  "ArchiveCertificate env i = CertificateRepository_Archive env i"

definition GetCertificateVersions :: "env \<Rightarrow> string \<Rightarrow> int \<Rightarrow> int \<Rightarrow> (CertificateVersion list \<times> nat) result op" where
  "GetCertificateVersions env certID page perPage = do {
     q \<leftarrow> CertificateRepository_ListVersions env certID;
     State_Monad.return (case q of
       Inl e \<Rightarrow> Inl (Wrap ''failed to list certificate versions'' e)
     | Inr versions \<Rightarrow> paged_result page perPage versions) }"

definition CertificateService_RevokeCertificate ::
  "env \<Rightarrow> CertificateService \<Rightarrow> string \<Rightarrow> string \<Rightarrow> string \<Rightarrow> unit result op" where
  "CertificateService_RevokeCertificate env s certID reason actor = (case cs_revSvc s of
     None \<Rightarrow> State_Monad.return (Inl (Errorf ''revocation service not configured''))
   | Some revSvc \<Rightarrow> RevokeCertificateWithActor env revSvc certID reason actor)"

definition CertificateService_GetOCSPResponseWithNonce ::
  "env \<Rightarrow> CertificateService \<Rightarrow> string \<Rightarrow> string \<Rightarrow> string option \<Rightarrow> string result op" where
  "CertificateService_GetOCSPResponseWithNonce env s issuerID serialHex nonce = (case cs_caSvc s of
     None \<Rightarrow> State_Monad.return (Inl (Errorf ''CA operations service not configured''))
   | Some caSvc \<Rightarrow> GetOCSPResponseWithNonce env caSvc issuerID serialHex nonce)"

section \<open>Creation\<close>

text \<open>
  \<open>reported\<close>: nothing but the audit log changed, and the log grew by reports of policy violations of one certificate only.
\<close>

definition violation_event :: "string \<Rightarrow> string \<Rightarrow> AuditEvent \<Rightarrow> bool" where
  "violation_event actor certID ev = (ae_Actor ev = actor \<and> ae_Action ev = ''policy_violation_detected'' \<and>
     ae_ResourceType ev = ''certificate'' \<and> ae_ResourceID ev = certID)"

definition reported :: "string \<Rightarrow> string \<Rightarrow> world \<Rightarrow> world \<Rightarrow> bool" where
  "reported actor certID w w' = (\<exists>es. list_all (violation_event actor certID) es \<and> same_data (w \<lparr> tbl_audit := tbl_audit w @ es \<rparr>) w')"

lemma reported_same: "same_data w w' \<Longrightarrow> reported actor i w w'"
  unfolding reported_def by (rule exI [of _ "[]"]) simp

interpretation reports: step_frame "reported actor i" for actor i
proof
  show "reported actor i s s" "reported actor i s (steps_update f s)" "reported actor i s (idCounter_update Suc s)"
    "reported actor i s (metrics_update g s)" for s f g
    by (intro reported_same same.frame_refl same.R_steps same.R_next same.R_metrics)+
  show "reported actor i s u" if "reported actor i s t" "reported actor i t u" for s t u
  proof -
    from that obtain es fs where es: "list_all (violation_event actor i) es" "same_data (s \<lparr> tbl_audit := tbl_audit s @ es \<rparr>) t"
      and fs: "list_all (violation_event actor i) fs" "same_data (t \<lparr> tbl_audit := tbl_audit t @ fs \<rparr>) u"
      unfolding reported_def by blast
    have "tbl_audit t = tbl_audit s @ es" using same_dataD [OF es(2)] by simp
    with same_data_audit [OF es(2), of "tbl_audit t @ fs"] fs(2)
    have "same_data (s \<lparr> tbl_audit := tbl_audit s @ es @ fs \<rparr>) u" by (auto intro: same.frame_trans)
    with es(1) fs(1) show ?thesis unfolding reported_def by (intro exI [of _ "es @ fs"]) simp
  qed
qed

lemma reports_violation: "state_io_rel (reported actor i) (record_violation env actor i v)"
  unfolding record_violation_def discard_def RecordEvent_def
proof (rule keeps_postI, fold RecordEventWithTx_def, intro post_bindI post_RecordEventWithTx post_returnI, goal_cases)
  case (1 w e w')
  then show ?case by (rule reported_same)
next
  case (2 w ev w1)
  have "tbl_audit_update (\<lambda>l. l @ [ev]) w1 = w1 \<lparr> tbl_audit := tbl_audit w @ [ev] \<rparr>"
    using same_dataD [OF 2(1)] by (cases w1) simp
  then have "same_data (w \<lparr> tbl_audit := tbl_audit w @ [ev] \<rparr>) (tbl_audit_update (\<lambda>l. l @ [ev]) w1)"
    using same_data_audit [OF 2(1)] by simp
  moreover have "violation_event actor i ev" using 2 by (simp add: violation_event_def)
  ultimately show ?case unfolding reported_def by (intro exI [of _ "[ev]"]) simp
qed

lemma keeps_validate_rules: "state_io_rel same_data (validate_rules env s cert rules)"
  by (induction rules) (auto intro!: same.keeps_bind same.keeps_return keeps_evaluateRule)

lemma keeps_ValidateCertificate: "state_io_rel same_data (ValidateCertificate env s cert)"
  unfolding ValidateCertificate_def PolicyRepository_ListRules_def by (intro same.keeps_prims keeps_validate_rules)

definition created :: "world \<Rightarrow> world \<Rightarrow> ManagedCertificate \<Rightarrow> string \<Rightarrow> bool" where
  "created w w' cert actor = (\<not> has_key cert_ID (cert_ID cert) (tbl_certs w) \<and>
     (\<exists>es ev. list_all (violation_event actor (cert_ID cert)) es \<and>
        ae_Actor ev = actor \<and> ae_Action ev = ''certificate_created'' \<and> ae_ResourceID ev = cert_ID cert \<and>
        same_data (w \<lparr> tbl_certs := tbl_certs w @ [cert \<lparr> cert_TargetIDs := [] \<rparr>], tbl_audit := tbl_audit w @ es @ [ev] \<rparr>) w'))"

lemma same_data_rows: "same_data w w' \<Longrightarrow> same_data (w \<lparr> tbl_certs := c, tbl_audit := t \<rparr>) (w' \<lparr> tbl_certs := c, tbl_audit := t \<rparr>)"
  unfolding same_data_def
proof (elim exE)
  fix k m n
  assume "w' = w \<lparr> idCounter := k, metrics := m, steps := n \<rparr>"
  then have "w' \<lparr> tbl_certs := c, tbl_audit := t \<rparr> = w \<lparr> tbl_certs := c, tbl_audit := t, idCounter := k, metrics := m, steps := n \<rparr>"
    by (cases w) simp
  then show "\<exists>k m n. w' \<lparr> tbl_certs := c, tbl_audit := t \<rparr> = w \<lparr> tbl_certs := c, tbl_audit := t, idCounter := k, metrics := m, steps := n \<rparr>"
    by blast
qed

lemma post_CertCreate [vcg]:
  assumes "cert_ID cert \<noteq> ''''" "\<And>e w'. same_data w w' \<Longrightarrow> Q (Inl e) w'"
    and "\<And>w1. same_data w w1 \<Longrightarrow> \<not> has_key cert_ID (cert_ID cert) (tbl_certs w) \<Longrightarrow>
      Q (Inr (cert_ID cert)) (tbl_certs_update (\<lambda>t. t @ [cert \<lparr> cert_TargetIDs := [] \<rparr>]) w1)"
  shows "post (CertificateRepository_CreateWithTx env cert) w Q"
  unfolding CertificateRepository_CreateWithTx_def if_not_P [OF assms(1)]
  by (intro post_bindI post_returnI post_let post_insert) (use assms(2,3) in \<open>auto simp: same_dataD\<close>)

lemma post_create_in_tx:
  assumes "cert_ID cert \<noteq> ''''" "\<And>e w'. same_data w w' \<Longrightarrow> Q (Inl e) w'" "\<And>w'. created w w' cert actor \<Longrightarrow> Q (Inr ()) w'"
  shows "post (create_in_tx env cert actor) w Q"
  unfolding create_in_tx_def
proof (rule post_WithinTx, goal_cases)
  case (2 w0)
  show ?case
  proof (intro post_bindI post_CertCreate [OF assms(1)] post_case_sum post_returnI post_RecordEventWithTx,
      simp_all only: sum.case sum.distinct sum.inject simp_thms, intro allI impI, goal_cases)
    case (1 w1 i ev w2 x w3)
    define row where "row = cert \<lparr> cert_TargetIDs := [] \<rparr>"
    let ?rows = "\<lambda>v. v \<lparr> tbl_certs := tbl_certs w @ [row], tbl_audit := tbl_audit w @ [] @ [ev] \<rparr>"
    have w1: "same_data w w1" using 1 2 by (blast intro: same.frame_trans)
    have w2: "same_data (tbl_certs_update (\<lambda>t. t @ [row]) w1) w2" using 1 by (simp add: row_def)
    have t: "tbl_certs w2 = tbl_certs w @ [row]" "tbl_audit w2 = tbl_audit w" using same_dataD [OF w1] same_dataD [OF w2] by simp_all
    have "same_data (?rows w1) (?rows w2)" using same_data_rows [OF w2] by simp
    then have "same_data (?rows w) (?rows w2)" by (rule same.frame_trans [OF same_data_rows [OF w1]])
    moreover have ev: "tbl_audit_update (\<lambda>l. l @ [ev]) w2 = ?rows w2" using t by (cases w2) simp
    have "same_data (tbl_audit_update (\<lambda>l. l @ [ev]) w2) w3" using 1 by blast
    then have "same_data (?rows w2) w3" unfolding ev .
    ultimately have w3: "same_data (?rows w) w3" by (rule same.frame_trans)
    have "\<not> has_key cert_ID (cert_ID cert) (tbl_certs w0)" using 1 by blast
    then have "\<not> has_key cert_ID (cert_ID cert) (tbl_certs w)" using same_dataD [OF 2] by simp
    with w3 have "created w w3 cert actor" unfolding created_def using 1
      by (intro conjI exI [of _ "[]"] exI [of _ ev]) (simp_all add: row_def)
    with assms(3) show ?case by simp
  qed
qed (rule assms(2))

lemma created_reported: "reported actor (cert_ID cert) w v \<Longrightarrow> created v w' cert actor \<Longrightarrow> created w w' cert actor"
proof -
  assume "reported actor (cert_ID cert) w v" "created v w' cert actor"
  then obtain es fs ev where es: "list_all (violation_event actor (cert_ID cert)) es" "same_data (w \<lparr> tbl_audit := tbl_audit w @ es \<rparr>) v"
    and fs: "list_all (violation_event actor (cert_ID cert)) fs" "ae_Actor ev = actor" "ae_Action ev = ''certificate_created''"
      "ae_ResourceID ev = cert_ID cert" "\<not> has_key cert_ID (cert_ID cert) (tbl_certs v)"
      "same_data (v \<lparr> tbl_certs := tbl_certs v @ [cert \<lparr> cert_TargetIDs := [] \<rparr>], tbl_audit := tbl_audit v @ fs @ [ev] \<rparr>) w'"
    unfolding reported_def created_def by blast
  have v: "tbl_audit v = tbl_audit w @ es" "tbl_certs v = tbl_certs w" using same_dataD [OF es(2)] by simp_all
  have "same_data (w \<lparr> tbl_certs := tbl_certs w @ [cert \<lparr> cert_TargetIDs := [] \<rparr>], tbl_audit := tbl_audit w @ (es @ fs) @ [ev] \<rparr>) w'"
    using same_data_rows [OF es(2)] fs(6) unfolding v by (auto intro: same.frame_trans)
  then show "created w w' cert actor" unfolding created_def using es(1) fs(1-5) v(2)
    by (intro conjI exI [of _ "es @ fs"] exI [of _ ev]) simp_all
qed

text \<open>
  C30. A certificate is created together with its audit event or not at all. With the transactor wired,
  a failing \<^verbatim>\<open>Create\<close> leaves every table but the audit log as it was, and the log only grew by
  reports of policy violations of that certificate by the actor. When it succeeds, the identifier is well-formed and was free, the
  table of certificates grew by exactly that certificate, the log by such reports and then, as its last event, the
  \<^verbatim>\<open>certificate_created\<close> of the certificate, and no other table changed.
\<close>

theorem certificate_creation_audited:
  assumes "cs_tx s" "run_state (CertificateService_Create env s cert actor) w = (r, w')"
  shows "case r of Inl e \<Rightarrow> \<exists>es. list_all (violation_event actor (cert_ID cert)) es \<and> same_data (w \<lparr> tbl_audit := tbl_audit w @ es \<rparr>) w'
    | Inr _ \<Rightarrow> ValidateCertificateID (cert_ID cert) = Inr () \<and> created w w' cert actor"
proof -
  note logs = post_keeps [OF reports.keeps_for_each [OF reports_violation]]
  have "post (CertificateService_Create env s cert actor) w (\<lambda>r w'. case r of Inl e \<Rightarrow> reported actor (cert_ID cert) w w'
    | Inr _ \<Rightarrow> ValidateCertificateID (cert_ID cert) = Inr () \<and> created w w' cert actor)"
    unfolding CertificateService_Create_def if_P [OF assms(1)]
  proof (intro post_if post_case_sum post_bindI post_returnI post_keeps [OF keeps_ValidateCertificate] logs post_create_in_tx,
      simp_all add: reports.frame_refl reported_same, goal_cases)
    case 1
    then show ?case by (meson reported_same reports.frame_trans)
  next
    case 2
    then show ?case by (meson reported_same reports.frame_trans created_reported)
  qed
  from post_run [OF this assms(2)] show ?thesis unfolding reported_def .
qed

definition server_certificates :: "env \<Rightarrow> string \<Rightarrow> RevocationSvc \<Rightarrow> CAOperationsSvc \<Rightarrow> CertificateService" where
  "server_certificates env mode rs ca = \<lparr> cs_jobRepo = True, cs_targetRepo = True, cs_policyService = \<lparr> ps_certRepo = True \<rparr>,
     cs_revSvc = Some rs, cs_caSvc = Some ca, cs_tx = True, cs_keygenMode = mode,
     cs_approvalSvc = Some (server_approvals env False), cs_profileRepo = True \<rparr>"

definition sample_policy :: "string \<Rightarrow> RenewalPolicy" where
  "sample_policy i = \<lparr> rp_ID = i, rp_Name = i, rp_RenewalWindowDays = 30, rp_AutoRenew = True, rp_MaxRetries = 3, rp_RetryInterval = 60,
     rp_AlertThresholdsDays = [], rp_CertificateProfileID = '''', rp_CreatedAt = 0, rp_UpdatedAt = 0, rp_AlertChannels = [], rp_AlertSeverityMap = [] \<rparr>"

section \<open>Renewal\<close>

lemma post_needs_approval: "(\<And>w'. same_data w w' \<Longrightarrow> Q (False, '''') w') \<Longrightarrow> post (needs_approval env s cert) w Q"
  unfolding needs_approval_def
  by (intro post_if post_bindI post_ProfileGet post_returnI) (auto simp: scanProfile_ungated same.frame_refl)

definition renewal_job :: "CertificateService \<Rightarrow> ManagedCertificate \<Rightarrow> Job \<Rightarrow> bool" where
  "renewal_job s cert job = (job_CertificateID job = cert_ID cert \<and>
     job_Type job = (if cert_ExpiresAt cert = zero_time \<or> cert_ExpiresAt cert < year_2000 then JobTypeIssuance else JobTypeRenewal) \<and>
     job_Status job = (if cs_keygenMode s = ''agent'' then JobStatusAwaitingCSR else JobStatusPending))"

lemma renewal_job_scan [simp]: "renewal_job s (c \<lparr> cert_Status := st \<rparr>) = renewal_job s c" "renewal_job s (scan_cert w c) = renewal_job s c"
  by (simp_all add: renewal_job_def scan_cert_def fun_eq_iff)

lemma scan_cert_status [simp]: "cert_Status (scan_cert w c) = cert_Status c"
  by (simp add: scan_cert_def)

lemma post_new_renewal_job:
  "(\<And>job w'. same_data w w' \<Longrightarrow> renewal_job s cert job \<Longrightarrow> Q job w') \<Longrightarrow> post (new_renewal_job env s cert False) w Q"
  unfolding new_renewal_job_def
proof (intro post_bindI post_generateID post_now post_returnI, goal_cases)
  case (1 i w1 t w2 u w3)
  then have "same_data w w3" by (blast intro: same.frame_trans)
  with 1(1) show ?case by (simp add: renewal_job_def)
qed

lemma post_JobCreate:
  assumes "\<And>e w'. same_data w w' \<Longrightarrow> Q (Inl e) w'"
    and "\<And>i row w1. same_data w w1 \<Longrightarrow> job_CertificateID row = job_CertificateID job \<Longrightarrow> job_Type row = job_Type job \<Longrightarrow>
      job_Status row = job_Status job \<Longrightarrow> Q (Inr i) (tbl_jobs_update (\<lambda>t. t @ [row]) w1)"
  shows "post (JobRepository_Create env job) w Q"
  unfolding JobRepository_Create_def
proof (intro post_bindI post_keeps [OF logged_id] post_let post_insert post_returnI, goal_cases)
  case (1 i w1 row e w2)
  then have "same_data w w2" by (blast intro: same.frame_trans)
  then show ?case by (simp add: assms(1))
next
  case (2 i w1 row w2)
  then have "same_data w w2" by (blast intro: same.frame_trans)
  with 2 show ?case by (simp add: assms(2) scanJob_def)
qed

definition job_created :: "CertificateService \<Rightarrow> ManagedCertificate \<Rightarrow> world \<Rightarrow> world \<Rightarrow> bool" where
  "job_created s cert w w' = (tbl_approvals w' = tbl_approvals w \<and> (\<exists>job. renewal_job s cert job \<and> tbl_jobs w' = tbl_jobs w @ [job]))"

lemma post_create_renewal_job:
  assumes "\<And>e w'. same_data w w' \<Longrightarrow> Q (Inl e) w'" "\<And>w'. job_created s cert w w' \<Longrightarrow> Q (Inr ()) w'"
  shows "post (create_renewal_job env s cert actor) w Q"
  unfolding create_renewal_job_def
proof (intro post_bindI post_needs_approval, simp only: fst_conv, intro post_bindI post_new_renewal_job post_JobCreate post_case_sum,
    simp_all only: if_False sum.distinct sum.inject, goal_cases)
  case (1 w1 job w2 e w3)
  then have "same_data w w3" by (blast intro: same.frame_trans)
  then show ?case by (simp add: assms(1))
next
  case (2 w1 job w2 i row w3)
  then have w3: "same_data w w3" by (blast intro: same.frame_trans)
  have "job_created s cert w (tbl_jobs_update (\<lambda>t. t @ [row]) w3)"
    unfolding job_created_def using 2 requests_same_data [OF w3] by (auto simp: renewal_job_def)
  then show ?case by (simp add: assms(2))
qed

lemma post_CertUpdate_requests:
  assumes "\<And>r w'. tbl_jobs w' = tbl_jobs w \<Longrightarrow> tbl_approvals w' = tbl_approvals w \<Longrightarrow> Q r w'"
  shows "post (CertificateRepository_UpdateWithTx env c) w Q"
  by (intro post_CertUpdate assms) (auto dest!: requests_same_data)

text \<open>
  C37. What triggering a renewal does, and that it is never gated. With the job repository wired, as the server wires it, a
  successful \<^verbatim>\<open>TriggerRenewal\<close> found the certificate neither archived nor expired, and in renewal only when forced; it
  created exactly one job, an issuance when the time of expiry is the zero time or before the year 2000, which marks a certificate
  that was never issued, and a renewal otherwise, in status \<^verbatim>\<open>AwaitingCSR\<close> when agents generate the keys and
  \<^verbatim>\<open>Pending\<close> otherwise. A failing one created no job. In no case was an approval request created, whatever the stored profile
  and renewal policy say and whether or not approval is wired. The comments of the service say that a profile with
  \<^verbatim>\<open>RequiresApproval\<close> gates the renewal, and \<^verbatim>\<open>docs/getting-started/concepts.md\<close> that a policy with
  \<^verbatim>\<open>auto_renew\<close> off does; the flag of the profile is never loaded and the policy is not read.
\<close>

theorem TriggerRenewal_ungated:
  assumes "cs_jobRepo s" "run_state (TriggerRenewal env s certID actor force) w = (r, w')"
  shows "tbl_approvals w' = tbl_approvals w \<and> (case r of
      Inl e \<Rightarrow> tbl_jobs w' = tbl_jobs w
    | Inr _ \<Rightarrow> \<exists>c job. row_of cert_ID certID (tbl_certs w) = Some c \<and>
        cert_Status c \<notin> {CertificateStatusArchived, CertificateStatusExpired} \<and>
        (cert_Status c = CertificateStatusRenewalInProgress \<longrightarrow> force) \<and>
        renewal_job s c job \<and> tbl_jobs w' = tbl_jobs w @ [job])"
proof -
  have "post (TriggerRenewal env s certID actor force) w (\<lambda>r w'. tbl_approvals w' = tbl_approvals w \<and> (case r of
      Inl e \<Rightarrow> tbl_jobs w' = tbl_jobs w
    | Inr _ \<Rightarrow> \<exists>c job. row_of cert_ID certID (tbl_certs w) = Some c \<and>
        cert_Status c \<notin> {CertificateStatusArchived, CertificateStatusExpired} \<and>
        (cert_Status c = CertificateStatusRenewalInProgress \<longrightarrow> force) \<and>
        renewal_job s c job \<and> tbl_jobs w' = tbl_jobs w @ [job]))"
    unfolding TriggerRenewal_def CertificateRepository_Update_def if_P [OF assms(1)]
  proof (intro post_bindI post_CertGet post_case_sum post_if post_returnI post_CertUpdate_requests post_create_renewal_job post_discard
      post_RecordEvent, simp_all only: sum.case sum.distinct sum.inject simp_thms, goal_cases)
    case (7 c w1 cert r w2 x w3 xa ra w4)
    have "renewal_job s c = renewal_job s cert" "cert_Status c = cert_Status cert" unfolding 7(3) [symmetric] by simp_all
    with 7 requests_same_data [OF 7(1)] requests_same_but_audit show ?case by (auto simp: job_created_def)
  qed (auto dest!: requests_same_data)
  from post_run [OF this assms(2)] show ?thesis .
qed

definition gated_world :: world where
  "gated_world = issuing_world \<lparr> tbl_profiles := [sample_profile ''p1'' True], tbl_policies := [sample_policy ''rp''] \<rparr>"

definition sample_service :: CertificateService where
  "sample_service = server_certificates (calm 9) ''server'' (server_revocation sample_registry (NewNotificationService [''Webhook'']))
     (server_ca sample_registry)"

lemmas renewal_run_defs = revocation_run_defs TriggerRenewal_def CertificateRepository_Update_def create_renewal_job_def needs_approval_def
  new_renewal_job_def ProfileRepository_Get_def scanProfile_def JobRepository_Create_def job_fks_def scanJob_def RecordEvent_def
  year_2000_def zero_time_def

lemmas renewal_samples = revocation_samples gated_world_def sample_service_def server_certificates_def sample_policy_def

theorem TriggerRenewal_ungated_witness:
  "let (r, w') = run_state (TriggerRenewal (calm 9) sample_service ''c1'' ''alice'' False) gated_world
   in r = Inr () \<and> map prof_RequiresApproval (tbl_profiles w') = [True] \<and> tbl_approvals w' = [] \<and>
      map job_Status (tbl_jobs w') = [JobStatusPending]"
proof -
  let ?run = "run_state (TriggerRenewal (calm 9) sample_service ''c1'' ''alice'' False) gated_world"
  obtain r w' where run: "?run = (r, w')" by (metis surj_pair)
  have "fst ?run = Inr ()" "map prof_RequiresApproval (tbl_profiles (snd ?run)) = [True]"
    by (simp_all add: renewal_run_defs renewal_samples Let_def)
  note ev = this [unfolded run fst_conv snd_conv]
  have "cs_jobRepo sample_service" "cs_keygenMode sample_service = ''server''" by (simp_all add: sample_service_def server_certificates_def)
  with TriggerRenewal_ungated [OF _ run] ev show ?thesis unfolding Let_def run
    by (auto simp: renewal_job_def gated_world_def issuing_world_def empty_world_def)
qed

theorem certificate_creation_audited_witness:
  "let (r, w') = run_state (CertificateService_Create (calm 9) sample_service (sample_cert ''c2'') ''alice'') gated_world
   in r = Inr () \<and> created gated_world w' (sample_cert ''c2'') ''alice''"
proof -
  let ?run = "run_state (CertificateService_Create (calm 9) sample_service (sample_cert ''c2'') ''alice'') gated_world"
  obtain r w' where run: "?run = (r, w')" by (metis surj_pair)
  have "ValidateCertificateID ''c2'' = Inr ()" by code_simp
  then have "fst ?run = Inr ()"
    by (simp add: CertificateService_Create_def create_in_tx_def ValidateCertificate_def PolicyRepository_ListRules_def
      CertificateRepository_CreateWithTx_def renewal_run_defs renewal_samples Let_def)
  note ev = this [unfolded run fst_conv]
  have "cs_tx sample_service" by (simp add: sample_service_def server_certificates_def)
  from certificate_creation_audited [OF this run] ev show ?thesis unfolding Let_def run by simp
qed

text \<open>
  A renewal whose job could not be stored is stuck. The status is set before the job is created and
  the two are not one transaction: when the insert of the job fails, the request fails, the certificate
  stays in renewal with no job, and the next request is refused because a renewal is in progress.
\<close>

theorem renewal_stuck_without_job:
  "let flaky = (calm 9) \<lparr> fault := (\<lambda>n. n = 8) \<rparr>;
       (r, w1) = run_state (TriggerRenewal flaky sample_service ''c1'' ''alice'' False) gated_world;
       (r2, w2) = run_state (TriggerRenewal (calm 9) sample_service ''c1'' ''alice'' False) w1
   in isl r \<and> tbl_jobs w2 = [] \<and> map cert_Status (tbl_certs w2) = [CertificateStatusRenewalInProgress] \<and>
      r2 = Inl (Errorf ''certificate renewal already in progress'')"
  by (simp add: renewal_run_defs renewal_samples Let_def)

text \<open>
  The patch of the REST interface may set any status: it takes a revoked certificate back to active. The
  revocation stays in its table, and OCSP answers revoked for the certificate the inventory calls active.
\<close>

theorem patch_reactivates_revoked:
  "let w0 = gated_world \<lparr> tbl_revocations := [sample_revocation ''0b''],
         tbl_certs := [(sample_cert ''c1'') \<lparr> cert_Status := CertificateStatusRevoked, cert_RevokedAt := Some 7 \<rparr>] \<rparr>;
       patch = (sample_cert '''') \<lparr> cert_CommonName := '''' \<rparr>;
       (r, w') = run_state (UpdateCertificate (calm 9) ''c1'' patch None) w0
   in \<not> isl r \<and> map cert_Status (tbl_certs w') = [CertificateStatusActive] \<and> tbl_audit w' = [] \<and>
      os_CertStatus (ocsp_answer w' 9 ''iss'' ''0b'' None) = 1"
  by (simp add: UpdateCertificate_def apply_patch_def patched_def ocsp_answer_def short_lived_in_def IsShortLived_def ocsp_request_def
    renewal_run_defs renewal_samples Let_def)

end
