(* ===== verification/Csr_Validation.thy ===== *)
theory Csr_Validation
  imports Key_Paths
begin

text \<open>
  \<^verbatim>\<open>internal/service/crypto_validation.go\<close>: the check of a certificate signing request against the key
  rules of a profile, and the fingerprint of an issued certificate (\<^verbatim>\<open>renewal.go\<close>). Key generation,
  the X.509 encoding, signatures and hashing are parameters: the record \<open>crypto_lib\<close> has one field for
  each function of the cryptography packages the code calls.
\<close>

section \<open>The cryptography packages\<close>

text \<open>
  The dynamic type of a public key with the size that is read from it: the bit length of an RSA
  modulus, the bit size of an elliptic curve; or the name of another type.
\<close>

datatype public_key = RSAPublicKey int | ECDSAPublicKey int | Ed25519PublicKey | OtherPublicKey string

record certificate_request =
  csr_Raw :: string
  csr_PublicKey :: public_key

text \<open>\<open>cl_Read\<close> gives the bytes \<^verbatim>\<open>rand.Read\<close> fills a buffer with, by index.\<close>

record crypto_lib =
  cl_Read :: "nat \<Rightarrow> (nat \<Rightarrow> char) result"
  cl_GenerateKey :: "nat \<Rightarrow> string result"
  cl_CreateCertificateRequest :: "nat \<Rightarrow> string \<Rightarrow> string list \<Rightarrow> string list \<Rightarrow> string \<Rightarrow> string result"
  cl_EncodePEM :: "string \<Rightarrow> string \<Rightarrow> string"
  cl_DecodePEM :: "string \<Rightarrow> string option"
  cl_ParseCertificateRequest :: "string \<Rightarrow> certificate_request result"
  cl_CheckSignature :: "certificate_request \<Rightarrow> error option"
  cl_Sum256 :: "string \<Rightarrow> string"

section \<open>Requests against a profile\<close>

abbreviation KeyAlgorithmRSA :: string where "KeyAlgorithmRSA \<equiv> ''RSA''"
abbreviation KeyAlgorithmECDSA :: string where "KeyAlgorithmECDSA \<equiv> ''ECDSA''"
abbreviation KeyAlgorithmEd25519 :: string where "KeyAlgorithmEd25519 \<equiv> ''Ed25519''"

record CSRValidationResult =
  cvr_KeyAlgorithm :: string
  cvr_KeySize :: int

definition extractCSRKeyInfo :: "crypto_lib \<Rightarrow> string \<Rightarrow> CSRValidationResult result" where
  "extractCSRKeyInfo cl csrPEM = (case cl_DecodePEM cl csrPEM of
     None \<Rightarrow> Inl (Errorf ''failed to decode CSR PEM'')
   | Some bytes \<Rightarrow> (case cl_ParseCertificateRequest cl bytes of
       Inl err \<Rightarrow> Inl (Wrap ''failed to parse CSR'' err)
     | Inr csr \<Rightarrow> (case cl_CheckSignature cl csr of
         Some err \<Rightarrow> Inl (Wrap ''CSR signature verification failed'' err)
       | None \<Rightarrow> (case csr_PublicKey csr of
           RSAPublicKey n \<Rightarrow> Inr \<lparr> cvr_KeyAlgorithm = KeyAlgorithmRSA, cvr_KeySize = n \<rparr>
         | ECDSAPublicKey n \<Rightarrow> Inr \<lparr> cvr_KeyAlgorithm = KeyAlgorithmECDSA, cvr_KeySize = n \<rparr>
         | Ed25519PublicKey \<Rightarrow> Inr \<lparr> cvr_KeyAlgorithm = KeyAlgorithmEd25519, cvr_KeySize = 256 \<rparr>
         | OtherPublicKey t \<Rightarrow> Inl (Errorf (''unsupported key type in CSR: '' @ t))))))"

definition show_rule :: "KeyAlgorithmRule \<Rightarrow> string" where
  "show_rule r = ''{'' @ kar_Algorithm r @ '' '' @ show_int (kar_MinSize r) @ ''}''"

fun show_rules :: "KeyAlgorithmRule list \<Rightarrow> string" where
  "show_rules [] = ''''"
| "show_rules [r] = show_rule r"
| "show_rules (r # rs) = show_rule r @ '' '' @ show_rules rs"

fun any_rule :: "CSRValidationResult \<Rightarrow> KeyAlgorithmRule list \<Rightarrow> bool" where
  "any_rule result [] = False"
| "any_rule result (rule # rules) =
     (if kar_Algorithm rule = cvr_KeyAlgorithm result \<and> cvr_KeySize result \<ge> kar_MinSize rule then True
      else any_rule result rules)"

definition ValidateCSRAgainstProfile :: "crypto_lib \<Rightarrow> string \<Rightarrow> CertificateProfile option \<Rightarrow> CSRValidationResult result" where
  "ValidateCSRAgainstProfile cl csrPEM profile = (case profile of
     None \<Rightarrow> extractCSRKeyInfo cl csrPEM
   | Some p \<Rightarrow> (case extractCSRKeyInfo cl csrPEM of
       Inl err \<Rightarrow> Inl err
     | Inr result \<Rightarrow>
         if prof_AllowedKeyAlgorithms p = [] then Inr result
         else if any_rule result (prof_AllowedKeyAlgorithms p) then Inr result
         else Inl (Errorf (''CSR key ('' @ cvr_KeyAlgorithm result @ '' '' @ show_int (cvr_KeySize result) @
           ''-bit) does not match any allowed algorithm in profile '' @ go_quote (prof_Name p) @ '': ['' @
           show_rules (prof_AllowedKeyAlgorithms p) @ '']''))))"

section \<open>Fingerprints\<close>

definition hex_char :: "nat \<Rightarrow> char" where
  "hex_char d = (if d < 10 then char_of (48 + d) else char_of (87 + d))"

definition hex_EncodeToString :: "string \<Rightarrow> string" where
  "hex_EncodeToString bytes = concat (map (\<lambda>c. [hex_char (of_char c div 16), hex_char (of_char c mod 16)]) bytes)"

definition computeCertFingerprint :: "crypto_lib \<Rightarrow> string \<Rightarrow> string" where
  "computeCertFingerprint cl certPEM = (case cl_DecodePEM cl certPEM of
     None \<Rightarrow> '''' | Some bytes \<Rightarrow> hex_EncodeToString (cl_Sum256 cl bytes))"

section \<open>What the check accepts\<close>

lemma any_rule_iff: "any_rule result rules \<longleftrightarrow>
   (\<exists>rule \<in> set rules. kar_Algorithm rule = cvr_KeyAlgorithm result \<and> kar_MinSize rule \<le> cvr_KeySize result)"
  by (induction rules) auto

text \<open>The algorithm and the size of a key, for the three types the service supports.\<close>

definition key_info :: "public_key \<Rightarrow> (string \<times> int) option" where
  "key_info k = (case k of RSAPublicKey n \<Rightarrow> Some (KeyAlgorithmRSA, n) | ECDSAPublicKey n \<Rightarrow> Some (KeyAlgorithmECDSA, n)
     | Ed25519PublicKey \<Rightarrow> Some (KeyAlgorithmEd25519, 256) | OtherPublicKey t \<Rightarrow> None)"

definition rule_allows :: "CertificateProfile \<Rightarrow> string \<times> int \<Rightarrow> bool" where
  "rule_allows p i = (prof_AllowedKeyAlgorithms p = [] \<or>
     (\<exists>rule \<in> set (prof_AllowedKeyAlgorithms p). kar_Algorithm rule = fst i \<and> kar_MinSize rule \<le> snd i))"

text \<open>
  C27. The check of a signing request is exact: it accepts precisely the requests that decode, parse, carry
  a valid signature over a supported key, and whose key, when a profile is given and has rules, is of the
  algorithm of one of them and at least of its size. The result names the key's own algorithm and size.
\<close>

theorem ValidateCSRAgainstProfile_exact:
  "ValidateCSRAgainstProfile cl csrPEM profile = Inr result \<longleftrightarrow>
     (\<exists>bytes csr. cl_DecodePEM cl csrPEM = Some bytes \<and> cl_ParseCertificateRequest cl bytes = Inr csr \<and>
        cl_CheckSignature cl csr = None \<and> key_info (csr_PublicKey csr) = Some (cvr_KeyAlgorithm result, cvr_KeySize result) \<and>
        (case profile of None \<Rightarrow> True | Some p \<Rightarrow> rule_allows p (cvr_KeyAlgorithm result, cvr_KeySize result)))"
proof -
  have "extractCSRKeyInfo cl csrPEM = Inr result \<longleftrightarrow>
     (\<exists>bytes csr. cl_DecodePEM cl csrPEM = Some bytes \<and> cl_ParseCertificateRequest cl bytes = Inr csr \<and>
        cl_CheckSignature cl csr = None \<and> key_info (csr_PublicKey csr) = Some (cvr_KeyAlgorithm result, cvr_KeySize result))"
    by (cases result) (auto simp: extractCSRKeyInfo_def key_info_def split: option.splits sum.splits public_key.splits)
  moreover have "ValidateCSRAgainstProfile cl csrPEM profile = Inr result \<longleftrightarrow> extractCSRKeyInfo cl csrPEM = Inr result \<and>
      (case profile of None \<Rightarrow> True | Some p \<Rightarrow> rule_allows p (cvr_KeyAlgorithm result, cvr_KeySize result))"
    by (cases profile) (auto simp: ValidateCSRAgainstProfile_def rule_allows_def any_rule_iff split: sum.splits if_splits)
  ultimately show ?thesis by auto
qed

end
