(* ===== verification/Renewals.thy ===== *)
theory Renewals
  imports Certificates Csr_Validation
begin

text \<open>
  The renewal service, \<^verbatim>\<open>internal/service/renewal.go\<close>: the scan for expiring certificates with its
  threshold alerts, the processing of a renewal job with keys generated by the server or by an
  agent, the deployment jobs that follow, the retry of failed renewals and the expiry of short-lived
  certificates.
\<close>

section \<open>The service\<close>

text \<open>
  The repositories for certificates, jobs and policies, the audit service and the notification service
  are always wired; the profile and target repositories and the transactor may be absent.
\<close>

record RenewalService =
  rn_profileRepo :: bool
  rn_targetRepo :: bool
  rn_notificationSvc :: NotificationService
  rn_issuerRegistry :: "string \<Rightarrow> IssuerConnector option"
  rn_keygenMode :: string
  rn_tx :: bool

definition SetTargetRepo :: "bool \<Rightarrow> RenewalService \<Rightarrow> RenewalService" where
  "SetTargetRepo b s = s \<lparr> rn_targetRepo := b \<rparr>"

definition RenewalService_SetTransactor :: "bool \<Rightarrow> RenewalService \<Rightarrow> RenewalService" where
  "RenewalService_SetTransactor b s = s \<lparr> rn_tx := b \<rparr>"

definition NewRenewalService ::
  "bool \<Rightarrow> NotificationService \<Rightarrow> (string \<Rightarrow> IssuerConnector option) \<Rightarrow> string \<Rightarrow> RenewalService" where
  "NewRenewalService profileRepo notificationSvc issuerRegistry keygenMode =
     \<lparr> rn_profileRepo = profileRepo, rn_targetRepo = False, rn_notificationSvc = notificationSvc,
       rn_issuerRegistry = issuerRegistry,
       rn_keygenMode = (if keygenMode = '''' then ''agent'' else keygenMode), rn_tx = False \<rparr>"

section \<open>Expiry\<close>

text \<open>
  The number of days until the expiry is a \<^verbatim>\<open>float64\<close>; the thresholds are compared with its integer part, rounded
  towards zero.
\<close>

definition whole_days :: "rat \<Rightarrow> int" where
  "whole_days x = (if x < 0 then - \<lfloor>- x\<rfloor> else \<lfloor>x\<rfloor>)"

definition skipped_status :: "CertificateStatus \<Rightarrow> bool" where
  "skipped_status st = (st = CertificateStatusRenewalInProgress \<or> st = CertificateStatusArchived \<or>
     st = CertificateStatusRevoked \<or> st = CertificateStatusFailed \<or> st = CertificateStatusExpired)"

definition expiry_status :: "rat \<Rightarrow> CertificateStatus" where
  "expiry_status daysUntil = (if daysUntil \<le> 0 then CertificateStatusExpired else CertificateStatusExpiring)"

text \<open>The certificate is updated in memory even when the database refuses; it is returned.\<close>

definition updateCertExpiryStatus :: "env \<Rightarrow> ManagedCertificate \<Rightarrow> rat \<Rightarrow> ManagedCertificate op" where
  "updateCertExpiryStatus env cert daysUntil =
     (let newStatus = expiry_status daysUntil in
      if cert_Status cert = newStatus then State_Monad.return cert
      else if cert_Status cert = CertificateStatusRenewalInProgress \<or> cert_Status cert = CertificateStatusArchived \<or>
        cert_Status cert = CertificateStatusRevoked then State_Monad.return cert
      else do {
        t \<leftarrow> now env;
        let cert' = cert \<lparr> cert_Status := newStatus, cert_UpdatedAt := t \<rparr> in do {
        _ \<leftarrow> CertificateRepository_Update env cert';
        State_Monad.return cert' } })"

definition alert_tier :: "RenewalPolicy option \<Rightarrow> int \<Rightarrow> string" where
  "alert_tier policy threshold =
     (let tier = (case policy of
          Some p \<Rightarrow> EffectiveAlertSeverity (Some p) threshold
        | None \<Rightarrow> (case map_of DefaultAlertSeverityMap threshold of Some t \<Rightarrow> t | None \<Rightarrow> AlertSeverityInformational)) in
      if \<not> IsValidAlertSeverityTier tier then AlertSeverityInformational else tier)"

definition alert_details :: "int \<Rightarrow> int \<Rightarrow> string \<Rightarrow> (string \<times> jval) list" where
  "alert_details threshold daysUntil tier = [(''threshold_days'', JInt threshold), (''days_until_expiry'', JInt daysUntil),
     (''severity_tier'', JStr tier)]"

definition alert_on_channel ::
  "env \<Rightarrow> RenewalService \<Rightarrow> ManagedCertificate \<Rightarrow> int \<Rightarrow> int \<Rightarrow> string \<Rightarrow> string \<Rightarrow> unit op" where
  "alert_on_channel env s cert daysUntil threshold tier ch =
     (if \<not> IsValidNotificationChannel ch
      then discard (RecordEvent env ''system'' ActorTypeSystem ''expiration_alert_skipped_invalid_channel'' ''certificate''
        (cert_ID cert) (alert_details threshold daysUntil tier @ [(''invalid_channel'', JStr ch)]))
      else do {
        h \<leftarrow> HasThresholdNotificationOnChannel env (cert_ID cert) threshold ch;
        (case h of
           Inl e \<Rightarrow> State_Monad.return ()
         | Inr alreadySent \<Rightarrow>
             if alreadySent then RecordExpiryAlertDeduped (rn_notificationSvc s) ch threshold
             else do {
               _ \<leftarrow> SendThresholdAlertOnChannel env (rn_notificationSvc s) cert daysUntil threshold ch;
               discard (RecordEvent env ''system'' ActorTypeSystem ''expiration_alert_sent'' ''certificate'' (cert_ID cert)
                 (alert_details threshold daysUntil tier @ [(''channel'', JStr ch)])) }) })"

definition alert_threshold ::
  "env \<Rightarrow> RenewalService \<Rightarrow> ManagedCertificate \<Rightarrow> int \<Rightarrow> RenewalPolicy option \<Rightarrow> int \<Rightarrow> unit op" where
  "alert_threshold env s cert daysUntil policy threshold =
     (if daysUntil > threshold then State_Monad.return ()
      else let tier = alert_tier policy threshold;
          channels = (case map_of (EffectiveAlertChannels policy) tier of Some cs \<Rightarrow> cs | None \<Rightarrow> []) in
        if channels = []
        then discard (RecordEvent env ''system'' ActorTypeSystem ''expiration_alert_skipped_no_channels'' ''certificate''
          (cert_ID cert) (alert_details threshold daysUntil tier))
        else for_each (alert_on_channel env s cert daysUntil threshold tier) channels)"

definition sendThresholdAlerts ::
  "env \<Rightarrow> RenewalService \<Rightarrow> ManagedCertificate \<Rightarrow> int \<Rightarrow> int list \<Rightarrow> RenewalPolicy option \<Rightarrow> unit op" where
  "sendThresholdAlerts env s cert daysUntil thresholds policy =
     for_each (alert_threshold env s cert daysUntil policy) thresholds"

section \<open>The scan\<close>

text \<open>
  The policies read so far are kept for the rest of the scan. A policy that cannot be read leaves
  the default thresholds and channels.
\<close>

definition cached_policy ::
  "env \<Rightarrow> (string \<times> RenewalPolicy) list \<Rightarrow> string \<Rightarrow> ((string \<times> RenewalPolicy) list \<times> RenewalPolicy option) op" where
  "cached_policy env cache policyID =
     (if policyID = '''' then State_Monad.return (cache, None)
      else (case map_of cache policyID of
        Some p \<Rightarrow> State_Monad.return (cache, Some p)
      | None \<Rightarrow> do {
          r \<leftarrow> RenewalPolicyRepository_Get env policyID;
          State_Monad.return (case r of Inl e \<Rightarrow> (cache, None) | Inr p \<Rightarrow> ((policyID, p) # cache, Some p)) }))"

datatype ari_answer = ARIUnavailable | ARIRenewNow | ARITooEarly

definition ari_check :: "env \<Rightarrow> IssuerConnector \<Rightarrow> string \<Rightarrow> ari_answer op" where
  "ari_check env connector certID = do {
     v \<leftarrow> CertificateRepository_GetLatestVersion env certID;
     (case v of
        Inl e \<Rightarrow> State_Monad.return ARIUnavailable
      | Inr version \<Rightarrow>
          if cv_PEMChain version = '''' then State_Monad.return ARIUnavailable
          else do {
            n \<leftarrow> tick;
            (case ic_GetRenewalInfo connector n (cv_PEMChain version) of
               Inl e \<Rightarrow> State_Monad.return ARIUnavailable
             | Inr None \<Rightarrow> State_Monad.return ARIUnavailable
             | Inr (Some window) \<Rightarrow> do {
                 t \<leftarrow> now env;
                 State_Monad.return (if t < fst window then ARITooEarly else ARIRenewNow) }) }) }"

definition active_renewal :: "Job \<Rightarrow> bool" where
  "active_renewal j = (job_Type j = JobTypeRenewal \<and> (job_Status j = JobStatusPending \<or> job_Status j = JobStatusRunning))"

definition has_active_renewal :: "env \<Rightarrow> string \<Rightarrow> bool op" where
  "has_active_renewal env certID = do {
     q \<leftarrow> JobRepository_ListByCertificate env certID;
     State_Monad.return (case q of Inl e \<Rightarrow> False | Inr existingJobs \<Rightarrow> list_ex active_renewal existingJobs) }"

definition new_pending_job :: "env \<Rightarrow> string \<Rightarrow> JobType \<Rightarrow> string option \<Rightarrow> string option \<Rightarrow> Job op" where
  "new_pending_job env certID ty target agent = do {
     i \<leftarrow> generateID env ''job'';
     scheduled \<leftarrow> now env;
     created \<leftarrow> now env;
     State_Monad.return \<lparr> job_ID = i, job_Type = ty, job_CertificateID = certID, job_TargetID = target, job_AgentID = agent,
       job_Status = JobStatusPending, job_Attempts = 0, job_MaxAttempts = 3, job_LastError = None, job_ScheduledAt = scheduled,
       job_StartedAt = None, job_CompletedAt = None, job_CreatedAt = created, job_VerificationStatus = VerificationNone,
       job_VerifiedAt = None, job_VerificationError = None, job_VerificationFp = None \<rparr> }"

definition create_scan_job :: "env \<Rightarrow> ManagedCertificate \<Rightarrow> rat \<Rightarrow> bool \<Rightarrow> unit op" where
  "create_scan_job env cert daysUntil ariChecked = do {
     job \<leftarrow> new_pending_job env (cert_ID cert) JobTypeRenewal None None;
     c \<leftarrow> JobRepository_Create env job;
     (case c of
        Inl e \<Rightarrow> State_Monad.return ()
      | Inr jobID \<Rightarrow> do {
          _ \<leftarrow> CertificateRepository_Update env (cert \<lparr> cert_Status := CertificateStatusRenewalInProgress \<rparr>);
          discard (RecordEvent env ''system'' ActorTypeSystem ''renewal_job_created'' ''certificate'' (cert_ID cert)
            ([(''days_until_expiry'', JFloat daysUntil), (''job_id'', JStr jobID)] @
             (if ariChecked then [(''renewal_trigger'', JStr ''ari'')] else []))) }) }"

definition renew_if_due :: "env \<Rightarrow> RenewalService \<Rightarrow> ManagedCertificate \<Rightarrow> rat \<Rightarrow> unit op" where
  "renew_if_due env s cert daysUntil = (case rn_issuerRegistry s (cert_IssuerID cert) of
     None \<Rightarrow> State_Monad.return ()
   | Some connector \<Rightarrow> do {
       ari \<leftarrow> ari_check env connector (cert_ID cert);
       if ari = ARITooEarly then State_Monad.return ()
       else do {
         active \<leftarrow> has_active_renewal env (cert_ID cert);
         if active then State_Monad.return ()
         else create_scan_job env cert daysUntil (ari = ARIRenewNow) } })"

definition check_certificate ::
  "env \<Rightarrow> RenewalService \<Rightarrow> (string \<times> RenewalPolicy) list \<Rightarrow> ManagedCertificate \<Rightarrow> (string \<times> RenewalPolicy) list op" where
  "check_certificate env s cache cert =
     (if skipped_status (cert_Status cert) then State_Monad.return cache
      else do {
        t \<leftarrow> now env;
        let daysUntil = days_of (until (cert_ExpiresAt cert) t) in do {
        cp \<leftarrow> cached_policy env cache (cert_RenewalPolicyID cert);
        let thresholds = (case snd cp of None \<Rightarrow> DefaultAlertThresholds | Some p \<Rightarrow> EffectiveAlertThresholds p) in do {
        cert' \<leftarrow> updateCertExpiryStatus env cert daysUntil;
        _ \<leftarrow> sendThresholdAlerts env s cert' (whole_days daysUntil) thresholds (snd cp);
        _ \<leftarrow> renew_if_due env s cert' daysUntil;
        State_Monad.return (fst cp) } } })"

fun check_certificates ::
  "env \<Rightarrow> RenewalService \<Rightarrow> (string \<times> RenewalPolicy) list \<Rightarrow> ManagedCertificate list \<Rightarrow> unit op" where
  "check_certificates env s cache [] = State_Monad.return ()"
| "check_certificates env s cache (cert # certs) = do {
     cache' \<leftarrow> check_certificate env s cache cert;
     check_certificates env s cache' certs }"

definition CheckExpiringCertificates :: "env \<Rightarrow> RenewalService \<Rightarrow> unit result op" where
  "CheckExpiringCertificates env s = do {
     t \<leftarrow> now env;
     q \<leftarrow> CertificateRepository_GetExpiringCertificates env (addDays env t 31);
     (case q of
        Inl e \<Rightarrow> State_Monad.return (Inl (Wrap ''failed to fetch expiring certificates'' e))
      | Inr expiring \<Rightarrow> do {
          _ \<leftarrow> check_certificates env s [] expiring;
          State_Monad.return (Inr ()) }) }"

section \<open>Processing a renewal job\<close>

definition failJob :: "env \<Rightarrow> Job \<Rightarrow> string \<Rightarrow> unit op" where
  "failJob env job errMsg = discard (JobRepository_UpdateStatus env (job_ID job) JobStatusFailed errMsg)"

text \<open>Deployment targets of a certificate with their agents; an empty name stands for no agent.\<close>

definition target_info :: "env \<Rightarrow> RenewalService \<Rightarrow> string \<Rightarrow> (string \<times> string) op" where
  "target_info env s tid =
     (if \<not> rn_targetRepo s then State_Monad.return (tid, '''')
      else do {
        t \<leftarrow> TargetRepository_Get env tid;
        State_Monad.return (tid, case t of Inl e \<Rightarrow> '''' | Inr target \<Rightarrow> target_AgentID target) })"

fun target_infos :: "env \<Rightarrow> RenewalService \<Rightarrow> string list \<Rightarrow> (string \<times> string) list op" where
  "target_infos env s [] = State_Monad.return []"
| "target_infos env s (tid # tids) = do {
     ti \<leftarrow> target_info env s tid;
     rest \<leftarrow> target_infos env s tids;
     State_Monad.return (ti # rest) }"

definition deployment_targets :: "env \<Rightarrow> RenewalService \<Rightarrow> ManagedCertificate \<Rightarrow> (string \<times> string) list op" where
  "deployment_targets env s cert =
     (if cert_TargetIDs cert \<noteq> [] then target_infos env s (cert_TargetIDs cert)
      else if rn_targetRepo s then do {
        q \<leftarrow> TargetRepository_ListByCertificate env (cert_ID cert);
        State_Monad.return (case q of Inl e \<Rightarrow> [] | Inr ts \<Rightarrow> map (\<lambda>t. (target_ID t, target_AgentID t)) ts) }
      else State_Monad.return [])"

definition create_deployment_job :: "env \<Rightarrow> string \<Rightarrow> string \<times> string \<Rightarrow> unit op" where
  "create_deployment_job env certID t = do {
     job \<leftarrow> new_pending_job env certID JobTypeDeployment (Some (fst t)) (null_if_empty (snd t));
     discard (JobRepository_Create env job) }"

definition createDeploymentJobs :: "env \<Rightarrow> RenewalService \<Rightarrow> ManagedCertificate \<Rightarrow> unit op" where
  "createDeploymentJobs env s cert = do {
     targets \<leftarrow> deployment_targets env s cert;
     for_each (create_deployment_job env (cert_ID cert)) targets }"

definition processRenewalAgentKeygen :: "env \<Rightarrow> Job \<Rightarrow> ManagedCertificate \<Rightarrow> unit result op" where
  "processRenewalAgentKeygen env job cert = do {
     u \<leftarrow> JobRepository_UpdateStatus env (job_ID job) JobStatusAwaitingCSR '''';
     (case u of
        Inl e \<Rightarrow> State_Monad.return (Inl (Wrap ''failed to set job to AwaitingCSR'' e))
      | Inr _ \<Rightarrow> do {
          t \<leftarrow> now env;
          _ \<leftarrow> CertificateRepository_Update env (cert \<lparr> cert_Status := CertificateStatusRenewalInProgress, cert_UpdatedAt := t \<rparr>);
          _ \<leftarrow> RecordEvent env ''system'' ActorTypeSystem ''renewal_awaiting_csr'' ''certificate'' (job_CertificateID job)
            [(''job_id'', JStr (job_ID job)), (''keygen_mode'', JStr ''agent'')];
          State_Monad.return (Inr ()) }) }"

text \<open>The key usages, the maximal lifetime and the staple flag the profile asks for.\<close>

definition profile_options :: "CertificateProfile option \<Rightarrow> string list \<times> int \<times> bool" where
  "profile_options p = (case p of None \<Rightarrow> ([], 0, False)
     | Some profile \<Rightarrow> (prof_AllowedEKUs profile, prof_MaxTTLSeconds profile, prof_MustStaple profile))"

definition renewal_profile :: "env \<Rightarrow> RenewalService \<Rightarrow> ManagedCertificate \<Rightarrow> CertificateProfile option op" where
  "renewal_profile env s cert =
     (if cert_CertificateProfileID cert \<noteq> '''' \<and> rn_profileRepo s then do {
        p \<leftarrow> ProfileRepository_Get env (cert_CertificateProfileID cert);
        State_Monad.return (case p of Inl e \<Rightarrow> None | Inr profile \<Rightarrow> Some profile) }
      else State_Monad.return None)"

definition RenewCertificate ::
  "IssuerConnector \<Rightarrow> ManagedCertificate \<Rightarrow> string \<Rightarrow> CertificateProfile option \<Rightarrow> IssuanceResult result op" where
  "RenewCertificate connector cert csrPEM profile = (case profile_options profile of (ekus, maxTTLSeconds, mustStaple) \<Rightarrow> do {
     n \<leftarrow> tick;
     State_Monad.return
       (ic_RenewCertificate connector n (cert_CommonName cert) (cert_SANs cert) csrPEM ekus maxTTLSeconds mustStaple) })"

definition issuer_failed :: "env \<Rightarrow> RenewalService \<Rightarrow> Job \<Rightarrow> ManagedCertificate \<Rightarrow> string \<Rightarrow> error \<Rightarrow> unit result op" where
  "issuer_failed env s job cert msg err = do {
     _ \<leftarrow> failJob env job (msg @ '': '' @ error_text err);
     _ \<leftarrow> SendRenewalNotification env (rn_notificationSvc s) cert False (Some err);
     _ \<leftarrow> RecordEvent env ''system'' ActorTypeSystem ''renewal_job_failed'' ''certificate'' (job_CertificateID job)
       [(''job_id'', JStr (job_ID job)), (''error'', JErr err)];
     State_Monad.return (Inl (Wrap msg err)) }"

definition new_version ::
  "env \<Rightarrow> crypto_lib \<Rightarrow> string \<Rightarrow> IssuanceResult \<Rightarrow> string \<Rightarrow> string \<Rightarrow> int \<Rightarrow> CertificateVersion op" where
  "new_version env cl certID result csrPEM alg bits = do {
     i \<leftarrow> generateID env ''certver'';
     t \<leftarrow> now env;
     State_Monad.return \<lparr> cv_ID = i, cv_CertificateID = certID, cv_SerialNumber = ir_Serial result,
       cv_NotBefore = ir_NotBefore result, cv_NotAfter = ir_NotAfter result,
       cv_FingerprintSHA256 = computeCertFingerprint cl (ir_CertPEM result),
       cv_PEMChain = ir_CertPEM result @ nl @ ir_ChainPEM result, cv_CSRPEM = csrPEM, cv_KeyAlgorithm = alg, cv_KeySize = bits,
       cv_CreatedAt = t \<rparr> }"

definition renewed_cert :: "ManagedCertificate \<Rightarrow> time \<Rightarrow> time \<Rightarrow> ManagedCertificate" where
  "renewed_cert cert notAfter t = cert \<lparr> cert_Status := CertificateStatusActive, cert_ExpiresAt := notAfter,
     cert_LastRenewalAt := Some t, cert_UpdatedAt := t \<rparr>"

definition completed_details :: "Job \<Rightarrow> IssuanceResult \<Rightarrow> string \<Rightarrow> (string \<times> jval) list" where
  "completed_details job result mode = [(''job_id'', JStr (job_ID job)), (''serial'', JStr (ir_Serial result)),
     (''not_after'', JTime (ir_NotAfter result)), (''keygen_mode'', JStr mode)]"

definition record_renewal_tx ::
  "env \<Rightarrow> Job \<Rightarrow> CertificateVersion \<Rightarrow> ManagedCertificate \<Rightarrow> (string \<times> jval) list \<Rightarrow> unit result op" where
  "record_renewal_tx env job version cert auditDetails = WithinTx env (do {
     v \<leftarrow> CertificateRepository_CreateVersionWithTx env version;
     (case v of
        Inl e \<Rightarrow> State_Monad.return (Inl (Wrap ''failed to create certificate version'' e))
      | Inr _ \<Rightarrow> do {
          u \<leftarrow> CertificateRepository_UpdateWithTx env cert;
          (case u of
             Inl e \<Rightarrow> State_Monad.return (Inl (Wrap ''failed to update certificate'' e))
           | Inr _ \<Rightarrow> do {
               a \<leftarrow> RecordEventWithTx env ''system'' ActorTypeSystem ''renewal_job_completed'' ''certificate''
                 (job_CertificateID job) auditDetails;
               State_Monad.return (case a of Inl e \<Rightarrow> Inl (Wrap ''failed to record audit event'' e) | Inr _ \<Rightarrow> Inr ()) }) }) })"

text \<open>Without a transactor the writes are separate; a failure to record the event is ignored.\<close>

definition store_version :: "env \<Rightarrow> Job \<Rightarrow> CertificateVersion \<Rightarrow> unit result op" where
  "store_version env job version = do {
     v \<leftarrow> CertificateRepository_CreateVersion env version;
     (case v of
        Inl e \<Rightarrow> do {
          _ \<leftarrow> failJob env job (''version creation failed: '' @ error_text e);
          State_Monad.return (Inl (Wrap ''failed to create certificate version'' e)) }
      | Inr _ \<Rightarrow> State_Monad.return (Inr ())) }"

definition store_cert :: "env \<Rightarrow> Job \<Rightarrow> ManagedCertificate \<Rightarrow> unit result op" where
  "store_cert env job cert = do {
     u \<leftarrow> CertificateRepository_Update env cert;
     (case u of
        Inl e \<Rightarrow> do {
          _ \<leftarrow> failJob env job (''cert update failed: '' @ error_text e);
          State_Monad.return (Inl (Wrap ''failed to update certificate'' e)) }
      | Inr _ \<Rightarrow> State_Monad.return (Inr ())) }"

definition record_renewal ::
  "env \<Rightarrow> RenewalService \<Rightarrow> Job \<Rightarrow> CertificateVersion \<Rightarrow> ManagedCertificate \<Rightarrow> (string \<times> jval) list \<Rightarrow> unit result op" where
  "record_renewal env s job version cert auditDetails =
     (if rn_tx s then do {
        r \<leftarrow> record_renewal_tx env job version cert auditDetails;
        (case r of
           Inl e \<Rightarrow> do { _ \<leftarrow> failJob env job (error_text e); State_Monad.return (Inl e) }
         | Inr _ \<Rightarrow> State_Monad.return (Inr ())) }
      else do {
        v \<leftarrow> store_version env job version;
        (case v of
           Inl e \<Rightarrow> State_Monad.return (Inl e)
         | Inr _ \<Rightarrow> do {
             u \<leftarrow> store_cert env job cert;
             (case u of
                Inl e \<Rightarrow> State_Monad.return (Inl e)
              | Inr _ \<Rightarrow> do {
                  _ \<leftarrow> RecordEvent env ''system'' ActorTypeSystem ''renewal_job_completed'' ''certificate''
                    (job_CertificateID job) auditDetails;
                  State_Monad.return (Inr ()) }) }) })"

definition complete_renewal :: "env \<Rightarrow> RenewalService \<Rightarrow> Job \<Rightarrow> ManagedCertificate \<Rightarrow> unit result op" where
  "complete_renewal env s job cert = do {
     u \<leftarrow> JobRepository_UpdateStatus env (job_ID job) JobStatusCompleted '''';
     (case u of
        Inl e \<Rightarrow> State_Monad.return (Inl (Wrap ''failed to update job status'' e))
      | Inr _ \<Rightarrow> do {
          _ \<leftarrow> createDeploymentJobs env s cert;
          _ \<leftarrow> SendRenewalNotification env (rn_notificationSvc s) cert True None;
          State_Monad.return (Inr ()) }) }"

text \<open>
  The private key and the request are made by the cryptography packages; a subject alternative name
  with an at sign is an e-mail address, any other a host name.
\<close>

definition server_csr :: "env \<Rightarrow> crypto_lib \<Rightarrow> Job \<Rightarrow> ManagedCertificate \<Rightarrow> (string \<times> string) result op" where
  "server_csr env cl job cert = do {
     n \<leftarrow> tick;
     (case cl_GenerateKey cl n of
        Inl e \<Rightarrow> do {
          _ \<leftarrow> failJob env job (''key generation failed: '' @ error_text e);
          State_Monad.return (Inl (Wrap ''failed to generate private key'' e)) }
      | Inr privKey \<Rightarrow> do {
          m \<leftarrow> tick;
          (case cl_CreateCertificateRequest cl m (cert_CommonName cert)
               (filter (\<lambda>san. \<not> contains san ''@'') (cert_SANs cert)) (filter (\<lambda>san. contains san ''@'') (cert_SANs cert)) privKey of
             Inl e \<Rightarrow> do {
               _ \<leftarrow> failJob env job (''CSR generation failed: '' @ error_text e);
               State_Monad.return (Inl (Wrap ''failed to generate CSR'' e)) }
           | Inr csrDER \<Rightarrow> State_Monad.return (Inr (cl_EncodePEM cl ''CERTIFICATE REQUEST'' csrDER,
               cl_EncodePEM cl ''RSA PRIVATE KEY'' privKey))) }) }"

definition processRenewalServerKeygen ::
  "env \<Rightarrow> crypto_lib \<Rightarrow> RenewalService \<Rightarrow> IssuerConnector \<Rightarrow> Job \<Rightarrow> ManagedCertificate \<Rightarrow> unit result op" where
  "processRenewalServerKeygen env cl s connector job cert = do {
     k \<leftarrow> server_csr env cl job cert;
     (case k of
        Inl e \<Rightarrow> State_Monad.return (Inl e)
      | Inr (csrPEM, privKeyPEM) \<Rightarrow> do {
          profile \<leftarrow> renewal_profile env s cert;
          r \<leftarrow> RenewCertificate connector cert csrPEM profile;
          (case r of
             Inl err \<Rightarrow> issuer_failed env s job cert ''issuer renewal failed'' err
           | Inr result \<Rightarrow> do {
               version \<leftarrow> new_version env cl (job_CertificateID job) result privKeyPEM KeyAlgorithmRSA 2048;
               t \<leftarrow> now env;
               let cert' = renewed_cert cert (ir_NotAfter result) t in do {
               w \<leftarrow> record_renewal env s job version cert' (completed_details job result ''server'');
               (case w of
                  Inl e \<Rightarrow> State_Monad.return (Inl e)
                | Inr _ \<Rightarrow> complete_renewal env s job cert') } }) }) }"

definition ProcessRenewalJob :: "env \<Rightarrow> crypto_lib \<Rightarrow> RenewalService \<Rightarrow> Job \<Rightarrow> unit result op" where
  "ProcessRenewalJob env cl s job = do {
     u \<leftarrow> JobRepository_UpdateStatus env (job_ID job) JobStatusRunning '''';
     (case u of
        Inl e \<Rightarrow> State_Monad.return (Inl (Wrap ''failed to update job status'' e))
      | Inr _ \<Rightarrow> do {
          c \<leftarrow> CertificateRepository_Get env (job_CertificateID job);
          (case c of
             Inl e \<Rightarrow> do {
               _ \<leftarrow> failJob env job (''certificate fetch failed: '' @ error_text e);
               State_Monad.return (Inl (Wrap ''failed to fetch certificate'' e)) }
           | Inr cert \<Rightarrow>
               if cert_IssuerID cert = '''' then do {
                 _ \<leftarrow> failJob env job ''certificate has no issuer assigned'';
                 State_Monad.return (Inl (Errorf ''certificate has no issuer assigned'')) }
               else (case rn_issuerRegistry s (cert_IssuerID cert) of
                 None \<Rightarrow> do {
                   _ \<leftarrow> failJob env job (''issuer connector not found for '' @ cert_IssuerID cert);
                   State_Monad.return (Inl (Errorf (''issuer connector not found for '' @ cert_IssuerID cert))) }
               | Some connector \<Rightarrow>
                   if rn_keygenMode s = ''agent'' then processRenewalAgentKeygen env job cert
                   else processRenewalServerKeygen env cl s connector job cert)) }) }"

text \<open>An agent's request is signed, the version stored with it, the certificate activated and the job completed.\<close>

definition sign_agent_csr ::
  "env \<Rightarrow> crypto_lib \<Rightarrow> RenewalService \<Rightarrow> IssuerConnector \<Rightarrow> Job \<Rightarrow> ManagedCertificate \<Rightarrow> string \<Rightarrow>
   CertificateProfile option \<Rightarrow> CSRValidationResult \<Rightarrow> unit result op" where
  "sign_agent_csr env cl s connector job cert csrPEM profile csrInfo = do {
     r \<leftarrow> RenewCertificate connector cert csrPEM profile;
     (case r of
        Inl err \<Rightarrow> issuer_failed env s job cert ''issuer signing failed'' err
      | Inr result \<Rightarrow> do {
          version \<leftarrow> new_version env cl (cert_ID cert) result csrPEM (cvr_KeyAlgorithm csrInfo) (cvr_KeySize csrInfo);
          v \<leftarrow> store_version env job version;
          (case v of
             Inl e \<Rightarrow> State_Monad.return (Inl e)
           | Inr _ \<Rightarrow> do {
               t \<leftarrow> now env;
               let cert' = renewed_cert cert (ir_NotAfter result) t in do {
               u \<leftarrow> store_cert env job cert';
               (case u of
                  Inl e \<Rightarrow> State_Monad.return (Inl e)
                | Inr _ \<Rightarrow> do {
                    c \<leftarrow> complete_renewal env s job cert';
                    (case c of
                       Inl e \<Rightarrow> State_Monad.return (Inl e)
                     | Inr _ \<Rightarrow> do {
                         _ \<leftarrow> RecordEvent env ''system'' ActorTypeSystem ''renewal_job_completed'' ''certificate'' (cert_ID cert)
                           (completed_details job result ''agent'');
                         State_Monad.return (Inr ()) }) }) } }) }) }"

definition CompleteAgentCSRRenewal ::
  "env \<Rightarrow> crypto_lib \<Rightarrow> RenewalService \<Rightarrow> Job \<Rightarrow> ManagedCertificate \<Rightarrow> string \<Rightarrow> unit result op" where
  "CompleteAgentCSRRenewal env cl s job cert csrPEM = (case rn_issuerRegistry s (cert_IssuerID cert) of
     None \<Rightarrow> do {
       _ \<leftarrow> failJob env job (''issuer connector not found for '' @ cert_IssuerID cert);
       State_Monad.return (Inl (Errorf (''issuer connector not found for '' @ cert_IssuerID cert))) }
   | Some connector \<Rightarrow> do {
       profile \<leftarrow> renewal_profile env s cert;
       (case ValidateCSRAgainstProfile cl csrPEM profile of
          Inl csrErr \<Rightarrow> do {
            _ \<leftarrow> failJob env job (''CSR validation failed: '' @ error_text csrErr);
            State_Monad.return (Inl (Wrap ''CSR validation failed'' csrErr)) }
        | Inr csrInfo \<Rightarrow> do {
            u \<leftarrow> JobRepository_UpdateStatus env (job_ID job) JobStatusRunning '''';
            (case u of
               Inl e \<Rightarrow> State_Monad.return (Inl (Wrap ''failed to update job status'' e))
             | Inr _ \<Rightarrow> sign_agent_csr env cl s connector job cert csrPEM profile csrInfo) }) })"

definition GetAwaitingCSRJobs :: "env \<Rightarrow> string \<Rightarrow> Job list result op" where
  "GetAwaitingCSRJobs env certID = do {
     q \<leftarrow> JobRepository_ListByCertificate env certID;
     State_Monad.return (case q of Inl e \<Rightarrow> Inl e
       | Inr jobs \<Rightarrow> Inr (filter (\<lambda>j. job_Status j = JobStatusAwaitingCSR) jobs)) }"

section \<open>Sweeps\<close>

definition retry_renewal :: "env \<Rightarrow> Job \<Rightarrow> unit op" where
  "retry_renewal env job =
     (if job_Type job \<noteq> JobTypeRenewal then State_Monad.return ()
      else if job_Attempts job \<ge> job_MaxAttempts job then State_Monad.return ()
      else discard (JobRepository_UpdateStatus env (job_ID job) JobStatusPending ''''))"

definition RenewalService_RetryFailedJobs :: "env \<Rightarrow> unit result op" where
  "RenewalService_RetryFailedJobs env = do {
     q \<leftarrow> JobRepository_ListByStatus env JobStatusFailed;
     (case q of
        Inl e \<Rightarrow> State_Monad.return (Inl (Wrap ''failed to fetch failed jobs'' e))
      | Inr failedJobs \<Rightarrow> do { _ \<leftarrow> for_each (retry_renewal env) failedJobs; State_Monad.return (Inr ()) }) }"

definition expire_short_lived :: "env \<Rightarrow> time \<Rightarrow> ManagedCertificate \<Rightarrow> unit op" where
  "expire_short_lived env now' cert =
     (if cert_Status cert \<noteq> CertificateStatusActive \<and> cert_Status cert \<noteq> CertificateStatusExpiring then State_Monad.return ()
      else if cert_ExpiresAt cert > now' then State_Monad.return ()
      else if cert_CertificateProfileID cert = '''' then State_Monad.return ()
      else do {
        p \<leftarrow> ProfileRepository_Get env (cert_CertificateProfileID cert);
        (case p of
           Inl e \<Rightarrow> State_Monad.return ()
         | Inr profile \<Rightarrow>
             if \<not> IsShortLived profile then State_Monad.return ()
             else do {
               u \<leftarrow> CertificateRepository_Update env (cert \<lparr> cert_Status := CertificateStatusExpired, cert_UpdatedAt := now' \<rparr>);
               (case u of
                  Inl e \<Rightarrow> State_Monad.return ()
                | Inr _ \<Rightarrow> discard (RecordEvent env ''system'' ActorTypeSystem ''short_lived_cert_expired'' ''certificate'' (cert_ID cert)
                    [(''profile_id'', JStr (cert_CertificateProfileID cert)), (''expired_at'', JTime (cert_ExpiresAt cert))])) }) })"

definition ExpireShortLivedCertificates :: "env \<Rightarrow> RenewalService \<Rightarrow> unit result op" where
  "ExpireShortLivedCertificates env s =
     (if \<not> rn_profileRepo s then State_Monad.return (Inr ())
      else do {
        t \<leftarrow> now env;
        q \<leftarrow> CertificateRepository_GetExpiringCertificates env t;
        (case q of
           Inl e \<Rightarrow> State_Monad.return (Inl (Wrap ''failed to fetch expired certificates'' e))
         | Inr expiring \<Rightarrow> do { _ \<leftarrow> for_each (expire_short_lived env t) expiring; State_Monad.return (Inr ()) }) })"

section \<open>Effects of the scan\<close>

text \<open>Everything but the outbox, the audit log and the counters.\<close>

definition core_view :: "world \<Rightarrow> world" where
  "core_view w = w \<lparr> tbl_notifs := [], tbl_audit := [], idCounter := 0, metrics := NewMetrics, steps := 0 \<rparr>"

abbreviation same_core :: "world \<Rightarrow> world \<Rightarrow> bool" where
  "same_core w w' \<equiv> core_view w' = core_view w"

interpretation core: table_view same_core core_view
  by unfold_locales (simp_all add: core_view_def)

lemma core_tables:
  "same_core w w' \<Longrightarrow> tbl_jobs w' = tbl_jobs w \<and> tbl_certs w' = tbl_certs w \<and> tbl_versions w' = tbl_versions w"
  by (metis (no_types) core_view_def world.select_convs(1,3,4) world.update_convs(11,15,16,17,18) world.surjective)

lemma core_same_data: "same_data w w' \<Longrightarrow> same_core w w'"
  by (auto simp: same_data_def core_view_def)

lemma core_logged: "same_but_audit w w' \<Longrightarrow> same_core w w'"
  by (auto simp: same_but_audit_def same_data_def core_view_def)

lemma core_outbox:
  "state_io_rel same_core (SendThresholdAlertOnChannel env n cert d th ch)"
  "state_io_rel same_core (SendRenewalNotification env n cert ok err)"
  unfolding SendThresholdAlertOnChannel_def SendRenewalNotification_def store_and_send_def new_notification_def resolveRecipient_def
    OwnerRepository_Get_def lookup_row_def NotificationRepository_Create_def sendNotification_def notifier_Send_def
    notif_updates update_notif_def recordExpiryAlert_def
  by (intro core.keeps_prims core.keeps_insert core.keeps_exec; simp add: core_view_def)+

lemma core_alerts: "state_io_rel same_core (sendThresholdAlerts env s cert d ths policy)"
  unfolding sendThresholdAlerts_def alert_threshold_def alert_on_channel_def Let_def discard_def RecordExpiryAlertDeduped_def
    recordExpiryAlert_def HasThresholdNotificationOnChannel_def NotificationRepository_List_def query_page_def
  by (intro core.keeps_for_each core.keeps_audit core_outbox)

text \<open>Writing a certificate: nothing, or the columns of the given value into its row.\<close>

definition wrote_cert :: "ManagedCertificate \<Rightarrow> ManagedCertificate list \<Rightarrow> ManagedCertificate list \<Rightarrow> bool" where
  "wrote_cert c t t' = (t' = t \<or> t' = update_row cert_ID (cert_ID c) (cert_columns c) t)"

lemma cert_columns_simps [simp]:
  "cert_ID (cert_columns c d) = cert_ID d" "cert_columns c (cert_columns c' d) = cert_columns c d"
  by (simp_all add: cert_columns_def)

lemma wrote_cert_trans:
  "wrote_cert c t t' \<Longrightarrow> cert_ID c' = cert_ID c \<Longrightarrow> wrote_cert c' t' t'' \<Longrightarrow> wrote_cert c t t'' \<or> wrote_cert c' t t''"
  by (auto simp: wrote_cert_def update_row_twice comp_def)

lemma post_CertUpdate_wrote:
  assumes "\<And>r w'. wrote_cert c (tbl_certs w) (tbl_certs w') \<Longrightarrow> tbl_jobs w' = tbl_jobs w \<Longrightarrow> tbl_versions w' = tbl_versions w \<Longrightarrow>
    tbl_notifs w' = tbl_notifs w \<Longrightarrow> Q r w'"
  shows "post (CertificateRepository_Update env c) w Q"
  unfolding CertificateRepository_Update_def
  by (intro post_CertUpdate assms) (auto simp: wrote_cert_def dest!: tables_same_data)

lemma keeps_cached_policy: "state_io_rel same_data (cached_policy env cache i)"
  unfolding cached_policy_def RenewalPolicyRepository_Get_def lookup_row_def by (intro same.keeps_prims)

lemma keeps_GetLatestVersion: "state_io_rel same_data (CertificateRepository_GetLatestVersion env i)"
  unfolding CertificateRepository_GetLatestVersion_def by (intro same.keeps_prims)

lemma keeps_ari_check: "state_io_rel same_data (ari_check env connector i)"
  unfolding ari_check_def by (intro same.keeps_prims keeps_GetLatestVersion)

definition restatus :: "ManagedCertificate \<Rightarrow> CertificateStatus \<Rightarrow> ManagedCertificate \<Rightarrow> bool" where
  "restatus c st c' = (\<exists>t. c' = c \<lparr> cert_Status := st, cert_UpdatedAt := t \<rparr>)"

lemma post_updateCertExpiryStatus:
  assumes "\<And>c' w'. c' = c \<or> restatus c (expiry_status d) c' \<Longrightarrow> wrote_cert c' (tbl_certs w) (tbl_certs w') \<Longrightarrow>
    tbl_jobs w' = tbl_jobs w \<Longrightarrow> tbl_versions w' = tbl_versions w \<Longrightarrow> tbl_notifs w' = tbl_notifs w \<Longrightarrow> Q c' w'"
  shows "post (updateCertExpiryStatus env c d) w Q"
  unfolding updateCertExpiryStatus_def Let_def
  by (intro post_if post_returnI post_bindI post_now post_CertUpdate_wrote assms)
    (auto simp: wrote_cert_def restatus_def dest!: tables_same_data)

definition no_active_renewal :: "string \<Rightarrow> Job list \<Rightarrow> bool" where
  "no_active_renewal i t = (\<forall>j \<in> set t. job_CertificateID j = i \<longrightarrow> \<not> active_renewal j)"

lemma active_renewal_scan [simp]: "active_renewal (scanJob j) = active_renewal j"
  by (simp add: active_renewal_def)

lemma post_has_active_renewal:
  assumes "\<And>w'. same_data w w' \<Longrightarrow> Q True w'"
    and "\<And>w'. same_data w w' \<Longrightarrow> fault env = (\<lambda>_. False) \<longrightarrow> no_active_renewal i (tbl_jobs w) \<Longrightarrow> Q False w'"
  shows "post (has_active_renewal env i) w Q"
proof (cases "fault env (steps w)")
  case True
  then have "fault env \<noteq> (\<lambda>_. False)" by auto
  with True assms(2) [OF same.R_steps] show ?thesis
    by (simp add: has_active_renewal_def JobRepository_ListByCertificate_def query_def post_def run_simps)
next
  case False
  have "post (has_active_renewal env i) w Q = Q (\<not> no_active_renewal i (tbl_jobs w)) (w \<lparr> steps := Suc (steps w) \<rparr>)"
    using False by (auto simp: has_active_renewal_def JobRepository_ListByCertificate_def query_def post_def run_simps
        list_ex_iff no_active_renewal_def Bex_def)
  then show ?thesis using assms [OF same.R_steps] by (cases "no_active_renewal i (tbl_jobs w)") auto
qed

definition new_renewal :: "string \<Rightarrow> Job \<Rightarrow> bool" where
  "new_renewal i j = (job_CertificateID j = i \<and> job_Type j = JobTypeRenewal \<and> job_Status j = JobStatusPending)"

lemma post_new_pending_job:
  assumes "\<And>job w'. same_data w w' \<Longrightarrow> job_CertificateID job = i \<Longrightarrow> job_Type job = ty \<Longrightarrow> job_Status job = JobStatusPending \<Longrightarrow>
    job_TargetID job = target \<Longrightarrow> job_AgentID job = agent \<Longrightarrow> Q job w'"
  shows "post (new_pending_job env i ty target agent) w Q"
  unfolding new_pending_job_def
proof (intro post_bindI post_generateID post_now post_returnI, goal_cases)
  case (1 j w1 t w2 u w3)
  then have "same_data w w3" by (blast intro: same.frame_trans)
  with assms show ?case by simp
qed

text \<open>What the scan does to the tables for one certificate.\<close>

definition checked :: "env \<Rightarrow> RenewalService \<Rightarrow> ManagedCertificate \<Rightarrow> world \<Rightarrow> world \<Rightarrow> bool" where
  "checked env s c w w' = ((\<exists>c' st. (c' = c \<or> restatus c st c' \<and> st \<in> {CertificateStatusExpiring, CertificateStatusExpired,
        CertificateStatusRenewalInProgress}) \<and> wrote_cert c' (tbl_certs w) (tbl_certs w')) \<and>
     (tbl_jobs w' = tbl_jobs w \<or> (\<exists>j. tbl_jobs w' = tbl_jobs w @ [j] \<and> new_renewal (cert_ID c) j \<and>
        rn_issuerRegistry s (cert_IssuerID c) \<noteq> None \<and>
        (fault env = (\<lambda>_. False) \<longrightarrow> no_active_renewal (cert_ID c) (tbl_jobs w)))) \<and>
     tbl_versions w' = tbl_versions w)"

lemma post_create_scan_job:
  assumes "fault env = (\<lambda>_. False) \<longrightarrow> no_active_renewal (cert_ID c) (tbl_jobs w)" "rn_issuerRegistry s (cert_IssuerID c) \<noteq> None"
    and "\<And>w'. checked env s c w w' \<Longrightarrow> Q () w'"
  shows "post (create_scan_job env c d a) w Q"
  unfolding create_scan_job_def
proof (intro post_bindI post_new_pending_job post_JobCreate post_case_sum post_returnI post_CertUpdate_wrote post_discard post_RecordEvent,
    simp_all only: sum.distinct sum.inject, goal_cases)
  case (1 job w1 e w2)
  then have "tbl_jobs w2 = tbl_jobs w" "tbl_certs w2 = tbl_certs w" "tbl_versions w2 = tbl_versions w" by (auto dest!: tables)
  then show ?case by (intro assms(3)) (auto simp: checked_def wrote_cert_def)
next
  case (2 job w1 i row w2 j r w3 r' w4)
  have t: "tbl_jobs w4 = tbl_jobs w @ [row]" "wrote_cert (c \<lparr> cert_Status := CertificateStatusRenewalInProgress \<rparr>) (tbl_certs w) (tbl_certs w4)"
    "tbl_versions w4 = tbl_versions w" using 2 by (auto dest!: tables)
  have "restatus c CertificateStatusRenewalInProgress (c \<lparr> cert_Status := CertificateStatusRenewalInProgress \<rparr>)"
    unfolding restatus_def by (rule exI [of _ "cert_UpdatedAt c"]) simp
  with t 2 assms(1,2) have "checked env s c w w4" unfolding checked_def by (auto simp: new_renewal_def)
  then show ?case by (rule assms(3))
qed

lemma checked_idle: "tbl_certs w' = tbl_certs w \<Longrightarrow> tbl_jobs w' = tbl_jobs w \<Longrightarrow> tbl_versions w' = tbl_versions w \<Longrightarrow> checked env s c w w'"
  by (auto simp: checked_def wrote_cert_def)

lemma post_renew_if_due: "post (renew_if_due env s c d) w (\<lambda>_ w'. checked env s c w w')"
  unfolding renew_if_due_def
proof (intro post_case_option post_bindI post_keeps [OF keeps_ari_check] post_if post_has_active_renewal post_returnI, goal_cases)
  case (6 connector ari w1 w2)
  then have eq: "tbl_jobs w1 = tbl_jobs w" "tbl_jobs w2 = tbl_jobs w" "tbl_certs w2 = tbl_certs w" "tbl_versions w2 = tbl_versions w"
    by (auto dest!: tables)
  have step: "checked env s c w w'" if "checked env s c w2 w'" for w' using that eq(2-4) unfolding checked_def by simp
  have "fault env = (\<lambda>_. False) \<longrightarrow> no_active_renewal (cert_ID c) (tbl_jobs w2)" using 6(5) eq(1,2) by simp
  then show ?case by (rule post_create_scan_job [where s = s]) (simp_all add: step 6(1))
qed (auto dest!: tables intro!: checked_idle)

abbreviation scan_status :: "CertificateStatus \<Rightarrow> bool" where
  "scan_status st \<equiv> st = CertificateStatusExpiring \<or> st = CertificateStatusExpired \<or> st = CertificateStatusRenewalInProgress"

lemma restatus_trans: "restatus c st c' \<Longrightarrow> restatus c' st' c'' \<Longrightarrow> restatus c st' c''"
  by (auto simp: restatus_def)

lemma restatus_fields: "restatus c st c' \<Longrightarrow> cert_ID c' = cert_ID c \<and> cert_IssuerID c' = cert_IssuerID c \<and> cert_CommonName c' = cert_CommonName c"
  by (auto simp: restatus_def)

lemma checked_after:
  assumes "c' = c \<or> restatus c (expiry_status d) c'" "wrote_cert c' (tbl_certs w) (tbl_certs w1)" "tbl_jobs w1 = tbl_jobs w"
    "tbl_versions w1 = tbl_versions w" "checked env s c' w1 w'"
  shows "checked env s c w w'"
proof -
  from assms(5) obtain c'' st where c'': "c'' = c' \<or> restatus c' st c'' \<and> scan_status st"
    and wr: "wrote_cert c'' (tbl_certs w1) (tbl_certs w')" unfolding checked_def by auto
  have ids: "cert_ID c' = cert_ID c" "cert_IssuerID c' = cert_IssuerID c" "cert_ID c'' = cert_ID c'"
    using assms(1) c'' restatus_fields by auto
  have st: "scan_status (expiry_status d)" by (simp add: expiry_status_def)
  have one: "\<exists>st. c' = c \<or> restatus c st c' \<and> scan_status st" using assms(1) st by auto
  have two: "\<exists>st. c'' = c \<or> restatus c st c'' \<and> scan_status st" using assms(1) c'' st restatus_trans by metis
  from wrote_cert_trans [OF assms(2) ids(3) wr]
  have "\<exists>c0 st. (c0 = c \<or> restatus c st c0 \<and> scan_status st) \<and> wrote_cert c0 (tbl_certs w) (tbl_certs w')"
    using one two by metis
  moreover have "tbl_jobs w' = tbl_jobs w \<or> (\<exists>j. tbl_jobs w' = tbl_jobs w @ [j] \<and> new_renewal (cert_ID c) j \<and>
        rn_issuerRegistry s (cert_IssuerID c) \<noteq> None \<and> (fault env = (\<lambda>_. False) \<longrightarrow> no_active_renewal (cert_ID c) (tbl_jobs w)))"
    "tbl_versions w' = tbl_versions w"
    using assms(3,4,5) ids(1,2) unfolding checked_def by simp_all
  ultimately show ?thesis unfolding checked_def by simp
qed

lemma post_check_certificate:
  "post (check_certificate env s cache c) w (\<lambda>_ w'. checked env s c w w' \<and>
     (skipped_status (cert_Status c) \<longrightarrow> w' = w))"
  unfolding check_certificate_def
proof (intro post_if post_returnI post_bindI post_now post_let post_keeps [OF keeps_cached_policy] post_updateCertExpiryStatus
    post_keeps [OF core_alerts] post_mono [OF post_renew_if_due], goal_cases)
  case 1
  then show ?case by (auto intro: checked_idle)
next
  case (2 t w1 d cp w2 ths c' w3 u w4 v w5)
  then have w2: "tbl_certs w2 = tbl_certs w" "tbl_jobs w2 = tbl_jobs w" "tbl_versions w2 = tbl_versions w" by (auto dest!: tables)
  note w4 = core_tables [OF 2(11)]
  have "checked env s c w w5"
  proof (rule checked_after)
    show "c' = c \<or> restatus c (expiry_status d) c'" "checked env s c' w4 w5" using 2 by blast+
    show "wrote_cert c' (tbl_certs w) (tbl_certs w4)" "tbl_jobs w4 = tbl_jobs w" "tbl_versions w4 = tbl_versions w"
      using 2(7-9) w2 w4 by (simp_all only:)
  qed
  with 2(1) show ?case by simp
qed

lemma post_GetExpiring:
  assumes "\<And>e w'. same_data w w' \<Longrightarrow> Q (Inl e) w'"
    and "\<And>w'. same_data w w' \<Longrightarrow> Q (Inr (map (scan_cert w) (sort_key cert_ExpiresAt (filter (\<lambda>c. cert_ExpiresAt c < before \<and>
      cert_Status c \<noteq> CertificateStatusArchived) (tbl_certs w))))) w'"
  shows "post (CertificateRepository_GetExpiringCertificates env before) w Q"
  unfolding CertificateRepository_GetExpiringCertificates_def
proof (intro post_bindI post_query post_case_sum post_if post_returnI, simp_all only: sum.distinct sum.inject, goal_cases)
  case (1 e w1 e')
  then show ?case by (simp add: assms(1))
next
  case (2 w1 xs)
  then show ?case using assms(2) [of w1] by (simp add: same_dataD)
next
  case (3 w1 xs e w2)
  then show ?case using assms(1) [OF same.frame_trans [OF 3(1) 3(4)]] by simp
next
  case (4 w1 xs w2)
  have w2: "same_data w w2" using 4 by (blast intro: same.frame_trans)
  have "scan_cert w2 = scan_cert w" by (rule ext) (rule scan_cert_same [OF w2])
  with assms(2) [OF w2] 4 show ?case by (simp add: same_dataD)
qed

section \<open>The scan is correct\<close>

definition due :: "time \<Rightarrow> ManagedCertificate \<Rightarrow> bool" where
  "due before c = (cert_ExpiresAt c < before \<and> cert_Status c \<notin> {CertificateStatusRenewalInProgress, CertificateStatusArchived,
     CertificateStatusRevoked, CertificateStatusFailed, CertificateStatusExpired})"

lemma due_iff: "due before c \<longleftrightarrow> cert_ExpiresAt c < before \<and> \<not> skipped_status (cert_Status c)"
  by (auto simp: due_def skipped_status_def)

definition scan_moved :: "time \<Rightarrow> ManagedCertificate \<Rightarrow> ManagedCertificate \<Rightarrow> bool" where
  "scan_moved before c c' = (c' = c \<or> due before c \<and> (\<exists>st t. c' = c \<lparr> cert_Status := st, cert_UpdatedAt := t \<rparr> \<and> scan_status st))"

definition scan_jobs :: "env \<Rightarrow> RenewalService \<Rightarrow> time \<Rightarrow> ManagedCertificate list \<Rightarrow> Job list \<Rightarrow> Job list \<Rightarrow> bool" where
  "scan_jobs env s before certs jobs js = (distinct (map job_CertificateID js) \<and>
     (\<forall>j \<in> set js. \<exists>c \<in> set certs. due before c \<and> rn_issuerRegistry s (cert_IssuerID c) \<noteq> None \<and> new_renewal (cert_ID c) j \<and>
        (fault env = (\<lambda>_. False) \<longrightarrow> no_active_renewal (cert_ID c) jobs)))"

definition scan_inv ::
  "env \<Rightarrow> RenewalService \<Rightarrow> time \<Rightarrow> world \<Rightarrow> ManagedCertificate list \<Rightarrow> world \<Rightarrow> bool" where
  "scan_inv env s before w rest w' = (swept cert_ID (scan_moved before) (tbl_certs w) rest (tbl_certs w') \<and>
     tbl_versions w' = tbl_versions w \<and> set rest \<subseteq> {c \<in> set (tbl_certs w). cert_ExpiresAt c < before} \<and>
     (\<exists>js. tbl_jobs w' = tbl_jobs w @ js \<and> scan_jobs env s before (tbl_certs w) (tbl_jobs w) js \<and>
        job_CertificateID ` set js \<inter> cert_ID ` set rest = {}))"

lemma columns_of_scan: "cert_columns (scan_cert w c) c = c"
  "cert_columns (scan_cert w c \<lparr> cert_Status := st, cert_UpdatedAt := t \<rparr>) c = c \<lparr> cert_Status := st, cert_UpdatedAt := t \<rparr>"
  by (simp_all add: cert_columns_def scan_cert_def)

lemma scan_cert_fields [simp]: "cert_ID (scan_cert w c) = cert_ID c" "cert_IssuerID (scan_cert w c) = cert_IssuerID c"
  "cert_CommonName (scan_cert w c) = cert_CommonName c" "cert_ExpiresAt (scan_cert w c) = cert_ExpiresAt c"
  by (simp_all add: scan_cert_def)

lemma scan_certs_step:
  assumes "swept cert_ID (scan_moved before) t0 (x # rest) t" "due before x"
    and c: "c = scan_cert w x \<or> restatus (scan_cert w x) st c \<and> scan_status st" and "wrote_cert c t t'"
  shows "swept cert_ID (scan_moved before) t0 rest t'"
proof (cases "t' = t")
  case True
  then show ?thesis using swept_skip [OF assms(1)] by simp
next
  case False
  from c have i: "cert_ID c = cert_ID x" by (auto simp: restatus_def)
  have "cert_columns c x = x \<or> (\<exists>t. cert_columns c x = x \<lparr> cert_Status := st, cert_UpdatedAt := t \<rparr>) \<and> scan_status st"
    using c unfolding restatus_def by (metis columns_of_scan)
  then have "scan_moved before x (cert_columns c x)" using assms(2) unfolding scan_moved_def by blast
  from swept_step [where f = "cert_columns c", OF assms(1) _ this] False assms(4)
  show ?thesis by (simp add: wrote_cert_def i)
qed

lemma scan_jobs_snoc:
  assumes "scan_jobs env s before certs jobs js" "x \<in> set certs" "due before x" "rn_issuerRegistry s (cert_IssuerID x) \<noteq> None"
    "new_renewal (cert_ID x) j" "fault env = (\<lambda>_. False) \<longrightarrow> no_active_renewal (cert_ID x) (jobs @ js)"
    "cert_ID x \<notin> job_CertificateID ` set js"
  shows "scan_jobs env s before certs jobs (js @ [j])"
proof -
  have "job_CertificateID j = cert_ID x" using assms(5) by (simp add: new_renewal_def)
  moreover have "\<exists>c \<in> set certs. due before c \<and> rn_issuerRegistry s (cert_IssuerID c) \<noteq> None \<and> new_renewal (cert_ID c) j \<and>
      (fault env = (\<lambda>_. False) \<longrightarrow> no_active_renewal (cert_ID c) jobs)"
    using assms(2-6) by (intro bexI [of _ x]) (auto simp: no_active_renewal_def)
  ultimately show ?thesis using assms(1,7) unfolding scan_jobs_def by simp
qed

lemma scan_inv_step:
  assumes inv: "scan_inv env s before w (x # rest) w1" and ch: "checked env s (scan_cert w x) w1 w2"
    and skip: "skipped_status (cert_Status x) \<longrightarrow> w2 = w1"
  shows "scan_inv env s before w rest w2"
proof -
  from inv obtain js where js: "tbl_jobs w1 = tbl_jobs w @ js" "scan_jobs env s before (tbl_certs w) (tbl_jobs w) js"
    "job_CertificateID ` set js \<inter> cert_ID ` set (x # rest) = {}" by (auto simp: scan_inv_def)
  have sw: "swept cert_ID (scan_moved before) (tbl_certs w) (x # rest) (tbl_certs w1)" and x: "x \<in> set (tbl_certs w)" "cert_ExpiresAt x < before"
    and rest: "set rest \<subseteq> {c \<in> set (tbl_certs w). cert_ExpiresAt c < before}" and v: "tbl_versions w1 = tbl_versions w"
    using inv by (auto simp: scan_inv_def)
  have fresh: "cert_ID x \<notin> cert_ID ` set rest" using sw by (simp add: swept_def)
  show ?thesis
  proof (cases "skipped_status (cert_Status x)")
    case True
    with skip js rest v swept_skip [OF sw] show ?thesis unfolding scan_inv_def by auto
  next
    case False
    then have d: "due before x" using x by (simp add: due_iff)
    from ch obtain c st where c: "c = scan_cert w x \<or> restatus (scan_cert w x) st c \<and> scan_status st" "wrote_cert c (tbl_certs w1) (tbl_certs w2)"
      and v2: "tbl_versions w2 = tbl_versions w1" unfolding checked_def by auto
    from ch have "tbl_jobs w2 = tbl_jobs w1 \<or> (\<exists>j. tbl_jobs w2 = tbl_jobs w1 @ [j] \<and> new_renewal (cert_ID x) j \<and>
        rn_issuerRegistry s (cert_IssuerID x) \<noteq> None \<and> (fault env = (\<lambda>_. False) \<longrightarrow> no_active_renewal (cert_ID x) (tbl_jobs w1)))"
      unfolding checked_def by simp
    then have "\<exists>js. tbl_jobs w2 = tbl_jobs w @ js \<and> scan_jobs env s before (tbl_certs w) (tbl_jobs w) js \<and>
        job_CertificateID ` set js \<inter> cert_ID ` set rest = {}"
    proof (elim disjE exE conjE)
      fix j
      assume j: "tbl_jobs w2 = tbl_jobs w1 @ [j]" "new_renewal (cert_ID x) j" "rn_issuerRegistry s (cert_IssuerID x) \<noteq> None"
        "fault env = (\<lambda>_. False) \<longrightarrow> no_active_renewal (cert_ID x) (tbl_jobs w1)"
      have "scan_jobs env s before (tbl_certs w) (tbl_jobs w) (js @ [j])"
        by (rule scan_jobs_snoc [OF js(2) x(1) d j(3,2)]) (use j(4) js in auto)
      moreover have "job_CertificateID j = cert_ID x" using j(2) by (simp add: new_renewal_def)
      ultimately show ?thesis using j(1) js(1,3) fresh by (intro exI [of _ "js @ [j]"]) auto
    qed (use js in auto)
    with scan_certs_step [OF sw d c] rest v v2 show ?thesis unfolding scan_inv_def by simp
  qed
qed

lemma post_check_certificates:
  assumes "scan_inv env s before w rows w1" "\<And>w'. scan_inv env s before w [] w' \<Longrightarrow> Q () w'"
  shows "post (check_certificates env s cache (map (scan_cert w) rows)) w1 Q"
  using assms(1)
proof (induction rows arbitrary: cache w1)
  case (Cons x rows)
  have "post (check_certificate env s cache (scan_cert w x)) w1 (\<lambda>_ w'. scan_inv env s before w rows w')"
    by (rule post_mono [OF post_check_certificate]) (use scan_inv_step [OF Cons.prems] in auto)
  then show ?case by (auto intro!: post_bindI elim!: post_mono Cons.IH)
qed (simp add: assms(2))

definition scanned :: "env \<Rightarrow> RenewalService \<Rightarrow> time \<Rightarrow> world \<Rightarrow> world \<Rightarrow> bool" where
  "scanned env s before w w' = (map cert_ID (tbl_certs w') = map cert_ID (tbl_certs w) \<and> tbl_versions w' = tbl_versions w \<and>
    (\<forall>i c'. row_of cert_ID i (tbl_certs w') = Some c' \<longrightarrow>
       (\<exists>c. row_of cert_ID i (tbl_certs w) = Some c \<and> scan_moved before c c')) \<and>
    (\<exists>js. tbl_jobs w' = tbl_jobs w @ js \<and> scan_jobs env s before (tbl_certs w) (tbl_jobs w) js))"

lemma scanned_done:
  assumes "scan_inv env s before w [] v"
  shows "scanned env s before w v"
  using assms swept_done [of cert_ID "scan_moved before"] unfolding scan_inv_def scanned_def by (fastforce simp: scan_moved_def)

lemma scanned_same:
  assumes "same_data w w0" "scanned env s before w0 v"
  shows "scanned env s before w v"
  using assms(2) unfolding scanned_def same_dataD [OF assms(1)] .

lemma scanned_idle:
  assumes "same_data w v"
  shows "scanned env s before w v"
  unfolding scanned_def by (simp add: same_dataD [OF assms] scan_moved_def scan_jobs_def)

lemma scan_start:
  fixes before :: time
  assumes "distinct (map cert_ID (tbl_certs w))" "same_data w v"
  shows "scan_inv env s before w (sort_key cert_ExpiresAt (filter (\<lambda>c. cert_ExpiresAt c < before \<and>
    cert_Status c \<noteq> CertificateStatusArchived) (tbl_certs w))) v" (is "scan_inv env s before w ?rows v")
proof -
  have "distinct (map cert_ID ?rows)" using assms(1) by (auto simp: distinct_map intro: inj_on_subset)
  then have "swept cert_ID (scan_moved before) (tbl_certs w) ?rows (tbl_certs w)" using assms(1) by (intro swept_start) auto
  then show ?thesis unfolding scan_inv_def by (simp add: same_dataD [OF assms(2)]) (auto simp: scan_jobs_def)
qed

lemma post_CheckExpiringCertificates:
  assumes "distinct (map cert_ID (tbl_certs w))"
  shows "post (CheckExpiringCertificates env s) w (\<lambda>r. scanned env s (addDays env (clock env (steps w)) 31) w)"
proof -
  define w0 where "w0 = w \<lparr> steps := Suc (steps w) \<rparr>"
  have w0: "same_data w w0" unfolding w0_def by (rule same.R_steps)
  have d: "distinct (map cert_ID (tbl_certs w0))" using assms by (simp add: same_dataD [OF w0])
  define before where "before = addDays env (clock env (steps w)) 31"
  let ?P = "scanned env s (before) w"
  have scan: "post (check_certificates env s [] (map (scan_cert w0) (sort_key cert_ExpiresAt (filter (\<lambda>c. cert_ExpiresAt c < before \<and>
      cert_Status c \<noteq> CertificateStatusArchived) (tbl_certs w0))))) v (\<lambda>_. ?P)" if "same_data w0 v" for v
    by (rule post_check_certificates [OF scan_start [OF d that]]) (rule scanned_same [OF w0 scanned_done])
  have fetch: "post (CertificateRepository_GetExpiringCertificates env (before)) w0
      (\<lambda>q w1. post (case q of Inl e \<Rightarrow> State_Monad.return (Inl (Wrap ''failed to fetch expiring certificates'' e))
        | Inr expiring \<Rightarrow> do { _ \<leftarrow> check_certificates env s [] expiring; State_Monad.return (Inr ()) }) w1 (\<lambda>r. ?P))"
    by (rule post_GetExpiring)
      (simp_all only: sum.case post_return post_bind scanned_idle [OF same.frame_trans [OF w0]] scan)
  show ?thesis using fetch unfolding CheckExpiringCertificates_def post_bind w0_def before_def
    by (simp only: post_def [of "now env"] run_now prod.case)
qed

text \<open>
  C12. The scan touches what is due and nothing else. After \<^verbatim>\<open>CheckExpiringCertificates\<close> the table of
  certificates has the same rows, and each is as it was, or was due (it expires before 31 calendar days have passed and is not in
  renewal, archived, revoked, failed or expired) and differs in its status, now \<^verbatim>\<open>Expiring\<close>,
  \<^verbatim>\<open>Expired\<close> or \<^verbatim>\<open>RenewalInProgress\<close>, and in its time of update. No version changed. The
  jobs are those there were and new ones, at most one for each certificate: every new job is a pending renewal
  of a due certificate whose issuer is registered, and, when no call failed, one that had no pending or
  running renewal. The window of 31 days and the pending status are those of the code; the documentation lets the
  \<^verbatim>\<open>renewal_window_days\<close> of the policy decide (\<^verbatim>\<open>docs/reference/profiles.md\<close>) and makes the job of a policy with
  \<^verbatim>\<open>auto_renew\<close> off wait for approval (\<^verbatim>\<open>docs/getting-started/concepts.md\<close>); the scan reads neither.
\<close>

theorem scan_correct:
  assumes "distinct (map cert_ID (tbl_certs w))" "run_state (CheckExpiringCertificates env s) w = (r, w')"
  defines "before \<equiv> addDays env (clock env (steps w)) 31"
  shows "map cert_ID (tbl_certs w') = map cert_ID (tbl_certs w) \<and> tbl_versions w' = tbl_versions w \<and>
    (\<forall>i c'. row_of cert_ID i (tbl_certs w') = Some c' \<longrightarrow>
       (\<exists>c. row_of cert_ID i (tbl_certs w) = Some c \<and> scan_moved before c c')) \<and>
    (\<exists>js. tbl_jobs w' = tbl_jobs w @ js \<and> scan_jobs env s before (tbl_certs w) (tbl_jobs w) js)"
  using post_run [OF post_CheckExpiringCertificates [OF assms(1)] assms(2)] unfolding before_def scanned_def .

section \<open>Alerts are not repeated\<close>

definition is_alert :: "string \<Rightarrow> int \<Rightarrow> string \<Rightarrow> NotificationEvent \<Rightarrow> bool" where
  "is_alert certID threshold channel n = (ne_CertificateID n = Some certID \<and> ne_Type n = NotificationTypeExpirationWarning \<and>
     ne_Channel n = channel \<and> contains (ne_Message n) (threshold_tag threshold))"

definition alerts_unique :: "NotificationEvent list \<Rightarrow> bool" where
  "alerts_unique t = (\<forall>certID threshold channel. length (filter (is_alert certID threshold channel) t) \<le> 1)"

lemma alerted_alert: "alerted t i th ch \<longleftrightarrow> filter (is_alert i th ch) t \<noteq> []"
  by (auto simp: alerted_def is_alert_def filter_empty_conv)

lemma delivered_alerts: "delivered i t t' \<Longrightarrow> length (filter (is_alert c th ch) t') = length (filter (is_alert c th ch) t)"
proof -
  have "length (filter (is_alert c th ch) (update_row ne_ID i (\<lambda>n. n \<lparr> ne_Status := st, ne_SentAt := ts \<rparr>) t)) =
      length (filter (is_alert c th ch) t)" for st ts t
    by (induction t) (auto simp: update_row_def is_alert_def)
  then show "delivered i t t' \<Longrightarrow> ?thesis" by (auto simp: delivered_def)
qed

lemma post_SendThreshold:
  assumes "\<And>r w'. tbl_notifs w' = tbl_notifs w \<Longrightarrow> Q r w'"
    and "\<And>r row w'. delivered (ne_ID row) (tbl_notifs w @ [row]) (tbl_notifs w') \<Longrightarrow> ne_Message row = threshold_body cert d th \<Longrightarrow>
      ne_CertificateID row = Some (cert_ID cert) \<Longrightarrow> ne_Channel row = ch \<Longrightarrow> Q r w'"
  shows "post (SendThresholdAlertOnChannel env n cert d th ch) w Q"
  unfolding SendThresholdAlertOnChannel_def
proof (intro post_if post_bindI post_recordExpiryAlert post_returnI post_new_notification post_notif_create post_case_sum post_sendNotification,
    simp_all only: sum.distinct sum.inject, goal_cases)
  case (1 x w1)
  then show ?case by (intro assms(1)) (auto dest!: notifs_tables)
next
  case (2 nt w1 e w2 e' x w3)
  then show ?case by (intro assms(1)) (auto dest!: notifs_tables)
next
  case (3 nt w1 i t row w2 w3 y r w4 e x w5)
  then show ?case by (intro assms(2) [where row = row]) (auto dest!: notifs_tables)
next
  case (4 nt w1 i t row w2 w3 y r w4 u x w5)
  then show ?case by (intro assms(2) [where row = row]) (auto dest!: notifs_tables)
qed

definition plain_name :: "ManagedCertificate \<Rightarrow> bool" where
  "plain_name c = (cert_ID c \<noteq> '''' \<and> CHR ''['' \<notin> set (cert_CommonName c))"

lemma alerts_unique_snoc:
  assumes "alerts_unique t" "\<not> alerted t (cert_ID cert) th ch" "plain_name cert" "ne_Message row = threshold_body cert d th"
    "ne_CertificateID row = Some (cert_ID cert)" "ne_Channel row = ch"
  shows "alerts_unique (t @ [row])"
proof -
  have "is_alert c th' ch' row \<Longrightarrow> c = cert_ID cert \<and> th' = th \<and> ch' = ch" for c th' ch'
    using assms(3-6) body_tag [of cert d th th'] by (auto simp: is_alert_def plain_name_def)
  then show ?thesis using assms(1,2) unfolding alerts_unique_def alerted_alert
    by (metis append.right_neutral filter.simps filter_append length_Cons list.size(3) One_nat_def le_refl append_Nil)
qed

abbreviation unique_op :: "'a op \<Rightarrow> bool" where
  "unique_op m \<equiv> state_io_rel (\<lambda>w w'. alerts_unique (tbl_notifs w) \<longrightarrow> alerts_unique (tbl_notifs w')) m"

interpretation unique: table_view "\<lambda>w w'. alerts_unique (tbl_notifs w) \<longrightarrow> alerts_unique (tbl_notifs w')" tbl_notifs
  by unfold_locales auto

lemma unique_alert_on_channel:
  assumes "plain_name cert"
  shows "unique_op (alert_on_channel env s cert d th tier ch)"
proof (rule keeps_postI)
  fix w :: world
  let ?P = "\<lambda>w'. alerts_unique (tbl_notifs w) \<longrightarrow> alerts_unique (tbl_notifs w')"
  show "post (alert_on_channel env s cert d th tier ch) w (\<lambda>_. ?P)"
  proof (cases "IsValidNotificationChannel ch")
    case True
    then have ch: "ch \<noteq> ''''" by (auto simp: IsValidNotificationChannel_def)
    have has: "post (HasThresholdNotificationOnChannel env (cert_ID cert) th ch) w
        (\<lambda>r w'. (\<forall>b. r = Inr b \<longrightarrow> b = alerted (tbl_notifs w) (cert_ID cert) th ch) \<and> same_data w w')"
      using post_HasThreshold [of "cert_ID cert" ch env th w] post_frame [OF keeps_HasThreshold, of env "cert_ID cert" th ch w] assms ch
      by (auto simp: post_def plain_name_def split: prod.splits)
    show ?thesis unfolding alert_on_channel_def RecordExpiryAlertDeduped_def
    proof (rule post_if, use True in simp, rule post_bindI, rule post_mono [OF has], intro post_case_sum post_returnI post_if post_recordExpiryAlert post_bindI
        post_SendThreshold post_discard post_RecordEvent impI, goal_cases)
      case (4 q w1 b r row w2 r' w3)
      then have "\<not> alerted (tbl_notifs w1) (cert_ID cert) th ch" "alerts_unique (tbl_notifs w1)" by (auto dest!: notifs_tables)
      from alerts_unique_snoc [OF this(2,1) assms] 4 have "alerts_unique (tbl_notifs w1 @ [row])" by simp
      then have "alerts_unique (tbl_notifs w2)" using delivered_alerts [of "ne_ID row" "tbl_notifs w1 @ [row]" "tbl_notifs w2"] 4
        unfolding alerts_unique_def by simp
      with 4 show ?case by (auto dest!: notifs_tables)
    qed (auto dest!: notifs_tables)
  qed (auto simp: alert_on_channel_def intro!: post_discard post_RecordEvent dest!: notifs_tables)
qed

lemma unique_sendThresholdAlerts:
  assumes "plain_name cert"
  shows "unique_op (sendThresholdAlerts env s cert d ths policy)"
  unfolding sendThresholdAlerts_def alert_threshold_def Let_def discard_def
  by (intro unique.keeps_for_each unique.keeps_audit unique_alert_on_channel assms)

lemma unique_renew_if_due: "unique_op (renew_if_due env s cert d)"
  unfolding renew_if_due_def ari_check_def CertificateRepository_GetLatestVersion_def has_active_renewal_def create_scan_job_def
    new_pending_job_def discard_def CertificateRepository_Update_def CertificateRepository_UpdateWithTx_def
  by (intro unique.keeps_audit unique.keeps_JobRepository_reads unique.keeps_job_writes unique.keeps_exec) simp_all

lemma post_check_unique:
  assumes "plain_name c"
  shows "post (check_certificate env s cache c) w (\<lambda>_ w'. alerts_unique (tbl_notifs w) \<longrightarrow> alerts_unique (tbl_notifs w'))"
  unfolding check_certificate_def
proof (intro post_if post_returnI post_bindI post_now post_let post_keeps [OF keeps_cached_policy] post_updateCertExpiryStatus, goal_cases)
  case (2 t w1 d cp w2 ths c' w3)
  then have "plain_name c'" using assms restatus_fields by (auto simp: plain_name_def)
  then have "post (sendThresholdAlerts env s c' (whole_days d) ths (snd cp)) w3
      (\<lambda>_ w'. alerts_unique (tbl_notifs w3) \<longrightarrow> alerts_unique (tbl_notifs w'))"
    by (rule post_frame [OF unique_sendThresholdAlerts])
  then show ?case
    by (rule post_mono) (use 2 in \<open>auto intro!: post_bindI post_keeps [OF unique_renew_if_due] dest!: notifs_tables\<close>)
qed simp

lemma unique_checks: "\<forall>c \<in> set certs. plain_name c \<Longrightarrow> unique_op (check_certificates env s cache certs)"
proof (induction certs arbitrary: cache)
  case (Cons c certs)
  then show ?case by (auto intro!: unique.keeps_bind keeps_postI [OF post_check_unique])
qed (simp add: unique.keeps_return)

lemma post_scan_unique:
  assumes "\<forall>c \<in> set (tbl_certs w). plain_name c" "alerts_unique (tbl_notifs w)"
  shows "post (CheckExpiringCertificates env s) w (\<lambda>_ w'. alerts_unique (tbl_notifs w'))"
  unfolding CheckExpiringCertificates_def
proof (intro post_bindI post_now post_GetExpiring post_case_sum post_returnI, simp_all only: sum.distinct sum.inject, goal_cases)
  case (1 t w1 e w2 e')
  then show ?case using assms(2) by (auto dest!: notifs_tables)
next
  case (2 t w1 w2 certs)
  then have "\<forall>c \<in> set certs. plain_name c" using assms(1) by (auto simp: same_dataD plain_name_def)
  moreover have "alerts_unique (tbl_notifs w2)" using 2 assms(2) by (auto dest!: notifs_tables)
  ultimately show ?case by (intro post_bindI post_keeps [OF unique_checks] post_returnI) simp_all
qed

lemma plain_names_scan:
  assumes "distinct (map cert_ID (tbl_certs w))" "\<forall>c \<in> set (tbl_certs w). plain_name c" "scanned env s before w w'"
  shows "distinct (map cert_ID (tbl_certs w')) \<and> (\<forall>c \<in> set (tbl_certs w'). plain_name c)"
proof -
  have d: "distinct (map cert_ID (tbl_certs w'))" using assms(1,3) by (simp add: scanned_def)
  have "plain_name c'" if "c' \<in> set (tbl_certs w')" for c'
  proof -
    from row_of_distinct [OF d that] assms(3) obtain c where c: "row_of cert_ID (cert_ID c') (tbl_certs w) = Some c" "scan_moved before c c'"
      unfolding scanned_def by blast
    have "plain_name c" using assms(2) row_of_Some [OF c(1)] by blast
    moreover have "cert_ID c' = cert_ID c" "cert_CommonName c' = cert_CommonName c" using c(2) by (auto simp: scan_moved_def)
    ultimately show ?thesis by (simp add: plain_name_def)
  qed
  with d show ?thesis by blast
qed

text \<open>
  Any scan, with any service and any outcome of its effects; and between scans anything else that adds no expiration warning:
  the policies and the certificates may be rewritten, created and deleted, and other rows of the outbox may come, go and be delivered.
\<close>

inductive scan_step :: "world \<Rightarrow> world \<Rightarrow> bool" where
  scan: "run_state (CheckExpiringCertificates env s) w = (r, w') \<Longrightarrow> scan_step w w'"
| other: "(\<And>i th ch. length (filter (is_alert i th ch) (tbl_notifs w')) \<le> length (filter (is_alert i th ch) (tbl_notifs w))) \<Longrightarrow>
    distinct (map cert_ID (tbl_certs w')) \<Longrightarrow> (\<And>c. c \<in> set (tbl_certs w') \<Longrightarrow> plain_name c) \<Longrightarrow> scan_step w w'"

lemma scan_step_keeps:
  assumes "scan_step w w'" "distinct (map cert_ID (tbl_certs w))" "\<forall>c \<in> set (tbl_certs w). plain_name c" "alerts_unique (tbl_notifs w)"
  shows "distinct (map cert_ID (tbl_certs w')) \<and> (\<forall>c \<in> set (tbl_certs w'). plain_name c) \<and> alerts_unique (tbl_notifs w')"
  using assms
proof (cases rule: scan_step.cases)
  case (scan env s r)
  show ?thesis using plain_names_scan [OF assms(2,3) post_run [OF post_CheckExpiringCertificates [OF assms(2)] scan]]
      post_run [OF post_scan_unique [OF assms(3,4)] scan] by blast
next
  case other
  then show ?thesis using assms(4) unfolding alerts_unique_def by (blast intro: order_trans)
qed

text \<open>
  C14. No alert is stored twice. Start with an outbox that holds no expiration warning twice, for example an empty one. Over any number
  of scans, under any pattern of failures, it never holds two expiration warnings for the same certificate, threshold and channel:
  neither a policy that lists a threshold or a channel twice, nor a failed delivery leads to a second row. Between the scans
  policies and certificates may change in any way, and the outbox in any way that adds no warning.
  The identifiers of the certificates are assumed distinct and not empty, and common names without an opening bracket, in which the
  text of a threshold could otherwise be forged.
\<close>

theorem alerts_never_repeated:
  assumes "distinct (map cert_ID (tbl_certs w))" "\<forall>c \<in> set (tbl_certs w). cert_ID c \<noteq> '''' \<and> CHR ''['' \<notin> set (cert_CommonName c)"
    and "\<forall>i th ch. length (filter (is_alert i th ch) (tbl_notifs w)) \<le> 1" "scan_step\<^sup>*\<^sup>* w w'"
  shows "length (filter (is_alert certID threshold channel) (tbl_notifs w')) \<le> 1"
proof -
  from assms(4) have "distinct (map cert_ID (tbl_certs w')) \<and> (\<forall>c \<in> set (tbl_certs w'). plain_name c) \<and> alerts_unique (tbl_notifs w')"
  proof (induction rule: rtranclp_induct)
    case base
    then show ?case using assms(1-3) by (simp add: plain_name_def alerts_unique_def)
  next
    case (step u v)
    then show ?case using scan_step_keeps by blast
  qed
  then show ?thesis by (simp add: alerts_unique_def)
qed

section \<open>Every due certificate gets a renewal\<close>

text \<open>
  Identifiers of jobs are made from the clock and a counter. \<open>fresh_ids\<close>: no job has an identifier that
  the counter is still to produce.
\<close>

definition fresh_ids :: "world \<Rightarrow> bool" where
  "fresh_ids w = (\<forall>j \<in> set (tbl_jobs w). \<forall>t n. idCounter w < n \<longrightarrow> job_ID j \<noteq> ''job'' @ ''-'' @ show_int t @ ''-'' @ show_nat n)"

lemma counter_of_id: "p @ ''-'' @ show_nat n = q @ ''-'' @ show_nat m \<Longrightarrow> n = m"
proof -
  have tw: "takeWhile (\<lambda>c. c \<noteq> CHR ''-'') (rev (p @ ''-'' @ show_nat n)) = rev (show_nat n)" for p n
    by (subst rev_append, subst rev_append, simp, subst takeWhile_append2) auto
  assume "p @ ''-'' @ show_nat n = q @ ''-'' @ show_nat m"
  then have "rev (show_nat n) = rev (show_nat m)" using tw [of p n] tw [of q m] by metis
  then show "n = m" by (simp add: show_nat_inj)
qed

text \<open>The counter only advances, jobs are as they were, and no certificate is added or removed.\<close>

definition advanced :: "world \<Rightarrow> world \<Rightarrow> bool" where
  "advanced w w' = (idCounter w \<le> idCounter w' \<and> tbl_jobs w' = tbl_jobs w \<and> map cert_ID (tbl_certs w') = map cert_ID (tbl_certs w))"

interpretation forward: step_audit advanced
  by unfold_locales (auto simp: advanced_def)

lemma forward_cert_update: "state_io_rel advanced (CertificateRepository_Update env c)"
  unfolding CertificateRepository_Update_def CertificateRepository_UpdateWithTx_def
  by (intro forward.keeps_steps forward.keeps_exec) (simp add: advanced_def)

lemma forward_alert: "state_io_rel advanced (SendThresholdAlertOnChannel env n cert d th ch)"
  unfolding SendThresholdAlertOnChannel_def new_notification_def resolveRecipient_def
    OwnerRepository_Get_def lookup_row_def NotificationRepository_Create_def sendNotification_def notifier_Send_def
    notif_updates update_notif_def recordExpiryAlert_def
  by (intro forward.keeps_steps forward.keeps_insert forward.keeps_exec; simp add: advanced_def)

lemma forward_scan:
  "state_io_rel advanced (cached_policy env cache i)" "state_io_rel advanced (updateCertExpiryStatus env cert d)"
  "state_io_rel advanced (sendThresholdAlerts env s cert k ths policy)" "state_io_rel advanced (ari_check env connector i)"
  unfolding cached_policy_def RenewalPolicyRepository_Get_def lookup_row_def updateCertExpiryStatus_def Let_def sendThresholdAlerts_def
    alert_threshold_def alert_on_channel_def discard_def RecordExpiryAlertDeduped_def recordExpiryAlert_def
    HasThresholdNotificationOnChannel_def NotificationRepository_List_def query_page_def ari_check_def CertificateRepository_GetLatestVersion_def
  by (intro forward.keeps_for_each forward.keeps_steps forward.keeps_RecordEvent forward_cert_update forward_alert)+

definition progressed :: "world \<Rightarrow> world \<Rightarrow> bool" where
  "progressed w w' = ((fresh_ids w \<longrightarrow> fresh_ids w') \<and> set (tbl_jobs w) \<subseteq> set (tbl_jobs w') \<and>
     map cert_ID (tbl_certs w') = map cert_ID (tbl_certs w))"

lemma advanced_progressed: "advanced w w' \<Longrightarrow> progressed w w'"
  unfolding advanced_def progressed_def fresh_ids_def by (auto dest: order_le_less_trans)

lemma progressed_trans: "progressed u v \<Longrightarrow> progressed v w \<Longrightarrow> progressed u w"
  by (auto simp: progressed_def)

definition renewing :: "string \<Rightarrow> world \<Rightarrow> bool" where
  "renewing i w = (\<exists>j \<in> set (tbl_jobs w). active_renewal j \<and> job_CertificateID j = i)"

lemma renewing_progressed: "renewing i w \<Longrightarrow> progressed w w' \<Longrightarrow> renewing i w'"
  by (auto simp: renewing_def progressed_def)

lemma created_job_run:
  assumes "fault env = (\<lambda>_. False)" "fresh_ids w" "has_key cert_ID i (tbl_certs w)"
  shows "post (do { job \<leftarrow> new_pending_job env i JobTypeRenewal None None; JobRepository_Create env job }) w
    (\<lambda>r w'. (\<exists>k. r = Inr k) \<and> progressed w w' \<and> renewing i w')"
proof -
  define k where "k = ''job'' @ ''-'' @ show_int (clock env (steps w)) @ ''-'' @ show_nat (Suc (idCounter w))"
  have "\<forall>j \<in> set (tbl_jobs w). job_ID j \<noteq> k" using assms(2) unfolding fresh_ids_def k_def by (meson lessI)
  then have new: "\<not> has_key job_ID k (tbl_jobs w)" "k \<noteq> ''''" by (auto simp: has_key_iff k_def)
  have later: "k \<noteq> ''job'' @ ''-'' @ show_int t @ ''-'' @ show_nat n" if "Suc (idCounter w) < n" for t n
    using that counter_of_id [of "''job'' @ ''-'' @ show_int (clock env (steps w))" "Suc (idCounter w)" "''job'' @ ''-'' @ show_int t" n]
    by (auto simp: k_def)
  have kf: "CHR ''j'' # CHR ''o'' # CHR ''b'' # CHR ''-'' # show_int (clock env (steps w)) @ CHR ''-'' # show_nat (Suc (idCounter w)) = k"
    by (simp add: k_def)
  show ?thesis
    using new assms later
    by (simp add: new_pending_job_def generateID_def JobRepository_Create_def insert_row_def post_def run_simps kf
        job_fks_def fk_ok_def Let_def progressed_def renewing_def active_renewal_def)
      (auto simp: fresh_ids_def)
qed

lemma create_scan_job_live:
  assumes "fault env = (\<lambda>_. False)" "fresh_ids w" "has_key cert_ID (cert_ID c) (tbl_certs w)"
  shows "post (create_scan_job env c d a) w (\<lambda>_ w'. progressed w w' \<and> renewing (cert_ID c) w')"
proof -
  have eq: "create_scan_job env c d a = do {
      r \<leftarrow> do { job \<leftarrow> new_pending_job env (cert_ID c) JobTypeRenewal None None; JobRepository_Create env job };
      (case r of Inl e \<Rightarrow> State_Monad.return () | Inr jobID \<Rightarrow> do {
          _ \<leftarrow> CertificateRepository_Update env (c \<lparr> cert_Status := CertificateStatusRenewalInProgress \<rparr>);
          discard (RecordEvent env ''system'' ActorTypeSystem ''renewal_job_created'' ''certificate'' (cert_ID c)
            ([(''days_until_expiry'', JFloat d), (''job_id'', JStr jobID)] @ (if a then [(''renewal_trigger'', JStr ''ari'')] else []))) }) }"
    by (simp add: create_scan_job_def)
  show ?thesis unfolding eq
    by (rule post_bindI, rule post_mono [OF created_job_run [OF assms]],
        intro post_case_sum post_returnI post_bindI post_keeps [OF forward_cert_update] post_discard post_keeps [OF forward.keeps_RecordEvent])
      (auto dest!: advanced_progressed intro: progressed_trans renewing_progressed)
qed

definition no_ari :: "IssuerConnector \<Rightarrow> bool" where
  "no_ari connector = (\<forall>n pem. ic_GetRenewalInfo connector n pem = Inr None)"

lemma ari_check_none: "no_ari connector \<Longrightarrow> post (ari_check env connector i) w (\<lambda>a w'. a = ARIUnavailable)"
  unfolding ari_check_def no_ari_def
  by (intro post_bindI post_keeps [OF keeps_GetLatestVersion] post_case_sum post_if post_returnI post_keeps [OF same.keeps_tick]) simp_all

lemma has_active_exact:
  assumes "fault env = (\<lambda>_. False)"
  shows "post (has_active_renewal env i) w (\<lambda>b w'. b = renewing i w \<and> advanced w w')"
  using assms
  by (auto simp: has_active_renewal_def JobRepository_ListByCertificate_def query_def post_def run_simps list_ex_iff renewing_def advanced_def)

lemma renew_if_due_live:
  assumes "fault env = (\<lambda>_. False)" "fresh_ids w" "has_key cert_ID (cert_ID c) (tbl_certs w)"
  shows "post (renew_if_due env s c d) w (\<lambda>_ w'. progressed w w' \<and>
    (\<forall>connector. rn_issuerRegistry s (cert_IssuerID c) = Some connector \<longrightarrow> no_ari connector \<longrightarrow> renewing (cert_ID c) w'))"
proof (cases "rn_issuerRegistry s (cert_IssuerID c)")
  case None
  then show ?thesis by (simp add: renew_if_due_def progressed_def)
next
  case (Some connector)
  have ari: "post (ari_check env connector (cert_ID c)) w (\<lambda>a w'. (no_ari connector \<longrightarrow> a = ARIUnavailable) \<and> advanced w w')"
    using ari_check_none [of connector env "cert_ID c" w] post_frame [OF forward_scan(4), of env connector "cert_ID c" w]
    by (auto simp: post_def split: prod.splits)
  have live: "fresh_ids v \<and> has_key cert_ID (cert_ID c) (tbl_certs v)" if "advanced w v" for v
  proof -
    have "set (map cert_ID (tbl_certs v)) = set (map cert_ID (tbl_certs w))" using that by (simp add: advanced_def)
    then show ?thesis using advanced_progressed [OF that] assms(2,3) by (simp add: progressed_def has_key_iff)
  qed
  show ?thesis unfolding renew_if_due_def Some option.case
  proof (rule post_bindI, rule post_mono [OF ari], intro post_if post_returnI post_bindI post_mono [OF has_active_exact [OF assms(1)]], goal_cases)
    case (1 a w1)
    then show ?case by (auto intro: advanced_progressed)
  next
    case (2 a w1 b w2)
    then have "advanced w w2" "renewing (cert_ID c) w1" by (auto intro: forward.frame_trans)
    with 2 show ?case by (auto intro: advanced_progressed renewing_progressed)
  next
    case (3 a w1 b w2)
    then have adv: "advanced w w2" by (auto intro: forward.frame_trans)
    have "post (create_scan_job env c d (a = ARIRenewNow)) w2 (\<lambda>_ w'. progressed w2 w' \<and> renewing (cert_ID c) w')"
      using live [OF adv] by (intro create_scan_job_live assms(1)) simp_all
    then show ?case by (rule post_mono) (auto intro: progressed_trans [OF advanced_progressed [OF adv]])
  qed
qed

abbreviation renewable :: "RenewalService \<Rightarrow> ManagedCertificate \<Rightarrow> bool" where
  "renewable s c \<equiv> \<not> skipped_status (cert_Status c) \<and>
     (\<exists>connector. rn_issuerRegistry s (cert_IssuerID c) = Some connector \<and> no_ari connector)"

lemma live_after:
  assumes "advanced w v" "fresh_ids w" "has_key cert_ID i (tbl_certs w)"
  shows "fresh_ids v \<and> has_key cert_ID i (tbl_certs v)"
proof -
  have "set (map cert_ID (tbl_certs v)) = set (map cert_ID (tbl_certs w))" using assms(1) by (simp add: advanced_def)
  then show ?thesis using advanced_progressed [OF assms(1)] assms(2,3) by (simp add: progressed_def has_key_iff)
qed

lemma check_certificate_live:
  assumes "fault env = (\<lambda>_. False)" "fresh_ids w" "has_key cert_ID (cert_ID c) (tbl_certs w)"
  shows "post (check_certificate env s cache c) w (\<lambda>_ w'. progressed w w' \<and> (renewable s c \<longrightarrow> renewing (cert_ID c) w'))"
proof -
  have upd: "post (updateCertExpiryStatus env c d) v (\<lambda>c' v'. (cert_ID c' = cert_ID c \<and> cert_IssuerID c' = cert_IssuerID c) \<and> advanced v v')" for d v
    by (intro post_conj post_frame [OF forward_scan(2)] post_updateCertExpiryStatus) (auto dest!: restatus_fields)
  show ?thesis unfolding check_certificate_def
  proof (intro post_if post_returnI post_bindI post_keeps [OF forward.keeps_now] post_let post_keeps [OF forward_scan(1)] post_mono [OF upd]
      post_keeps [OF forward_scan(3)], goal_cases)
    case (2 t w1 d cp w2 ths c' w3 u w4)
    have adv: "advanced w w4" using 2 by (meson forward.frame_trans)
    have "post (renew_if_due env s c' d) w4 (\<lambda>_ w'. progressed w4 w' \<and>
        (\<forall>connector. rn_issuerRegistry s (cert_IssuerID c') = Some connector \<longrightarrow> no_ari connector \<longrightarrow> renewing (cert_ID c') w'))"
      using live_after [OF adv assms(2,3)] 2 by (intro renew_if_due_live assms(1)) auto
    then show ?case by (rule post_mono) (use 2 in \<open>auto intro: progressed_trans [OF advanced_progressed [OF adv]]\<close>)
  qed (auto simp: progressed_def)
qed

lemma check_certificates_live:
  assumes "fault env = (\<lambda>_. False)" "fresh_ids w" "\<forall>c \<in> set certs. has_key cert_ID (cert_ID c) (tbl_certs w)"
  shows "post (check_certificates env s cache certs) w (\<lambda>_ w'. progressed w w' \<and> (\<forall>c \<in> set certs. renewable s c \<longrightarrow> renewing (cert_ID c) w'))"
  using assms(2,3)
proof (induction certs arbitrary: cache w)
  case (Cons c certs)
  have "has_key cert_ID (cert_ID c) (tbl_certs w)" using Cons.prems(2) by simp
  then have "post (check_certificate env s cache c) w (\<lambda>_ w'. progressed w w' \<and> (renewable s c \<longrightarrow> renewing (cert_ID c) w'))"
    by (rule check_certificate_live [OF assms(1) Cons.prems(1)])
  then show ?case unfolding check_certificates.simps
  proof (intro post_bindI, elim post_mono, goal_cases)
    case (1 cache' w1)
    have "set (map cert_ID (tbl_certs w1)) = set (map cert_ID (tbl_certs w))" using 1 by (simp add: progressed_def)
    then have "\<forall>d \<in> set certs. has_key cert_ID (cert_ID d) (tbl_certs w1)" using Cons.prems(2) by (simp add: has_key_iff)
    moreover have "fresh_ids w1" using 1 Cons.prems(1) by (simp add: progressed_def)
    ultimately have "post (check_certificates env s cache' certs) w1
        (\<lambda>_ w'. progressed w1 w' \<and> (\<forall>c \<in> set certs. renewable s c \<longrightarrow> renewing (cert_ID c) w'))" by (rule Cons.IH [rotated])
    then show ?case by (rule post_mono) (use 1 in \<open>auto intro: progressed_trans renewing_progressed\<close>)
  qed
qed (simp add: progressed_def)

lemma GetExpiring_live:
  assumes "fault env = (\<lambda>_. False)"
  shows "post (CertificateRepository_GetExpiringCertificates env before) w (\<lambda>q w'. advanced w w' \<and>
    q = Inr (map (scan_cert w) (sort_key cert_ExpiresAt (filter (\<lambda>c. cert_ExpiresAt c < before \<and>
      cert_Status c \<noteq> CertificateStatusArchived) (tbl_certs w)))))"
  using assms
  by (auto simp: CertificateRepository_GetExpiringCertificates_def query_def post_def run_simps advanced_def scan_cert_def getTargetIDs_def)

text \<open>
  C13. Every due certificate is renewed. When no database call fails, after \<^verbatim>\<open>CheckExpiringCertificates\<close> each certificate that
  expires before 31 calendar days have passed, is not in renewal, archived, revoked, failed or expired, and has a registered issuer
  without renewal information, has a pending or running renewal job, whatever the alerts, the policies and the refusals of the
  notification channels. The identifiers the process is still to generate are assumed not to be taken. This is what the
  code does; the documentation says that the \<^verbatim>\<open>renewal_window_days\<close> and \<^verbatim>\<open>auto_renew\<close> of the policy decide, which the scan
  does not read: a certificate with 25 days left and a window of 10 days gets its renewal job at once, and so does one whose policy
  does not renew automatically.
\<close>

theorem due_certificates_renewed:
  assumes "fault env = (\<lambda>_. False)" "fresh_ids w" "run_state (CheckExpiringCertificates env s) w = (r, w')"
    and "c \<in> set (tbl_certs w)" "due (addDays env (clock env (steps w)) 31) c"
    and "rn_issuerRegistry s (cert_IssuerID c) = Some connector" "no_ari connector"
  shows "r = Inr () \<and> (\<exists>j \<in> set (tbl_jobs w'). job_CertificateID j = cert_ID c \<and> job_Type j = JobTypeRenewal \<and>
    (job_Status j = JobStatusPending \<or> job_Status j = JobStatusRunning))"
proof -
  define before where "before = addDays env (clock env (steps w)) 31"
  define w0 where "w0 = w \<lparr> steps := Suc (steps w) \<rparr>"
  define rows where "rows = sort_key cert_ExpiresAt (filter (\<lambda>c. cert_ExpiresAt c < before \<and> cert_Status c \<noteq> CertificateStatusArchived) (tbl_certs w0))"
  have c: "c \<in> set rows" "renewable s c"
    using assms(4-7) by (auto simp: rows_def w0_def before_def due_def skipped_status_def)
  have scan: "post (check_certificates env s [] (map (scan_cert w0) rows)) v (\<lambda>_. renewing (cert_ID c))" if "advanced w0 v" for v
  proof -
    have adv: "advanced w v" using that by (simp add: advanced_def w0_def)
    have "has_key cert_ID (cert_ID d) (tbl_certs w)" if "d \<in> set (map (scan_cert w0) rows)" for d
      using that by (auto simp: rows_def has_key_iff w0_def)
    then have "\<forall>d \<in> set (map (scan_cert w0) rows). has_key cert_ID (cert_ID d) (tbl_certs v)" "fresh_ids v"
      using live_after [OF adv assms(2)] imageI [OF c(1), of "scan_cert w0"] by (simp_all only: set_map) blast+
    then show ?thesis by (intro post_mono [OF check_certificates_live [OF assms(1)]]) (use c in auto)
  qed
  have "post (CheckExpiringCertificates env s) w (\<lambda>r w'. r = Inr () \<and> renewing (cert_ID c) w')"
    unfolding CheckExpiringCertificates_def post_bind post_def [of "now env"] run_now prod.case w0_def [symmetric] before_def [symmetric]
    by (rule post_mono [OF GetExpiring_live [OF assms(1)]]) (auto simp: post_bind rows_def [symmetric] intro!: post_mono [OF scan])
  from post_run [OF this assms(3)] show ?thesis by (auto simp: renewing_def active_renewal_def)
qed


section \<open>Examples\<close>

definition renewal_service :: "string \<Rightarrow> RenewalService" where
  "renewal_service mode = (RenewalService_SetTransactor True \<circ> SetTargetRepo True)
     (NewRenewalService True (NewNotificationService []) sample_registry mode)"

definition revoked_world :: world where
  "revoked_world = issuing_world \<lparr> tbl_certs := [sample_cert ''c1'' \<lparr> cert_Status := CertificateStatusRevoked \<rparr>] \<rparr>"

lemmas renewal_service_defs = renewal_service_def RenewalService_SetTransactor_def SetTargetRepo_def NewRenewalService_def

theorem scan_correct_witness:
  "let w' = snd (run_state (CheckExpiringCertificates (calm 9) (renewal_service ''agent'')) revoked_world)
   in row_of cert_ID ''c1'' (tbl_certs w') = row_of cert_ID ''c1'' (tbl_certs revoked_world) \<and> tbl_jobs w' = []"
proof -
  obtain r w' where run: "run_state (CheckExpiringCertificates (calm 9) (renewal_service ''agent'')) revoked_world = (r, w')" by (metis surj_pair)
  have d: "distinct (map cert_ID (tbl_certs revoked_world))" by (simp add: revoked_world_def)
  have nd: "\<not> due b c" if "c \<in> set (tbl_certs revoked_world)" for b c
    using that by (auto simp: revoked_world_def due_def skipped_status_def)
  have w: "map cert_ID (tbl_certs revoked_world) = [''c1'']" "tbl_jobs revoked_world = []"
    by (simp_all add: revoked_world_def sample_cert_def issuing_world_def empty_world_def)
  from scan_correct [OF d run] obtain js where ids: "map cert_ID (tbl_certs w') = [''c1'']" and js: "tbl_jobs w' = js"
    "scan_jobs (calm 9) (renewal_service ''agent'') (addDays (calm 9) (clock (calm 9) (steps revoked_world)) 31) (tbl_certs revoked_world) [] js"
    and moved: "\<And>i c'. row_of cert_ID i (tbl_certs w') = Some c' \<Longrightarrow> \<exists>c. row_of cert_ID i (tbl_certs revoked_world) = Some c \<and>
      scan_moved (addDays (calm 9) (clock (calm 9) (steps revoked_world)) 31) c c'"
    unfolding w by (elim conjE exE) (simp only: append_Nil)
  have "js = []" using js(2) nd unfolding scan_jobs_def by (metis ex_in_conv set_empty)
  have "''c1'' \<in> cert_ID ` set (tbl_certs w')" using ids by (metis list.set_intros(1) list.set_map)
  then obtain c' where c': "row_of cert_ID ''c1'' (tbl_certs w') = Some c'" using row_of_None by (metis not_None_eq)
  from moved [OF this] obtain c where c: "row_of cert_ID ''c1'' (tbl_certs revoked_world) = Some c"
    "scan_moved (addDays (calm 9) (clock (calm 9) (steps revoked_world)) 31) c c'" by blast
  have "c' = c" using c(2) nd [OF conjunct1 [OF row_of_Some [OF c(1)]]] unfolding scan_moved_def by blast
  then show ?thesis using c(1) c' js(1) \<open>js = []\<close> unfolding Let_def run by simp
qed

theorem due_certificates_renewed_witness:
  "let w' = snd (run_state (CheckExpiringCertificates (calm 9) (renewal_service ''agent'')) issuing_world)
   in \<exists>j \<in> set (tbl_jobs w'). job_CertificateID j = ''c1'' \<and> job_Type j = JobTypeRenewal \<and>
     (job_Status j = JobStatusPending \<or> job_Status j = JobStatusRunning)"
proof -
  obtain r w' where run: "run_state (CheckExpiringCertificates (calm 9) (renewal_service ''agent'')) issuing_world = (r, w')" by (metis surj_pair)
  have "sample_cert ''c1'' \<in> set (tbl_certs issuing_world)" "fresh_ids issuing_world" "fault (calm 9) = (\<lambda>_. False)"
    "due (addDays (calm 9) (clock (calm 9) (steps issuing_world)) 31) (sample_cert ''c1'')"
    by (simp_all add: revocation_samples fresh_ids_def due_def skipped_status_def)
  moreover have "rn_issuerRegistry (renewal_service ''agent'') (cert_IssuerID (sample_cert ''c1'')) = Some naming_connector" "no_ari naming_connector"
    by (simp_all add: renewal_service_defs sample_registry_def sample_cert_def no_ari_def naming_connector_def)
  ultimately show ?thesis
    using due_certificates_renewed [OF _ _ run, of "sample_cert ''c1''" naming_connector] unfolding Let_def run
    by (simp add: sample_cert_def)
qed

theorem alerts_never_repeated_witness:
  "let scan = (\<lambda>w. snd (run_state (CheckExpiringCertificates (calm 9) (renewal_service ''agent'')) w));
       edit = (\<lambda>w. w \<lparr> tbl_policies := [], tbl_certs := [sample_cert ''c1''] \<rparr>)
   in length (filter (is_alert ''c1'' 30 ''Webhook'') (tbl_notifs (scan (edit (scan issuing_world))))) \<le> 1"
proof -
  let ?scan = "\<lambda>w. snd (run_state (CheckExpiringCertificates (calm 9) (renewal_service ''agent'')) w)"
  let ?edit = "\<lambda>w. w \<lparr> tbl_policies := [], tbl_certs := [sample_cert ''c1''] \<rparr>"
  have "scan_step w (?scan w)" for w by (rule scan_step.scan) (rule prod.collapse [symmetric])
  moreover have "scan_step w (?edit w)" for w by (rule scan_step.other) (auto simp: plain_name_def sample_cert_def)
  ultimately have "scan_step\<^sup>*\<^sup>* issuing_world (?scan (?edit (?scan issuing_world)))"
    by (intro rtranclp.rtrancl_into_rtrancl [OF rtranclp.rtrancl_into_rtrancl [OF r_into_rtranclp]])
  moreover have "distinct (map cert_ID (tbl_certs issuing_world))" "tbl_notifs issuing_world = []"
    "\<forall>c \<in> set (tbl_certs issuing_world). cert_ID c \<noteq> '''' \<and> CHR ''['' \<notin> set (cert_CommonName c)"
    by (simp_all add: revocation_samples)
  ultimately show ?thesis unfolding Let_def by (intro alerts_never_repeated) simp_all
qed

end
