(* ===== verification/Renewal_Processing.thy ===== *)
theory Renewal_Processing
  imports Renewals
begin

text \<open>
  What processing a renewal job does, \<^verbatim>\<open>internal/service/renewal.go\<close>: a renewal with keys generated by the
  server is recorded in one transaction, and with agents only requests that pass the profile's key rules are signed.
\<close>

section \<open>Renewal by the server is atomic\<close>

text \<open>Certificates and versions are as they were, and the audit log only grew.\<close>

definition kept :: "world \<Rightarrow> world \<Rightarrow> bool" where
  "kept w w' = (tbl_certs w' = tbl_certs w \<and> tbl_versions w' = tbl_versions w \<and> (\<exists>es. tbl_audit w' = tbl_audit w @ es))"

interpretation kept: world_frame kept
  by unfold_locales (auto simp: kept_def)

lemma kept_weak: "same_data w w' \<Longrightarrow> kept w w'" "same_but_audit w w' \<Longrightarrow> kept w w'"
  by (auto simp: kept_def same_but_audit_def dest!: tables_same_data)

lemma kept_RecordEvent: "state_io_rel kept (RecordEvent env a t ac rt ri d)"
  unfolding RecordEvent_def by (rule keeps_postI) (intro post_keeps [OF keeps_logged] kept_weak)

lemma kept_jobs:
  "state_io_rel kept (JobRepository_UpdateStatus env i st m)" "state_io_rel kept (JobRepository_Create env j)"
  unfolding JobRepository_UpdateStatus_def JobRepository_Create_def
  by (intro kept.keeps_prims kept.keeps_exec kept.keeps_insert; simp add: kept_def)+

lemma kept_notify: "state_io_rel kept (SendRenewalNotification env n cert ok err)"
  unfolding SendRenewalNotification_def store_and_send_def new_notification_def resolveRecipient_def
    OwnerRepository_Get_def lookup_row_def NotificationRepository_Create_def sendNotification_def notifier_Send_def
    notif_updates update_notif_def
  by (intro kept.keeps_prims kept.keeps_insert kept.keeps_exec; simp add: kept_def)

lemma kept_target_infos: "state_io_rel kept (target_infos env s tids)"
  by (induction tids) (auto simp: target_info_def TargetRepository_Get_def lookup_row_def intro!: kept.keeps_prims)

lemma kept_deploy: "state_io_rel kept (createDeploymentJobs env s cert)"
  unfolding createDeploymentJobs_def deployment_targets_def create_deployment_job_def new_pending_job_def discard_def
    TargetRepository_ListByCertificate_def
  by (intro kept.keeps_prims kept_jobs kept_target_infos)

lemma kept_helpers:
  "state_io_rel kept (failJob env job m)" "state_io_rel kept (complete_renewal env s job cert)"
  "state_io_rel kept (issuer_failed env s job cert m err)" "state_io_rel kept (server_csr env cl job cert)"
  "state_io_rel kept (RenewCertificate connector cert csrPEM profile)" "state_io_rel kept (renewal_profile env s cert)"
  unfolding complete_renewal_def issuer_failed_def server_csr_def failJob_def discard_def RenewCertificate_def renewal_profile_def
    ProfileRepository_Get_def
  by (intro kept.keeps_prims kept_jobs kept_RecordEvent kept_notify kept_deploy)+

lemma post_new_version:
  assumes "\<And>v w'. same_data w w' \<Longrightarrow> cv_CertificateID v = i \<Longrightarrow> cv_SerialNumber v = ir_Serial res \<Longrightarrow> cv_NotAfter v = ir_NotAfter res \<Longrightarrow>
    cv_CSRPEM v = csr \<Longrightarrow> Q v w'"
  shows "post (new_version env cl i res csr alg n) w Q"
  unfolding new_version_def
proof (intro post_bindI post_generateID post_now post_returnI, goal_cases)
  case (1 j w1 t w2)
  then have "same_data w w2" by (blast intro: same.frame_trans)
  with assms show ?case by simp
qed

lemma post_CreateVersion:
  assumes "\<And>e w'. same_data w w' \<Longrightarrow> Q (Inl e) w'"
    and "\<And>j w1. same_data w w1 \<Longrightarrow> version_columns_ok w (v \<lparr> cv_ID := j \<rparr>) \<Longrightarrow> Q (Inr ()) (tbl_versions_update (\<lambda>t. t @ [v \<lparr> cv_ID := j \<rparr>]) w1)"
  shows "post (CertificateRepository_CreateVersionWithTx env v) w Q"
  unfolding CertificateRepository_CreateVersionWithTx_def
proof (intro post_bindI post_keeps [OF logged_id] post_let post_insert, goal_cases)
  case (1 j w1 row e w2)
  then have "same_data w w2" by (blast intro: same.frame_trans)
  then show ?case by (simp add: assms(1))
next
  case (2 j w1 row w2)
  then have w2: "same_data w w2" by (blast intro: same.frame_trans)
  have "version_columns_ok w row" using 2 by (simp add: version_columns_ok_def same_dataD [OF w2])
  with 2 w2 show ?case by (simp add: assms(2))
qed

text \<open>A renewal on record: the new version, the certificate that follows it, and the event.\<close>

definition renewal_recorded :: "string \<Rightarrow> CertificateVersion \<Rightarrow> ManagedCertificate \<Rightarrow> world \<Rightarrow> world \<Rightarrow> bool" where
  "renewal_recorded i v c w w' = (
     (\<exists>j. tbl_versions w' = tbl_versions w @ [v \<lparr> cv_ID := j \<rparr>] \<and> version_columns_ok w (v \<lparr> cv_ID := j \<rparr>)) \<and>
     tbl_certs w' = update_row cert_ID (cert_ID c) (cert_columns c) (tbl_certs w) \<and>
     (\<exists>es ev fs. tbl_audit w' = tbl_audit w @ es @ [ev] @ fs \<and> ae_Action ev = ''renewal_job_completed'' \<and> ae_ResourceID ev = i))"

lemma renewal_recorded_kept:
  assumes "kept w w1" "renewal_recorded i v c w1 w2" "kept w2 w3"
  shows "renewal_recorded i v c w w3"
proof -
  from assms obtain es fs gs hs ev where "tbl_audit w1 = tbl_audit w @ es" "tbl_audit w2 = tbl_audit w1 @ fs @ [ev] @ gs"
    "tbl_audit w3 = tbl_audit w2 @ hs" "ae_Action ev = ''renewal_job_completed''" "ae_ResourceID ev = i"
    unfolding kept_def renewal_recorded_def by blast
  then have "\<exists>es ev fs. tbl_audit w3 = tbl_audit w @ es @ [ev] @ fs \<and> ae_Action ev = ''renewal_job_completed'' \<and> ae_ResourceID ev = i"
    by (intro exI [of _ "es @ fs"] exI [of _ ev] exI [of _ "gs @ hs"]) simp
  then show ?thesis using assms by (auto simp: kept_def renewal_recorded_def version_columns_ok_def)
qed

lemma post_record_renewal_tx:
  assumes "\<And>e w'. same_data w w' \<Longrightarrow> Q (Inl e) w'" "\<And>w'. renewal_recorded (job_CertificateID job) v c w w' \<Longrightarrow> Q (Inr ()) w'"
  shows "post (record_renewal_tx env job v c details) w Q"
  unfolding record_renewal_tx_def
proof (rule post_WithinTx, goal_cases)
  case (2 w0)
  show ?case
  proof (intro post_bindI post_CreateVersion post_CertUpdate post_case_sum post_returnI post_RecordEventWithTx allI impI,
      simp_all only: sum.case sum.distinct sum.inject simp_thms, goal_cases)
    case (1 j w1 u r w2 w3 y ev w4 x w5)
    have "tbl_versions w5 = tbl_versions w @ [v \<lparr> cv_ID := j \<rparr>]" "tbl_certs w5 = update_row cert_ID (cert_ID c) (cert_columns c) (tbl_certs w)"
      "tbl_audit w5 = tbl_audit w @ [ev]" using 1 2 by (auto dest!: tables_same_data)
    moreover have "version_columns_ok w (v \<lparr> cv_ID := j \<rparr>)" using 1 2 by (auto simp: version_columns_ok_def dest!: tables_same_data)
    moreover have "\<exists>es e fs. tbl_audit w @ [ev] = tbl_audit w @ es @ [e] @ fs \<and> ae_Action e = ''renewal_job_completed'' \<and>
        ae_ResourceID e = job_CertificateID job"
      using 1 by (intro exI [of _ "[]"] exI [of _ ev]) simp
    ultimately have "renewal_recorded (job_CertificateID job) v c w w5" unfolding renewal_recorded_def by auto
    with assms(2) show ?case by simp
  qed
qed (rule assms(1))

lemma post_issuer_failed: "(\<And>w'. kept w w' \<Longrightarrow> Q (Inl (Wrap m err)) w') \<Longrightarrow> post (issuer_failed env s job cert m err) w Q"
  unfolding issuer_failed_def
  by (intro post_bindI post_keeps [OF kept_helpers(1)] post_keeps [OF kept_notify] post_keeps [OF kept_RecordEvent] post_returnI)
    (meson kept.frame_trans)

lemma post_failJob: "(\<And>w'. kept w w' \<Longrightarrow> Q () w') \<Longrightarrow> post (failJob env job m) w Q"
  by (rule post_keeps [OF kept_helpers(1)]) auto

definition server_outcome :: "string \<Rightarrow> ManagedCertificate \<Rightarrow> unit result \<Rightarrow> world \<Rightarrow> world \<Rightarrow> bool" where
  "server_outcome i c r w w' = (kept w w' \<and> r \<noteq> Inr () \<or>
     (\<exists>v t. cv_CertificateID v = i \<and> renewal_recorded i v (renewed_cert c (cv_NotAfter v) t) w w'))"

lemma server_outcome_after: "kept w w1 \<Longrightarrow> server_outcome i c r w1 w2 \<Longrightarrow> kept w2 w3 \<Longrightarrow> server_outcome i c r w w3"
  unfolding server_outcome_def using kept.frame_trans renewal_recorded_kept by (elim disjE exE conjE) blast+

lemma post_record_renewal:
  assumes "rn_tx s" "\<And>e w'. kept w w' \<Longrightarrow> Q (Inl e) w'" "\<And>w'. renewal_recorded (job_CertificateID job) v c w w' \<Longrightarrow> Q (Inr ()) w'"
  shows "post (record_renewal env s job v c details) w Q"
  unfolding record_renewal_def if_P [OF assms(1)]
proof (intro post_bindI post_record_renewal_tx post_case_sum post_failJob post_returnI, simp_all only: sum.distinct sum.inject, goal_cases)
  case (1 e w1 e' w2)
  then show ?case using assms(2) kept.frame_trans kept_weak by metis
qed (rule assms(3))

lemma post_processRenewalServerKeygen:
  assumes "rn_tx s"
  shows "post (processRenewalServerKeygen env cl s connector job cert) w (\<lambda>r. server_outcome (job_CertificateID job) cert r w)"
  unfolding processRenewalServerKeygen_def
proof (intro post_bindI post_keeps [OF kept_helpers(4)] post_case_sum post_case_prod post_returnI post_keeps [OF kept_helpers(6)]
    post_keeps [OF kept_helpers(5)] post_issuer_failed post_new_version post_now post_let post_record_renewal [OF assms], goal_cases)
  case (1 k w1 e)
  then show ?case by (simp add: server_outcome_def)
next
  case (2 k w1 p csr key q w2 r w3 err w4)
  then show ?case by (simp add: server_outcome_def) (meson kept.frame_trans)
next
  case (3 k w1 p csr key q w2 r w3 res v w4 t w5 c' e w6 e')
  then have "kept w w6" by (meson kept.frame_trans kept_weak)
  with 3 show ?case by (simp add: server_outcome_def)
next
  case (4 k w1 p csr key q w2 r w3 res v w4 t w5 c' e w6 u)
  then show ?case by simp
next
  case (5 k w1 p csr key q w2 r w3 res v w4 t w5 c' w6 e)
  then show ?case by simp
next
  case (6 k w1 p csr key q w2 r w3 res v w4 t w5 c' w6 u)
  then have "server_outcome (job_CertificateID job) cert x w5 w6" for x
    unfolding server_outcome_def by (intro disjI2 exI [of _ v] exI [of _ t]) simp
  moreover have "kept w w5" using 6 by (meson kept.frame_trans kept_weak)
  ultimately have "server_outcome (job_CertificateID job) cert x w w7" if "kept w6 w7" for x w7
    using that server_outcome_after by blast
  then show ?case by (rule post_keeps [OF kept_helpers(2)])
qed

lemma renewed_columns: "cert_columns (renewed_cert (scan_cert w c) na t) c = renewed_cert c na t"
  by (simp add: cert_columns_def renewed_cert_def scan_cert_def)

lemma post_ProcessRenewalJob_server:
  assumes "rn_tx s" "rn_keygenMode s \<noteq> ''agent''"
  shows "post (ProcessRenewalJob env cl s job) w (\<lambda>r w'. kept w w' \<and> r \<noteq> Inr () \<or>
    (\<exists>c w0. row_of cert_ID (job_CertificateID job) (tbl_certs w) = Some c \<and>
       server_outcome (job_CertificateID job) (scan_cert w0 c) r w w'))"
  unfolding ProcessRenewalJob_def if_not_P [OF assms(2)]
proof (intro post_bindI post_keeps [OF kept_jobs(1)] post_case_sum post_returnI post_CertGet post_failJob post_if post_case_option
    post_mono [OF post_processRenewalServerKeygen [OF assms(1)]], simp_all only: sum.distinct sum.inject simp_thms, goal_cases)
  case (2 u w1 y e w2 e' w3)
  then show ?case by (meson kept.frame_trans kept_weak)
next
  case (3 u w1 y c w2 c' w3)
  then show ?case by (meson kept.frame_trans kept_weak)
next
  case (4 u w1 y c w2 c' connector r w3)
  have "kept w w2" using 4 by (meson kept.frame_trans kept_weak)
  then have "server_outcome (job_CertificateID job) (scan_cert w1 c) r w w3" using 4 server_outcome_after kept.frame_refl by blast
  moreover have "row_of cert_ID (job_CertificateID job) (tbl_certs w) = Some c" using 4 by (simp add: kept_def)
  ultimately show ?case by blast
qed (auto simp: kept.frame_refl, meson kept.frame_trans kept_weak)

text \<open>
  C9. A renewal with server-side keys is on record entirely or not at all. With the transactor wired, after
  \<^verbatim>\<open>ProcessRenewalJob\<close> either the call reports an error and no certificate and no version has changed, or exactly
  one version was added, for the certificate of the job and with a fresh fingerprint, that certificate and no other is active
  until the end of the new version, and the audit log has the event \<^verbatim>\<open>renewal_job_completed\<close>. This holds wherever a
  database call, the issuer or the cryptography fails.
\<close>

theorem server_renewal_atomic:
  assumes "rn_tx s" "rn_keygenMode s \<noteq> ''agent''" "run_state (ProcessRenewalJob env cl s job) w = (r, w')"
  defines "i \<equiv> job_CertificateID job"
  shows "(\<exists>e. r = Inl e) \<and> tbl_certs w' = tbl_certs w \<and> tbl_versions w' = tbl_versions w \<or>
    (\<exists>c v t es ev fs. row_of cert_ID i (tbl_certs w) = Some c \<and>
       tbl_versions w' = tbl_versions w @ [v] \<and> cv_CertificateID v = i \<and>
       \<not> has_key cv_FingerprintSHA256 (cv_FingerprintSHA256 v) (tbl_versions w) \<and>
       (\<forall>j. row_of cert_ID j (tbl_certs w') =
          (if j = i then Some (renewed_cert c (cv_NotAfter v) t) else row_of cert_ID j (tbl_certs w))) \<and>
       tbl_audit w' = tbl_audit w @ es @ [ev] @ fs \<and> ae_Action ev = ''renewal_job_completed'' \<and> ae_ResourceID ev = i)"
proof -
  have err: "\<exists>e. r = Inl e" if "r \<noteq> Inr ()" using that by (cases r) auto
  from post_run [OF post_ProcessRenewalJob_server [OF assms(1,2)] assms(3), folded i_def]
  consider "kept w w'" "r \<noteq> Inr ()"
    | c w0 v t where "row_of cert_ID i (tbl_certs w) = Some c" "cv_CertificateID v = i"
      "renewal_recorded i v (renewed_cert (scan_cert w0 c) (cv_NotAfter v) t) w w'"
    unfolding server_outcome_def by blast
  then show ?thesis
  proof cases
    case 1
    with err show ?thesis by (auto simp: kept_def)
  next
    case 2
    have ic: "cert_ID c = i" using row_of_Some [OF 2(1)] by simp
    from 2(3) obtain j es ev fs where v: "tbl_versions w' = tbl_versions w @ [v \<lparr> cv_ID := j \<rparr>]" "version_columns_ok w (v \<lparr> cv_ID := j \<rparr>)"
      and certs: "tbl_certs w' = update_row cert_ID i (cert_columns (renewed_cert (scan_cert w0 c) (cv_NotAfter v) t)) (tbl_certs w)"
      and ev: "tbl_audit w' = tbl_audit w @ es @ [ev] @ fs" "ae_Action ev = ''renewal_job_completed''" "ae_ResourceID ev = i"
      unfolding renewal_recorded_def by (auto simp: renewed_cert_def ic)
    have "row_of cert_ID k (tbl_certs w') = (if k = i then Some (renewed_cert c (cv_NotAfter v) t) else row_of cert_ID k (tbl_certs w))" for k
      using 2(1) by (simp add: certs row_of_update_row renewed_columns)
    with 2(1,2) v ev show ?thesis
      by (intro disjI2 exI [of _ c] exI [of _ "v \<lparr> cv_ID := j \<rparr>"] exI [of _ t] exI [of _ es] exI [of _ ev] exI [of _ fs])
        (simp add: version_columns_ok_def)
  qed
qed

section \<open>Requests of agents\<close>

text \<open>The profile the service reads for a certificate, when every call succeeds.\<close>

definition profile_of :: "RenewalService \<Rightarrow> world \<Rightarrow> ManagedCertificate \<Rightarrow> CertificateProfile option" where
  "profile_of s w cert = (if cert_CertificateProfileID cert \<noteq> '''' \<and> rn_profileRepo s
     then map_option scanProfile (row_of prof_ID (cert_CertificateProfileID cert) (tbl_profiles w)) else None)"

lemma post_renewal_profile:
  assumes "\<And>w'. same_data w w' \<Longrightarrow> Q (profile_of s w cert) w'"
    and "\<And>w'. same_data w w' \<Longrightarrow> fault env \<noteq> (\<lambda>_. False) \<Longrightarrow> Q None w'"
  shows "post (renewal_profile env s cert) w Q"
proof (cases "cert_CertificateProfileID cert \<noteq> '''' \<and> rn_profileRepo s")
  case True
  have nf: "fault env (steps w) \<Longrightarrow> fault env \<noteq> (\<lambda>_. False)" by auto
  show ?thesis
    using True assms(1) [OF same.R_steps] assms(2) [OF same.R_steps nf]
    by (cases "row_of prof_ID (cert_CertificateProfileID cert) (tbl_profiles w)")
      (auto simp: renewal_profile_def ProfileRepository_Get_def post_def run_simps Let_def profile_of_def)
next
  case False
  then show ?thesis using assms(1) [OF same.frame_refl] by (auto simp: renewal_profile_def profile_of_def)
qed

abbreviation same_versions :: "world \<Rightarrow> world \<Rightarrow> bool" where
  "same_versions w w' \<equiv> tbl_versions w' = tbl_versions w"

lemma post_store_version:
  assumes "\<And>e w'. same_versions w w' \<Longrightarrow> Q (Inl e) w'"
    and "\<And>j w'. tbl_versions w' = tbl_versions w @ [v \<lparr> cv_ID := j \<rparr>] \<Longrightarrow> Q (Inr ()) w'"
  shows "post (store_version env job v) w Q"
  unfolding store_version_def CertificateRepository_CreateVersion_def
  by (intro post_bindI post_CreateVersion post_case_sum post_failJob post_returnI)
    (auto intro!: assms simp: kept_def dest!: tables_same_data)

lemma post_store_cert: "(\<And>r w'. same_versions w w' \<Longrightarrow> Q r w') \<Longrightarrow> post (store_cert env job c) w Q"
  unfolding store_cert_def
  by (intro post_bindI post_CertUpdate_wrote post_case_sum post_failJob post_returnI) (auto simp: kept_def)

lemma post_new_version_key:
  assumes "\<And>v w'. same_data w w' \<Longrightarrow> cv_CertificateID v = i \<Longrightarrow> cv_CSRPEM v = csr \<Longrightarrow> cv_KeyAlgorithm v = alg \<Longrightarrow> cv_KeySize v = n \<Longrightarrow> Q v w'"
  shows "post (new_version env cl i res csr alg n) w Q"
  unfolding new_version_def
proof (intro post_bindI post_generateID post_now post_returnI, goal_cases)
  case (1 j w1 t w2)
  then have "same_data w w2" by (blast intro: same.frame_trans)
  with assms show ?case by simp
qed

definition agent_version :: "string \<Rightarrow> string \<Rightarrow> CSRValidationResult \<Rightarrow> CertificateVersion \<Rightarrow> bool" where
  "agent_version i csrPEM info v = (cv_CertificateID v = i \<and> cv_CSRPEM v = csrPEM \<and>
     cv_KeyAlgorithm v = cvr_KeyAlgorithm info \<and> cv_KeySize v = cvr_KeySize info)"

lemma post_sign_agent_csr:
  "post (sign_agent_csr env cl s connector job cert csrPEM profile info) w (\<lambda>r w'. same_versions w w' \<or>
     (\<exists>v. tbl_versions w' = tbl_versions w @ [v] \<and> agent_version (cert_ID cert) csrPEM info v))"
  unfolding sign_agent_csr_def
proof (intro post_bindI post_keeps [OF kept_helpers(5)] post_case_sum post_issuer_failed post_new_version_key post_store_version post_returnI
    post_now post_let post_store_cert post_keeps [OF kept_helpers(2)] post_RecordEvent, goal_cases)
qed (auto simp: kept_def agent_version_def dest!: tables)

text \<open>
  C15. Agents keep their keys, and only requests within the profile are signed. When keys are generated by agents,
  processing a renewal job adds no version. When an agent's request is submitted, at most one version is added: it is
  of the certificate, it stores the request itself, the request passed the check against the certificate's
  profile, and its key algorithm and size are those of the request. Only when a database call fails may the check
  have run without the profile.
\<close>

theorem agent_requests_checked:
  assumes "rn_keygenMode s = ''agent''" "run_state (ProcessRenewalJob env0 cl s job0) w0 = (r0, w1)"
    and "run_state (CompleteAgentCSRRenewal env cl s job cert csrPEM) w1 = (r, w2)"
  shows "tbl_versions w1 = tbl_versions w0 \<and> (tbl_versions w2 = tbl_versions w1 \<or>
    (\<exists>v info profile. tbl_versions w2 = tbl_versions w1 @ [v] \<and> agent_version (cert_ID cert) csrPEM info v \<and>
       ValidateCSRAgainstProfile cl csrPEM profile = Inr info \<and>
       (profile = profile_of s w1 cert \<or> profile = None \<and> fault env \<noteq> (\<lambda>_. False))))"
proof
  have "post (ProcessRenewalJob env0 cl s job0) w0 (\<lambda>r. same_versions w0)"
    unfolding ProcessRenewalJob_def if_P [OF assms(1)] processRenewalAgentKeygen_def
    by (intro post_bindI post_keeps [OF kept_jobs(1)] post_case_sum post_returnI post_CertGet post_failJob post_if post_case_option
      post_now post_CertUpdate_wrote post_RecordEvent) (auto simp: kept_def dest!: tables)
  from post_run [OF this assms(2)] show "tbl_versions w1 = tbl_versions w0" .
next
  let ?Q = "\<lambda>w'. same_versions w1 w' \<or> (\<exists>v info profile. tbl_versions w' = tbl_versions w1 @ [v] \<and> agent_version (cert_ID cert) csrPEM info v \<and>
       ValidateCSRAgainstProfile cl csrPEM profile = Inr info \<and>
       (profile = profile_of s w1 cert \<or> profile = None \<and> fault env \<noteq> (\<lambda>_. False)))"
  have "post (CompleteAgentCSRRenewal env cl s job cert csrPEM) w1 (\<lambda>r. ?Q)"
    unfolding CompleteAgentCSRRenewal_def
    by (intro post_bindI post_case_option post_failJob post_returnI post_renewal_profile post_case_sum post_keeps [OF kept_jobs(1)]
      post_mono [OF post_sign_agent_csr]) (auto simp: kept_def dest!: tables_same_data, blast+)
  from post_run [OF this assms(3)] show "?Q w2" .
qed

section \<open>Examples\<close>

definition sample_crypto :: crypto_lib where
  "sample_crypto = \<lparr> cl_Read = (\<lambda>n. Inr (\<lambda>i. char_of (n + i))), cl_GenerateKey = (\<lambda>n. Inr ''key''), cl_CreateCertificateRequest = (\<lambda>n cn dns emails key. Inr ''csr''),
     cl_EncodePEM = (\<lambda>ty b. b), cl_DecodePEM = (\<lambda>p. Some p),
     cl_ParseCertificateRequest = (\<lambda>b. Inr \<lparr> csr_Raw = b, csr_PublicKey = RSAPublicKey 2048 \<rparr>),
     cl_CheckSignature = (\<lambda>csr. None), cl_Sum256 = (\<lambda>b. b) \<rparr>"

lemmas renewal_process_defs = renewal_run_defs ProcessRenewalJob_def processRenewalServerKeygen_def server_csr_def RenewCertificate_def
  renewal_profile_def profile_options_def new_version_def record_renewal_def record_renewal_tx_def complete_renewal_def createDeploymentJobs_def
  deployment_targets_def SendRenewalNotification_def CertificateRepository_CreateVersionWithTx_def version_columns_ok_def
  JobRepository_UpdateStatus_def set_status_def job_terminal_def null_if_empty_def TargetRepository_ListByCertificate_def renewed_cert_def completed_details_def computeCertFingerprint_def hex_EncodeToString_def

definition renewing_world :: world where
  "renewing_world = issuing_world \<lparr> tbl_jobs := [sample_job ''j1'' JobTypeRenewal JobStatusRunning] \<rparr>"

theorem server_renewal_atomic_witness:
  "let (r, w') = run_state (ProcessRenewalJob (calm 9) sample_crypto (renewal_service ''server'') (sample_job ''j1'' JobTypeRenewal JobStatusRunning)) renewing_world
   in r = Inr () \<and> length (tbl_versions w') = 3 \<and>
      map_option cert_Status (row_of cert_ID ''c1'' (tbl_certs w')) = Some CertificateStatusActive"
proof -
  let ?run = "run_state (ProcessRenewalJob (calm 9) sample_crypto (renewal_service ''server'') (sample_job ''j1'' JobTypeRenewal JobStatusRunning)) renewing_world"
  obtain r w' where run: "?run = (r, w')" by (metis surj_pair)
  have "fst ?run = Inr ()"
    by (simp add: renewal_process_defs renewal_service_defs renewing_world_def sample_crypto_def renewal_samples Let_def)
  then have r: "r = Inr ()" by (simp add: run)
  have s: "rn_tx (renewal_service ''server'')" "rn_keygenMode (renewal_service ''server'') \<noteq> ''agent''" by (simp_all add: renewal_service_defs)
  have "length (tbl_versions renewing_world) = 2" by (simp add: renewing_world_def issuing_world_def)
  with server_renewal_atomic [OF s run] r show ?thesis unfolding Let_def run by (auto simp: sample_job_def renewed_cert_def)
qed

theorem agent_requests_checked_witness:
  "let s = renewal_service ''agent''; job = sample_job ''j1'' JobTypeRenewal JobStatusRunning;
       w1 = snd (run_state (ProcessRenewalJob (calm 9) sample_crypto s job) renewing_world);
       w2 = snd (run_state (CompleteAgentCSRRenewal (calm 9) sample_crypto s job (sample_cert ''c1'') ''csr'') w1)
   in tbl_versions w1 = tbl_versions renewing_world \<and>
      (\<forall>v. v \<in> set (tbl_versions w2) \<and> v \<notin> set (tbl_versions w1) \<longrightarrow> cv_CSRPEM v = ''csr'')"
proof -
  let ?s = "renewal_service ''agent''" and ?job = "sample_job ''j1'' JobTypeRenewal JobStatusRunning"
  obtain r1 w1 where 1: "run_state (ProcessRenewalJob (calm 9) sample_crypto ?s ?job) renewing_world = (r1, w1)" by (metis surj_pair)
  obtain r2 w2 where 2: "run_state (CompleteAgentCSRRenewal (calm 9) sample_crypto ?s ?job (sample_cert ''c1'') ''csr'') w1 = (r2, w2)" by (metis surj_pair)
  have "rn_keygenMode ?s = ''agent''" by (simp add: renewal_service_defs)
  from agent_requests_checked [OF this 1 2] show ?thesis unfolding Let_def 1 2 snd_conv by (auto simp: agent_version_def)
qed

end
