(* ===== verification/Agents.thy ===== *)
theory Agents
  imports Renewal_Processing
begin

text \<open>
  Agents: the repository \<^verbatim>\<open>internal/repository/postgres/agent.go\<close>, the service
  \<^verbatim>\<open>internal/service/agent.go\<close> with registration, heartbeats, work, certificate requests and
  status reports, and retirement, \<^verbatim>\<open>internal/service/agent_retire.go\<close>.
\<close>

section \<open>Domain\<close>

record AgentMetadata =
  md_OS :: string
  md_Architecture :: string
  md_Hostname :: string
  md_IPAddress :: string
  md_Version :: string

record AgentDependencyCounts =
  dc_ActiveTargets :: nat
  dc_ActiveCertificates :: nat
  dc_PendingJobs :: nat

definition HasDependencies :: "AgentDependencyCounts \<Rightarrow> bool" where
  "HasDependencies d = (dc_ActiveTargets d > 0 \<or> dc_ActiveCertificates d > 0 \<or> dc_PendingJobs d > 0)"

record WorkItem =
  wi_ID :: string
  wi_Type :: JobType
  wi_CertificateID :: string
  wi_CommonName :: string
  wi_SANs :: "string list"
  wi_TargetID :: "string option"
  wi_TargetType :: string
  wi_TargetConfig :: string
  wi_Status :: JobStatus

section \<open>Repository\<close>

definition AgentRepository_List :: "env \<Rightarrow> Agent list result op" where
  "AgentRepository_List env = query env ''failed to query agents''
     (\<lambda>w. map scanAgent (sort_key (\<lambda>a. - agent_RegisteredAt a) (filter (\<lambda>a. agent_RetiredAt a = None) (tbl_agents w))))"

text \<open>The insert names eleven columns; the plain-text key has none, and the agent is not retired.\<close>

definition agent_row :: "string \<Rightarrow> Agent \<Rightarrow> Agent" where
  "agent_row i a = (scanAgent a) \<lparr> agent_ID := i, agent_RetiredAt := None, agent_RetiredReason := None \<rparr>"

definition AgentRepository_Create :: "env \<Rightarrow> Agent \<Rightarrow> string result op" where
  "AgentRepository_Create env agent = do {
     i \<leftarrow> (if agent_ID agent = '''' then new_uuid env else State_Monad.return (agent_ID agent));
     r \<leftarrow> insert_row env ''failed to create agent''
       (\<lambda>w. \<not> has_key agent_ID i (tbl_agents w) \<and> \<not> has_key agent_Name (agent_Name agent) (tbl_agents w))
       (tbl_agents_update (\<lambda>t. t @ [agent_row i agent]));
     State_Monad.return (case r of Inl e \<Rightarrow> Inl e | Inr _ \<Rightarrow> Inr i) }"

text \<open>
  \<^verbatim>\<open>ON CONFLICT (id) DO NOTHING\<close>: an existing identifier is no error, an existing name is. The
  result says whether a row was inserted, with the identifier written back.
\<close>

definition AgentRepository_CreateIfNotExists :: "env \<Rightarrow> Agent \<Rightarrow> (bool \<times> string) result op" where
  "AgentRepository_CreateIfNotExists env agent = do {
     i \<leftarrow> (if agent_ID agent = '''' then new_uuid env else State_Monad.return (agent_ID agent));
     bad \<leftarrow> db_down env;
     exists \<leftarrow> gets (\<lambda>w. has_key agent_ID i (tbl_agents w));
     taken \<leftarrow> gets (\<lambda>w. has_key agent_Name (agent_Name agent) (tbl_agents w));
     if bad then State_Monad.return (Inl (Wrap ''failed to create agent'' ErrDriver))
     else if exists then State_Monad.return (Inr (False, i))
     else if taken then State_Monad.return (Inl (Wrap ''failed to create agent'' ErrConstraint))
     else do {
       _ \<leftarrow> modify (tbl_agents_update (\<lambda>t. t @ [agent_row i agent]));
       State_Monad.return (Inr (True, i)) } }"

definition agent_columns :: "Agent \<Rightarrow> Agent \<Rightarrow> Agent" where
  "agent_columns a row = row \<lparr> agent_Name := agent_Name a, agent_Hostname := agent_Hostname a, agent_Status := agent_Status a,
     agent_LastHeartbeatAt := agent_LastHeartbeatAt a, agent_APIKeyHash := agent_APIKeyHash a, agent_OS := agent_OS a,
     agent_Architecture := agent_Architecture a, agent_IPAddress := agent_IPAddress a, agent_Version := agent_Version a \<rparr>"

definition AgentRepository_Update :: "env \<Rightarrow> Agent \<Rightarrow> unit result op" where
  "AgentRepository_Update env agent = do {
     unique \<leftarrow> gets (\<lambda>w. has_key agent_ID (agent_ID agent) (tbl_agents w) \<longrightarrow>
       list_all (\<lambda>a. agent_Name a = agent_Name agent \<longrightarrow> agent_ID a = agent_ID agent) (tbl_agents w));
     if \<not> unique then State_Monad.return (Inl (Wrap ''failed to update agent'' ErrConstraint))
     else do {
       r \<leftarrow> exec env ''failed to update agent'' (\<lambda>w. count_rows (\<lambda>a. agent_ID a = agent_ID agent) (tbl_agents w))
         (tbl_agents_update (update_row agent_ID (agent_ID agent) (agent_columns agent)));
       State_Monad.return (rows_result ''agent not found'' r) } }"

text \<open>
  A target refuses the deletion of its agent, and a job loses its agent. The other tables that refer to agents
  are not part of the state: a reference that forbids the deletion is a failing statement.
\<close>

definition AgentRepository_Delete :: "env \<Rightarrow> string \<Rightarrow> unit result op" where
  "AgentRepository_Delete env i = do {
     referenced \<leftarrow> gets (\<lambda>w. has_key agent_ID i (tbl_agents w) \<and> has_key target_AgentID i (tbl_targets w));
     if referenced then State_Monad.return (Inl (Wrap ''failed to delete agent'' ErrConstraint))
     else do {
       r \<leftarrow> exec env ''failed to delete agent'' (\<lambda>w. count_rows (\<lambda>a. agent_ID a = i) (tbl_agents w))
         (tbl_agents_update (filter (\<lambda>a. agent_ID a \<noteq> i)) \<circ>
          tbl_jobs_update (map (\<lambda>j. if job_AgentID j = Some i then j \<lparr> job_AgentID := None \<rparr> else j)));
       State_Monad.return (rows_result ''agent not found'' r) } }"

definition kept_if_empty :: "string \<Rightarrow> string \<Rightarrow> string" where
  "kept_if_empty new old = (if new = '''' then old else new)"

definition heartbeat_columns :: "time \<Rightarrow> AgentMetadata option \<Rightarrow> Agent \<Rightarrow> Agent" where
  "heartbeat_columns t metadata a = (case metadata of
     None \<Rightarrow> a \<lparr> agent_LastHeartbeatAt := Some t \<rparr>
   | Some m \<Rightarrow> a \<lparr> agent_LastHeartbeatAt := Some t, agent_Hostname := kept_if_empty (md_Hostname m) (agent_Hostname a),
       agent_OS := kept_if_empty (md_OS m) (agent_OS a),
       agent_Architecture := kept_if_empty (md_Architecture m) (agent_Architecture a),
       agent_IPAddress := kept_if_empty (md_IPAddress m) (agent_IPAddress a),
       agent_Version := kept_if_empty (md_Version m) (agent_Version a) \<rparr>)"

definition unless_retired :: "(Agent \<Rightarrow> Agent) \<Rightarrow> Agent \<Rightarrow> Agent" where
  "unless_retired f a = (if agent_RetiredAt a = None then f a else a)"

definition AgentRepository_UpdateHeartbeat :: "env \<Rightarrow> string \<Rightarrow> AgentMetadata option \<Rightarrow> unit result op" where
  "AgentRepository_UpdateHeartbeat env i metadata = do {
     t \<leftarrow> now env;
     r \<leftarrow> exec env ''failed to update heartbeat''
       (\<lambda>w. count_rows (\<lambda>a. agent_ID a = i \<and> agent_RetiredAt a = None) (tbl_agents w))
       (tbl_agents_update (update_row agent_ID i (unless_retired (heartbeat_columns t metadata))));
     State_Monad.return (rows_result ''agent not found'' r) }"

definition AgentRepository_GetByAPIKey :: "env \<Rightarrow> string \<Rightarrow> Agent result op" where
  "AgentRepository_GetByAPIKey env keyHash = lookup_row env ''agent not found'' ''failed to query agent''
     (\<lambda>w. map_option scanAgent (row_of agent_APIKeyHash keyHash (tbl_agents w)))"

text \<open>The retired agents, the last one retired first. The page is cut by the database.\<close>

definition retired_agents :: "world \<Rightarrow> Agent list" where
  "retired_agents w = sort_key (\<lambda>a. case agent_RetiredAt a of None \<Rightarrow> 0 | Some t \<Rightarrow> - t) (filter (\<lambda>a. agent_RetiredAt a \<noteq> None) (tbl_agents w))"

definition AgentRepository_ListRetired :: "env \<Rightarrow> int \<Rightarrow> int \<Rightarrow> (Agent list \<times> nat) result op" where
  "AgentRepository_ListRetired env page perPage =
     (let page = (if page < 1 then 1 else page); perPage = (if perPage < 1 then 50 else perPage);
          offset = int64 ((page - 1) * perPage) in do {
     c \<leftarrow> query env ''failed to count retired agents'' (\<lambda>w. length (filter (\<lambda>a. agent_RetiredAt a \<noteq> None) (tbl_agents w)));
     (case c of
        Inl e \<Rightarrow> State_Monad.return (Inl e)
      | Inr n \<Rightarrow>
          if offset < 0 then do {
            _ \<leftarrow> db_down env;
            State_Monad.return (Inl (Wrap ''failed to query retired agents'' (Errorf ''OFFSET must not be negative''))) }
          else do {
            q \<leftarrow> query env ''failed to query retired agents''
              (\<lambda>w. map scanAgent (take (nat perPage) (drop (nat offset) (retired_agents w))));
            State_Monad.return (case q of Inl e \<Rightarrow> Inl e | Inr agents \<Rightarrow> Inr (agents, n)) }) })"

definition retire_agent :: "time \<Rightarrow> string \<Rightarrow> Agent \<Rightarrow> Agent" where
  "retire_agent t reason = unless_retired (\<lambda>a. a \<lparr> agent_RetiredAt := Some t, agent_RetiredReason := Some reason \<rparr>)"

definition retire_target :: "string \<Rightarrow> time \<Rightarrow> string \<Rightarrow> DeploymentTarget \<Rightarrow> DeploymentTarget" where
  "retire_target agentID t reason d = (if target_AgentID d = agentID \<and> target_RetiredAt d = None
     then d \<lparr> target_RetiredAt := Some t, target_RetiredReason := Some reason \<rparr> else d)"

definition AgentRepository_SoftRetire :: "env \<Rightarrow> string \<Rightarrow> time \<Rightarrow> string \<Rightarrow> unit result op" where
  "AgentRepository_SoftRetire env i retiredAt reason = insert_row env ''failed to soft-retire agent'' (\<lambda>_. True)
     (tbl_agents_update (update_row agent_ID i (retire_agent retiredAt reason)))"

definition AgentRepository_RetireAgentWithCascade :: "env \<Rightarrow> string \<Rightarrow> time \<Rightarrow> string \<Rightarrow> unit result op" where
  "AgentRepository_RetireAgentWithCascade env i retiredAt reason =
     tx_with env ''failed to begin retire-cascade transaction'' (\<lambda>_. ''failed to commit retire-cascade transaction'') False (do {
       a \<leftarrow> insert_row env ''failed to retire agent in cascade'' (\<lambda>_. True)
         (tbl_agents_update (update_row agent_ID i (retire_agent retiredAt reason)));
       (case a of
          Inl e \<Rightarrow> State_Monad.return (Inl e)
        | Inr _ \<Rightarrow> insert_row env ''failed to cascade-retire deployment targets'' (\<lambda>_. True)
            (tbl_targets_update (map (retire_target i retiredAt reason)))) })"

definition active_target_of :: "string \<Rightarrow> DeploymentTarget \<Rightarrow> bool" where
  "active_target_of agentID d = (target_AgentID d = agentID \<and> target_RetiredAt d = None)"

definition AgentRepository_CountActiveTargets :: "env \<Rightarrow> string \<Rightarrow> nat result op" where
  "AgentRepository_CountActiveTargets env agentID = query env ''failed to count active targets for agent''
     (\<lambda>w. count_rows (active_target_of agentID) (tbl_targets w))"

definition active_certificates :: "world \<Rightarrow> string \<Rightarrow> string list" where
  "active_certificates w agentID = remdups (map fst (filter (\<lambda>(c, t).
     list_ex (\<lambda>d. target_ID d = t \<and> active_target_of agentID d) (tbl_targets w)) (tbl_mappings w)))"

definition AgentRepository_CountActiveCertificates :: "env \<Rightarrow> string \<Rightarrow> nat result op" where
  "AgentRepository_CountActiveCertificates env agentID = query env ''failed to count active certificates for agent''
     (\<lambda>w. length (active_certificates w agentID))"

definition pending_job_of :: "string \<Rightarrow> Job \<Rightarrow> bool" where
  "pending_job_of agentID j = (job_AgentID j = Some agentID \<and>
     job_Status j \<in> {JobStatusPending, JobStatusAwaitingCSR, JobStatusAwaitingApproval, JobStatusRunning})"

definition AgentRepository_CountPendingJobs :: "env \<Rightarrow> string \<Rightarrow> nat result op" where
  "AgentRepository_CountPendingJobs env agentID = query env ''failed to count pending jobs for agent''
     (\<lambda>w. count_rows (pending_job_of agentID) (tbl_jobs w))"

section \<open>The service\<close>

text \<open>
  The repositories for agents, certificates, jobs and targets and the audit service are always wired; the
  profile repository and the renewal service may be absent.
\<close>

record AgentService =
  as_profileRepo :: bool
  as_issuerRegistry :: "string \<Rightarrow> IssuerConnector option"
  as_renewalService :: "RenewalService option"

definition NewAgentService :: "(string \<Rightarrow> IssuerConnector option) \<Rightarrow> RenewalService option \<Rightarrow> AgentService" where
  "NewAgentService issuerRegistry renewalService =
     \<lparr> as_profileRepo = False, as_issuerRegistry = issuerRegistry, as_renewalService = renewalService \<rparr>"

definition AgentService_SetProfileRepo :: "bool \<Rightarrow> AgentService \<Rightarrow> AgentService" where
  "AgentService_SetProfileRepo b s = s \<lparr> as_profileRepo := b \<rparr>"

subsection \<open>API keys\<close>

text \<open>\<^verbatim>\<open>base64.RawURLEncoding\<close>: six bits to a character, without padding.\<close>

definition url_alphabet :: string where
  "url_alphabet = ''ABCDEFGHIJKLMNOPQRSTUVWXYZabcdefghijklmnopqrstuvwxyz0123456789-_''"

definition url_char :: "nat \<Rightarrow> char" where
  "url_char n = url_alphabet ! (n mod 64)"

fun RawURLEncoding :: "string \<Rightarrow> string" where
  "RawURLEncoding (a # b # c # rest) =
     (let val = of_char a * 65536 + of_char b * 256 + of_char c in
      [url_char (val div 262144), url_char (val div 4096), url_char (val div 64), url_char val] @ RawURLEncoding rest)"
| "RawURLEncoding [a, b] =
     (let val = of_char a * 65536 + of_char b * 256 in
      [url_char (val div 262144), url_char (val div 4096), url_char (val div 64)])"
| "RawURLEncoding [a] =
     (let val = of_char a * 65536 in [url_char (val div 262144), url_char (val div 4096)])"
| "RawURLEncoding [] = []"

definition generateAPIKey :: "crypto_lib \<Rightarrow> string result op" where
  "generateAPIKey cl = do {
     n \<leftarrow> tick;
     State_Monad.return (case cl_Read cl n of
       Inl err \<Rightarrow> Inl (Wrap ''generate agent api key'' err)
     | Inr f \<Rightarrow> Inr (RawURLEncoding (map f [0..<32]))) }"

definition hashAPIKey :: "crypto_lib \<Rightarrow> string \<Rightarrow> string" where
  "hashAPIKey cl apiKey = hex_EncodeToString (cl_Sum256 cl apiKey)"

subsection \<open>Registration\<close>

definition Register :: "env \<Rightarrow> crypto_lib \<Rightarrow> string \<Rightarrow> string \<Rightarrow> (Agent \<times> string) result op" where
  "Register env cl name hostname =
     (if name = '''' \<or> hostname = '''' then State_Monad.return (Inl (Errorf ''agent name and hostname are required''))
      else do {
        k \<leftarrow> generateAPIKey cl;
        (case k of
           Inl err \<Rightarrow> State_Monad.return (Inl (Wrap ''failed to generate agent api key'' err))
         | Inr apiKey \<Rightarrow> do {
             t \<leftarrow> now env;
             i \<leftarrow> generateID env ''agent'';
             let agent = \<lparr> agent_ID = i, agent_Name = name, agent_Hostname = hostname, agent_Status = AgentStatusOnline,
                 agent_LastHeartbeatAt = Some t, agent_RegisteredAt = t, agent_PlaintextAPIKey = '''',
                 agent_APIKeyHash = hashAPIKey cl apiKey, agent_OS = '''', agent_Architecture = '''', agent_IPAddress = '''',
                 agent_Version = '''', agent_RetiredAt = None, agent_RetiredReason = None \<rparr> in do {
             c \<leftarrow> AgentRepository_Create env agent;
             (case c of
                Inl err \<Rightarrow> State_Monad.return (Inl (Wrap ''failed to create agent'' err))
              | Inr agentID \<Rightarrow> do {
                  _ \<leftarrow> RecordEvent env ''system'' ActorTypeSystem ''agent_registered'' ''agent'' agentID
                    [(''name'', JStr name), (''hostname'', JStr hostname)];
                  State_Monad.return (Inr (agent \<lparr> agent_ID := agentID \<rparr>, apiKey)) }) } }) })"

definition RegisterAgent :: "env \<Rightarrow> crypto_lib \<Rightarrow> Agent \<Rightarrow> Agent result op" where
  "RegisterAgent env cl agent = do {
     i \<leftarrow> generateID env ''agent'';
     k \<leftarrow> generateAPIKey cl;
     (case k of
        Inl err \<Rightarrow> State_Monad.return (Inl (Wrap ''failed to generate agent api key'' err))
      | Inr apiKey \<Rightarrow> do {
          t \<leftarrow> now env;
          let agent' = agent \<lparr> agent_ID := i, agent_APIKeyHash := hashAPIKey cl apiKey, agent_Status := AgentStatusOnline,
              agent_RegisteredAt := t, agent_LastHeartbeatAt := Some t, agent_PlaintextAPIKey := apiKey \<rparr> in do {
          c \<leftarrow> AgentRepository_Create env agent';
          State_Monad.return (case c of
            Inl err \<Rightarrow> Inl (Wrap ''failed to register agent'' err)
          | Inr agentID \<Rightarrow> Inr (agent' \<lparr> agent_ID := agentID \<rparr>)) } }) }"

definition GetAgentByAPIKey :: "env \<Rightarrow> crypto_lib \<Rightarrow> string \<Rightarrow> Agent result op" where
  "GetAgentByAPIKey env cl apiKey = do {
     r \<leftarrow> AgentRepository_GetByAPIKey env (hashAPIKey cl apiKey);
     State_Monad.return (case r of Inl err \<Rightarrow> Inl (Wrap ''invalid API key'' err) | Inr agent \<Rightarrow> Inr agent) }"

definition GetAgent :: "env \<Rightarrow> string \<Rightarrow> Agent result op" where
  "GetAgent env i = AgentRepository_Get env i"

definition ListAgents :: "env \<Rightarrow> int \<Rightarrow> int \<Rightarrow> (Agent list \<times> nat) result op" where
  "ListAgents env page perPage = do {
     r \<leftarrow> AgentRepository_List env;
     State_Monad.return (case r of
       Inl err \<Rightarrow> Inl (Wrap ''failed to list agents'' err)
     | Inr agents \<Rightarrow> paged_result page perPage agents) }"

subsection \<open>Heartbeats\<close>

abbreviation ErrAgentIsSentinel :: error where "ErrAgentIsSentinel \<equiv> Sentinel ''service.ErrAgentIsSentinel''"
abbreviation ErrBlockedByDependencies :: error where
  "ErrBlockedByDependencies \<equiv> Sentinel ''service.ErrBlockedByDependencies''"
abbreviation ErrForceReasonRequired :: error where "ErrForceReasonRequired \<equiv> Sentinel ''service.ErrForceReasonRequired''"
abbreviation ErrAgentRetired :: error where "ErrAgentRetired \<equiv> Sentinel ''service.ErrAgentRetired''"

definition Heartbeat :: "env \<Rightarrow> string \<Rightarrow> AgentMetadata option \<Rightarrow> unit result op" where
  "Heartbeat env agentID metadata = do {
     g \<leftarrow> AgentRepository_Get env agentID;
     (case g of
        Inl err \<Rightarrow> State_Monad.return (Inl (Wrap ''failed to fetch agent'' err))
      | Inr agent \<Rightarrow>
          if IsRetired (Some agent) then State_Monad.return (Inl ErrAgentRetired)
          else do {
            u \<leftarrow> AgentRepository_UpdateHeartbeat env agentID metadata;
            (case u of
               Inl err \<Rightarrow> State_Monad.return (Inl (Wrap ''failed to update heartbeat'' err))
             | Inr _ \<Rightarrow>
                 if agent_Status agent \<noteq> AgentStatusOnline then do {
                   _ \<leftarrow> AgentRepository_Update env (agent \<lparr> agent_Status := AgentStatusOnline \<rparr>);
                   State_Monad.return (Inr ()) }
                 else State_Monad.return (Inr ())) }) }"

definition stale_agent :: "time \<Rightarrow> Agent \<Rightarrow> bool" where
  "stale_agent cutoff a = (agent_Status a = AgentStatusOnline \<and>
     (case agent_LastHeartbeatAt a of None \<Rightarrow> False | Some t \<Rightarrow> t < cutoff))"

definition mark_offline :: "env \<Rightarrow> time \<Rightarrow> Agent \<Rightarrow> unit op" where
  "mark_offline env cutoff agent =
     (if stale_agent cutoff agent then discard (AgentRepository_Update env (agent \<lparr> agent_Status := AgentStatusOffline \<rparr>))
      else State_Monad.return ())"

definition MarkStaleAgentsOffline :: "env \<Rightarrow> duration \<Rightarrow> unit result op" where
  "MarkStaleAgentsOffline env threshold = do {
     r \<leftarrow> AgentRepository_List env;
     (case r of
        Inl err \<Rightarrow> State_Monad.return (Inl (Wrap ''failed to list agents'' err))
      | Inr agents \<Rightarrow> do {
          t \<leftarrow> now env;
          _ \<leftarrow> for_each (mark_offline env (t - threshold)) agents;
          State_Monad.return (Inr ()) }) }"

subsection \<open>Certificate requests\<close>

definition csr_details :: "Agent \<Rightarrow> (string \<times> jval) list" where
  "csr_details agent = [(''agent_hostname'', JStr (agent_Hostname agent))]"

definition submit_profile :: "env \<Rightarrow> AgentService \<Rightarrow> ManagedCertificate \<Rightarrow> CertificateProfile option op" where
  "submit_profile env s cert =
     (if cert_CertificateProfileID cert \<noteq> '''' \<and> as_profileRepo s then do {
        p \<leftarrow> ProfileRepository_Get env (cert_CertificateProfileID cert);
        State_Monad.return (case p of Inl e \<Rightarrow> None | Inr profile \<Rightarrow> Some profile) }
      else State_Monad.return None)"

text \<open>Signing outside a renewal job: any certificate, whatever its status.\<close>

definition direct_signing ::
  "env \<Rightarrow> crypto_lib \<Rightarrow> AgentService \<Rightarrow> IssuerConnector \<Rightarrow> ManagedCertificate \<Rightarrow> string \<Rightarrow> string \<Rightarrow> unit result op" where
  "direct_signing env cl s connector cert certID csrPEM = do {
     profile \<leftarrow> submit_profile env s cert;
     (case ValidateCSRAgainstProfile cl csrPEM profile of
        Inl csrErr \<Rightarrow> State_Monad.return (Inl (Wrap ''CSR validation failed'' csrErr))
      | Inr csrInfo \<Rightarrow> (case profile_options profile of (ekus, maxTTLSeconds, mustStaple) \<Rightarrow> do {
          n \<leftarrow> tick;
          (case ic_IssueCertificate connector n (cert_CommonName cert) (cert_SANs cert) csrPEM ekus maxTTLSeconds mustStaple of
             Inl err \<Rightarrow> State_Monad.return (Inl (Wrap ''issuer signing failed'' err))
           | Inr result \<Rightarrow> do {
               version \<leftarrow> new_version env cl certID result csrPEM (cvr_KeyAlgorithm csrInfo) (cvr_KeySize csrInfo);
               v \<leftarrow> CertificateRepository_CreateVersion env version;
               (case v of
                  Inl err \<Rightarrow> State_Monad.return (Inl (Wrap ''failed to store certificate version'' err))
                | Inr _ \<Rightarrow> do {
                    t \<leftarrow> now env;
                    _ \<leftarrow> CertificateRepository_Update env (renewed_cert cert (ir_NotAfter result) t);
                    State_Monad.return (Inr ()) }) }) })) }"

definition awaiting_job :: "env \<Rightarrow> AgentService \<Rightarrow> string \<Rightarrow> (RenewalService \<times> Job) option op" where
  "awaiting_job env s certID = (case as_renewalService s of
     None \<Rightarrow> State_Monad.return None
   | Some renewalService \<Rightarrow> do {
       q \<leftarrow> GetAwaitingCSRJobs env certID;
       State_Monad.return (case q of Inl e \<Rightarrow> None | Inr [] \<Rightarrow> None | Inr (job # _) \<Rightarrow> Some (renewalService, job)) })"

definition submit_for_cert ::
  "env \<Rightarrow> crypto_lib \<Rightarrow> AgentService \<Rightarrow> Agent \<Rightarrow> ManagedCertificate \<Rightarrow> string \<Rightarrow> string \<Rightarrow> unit result op" where
  "submit_for_cert env cl s agent cert certID csrPEM = do {
     a \<leftarrow> awaiting_job env s certID;
     (case a of
        Some (renewalService, job) \<Rightarrow> do {
          c \<leftarrow> CompleteAgentCSRRenewal env cl renewalService job cert csrPEM;
          (case c of
             Inl err \<Rightarrow> State_Monad.return (Inl (Wrap ''failed to complete agent CSR renewal'' err))
           | Inr _ \<Rightarrow> do {
               _ \<leftarrow> RecordEvent env (agent_ID agent) ActorTypeAgent ''csr_submitted'' ''certificate'' certID
                 (csr_details agent @ [(''keygen_mode'', JStr ''agent''), (''job_id'', JStr (job_ID job))]);
               State_Monad.return (Inr ()) }) }
      | None \<Rightarrow> do {
          r \<leftarrow> (case as_issuerRegistry s (cert_IssuerID cert) of
                 None \<Rightarrow> State_Monad.return (Inr ())
               | Some connector \<Rightarrow> direct_signing env cl s connector cert certID csrPEM);
          (case r of
             Inl err \<Rightarrow> State_Monad.return (Inl err)
           | Inr _ \<Rightarrow> do {
               _ \<leftarrow> RecordEvent env (agent_ID agent) ActorTypeAgent ''csr_submitted'' ''certificate'' certID (csr_details agent);
               State_Monad.return (Inr ()) }) }) }"

definition SubmitCSR :: "env \<Rightarrow> crypto_lib \<Rightarrow> AgentService \<Rightarrow> string \<Rightarrow> string \<Rightarrow> string \<Rightarrow> unit result op" where
  "SubmitCSR env cl s agentID certID csrPEM = do {
     g \<leftarrow> AgentRepository_Get env agentID;
     (case g of
        Inl err \<Rightarrow> State_Monad.return (Inl (Wrap ''failed to fetch agent'' err))
      | Inr agent \<Rightarrow>
          if csrPEM = '''' then State_Monad.return (Inl (Errorf ''invalid CSR: empty''))
          else if certID \<noteq> '''' then do {
            c \<leftarrow> CertificateRepository_Get env certID;
            (case c of
               Inl err \<Rightarrow> State_Monad.return (Inl (Wrap ''failed to fetch certificate'' err))
             | Inr cert \<Rightarrow> submit_for_cert env cl s agent cert certID csrPEM) }
          else do {
            _ \<leftarrow> RecordEvent env (agent_ID agent) ActorTypeAgent ''csr_submitted'' ''certificate'' certID (csr_details agent);
            State_Monad.return (Inr ()) }) }"

definition CSRSubmit :: "env \<Rightarrow> crypto_lib \<Rightarrow> AgentService \<Rightarrow> string \<Rightarrow> string \<Rightarrow> string result op" where
  "CSRSubmit env cl s agentID csrPEM = do {
     r \<leftarrow> SubmitCSR env cl s agentID '''' csrPEM;
     State_Monad.return (case r of Inl err \<Rightarrow> Inl err | Inr _ \<Rightarrow> Inr ''csr_accepted'') }"

definition CSRSubmitForCert :: "env \<Rightarrow> crypto_lib \<Rightarrow> AgentService \<Rightarrow> string \<Rightarrow> string \<Rightarrow> string \<Rightarrow> string result op" where
  "CSRSubmitForCert env cl s agentID certID csrPEM = do {
     r \<leftarrow> SubmitCSR env cl s agentID certID csrPEM;
     State_Monad.return (case r of Inl err \<Rightarrow> Inl err | Inr _ \<Rightarrow> Inr ''csr_signed'') }"

subsection \<open>Certificates and work\<close>

fun latest_version :: "CertificateVersion \<Rightarrow> CertificateVersion list \<Rightarrow> CertificateVersion" where
  "latest_version latest [] = latest"
| "latest_version latest (v # vs) = latest_version (if cv_CreatedAt v > cv_CreatedAt latest then v else latest) vs"

definition GetCertificateForAgent :: "env \<Rightarrow> string \<Rightarrow> string \<Rightarrow> string result op" where
  "GetCertificateForAgent env agentID certID = do {
     g \<leftarrow> AgentRepository_Get env agentID;
     (case g of
        Inl err \<Rightarrow> State_Monad.return (Inl (Wrap ''failed to fetch agent'' err))
      | Inr _ \<Rightarrow> do {
          q \<leftarrow> CertificateRepository_ListVersions env certID;
          (case q of
             Inl err \<Rightarrow> State_Monad.return (Inl (Wrap ''failed to fetch certificate versions'' err))
           | Inr versions \<Rightarrow>
               if versions = [] then State_Monad.return (Inl (Errorf ''no certificate versions found''))
               else let latestVersion = latest_version (hd versions) versions in do {
                 _ \<leftarrow> RecordEvent env agentID ActorTypeAgent ''certificate_retrieved'' ''certificate'' certID
                   [(''version'', JStr (cv_SerialNumber latestVersion))];
                 State_Monad.return (Inr (cv_PEMChain latestVersion)) }) }) }"

definition CertificatePickup :: "env \<Rightarrow> string \<Rightarrow> string \<Rightarrow> string result op" where
  "CertificatePickup env agentID certID = GetCertificateForAgent env agentID certID"

definition GetPendingWork :: "env \<Rightarrow> string \<Rightarrow> Job list result op" where
  "GetPendingWork env agentID = do {
     g \<leftarrow> AgentRepository_Get env agentID;
     (case g of
        Inl err \<Rightarrow> State_Monad.return (Inl (Wrap ''failed to fetch agent'' err))
      | Inr _ \<Rightarrow> JobRepository_ClaimPendingByAgentID env agentID) }"

definition GetWork :: "env \<Rightarrow> string \<Rightarrow> Job list result op" where
  "GetWork env agentID = GetPendingWork env agentID"

definition target_details :: "env \<Rightarrow> Job \<Rightarrow> (string \<times> string) op" where
  "target_details env j = (case job_TargetID j of
     None \<Rightarrow> State_Monad.return ('''', '''')
   | Some tid \<Rightarrow>
       if tid = '''' then State_Monad.return ('''', '''')
       else do {
         t \<leftarrow> TargetRepository_Get env tid;
         State_Monad.return (case t of Inl e \<Rightarrow> ('''', '''') | Inr target \<Rightarrow> (target_Type target, target_Config target)) })"

definition csr_names :: "env \<Rightarrow> Job \<Rightarrow> (string \<times> string list) op" where
  "csr_names env j =
     (if job_Status j = JobStatusAwaitingCSR then do {
        c \<leftarrow> CertificateRepository_Get env (job_CertificateID j);
        State_Monad.return (case c of Inl e \<Rightarrow> ('''', []) | Inr cert \<Rightarrow> (cert_CommonName cert, cert_SANs cert)) }
      else State_Monad.return ('''', []))"

definition work_item :: "env \<Rightarrow> Job \<Rightarrow> WorkItem op" where
  "work_item env j = do {
     t \<leftarrow> target_details env j;
     c \<leftarrow> csr_names env j;
     State_Monad.return \<lparr> wi_ID = job_ID j, wi_Type = job_Type j, wi_CertificateID = job_CertificateID j, wi_CommonName = fst c,
       wi_SANs = snd c, wi_TargetID = job_TargetID j, wi_TargetType = fst t, wi_TargetConfig = snd t, wi_Status = job_Status j \<rparr> }"

fun work_items :: "env \<Rightarrow> Job list \<Rightarrow> WorkItem list op" where
  "work_items env [] = State_Monad.return []"
| "work_items env (j # js) = do { i \<leftarrow> work_item env j; is \<leftarrow> work_items env js; State_Monad.return (i # is) }"

definition GetWorkWithTargets :: "env \<Rightarrow> string \<Rightarrow> WorkItem list result op" where
  "GetWorkWithTargets env agentID = do {
     r \<leftarrow> GetPendingWork env agentID;
     (case r of
        Inl err \<Rightarrow> State_Monad.return (Inl err)
      | Inr jobs \<Rightarrow> do { items \<leftarrow> work_items env jobs; State_Monad.return (Inr items) }) }"

subsection \<open>Status reports\<close>

definition ReportJobStatus :: "env \<Rightarrow> string \<Rightarrow> string \<Rightarrow> JobStatus \<Rightarrow> string \<Rightarrow> unit result op" where
  "ReportJobStatus env agentID jobID status errMsg = do {
     g \<leftarrow> JobRepository_Get env jobID;
     (case g of
        Inl err \<Rightarrow> State_Monad.return (Inl (Wrap ''failed to fetch job'' err))
      | Inr _ \<Rightarrow> do {
          u \<leftarrow> JobRepository_UpdateStatus env jobID status errMsg;
          (case u of
             Inl err \<Rightarrow> State_Monad.return (Inl (Wrap ''failed to update job status'' err))
           | Inr _ \<Rightarrow> do {
               _ \<leftarrow> RecordEvent env agentID ActorTypeAgent ''job_status_reported'' ''job'' jobID
                 [(''status'', JStr (show_status status)), (''error'', JStr errMsg)];
               State_Monad.return (Inr ()) }) }) }"

text \<open>The conversion of a string to a status: the constants of the enumeration, or any other text.\<close>

definition JobStatus_of :: "string \<Rightarrow> JobStatus" where
  "JobStatus_of s = (case find (\<lambda>st. show_status st = s) [JobStatusPending, JobStatusAwaitingCSR, JobStatusAwaitingApproval,
     JobStatusRunning, JobStatusCompleted, JobStatusFailed, JobStatusCancelled] of None \<Rightarrow> JobStatusOther s | Some st \<Rightarrow> st)"

definition UpdateJobStatus :: "env \<Rightarrow> string \<Rightarrow> string \<Rightarrow> string \<Rightarrow> string \<Rightarrow> unit result op" where
  "UpdateJobStatus env agentID jobID status errMsg = ReportJobStatus env agentID jobID (JobStatus_of status) errMsg"

section \<open>Retirement\<close>

text \<open>
  The errors of a retirement: an ordinary error, or the dependencies that block it with their counts. The
  latter unwraps to the sentinel, and its text has the counts.
\<close>

datatype retire_error = RetireError error | BlockedByDependenciesError AgentDependencyCounts

primrec retire_error_is :: "retire_error \<Rightarrow> error \<Rightarrow> bool" where
  "retire_error_is (RetireError e) t = errors_is e t"
| "retire_error_is (BlockedByDependenciesError d) t = (t = ErrBlockedByDependencies)"

definition blocked_text :: "AgentDependencyCounts \<Rightarrow> string" where
  "blocked_text d = ''agent has active downstream dependencies (active_targets='' @ show_nat (dc_ActiveTargets d) @
     '', active_certificates='' @ show_nat (dc_ActiveCertificates d) @ '', pending_jobs='' @ show_nat (dc_PendingJobs d) @ '')''"

record AgentRetirementResult =
  rr_AlreadyRetired :: bool
  rr_Cascade :: bool
  rr_RetiredAt :: time
  rr_Counts :: AgentDependencyCounts

definition no_counts :: AgentDependencyCounts where
  "no_counts = \<lparr> dc_ActiveTargets = 0, dc_ActiveCertificates = 0, dc_PendingJobs = 0 \<rparr>"

definition collectAgentDependencyCounts :: "env \<Rightarrow> string \<Rightarrow> AgentDependencyCounts result op" where
  "collectAgentDependencyCounts env i = do {
     t \<leftarrow> AgentRepository_CountActiveTargets env i;
     (case t of
        Inl err \<Rightarrow> State_Monad.return (Inl (Wrap ''count active targets'' err))
      | Inr targets \<Rightarrow> do {
          c \<leftarrow> AgentRepository_CountActiveCertificates env i;
          (case c of
             Inl err \<Rightarrow> State_Monad.return (Inl (Wrap ''count active certificates'' err))
           | Inr certs \<Rightarrow> do {
               j \<leftarrow> AgentRepository_CountPendingJobs env i;
               State_Monad.return (case j of
                 Inl err \<Rightarrow> Inl (Wrap ''count pending jobs'' err)
               | Inr jobs \<Rightarrow> Inr \<lparr> dc_ActiveTargets = targets, dc_ActiveCertificates = certs, dc_PendingJobs = jobs \<rparr>) }) }) }"

definition resolveActorType :: "string \<Rightarrow> ActorType" where
  "resolveActorType actor = (if actor = ''system'' then ActorTypeSystem
     else if length actor > 6 \<and> take 6 actor = ''agent-'' then ActorTypeAgent else ActorTypeUser)"

definition count_details :: "AgentDependencyCounts \<Rightarrow> (string \<times> jval) list" where
  "count_details d = [(''active_targets'', JInt (int (dc_ActiveTargets d))),
     (''active_certificates'', JInt (int (dc_ActiveCertificates d))), (''pending_jobs'', JInt (int (dc_PendingJobs d)))]"

definition audit_retirement ::
  "env \<Rightarrow> string \<Rightarrow> string \<Rightarrow> bool \<Rightarrow> string \<Rightarrow> bool \<Rightarrow> AgentDependencyCounts \<Rightarrow> unit op" where
  "audit_retirement env i actor force reason cascade counts = do {
     _ \<leftarrow> RecordEvent env actor (resolveActorType actor) ''agent_retired'' ''agent'' i
       ([(''actor'', JStr actor), (''reason'', JStr reason), (''force'', JBool force)] @ count_details counts);
     when_op cascade (discard (RecordEvent env actor (resolveActorType actor) ''agent_retirement_cascaded'' ''agent'' i
       ([(''actor'', JStr actor), (''reason'', JStr reason)] @ count_details counts))) }"

definition retire_rows :: "env \<Rightarrow> string \<Rightarrow> time \<Rightarrow> string \<Rightarrow> bool \<Rightarrow> unit result op" where
  "retire_rows env i retiredAt reason cascade =
     (if cascade then do {
        r \<leftarrow> AgentRepository_RetireAgentWithCascade env i retiredAt reason;
        State_Monad.return (case r of Inl err \<Rightarrow> Inl (Wrap ''failed to retire agent with cascade'' err) | Inr _ \<Rightarrow> Inr ()) }
      else do {
        r \<leftarrow> AgentRepository_SoftRetire env i retiredAt reason;
        State_Monad.return (case r of Inl err \<Rightarrow> Inl (Wrap ''failed to soft-retire agent'' err) | Inr _ \<Rightarrow> Inr ()) })"

definition RetireAgent ::
  "env \<Rightarrow> string \<Rightarrow> string \<Rightarrow> bool \<Rightarrow> string \<Rightarrow> (retire_error + AgentRetirementResult) op" where
  "RetireAgent env i actor force reason =
     (if IsSentinelAgent i then State_Monad.return (Inl (RetireError ErrAgentIsSentinel))
      else do {
        g \<leftarrow> AgentRepository_Get env i;
        (case g of
           Inl err \<Rightarrow> State_Monad.return (Inl (RetireError (Wrap ''failed to fetch agent'' err)))
         | Inr agent \<Rightarrow> (case agent_RetiredAt agent of
             Some t \<Rightarrow> State_Monad.return (Inr \<lparr> rr_AlreadyRetired = True, rr_Cascade = False, rr_RetiredAt = t, rr_Counts = no_counts \<rparr>)
           | None \<Rightarrow> do {
               d \<leftarrow> collectAgentDependencyCounts env i;
               (case d of
                  Inl err \<Rightarrow> State_Monad.return (Inl (RetireError (Wrap ''failed to collect agent dependency counts'' err)))
                | Inr counts \<Rightarrow>
                    if force \<and> reason = '''' then State_Monad.return (Inl (RetireError ErrForceReasonRequired))
                    else if \<not> force \<and> HasDependencies counts then State_Monad.return (Inl (BlockedByDependenciesError counts))
                    else do {
                      retiredAt \<leftarrow> now env;
                      r \<leftarrow> retire_rows env i retiredAt reason (force \<and> HasDependencies counts);
                      (case r of
                         Inl err \<Rightarrow> State_Monad.return (Inl (RetireError err))
                       | Inr _ \<Rightarrow> do {
                           _ \<leftarrow> audit_retirement env i actor force reason (force \<and> HasDependencies counts) counts;
                           State_Monad.return (Inr \<lparr> rr_AlreadyRetired = False, rr_Cascade = (force \<and> HasDependencies counts),
                             rr_RetiredAt = retiredAt, rr_Counts = counts \<rparr>) }) }) })) })"

definition ListRetiredAgents :: "env \<Rightarrow> int \<Rightarrow> int \<Rightarrow> (Agent list \<times> nat) result op" where
  "ListRetiredAgents env page perPage =
     (let page = (if page < 1 then 1 else page); perPage = (if perPage < 1 then 50 else perPage) in do {
      r \<leftarrow> AgentRepository_ListRetired env page perPage;
      State_Monad.return (case r of Inl err \<Rightarrow> Inl (Wrap ''failed to list retired agents'' err) | Inr x \<Rightarrow> Inr x) })"

end
