(* ===== verification/Agent_Keys.thy ===== *)
theory Agent_Keys
  imports Agents
begin

text \<open>
  API keys of agents: what \<^verbatim>\<open>generateAPIKey\<close> returns, and that the key handed out at registration
  finds the agent again.
\<close>

section \<open>The encoding loses nothing\<close>

lemma url_alphabet: "length url_alphabet = 64" "distinct url_alphabet"
  by (simp_all add: url_alphabet_def)

lemma url_char_eq: "url_char m = url_char n \<longleftrightarrow> m mod 64 = n mod 64"
  by (simp add: url_char_def nth_eq_iff_index_eq url_alphabet)

lemma url_char_in [simp]: "url_char n \<in> set url_alphabet"
  by (simp add: url_char_def nth_mem url_alphabet(1))

lemma char_bound [simp]: "(of_char c :: nat) < 256"
  by simp

lemma sextet_sum: "v = v div 262144 * 262144 + v div 4096 mod 64 * 4096 + v div 64 mod 64 * 64 + v mod 64" for v :: nat
proof -
  have q: "v div 4096 = v div 64 div 64" "v div 262144 = v div 4096 div 64" by (simp_all add: div_mult2_eq [symmetric])
  show ?thesis
    using div_mult_mod_eq [of v 64] div_mult_mod_eq [of "v div 64" 64] div_mult_mod_eq [of "v div 4096" 64] q by linarith
qed

lemma sextets:
  fixes v w :: nat
  assumes "v < 16777216" "w < 16777216" "v div 262144 mod 64 = w div 262144 mod 64" "v div 4096 mod 64 = w div 4096 mod 64"
    "v div 64 mod 64 = w div 64 mod 64" "v mod 64 = w mod 64"
  shows "v = w"
proof -
  have "v div 262144 = w div 262144" using assms(1-3) by (simp add: less_mult_imp_div_less mod_less)
  then show ?thesis using sextet_sum [of v] sextet_sum [of w] assms(4-6) by simp
qed

lemma byte_split: "x * 256 + b = x' * 256 + b' \<Longrightarrow> b < 256 \<Longrightarrow> b' < 256 \<Longrightarrow> x = x' \<and> b = b'" for x x' b b' :: nat
proof -
  have "(y * 256 + c) div 256 = y" "(y * 256 + c) mod 256 = c" if "c < 256" for y c :: nat using that by simp_all
  then show "x * 256 + b = x' * 256 + b' \<Longrightarrow> b < 256 \<Longrightarrow> b' < 256 \<Longrightarrow> x = x' \<and> b = b'" by metis
qed

lemma bytes3:
  fixes a b c a' b' c' :: nat
  assumes "a * 65536 + b * 256 + c = a' * 65536 + b' * 256 + c'" "b < 256" "c < 256" "b' < 256" "c' < 256"
  shows "a = a' \<and> b = b' \<and> c = c'"
proof -
  have "(a * 256 + b) * 256 + c = (a' * 256 + b') * 256 + c'" using assms(1) by (simp add: algebra_simps)
  from byte_split [OF this assms(3,5)] byte_split [OF _ assms(2,4)] show ?thesis by blast
qed

lemma RawURLEncoding_chars: "set (RawURLEncoding s) \<subseteq> set url_alphabet"
  by (induction s rule: RawURLEncoding.induct) (auto simp: Let_def)

lemma RawURLEncoding_length: "length (RawURLEncoding s) = (length s * 4 + 2) div 3"
  by (induction s rule: RawURLEncoding.induct) (simp_all add: Let_def)

lemma encoded_group:
  assumes "url_char (v div 262144) = url_char (w div 262144)" "url_char (v div 4096) = url_char (w div 4096)"
    "url_char (v div 64) = url_char (w div 64)" "url_char v = url_char w"
    "v = of_char a * 65536 + of_char b * 256 + of_char c" "w = of_char a' * 65536 + of_char b' * 256 + of_char c'"
  shows "a = a' \<and> b = b' \<and> c = c'"
proof -
  have bounds: "v < 16777216" "w < 16777216"
    using char_bound [of a] char_bound [of b] char_bound [of c] char_bound [of a'] char_bound [of b'] char_bound [of c']
    unfolding assms(5,6) by linarith+
  have "v = w" by (rule sextets [OF bounds]) (use assms(1-4) in \<open>simp_all add: url_char_eq\<close>)
  then show ?thesis using bytes3 [of "of_char a" "of_char b" "of_char c" "of_char a'" "of_char b'" "of_char c'"] assms(5,6) by simp
qed

lemma zero_byte: "(of_char (char_of (0::nat)) :: nat) = 0"
  by simp

lemma low_zero: "url_char (a * 65536 + b * 256) = url_char (a' * 65536 + b' * 256)"
  "url_char (a * 65536 div 64) = url_char (a' * 65536 div 64)"
proof -
  have "(a * 65536 + b * 256) mod 64 = 0" "(a * 65536 div 64) mod 64 = 0" for a b :: nat by (simp_all add: mod_eq_0_iff_dvd dvd_add)
  then show "url_char (a * 65536 + b * 256) = url_char (a' * 65536 + b' * 256)"
    "url_char (a * 65536 div 64) = url_char (a' * 65536 div 64)" by (simp_all add: url_char_eq)
qed

lemma RawURLEncoding_inj: "length s = length t \<Longrightarrow> RawURLEncoding s = RawURLEncoding t \<Longrightarrow> s = t"
proof (induction s arbitrary: t rule: RawURLEncoding.induct)
  case (1 a b c rest)
  from 1(2) obtain a' b' c' rest' where t: "t = a' # b' # c' # rest'" by (metis length_Suc_conv)
  with 1 encoded_group [OF _ _ _ _ refl refl, of a b c a' b' c'] show ?case by (simp add: Let_def)
next
  case (2 a b)
  from 2(1) obtain a' b' where t: "t = [a', b']" by (metis length_0_conv length_Suc_conv)
  with 2 encoded_group [OF _ _ _ _ refl refl, of a b "char_of (0::nat)" a' b' "char_of (0::nat)"] low_zero(1)
  show ?case by (simp add: Let_def zero_byte)
next
  case (3 a)
  from 3(1) obtain a' where t: "t = [a']" by (metis length_0_conv length_Suc_conv)
  with 3 encoded_group [OF _ _ _ _ refl refl, of a "char_of (0::nat)" "char_of (0::nat)" a' "char_of (0::nat)" "char_of (0::nat)"]
    low_zero(1) [of _ 0 _ 0] low_zero(2) show ?case by (simp add: Let_def zero_byte)
qed simp

definition url_safe :: "char \<Rightarrow> bool" where
  "url_safe c = (let n = (of_char c :: nat) in 65 \<le> n \<and> n \<le> 90 \<or> 97 \<le> n \<and> n \<le> 122 \<or> 48 \<le> n \<and> n \<le> 57 \<or>
     c = CHR ''-'' \<or> c = CHR ''_'')"

lemma url_alphabet_safe: "c \<in> set url_alphabet \<Longrightarrow> url_safe c"
  by (auto simp: url_alphabet_def url_safe_def)

lemma generateAPIKey_run: "run_state (generateAPIKey cl) w = (r, w') \<Longrightarrow>
   r = (case cl_Read cl (steps w) of Inl err \<Rightarrow> Inl (Wrap ''generate agent api key'' err)
     | Inr f \<Rightarrow> Inr (RawURLEncoding (map f [0..<32])))"
  by (simp add: generateAPIKey_def run_simps)

text \<open>
  C25. An API key is 43 characters of the URL-safe alphabet, and keeps all 256 bits: two keys are equal only if all 32
  random bytes are.
\<close>

theorem api_key_type:
  assumes "run_state (generateAPIKey cl) w = (Inr key, w')" "run_state (generateAPIKey cl) v = (Inr key', v')"
  shows "length key = 43 \<and> (\<forall>c \<in> set key. url_safe c) \<and>
    (\<exists>f f'. cl_Read cl (steps w) = Inr f \<and> cl_Read cl (steps v) = Inr f' \<and> (key = key' \<longleftrightarrow> (\<forall>i < 32. f i = f' i)))"
proof -
  from generateAPIKey_run [OF assms(1)] obtain f where f: "cl_Read cl (steps w) = Inr f" "key = RawURLEncoding (map f [0..<32])"
    by (auto split: sum.splits)
  from generateAPIKey_run [OF assms(2)] obtain f' where f': "cl_Read cl (steps v) = Inr f'" "key' = RawURLEncoding (map f' [0..<32])"
    by (auto split: sum.splits)
  have "key = key' \<longleftrightarrow> map f [0..<32] = map f' [0..<32]" using RawURLEncoding_inj [of "map f [0..<32]" "map f' [0..<32]"] f f' by (metis length_map)
  moreover have "\<forall>c \<in> set key. url_safe c" using RawURLEncoding_chars url_alphabet_safe f(2) by blast
  ultimately show ?thesis using f f' by (simp add: RawURLEncoding_length map_eq_conv Ball_def)
qed

theorem api_key_type_witness:
  "\<exists>key. run_state (generateAPIKey sample_crypto) empty_world = (Inr key, empty_world \<lparr> steps := Suc (steps empty_world) \<rparr>) \<and> length key = 43"
proof -
  obtain key where key: "run_state (generateAPIKey sample_crypto) empty_world = (Inr key, empty_world \<lparr> steps := Suc (steps empty_world) \<rparr>)"
    by (simp add: generateAPIKey_def run_simps sample_crypto_def)
  with api_key_type [OF key key] show ?thesis by blast
qed

section \<open>Registration\<close>

lemma post_generateAPIKey: "(\<And>r w'. same_data w w' \<Longrightarrow> Q r w') \<Longrightarrow> post (generateAPIKey cl) w Q"
  unfolding generateAPIKey_def by (intro post_keeps [OF same.keeps_bind] same.keeps_tick same.keeps_return)

text \<open>A successful insert appends one row, under an identifier and a name that were free.\<close>

lemma post_AgentCreate:
  assumes "\<And>e w'. same_data w w' \<Longrightarrow> Q (Inl e) w'"
    and "\<And>i w'. same_data w w' \<Longrightarrow> \<not> has_key agent_ID i (tbl_agents w') \<Longrightarrow> \<not> has_key agent_Name (agent_Name a) (tbl_agents w') \<Longrightarrow>
      Q (Inr i) (tbl_agents_update (\<lambda>t. t @ [agent_row i a]) w')"
  shows "post (AgentRepository_Create env a) w Q"
  unfolding AgentRepository_Create_def
proof (intro post_bindI post_keeps [OF logged_id] post_insert post_returnI, goal_cases)
  case (1 i w1 e w2)
  then have "same_data w w2" by (blast intro: same.frame_trans)
  then show ?case by (simp add: assms(1))
next
  case (2 i w1 w2)
  then have "same_data w w2" by (blast intro: same.frame_trans)
  with 2 show ?case by (simp add: assms(2))
qed

text \<open>The stored row is the agent without its key, and its hash is that of the key.\<close>

definition registered :: "crypto_lib \<Rightarrow> Agent \<Rightarrow> string \<Rightarrow> world \<Rightarrow> world \<Rightarrow> bool" where
  "registered cl agent key w w' = (tbl_agents w' = tbl_agents w @ [scanAgent agent] \<and> agent_APIKeyHash agent = hashAPIKey cl key \<and>
     \<not> has_key agent_ID (agent_ID agent) (tbl_agents w) \<and> \<not> has_key agent_Name (agent_Name agent) (tbl_agents w) \<and>
     agent_Status agent = AgentStatusOnline \<and> agent_RetiredAt agent = None)"

lemma post_Register:
  "post (Register env cl name hostname) w (\<lambda>r w'. case r of Inl e \<Rightarrow> tbl_agents w' = tbl_agents w
     | Inr (agent, key) \<Rightarrow> registered cl agent key w w' \<and> agent_Name agent = name)"
  unfolding Register_def
  by (intro post_if post_bindI post_case_sum post_let post_generateAPIKey post_now post_generateID post_AgentCreate post_RecordEvent
      post_returnI; simp add: agent_row_def scanAgent_def registered_def tables_same_data tables_same_but_audit)

lemma post_RegisterAgent:
  "agent_RetiredAt agent0 = None \<Longrightarrow> agent_RetiredReason agent0 = None \<Longrightarrow>
   post (RegisterAgent env cl agent0) w (\<lambda>r w'. case r of Inl e \<Rightarrow> tbl_agents w' = tbl_agents w
     | Inr agent \<Rightarrow> registered cl agent (agent_PlaintextAPIKey agent) w w' \<and> agent_Name agent = agent_Name agent0)"
  unfolding RegisterAgent_def
  by (intro post_bindI post_case_sum post_let post_generateAPIKey post_now post_generateID post_AgentCreate
      post_returnI; simp add: agent_row_def scanAgent_def registered_def tables_same_data)

lemma registered_lookup:
  assumes "registered cl agent key w w'" "hashAPIKey cl key \<notin> agent_APIKeyHash ` set (tbl_agents w)" "fault env = (\<lambda>_. False)"
  shows "fst (run_state (GetAgentByAPIKey env cl key) w') = Inr (scanAgent agent)"
proof -
  have "row_of agent_APIKeyHash (hashAPIKey cl key) (tbl_agents w) = None" using assms(2) by (simp add: row_of_None)
  moreover have "agent_APIKeyHash (scanAgent agent) = hashAPIKey cl key" "scanAgent (scanAgent agent) = scanAgent agent"
    using assms(1) by (simp_all add: registered_def scanAgent_def)
  ultimately have "map_option scanAgent (row_of agent_APIKeyHash (hashAPIKey cl key) (tbl_agents w')) = Some (scanAgent agent)"
    using assms(1) by (simp add: registered_def row_of_append)
  then show ?thesis
    by (auto simp: GetAgentByAPIKey_def AgentRepository_GetByAPIKey_def lookup_row_def run_simps assms(3))
qed

text \<open>
  C24. The key handed out at registration finds the agent. When an agent has registered, by either operation, and no earlier
  agent has the hash of its key, looking up that key returns this agent, online and not retired, under a new
  identifier and a name nobody had. The row has the hash of the key and not the key; a registration that fails leaves the
  agents as they were.
\<close>

theorem registration_roundtrip:
  assumes "run_state (Register env cl name hostname) w = (r, w')" "run_state (RegisterAgent env cl agent0) w = (s, v')"
    and "agent_RetiredAt agent0 = None" "agent_RetiredReason agent0 = None" "fault env' = (\<lambda>_. False)"
  defines "new \<equiv> \<lambda>key. hashAPIKey cl key \<notin> agent_APIKeyHash ` set (tbl_agents w)"
  shows "(case r of Inl e \<Rightarrow> tbl_agents w' = tbl_agents w
      | Inr (agent, key) \<Rightarrow> agent_Name agent = name \<and> agent_PlaintextAPIKey agent = '''' \<and> registered cl agent key w w' \<and>
          (new key \<longrightarrow> fst (run_state (GetAgentByAPIKey env' cl key) w') = Inr agent)) \<and>
    (case s of Inl e \<Rightarrow> tbl_agents v' = tbl_agents w
      | Inr agent \<Rightarrow> agent_Name agent = agent_Name agent0 \<and> registered cl agent (agent_PlaintextAPIKey agent) w v' \<and>
          (new (agent_PlaintextAPIKey agent) \<longrightarrow>
             fst (run_state (GetAgentByAPIKey env' cl (agent_PlaintextAPIKey agent)) v') = Inr (scanAgent agent)))"
proof -
  have plain: "agent_PlaintextAPIKey agent = '''' \<and> scanAgent agent = agent" if "r = Inr (agent, key)" for agent key
    using that assms(1) by (auto simp: Register_def scanAgent_def Let_def split: sum.splits if_splits prod.splits)
  show ?thesis
    using post_run [OF post_Register assms(1)] post_run [OF post_RegisterAgent [OF assms(3,4)] assms(2)] plain
      registered_lookup [OF _ _ assms(5)]
    by (auto simp: new_def split: sum.splits)
qed

theorem registration_roundtrip_witness:
  "\<exists>agent key w'. run_state (Register (calm 9) sample_crypto ''edge-1'' ''host'') empty_world = (Inr (agent, key), w') \<and>
     fst (run_state (GetAgentByAPIKey (calm 9) sample_crypto key) w') = Inr agent"
proof -
  define agent0 :: Agent where "agent0 = \<lparr> agent_ID = '''', agent_Name = ''edge-2'', agent_Hostname = ''host'', agent_Status = AgentStatusOnline,
     agent_LastHeartbeatAt = None, agent_RegisteredAt = 0, agent_PlaintextAPIKey = '''', agent_APIKeyHash = '''', agent_OS = '''',
     agent_Architecture = '''', agent_IPAddress = '''', agent_Version = '''', agent_RetiredAt = None, agent_RetiredReason = None \<rparr>"
  obtain s v' where s: "run_state (RegisterAgent (calm 9) sample_crypto agent0) empty_world = (s, v')" by (metis surj_pair)
  have "\<exists>a w'. run_state (Register (calm 9) sample_crypto ''edge-1'' ''host'') empty_world = (Inr a, w')"
    by (simp add: Register_def generateAPIKey_def AgentRepository_Create_def run_defs sample_crypto_def calm_def Let_def has_key_def empty_world_def)
  then obtain agent key w' where r: "run_state (Register (calm 9) sample_crypto ''edge-1'' ''host'') empty_world = (Inr (agent, key), w')" by force
  from registration_roundtrip [OF r s, of "calm 9"] show ?thesis using r by (auto simp: agent0_def calm_def empty_world_def)
qed

end
