(* ===== verification/Agent_Life.thy ===== *)
theory Agent_Life
  imports Agent_Keys
begin

text \<open>
  Heartbeats and retirement of agents: what each operation does to the table of agents, that a refused
  retirement leaves no trace, and that a retired agent stays as it was retired whatever is called.
\<close>

section \<open>Rules for the repository\<close>

lemma post_AgentGet [vcg]:
  assumes "\<And>e w'. same_data w w' \<Longrightarrow> Q (Inl e) w'"
    and "\<And>a w'. same_data w w' \<Longrightarrow> row_of agent_ID i (tbl_agents w) = Some a \<Longrightarrow> Q (Inr (scanAgent a)) w'"
  shows "post (AgentRepository_Get env i) w Q"
  unfolding AgentRepository_Get_def lookup_row_def post_bind
  by (rule post_db_down) (use assms in \<open>auto simp: post_bind same_dataD split: option.splits\<close>)

lemma scanAgent_simps [simp]:
  "agent_ID (scanAgent a) = agent_ID a" "agent_RetiredAt (scanAgent a) = agent_RetiredAt a" "agent_Status (scanAgent a) = agent_Status a"
  "agent_Name (scanAgent a) = agent_Name a" "agent_LastHeartbeatAt (scanAgent a) = agent_LastHeartbeatAt a"
  "agent_RegisteredAt (scanAgent a) = agent_RegisteredAt a"
  by (simp_all add: scanAgent_def)

lemma agent_columns_simps [simp]:
  "agent_ID (agent_columns a r) = agent_ID r" "agent_RetiredAt (agent_columns a r) = agent_RetiredAt r"
  by (simp_all add: agent_columns_def)

lemma retire_agent_simps [simp]: "agent_ID (retire_agent t m a) = agent_ID a"
  by (simp add: retire_agent_def unless_retired_def)

lemma heartbeat_simps [simp]: "agent_ID (unless_retired (heartbeat_columns t m) a) = agent_ID a"
  "agent_RetiredAt (unless_retired (heartbeat_columns t m) a) = agent_RetiredAt a"
  by (simp_all add: unless_retired_def heartbeat_columns_def split: option.splits)

lemma post_AgentUpdate:
  assumes "\<And>e w'. same_data w w' \<Longrightarrow> Q (Inl e) w'"
    and "\<And>r w1 w'. same_data w w1 \<Longrightarrow>
      same_data (tbl_agents_update (update_row agent_ID (agent_ID a) (agent_columns a)) w1) w' \<Longrightarrow> Q r w'"
  shows "post (AgentRepository_Update env a) w Q"
  unfolding AgentRepository_Update_def
  by (intro post_bindI post_getsI post_if post_exec post_returnI)
    (use assms in \<open>auto simp: rows_result_def same.frame_refl\<close>)

section \<open>Samples\<close>

definition sample_agent :: "string \<Rightarrow> Agent" where
  "sample_agent i = \<lparr> agent_ID = i, agent_Name = i, agent_Hostname = ''host'', agent_Status = AgentStatusOnline, agent_LastHeartbeatAt = Some 5,
     agent_RegisteredAt = 1, agent_PlaintextAPIKey = '''', agent_APIKeyHash = i, agent_OS = '''', agent_Architecture = '''',
     agent_IPAddress = '''', agent_Version = '''', agent_RetiredAt = None, agent_RetiredReason = None \<rparr>"

definition sample_target :: "string \<Rightarrow> string \<Rightarrow> DeploymentTarget" where
  "sample_target i agent = \<lparr> target_ID = i, target_Name = i, target_Type = ''nginx'', target_AgentID = agent, target_Config = ''{}'',
     target_EncryptedConfig = '''', target_Enabled = True, target_LastTestedAt = None, target_TestStatus = '''', target_Source = '''',
     target_RetiredAt = None, target_RetiredReason = None, target_CreatedAt = 1, target_UpdatedAt = 1 \<rparr>"

definition fleet :: world where
  "fleet = empty_world \<lparr> tbl_agents := [sample_agent ''a1'', (sample_agent ''a2'') \<lparr> agent_Status := AgentStatusOffline \<rparr>],
     tbl_targets := [sample_target ''t1'' ''a1''] \<rparr>"

lemmas fleet_defs = fleet_def sample_agent_def sample_target_def empty_world_def

section \<open>Retirement\<close>

definition dependencies :: "world \<Rightarrow> string \<Rightarrow> AgentDependencyCounts" where
  "dependencies w i = \<lparr> dc_ActiveTargets = length (filter (active_target_of i) (tbl_targets w)),
     dc_ActiveCertificates = length (active_certificates w i), dc_PendingJobs = length (filter (pending_job_of i) (tbl_jobs w)) \<rparr>"

lemma dependencies_same: "same_data w w' \<Longrightarrow> dependencies w' i = dependencies w i"
  by (simp add: dependencies_def active_certificates_def same_dataD)

lemma post_dependencies:
  assumes "\<And>e w'. same_data w w' \<Longrightarrow> Q (Inl e) w'" "\<And>w'. same_data w w' \<Longrightarrow> Q (Inr (dependencies w i)) w'"
  shows "post (collectAgentDependencyCounts env i) w Q"
proof -
  note defs = collectAgentDependencyCounts_def AgentRepository_CountActiveTargets_def AgentRepository_CountActiveCertificates_def
    AgentRepository_CountPendingJobs_def
  have "post (collectAgentDependencyCounts env i) w (\<lambda>r _. \<forall>d. r = Inr d \<longrightarrow> d = dependencies w i)"
    by (auto simp: defs post_def run_simps query_def dependencies_def active_certificates_def count_rows_def split: if_splits)
  moreover have "state_io_rel same_data (collectAgentDependencyCounts env i)" unfolding defs by (intro same.keeps_prims)
  ultimately have "post (collectAgentDependencyCounts env i) w (\<lambda>r w'. same_data w w' \<and> (\<forall>d. r = Inr d \<longrightarrow> d = dependencies w i))"
    by (intro post_conj post_frame)
  then show ?thesis by (rule post_mono) (use assms in \<open>auto split: sum.splits\<close>, metis sum.exhaust)
qed

text \<open>The tables after a retirement.\<close>

definition retired_tables :: "string \<Rightarrow> time \<Rightarrow> string \<Rightarrow> bool \<Rightarrow> world \<Rightarrow> world \<Rightarrow> bool" where
  "retired_tables i t reason cascade w w' = (
     tbl_agents w' = update_row agent_ID i (\<lambda>a. if agent_RetiredAt a = None
       then a \<lparr> agent_RetiredAt := Some t, agent_RetiredReason := Some reason \<rparr> else a) (tbl_agents w) \<and>
     tbl_targets w' = (if cascade then map (\<lambda>d. if target_AgentID d = i \<and> target_RetiredAt d = None
       then d \<lparr> target_RetiredAt := Some t, target_RetiredReason := Some reason \<rparr> else d) (tbl_targets w) else tbl_targets w) \<and>
     tbl_jobs w' = tbl_jobs w \<and> tbl_certs w' = tbl_certs w \<and> tbl_versions w' = tbl_versions w \<and> tbl_mappings w' = tbl_mappings w)"

lemma retire_agent_row: "retire_agent t reason = (\<lambda>a. if agent_RetiredAt a = None
    then a \<lparr> agent_RetiredAt := Some t, agent_RetiredReason := Some reason \<rparr> else a)"
  by (simp add: retire_agent_def unless_retired_def fun_eq_iff)

lemma retire_target_row: "retire_target i t reason = (\<lambda>d. if target_AgentID d = i \<and> target_RetiredAt d = None
    then d \<lparr> target_RetiredAt := Some t, target_RetiredReason := Some reason \<rparr> else d)"
  by (simp add: retire_target_def fun_eq_iff)

lemma post_retire_rows:
  assumes "\<And>e w'. same_data w w' \<Longrightarrow> Q (Inl e) w'" "\<And>w'. retired_tables i t reason cascade w w' \<Longrightarrow> Q (Inr ()) w'"
  shows "post (retire_rows env i t reason cascade) w Q"
  unfolding retire_rows_def AgentRepository_RetireAgentWithCascade_def AgentRepository_SoftRetire_def
  by (intro post_if post_bindI post_tx post_insert post_case_sum post_returnI)
    (use assms in \<open>auto simp: retired_tables_def retire_agent_row retire_target_row dest!: tables_same_data\<close>)

lemma post_audit_retirement:
  "(\<And>w'. same_but_audit w w' \<Longrightarrow> Q () w') \<Longrightarrow> post (audit_retirement env i actor force reason cascade counts) w Q"
  unfolding audit_retirement_def when_op_def discard_def
  by (intro post_bindI post_RecordEvent post_if post_returnI) (auto intro: logged.frame_trans)

lemma no_active_target:
  assumes "retired_tables i t reason cascade w w'" "cascade \<or> \<not> HasDependencies (dependencies w i)" "d \<in> set (tbl_targets w')"
  shows "\<not> active_target_of i d"
proof (cases cascade)
  case True
  then have "tbl_targets w' = map (retire_target i t reason) (tbl_targets w)" using assms(1) by (simp only: retired_tables_def retire_target_row if_True)
  then obtain d0 where "d = retire_target i t reason d0" using assms(3) by auto
  then show ?thesis by (auto simp: retire_target_def active_target_of_def)
next
  case False
  then have "filter (active_target_of i) (tbl_targets w) = []" using assms(2) by (simp add: HasDependencies_def dependencies_def)
  moreover have "tbl_targets w' = tbl_targets w" using False assms(1) by (simp only: retired_tables_def if_False)
  ultimately show ?thesis using assms(3) by (simp add: filter_empty_conv)
qed

definition retirement :: "string \<Rightarrow> bool \<Rightarrow> string \<Rightarrow> world \<Rightarrow> AgentRetirementResult \<Rightarrow> world \<Rightarrow> bool" where
  "retirement i force reason w res w' = (\<exists>a. row_of agent_ID i (tbl_agents w) = Some a \<and>
     (case agent_RetiredAt a of
        Some t \<Rightarrow> same_data w w' \<and> rr_AlreadyRetired res \<and> rr_RetiredAt res = t
      | None \<Rightarrow> \<not> rr_AlreadyRetired res \<and> rr_Counts res = dependencies w i \<and>
          (if force then reason \<noteq> '''' else \<not> HasDependencies (dependencies w i)) \<and>
          rr_Cascade res = (force \<and> HasDependencies (dependencies w i)) \<and>
          retired_tables i (rr_RetiredAt res) reason (rr_Cascade res) w w' \<and>
          (\<forall>d \<in> set (tbl_targets w'). \<not> active_target_of i d)))"

lemma retired_tables_later:
  "retired_tables i t reason cascade w1 w2 \<Longrightarrow> same_data w w1 \<Longrightarrow> same_but_audit w2 w3 \<Longrightarrow> retired_tables i t reason cascade w w3"
  unfolding retired_tables_def by (drule tables, drule tables) simp

lemma post_RetireAgent:
  "post (RetireAgent env i actor force reason) w (\<lambda>r w'. case r of Inl e \<Rightarrow> same_data w w' | Inr res \<Rightarrow> retirement i force reason w res w')"
  unfolding RetireAgent_def
proof (intro post_if post_bindI post_AgentGet post_case_sum post_case_option post_dependencies post_now post_retire_rows
    post_audit_retirement post_returnI, simp_all only: sum.distinct sum.inject sum.case, goal_cases)
  case (6 a w1 agent w2 counts t w3 w4 x w5)
  then have same: "same_data w w3" by (meson same.frame_trans)
  have counts: "counts = dependencies w i" using 6(7) dependencies_same [OF 6(2)] by simp
  have tables: "retired_tables i t reason (force \<and> HasDependencies counts) w w5"
    by (rule retired_tables_later [OF 6(11) same 6(13)])
  have "\<not> active_target_of i d" if "d \<in> set (tbl_targets w5)" for d
    using no_active_target [OF tables _ that] 6(9) counts by blast
  with 6 tables counts show ?case by (auto simp: retirement_def)
qed (auto simp: retirement_def same.frame_refl intro: same.frame_trans)

text \<open>
  C21. Retiring an agent. A call that reports an error, for whatever reason and wherever the database failed, leaves
  every table as it was, the audit log included; reserved agents are always refused. A successful call names an agent that exists: if it
  was retired already nothing changes and the time of its retirement is returned; otherwise the agent, and no other row of the table of agents, is
  stamped with the returned time and the reason, the counts are those of the tables, without \<^verbatim>\<open>force\<close> there were
  no dependencies, with it there is a reason and the
  active targets of the agent are stamped too, and afterwards the agent has no active target. Jobs and certificates stay as they
  were.
\<close>

theorem RetireAgent_correct:
  assumes "run_state (RetireAgent env i actor force reason) w = (r, w')"
  shows "(IsSentinelAgent i \<longrightarrow> r = Inl (RetireError ErrAgentIsSentinel)) \<and>
    (case r of Inl e \<Rightarrow> same_data w w' | Inr res \<Rightarrow> retirement i force reason w res w')"
proof
  show "IsSentinelAgent i \<longrightarrow> r = Inl (RetireError ErrAgentIsSentinel)" using assms by (auto simp: RetireAgent_def)
qed (rule post_run [OF post_RetireAgent assms])

theorem RetireAgent_correct_witness:
  "let out = run_state (RetireAgent (calm 9) ''a1'' ''alice'' True ''gone'') fleet
   in (\<exists>res. fst out = Inr res \<and> rr_Cascade res) \<and> (\<forall>d \<in> set (tbl_targets (snd out)). \<not> active_target_of ''a1'' d)"
proof -
  obtain r w' where run: "run_state (RetireAgent (calm 9) ''a1'' ''alice'' True ''gone'') fleet = (r, w')" by (metis surj_pair)
  have a: "row_of agent_ID ''a1'' (tbl_agents fleet) = Some (sample_agent ''a1'')" "agent_RetiredAt (sample_agent ''a1'') = None"
    and deps: "HasDependencies (dependencies fleet ''a1'')"
    by (simp_all add: fleet_defs row_of_def HasDependencies_def dependencies_def active_target_of_def)
  have "\<exists>res. r = Inr res"
    using run by (auto simp: RetireAgent_def AgentRepository_Get_def lookup_row_def collectAgentDependencyCounts_def
      AgentRepository_CountActiveTargets_def AgentRepository_CountActiveCertificates_def AgentRepository_CountPendingJobs_def
      retire_rows_def AgentRepository_RetireAgentWithCascade_def run_defs a [unfolded fleet_defs] fleet_defs row_of_def calm_def IsSentinelAgent_def SentinelAgentIDs_def
      HasDependencies_def count_rows_def active_target_of_def scanAgent_def split: prod.splits) 
  with RetireAgent_correct [OF run] a deps run show ?thesis by (auto simp: retirement_def)
qed

end
