(* ===== verification/Agent_Fleet.thy ===== *)
theory Agent_Fleet
  imports Agent_Life
begin

text \<open>
  What a heartbeat and the sweep for stale agents do to the fleet, and that retirement is final.
\<close>

section \<open>Heartbeats\<close>

text \<open>The constraints of the table: identifiers and names are unique.\<close>

definition fleet_ok :: "Agent list \<Rightarrow> bool" where
  "fleet_ok t = (distinct (map agent_ID t) \<and> distinct (map agent_Name t))"

lemma fleet_ok_same:
  assumes "map agent_ID t' = map agent_ID t" "map agent_Name t' = map agent_Name t"
  shows "fleet_ok t' = fleet_ok t"
  using assms by (simp add: fleet_ok_def)

lemma fleet_name: "fleet_ok t \<Longrightarrow> a \<in> set t \<Longrightarrow> b \<in> set t \<Longrightarrow> agent_Name a = agent_Name b \<Longrightarrow> a = b"
  by (auto simp: fleet_ok_def distinct_map inj_on_def)

lemma fleet_row: "fleet_ok t \<Longrightarrow> row_of agent_ID i t = Some a \<Longrightarrow> update_row agent_ID i f t = update_row agent_ID i (\<lambda>_. f a) t"
  unfolding fleet_ok_def update_row_def using row_of_distinct [of agent_ID t] by (auto dest: row_of_Some)

lemma AgentUpdate_run:
  assumes "fault env = (\<lambda>_. False)" "fleet_ok (tbl_agents w)" "b \<in> set (tbl_agents w)" "agent_ID b = agent_ID a" "agent_Name b = agent_Name a"
  shows "run_state (AgentRepository_Update env a) w =
    (Inr (), w \<lparr> tbl_agents := update_row agent_ID (agent_ID a) (agent_columns a) (tbl_agents w), steps := steps w + 2 \<rparr>)"
proof -
  have "list_all (\<lambda>c. agent_Name c = agent_Name a \<longrightarrow> agent_ID c = agent_ID a) (tbl_agents w)"
    using fleet_name [OF assms(2) _ assms(3)] assms(4,5) by (auto simp: list_all_iff)
  moreover have "0 < count_rows (\<lambda>c. agent_ID c = agent_ID a) (tbl_agents w)"
    unfolding count_rows_pos has_key_iff using assms(3,4) by (metis imageI)
  ultimately show ?thesis by (simp add: AgentRepository_Update_def exec_def run_simps assms(1) rows_result_def)
qed

lemma heartbeat_row_simps [simp]: "agent_Name (heartbeat_columns t m a) = agent_Name a" "agent_ID (heartbeat_columns t m a) = agent_ID a"
  by (simp_all add: heartbeat_columns_def split: option.splits)

lemma heartbeat_undone: "agent_columns ((scanAgent a) \<lparr> agent_Status := st \<rparr>) (heartbeat_columns t m a) = a \<lparr> agent_Status := st \<rparr>"
  by (simp add: agent_columns_def heartbeat_columns_def scanAgent_def split: option.splits)

text \<open>
  C23. A heartbeat, when no database call fails. An unknown agent is reported as not found and a retired one as retired; nothing
  changes. The row of an online agent gets the time and the metadata of the heartbeat. The row of an agent that is
  not online gets the status \<^verbatim>\<open>Online\<close> and nothing else: its last heartbeat and its metadata stay those of before the call.
  No other row changes.
\<close>

theorem Heartbeat_exact:
  assumes "fault env = (\<lambda>_. False)" "fleet_ok (tbl_agents w)" "run_state (Heartbeat env i metadata) w = (r, w')"
  defines "t \<equiv> clock env (Suc (steps w))"
  shows "case row_of agent_ID i (tbl_agents w) of
     None \<Rightarrow> r = Inl (Wrap ''failed to fetch agent'' (Wrap ''agent not found'' ErrNotFound)) \<and> tbl_agents w' = tbl_agents w
   | Some a \<Rightarrow> if agent_RetiredAt a \<noteq> None then r = Inl ErrAgentRetired \<and> tbl_agents w' = tbl_agents w
       else r = Inr () \<and> tbl_agents w' = update_row agent_ID i
         (if agent_Status a = AgentStatusOnline then heartbeat_columns t metadata else agent_Status_update (\<lambda>_. AgentStatusOnline)) (tbl_agents w)"
proof (cases "row_of agent_ID i (tbl_agents w)")
  case None
  then show ?thesis using assms(3) by (auto simp: Heartbeat_def AgentRepository_Get_def lookup_row_def run_simps assms(1))
next
  case (Some a)
  have a: "a \<in> set (tbl_agents w)" "agent_ID a = i" using row_of_Some [OF Some] by auto
  define w2 where "w2 = w \<lparr> tbl_agents := update_row agent_ID i (heartbeat_columns t metadata) (tbl_agents w), steps := steps w + 4 \<rparr>"
  have upd: "run_state (AgentRepository_UpdateHeartbeat env i metadata) (w \<lparr> steps := Suc (steps w) \<rparr>) = (Inr (), w2)" if "agent_RetiredAt a = None"
  proof -
    have "0 < count_rows (\<lambda>b. agent_ID b = i \<and> agent_RetiredAt b = None) (tbl_agents w)" using a that by (auto simp: count_rows_def filter_empty_conv)
    moreover have "update_row agent_ID i (unless_retired (heartbeat_columns t metadata)) (tbl_agents w) = update_row agent_ID i (heartbeat_columns t metadata) (tbl_agents w)"
      unfolding fleet_row [OF assms(2) Some, of "unless_retired _"] fleet_row [OF assms(2) Some, of "heartbeat_columns _ _"] using that by (simp add: unless_retired_def)
    ultimately show ?thesis by (simp add: AgentRepository_UpdateHeartbeat_def exec_def run_simps assms(1) rows_result_def w2_def t_def)
  qed
  have upd2: "run_state (AgentRepository_Update env ((scanAgent a) \<lparr> agent_Status := AgentStatusOnline \<rparr>)) w2 =
    (Inr (), w2 \<lparr> tbl_agents := update_row agent_ID i (agent_Status_update (\<lambda>_. AgentStatusOnline)) (tbl_agents w), steps := steps w2 + 2 \<rparr>)"
  proof -
    let ?a = "(scanAgent a) \<lparr> agent_Status := AgentStatusOnline \<rparr>" and ?h = "heartbeat_columns t metadata"
    have ids: "agent_ID ?a = i" using a(2) by simp
    have names: "map agent_Name (update_row agent_ID i ?h ts) = map agent_Name ts" for ts by (simp add: update_row_def)
    have ok: "fleet_ok (tbl_agents w2)" using assms(2) by (simp add: w2_def names fleet_ok_def)
    have mem: "?h a \<in> set (tbl_agents w2)" using a by (auto simp: w2_def set_update_row)
    have "update_row agent_ID i (agent_columns ?a) (tbl_agents w2) = update_row agent_ID i (agent_columns ?a \<circ> ?h) (tbl_agents w)"
      by (simp add: w2_def update_row_twice)
    also have "\<dots> = update_row agent_ID i (agent_Status_update (\<lambda>_. AgentStatusOnline)) (tbl_agents w)"
      unfolding fleet_row [OF assms(2) Some, of "_ \<circ> _"] fleet_row [OF assms(2) Some, of "agent_Status_update _"] comp_apply heartbeat_undone ..
    finally show ?thesis using AgentUpdate_run [OF assms(1) ok mem, of ?a] a(2) by (simp add: ids)
  qed
  show ?thesis using assms(3) upd upd2
    by (auto simp: Heartbeat_def AgentRepository_Get_def lookup_row_def run_simps assms(1) Some IsRetired_def w2_def split: if_splits)
qed

section \<open>The sweep for stale agents\<close>

lemma fleet_id: "fleet_ok t \<Longrightarrow> a \<in> set t \<Longrightarrow> b \<in> set t \<Longrightarrow> agent_ID a = agent_ID b \<Longrightarrow> a = b"
  by (auto simp: fleet_ok_def distinct_map inj_on_def)

definition offline_if :: "(Agent \<Rightarrow> bool) \<Rightarrow> Agent \<Rightarrow> Agent" where
  "offline_if P a = (if P a then a \<lparr> agent_Status := AgentStatusOffline \<rparr> else a)"

lemma offline_if_simps [simp]: "agent_ID (offline_if P a) = agent_ID a" "agent_Name (offline_if P a) = agent_Name a"
  by (simp_all add: offline_if_def)

lemma stale_scan [simp]: "stale_agent c (scanAgent a) = stale_agent c a"
  by (simp add: stale_agent_def)

lemma mark_offline_run:
  assumes "fault env = (\<lambda>_. False)" "fleet_ok (tbl_agents w)" "b \<in> set (tbl_agents w)"
  shows "\<exists>n. run_state (mark_offline env c (scanAgent b)) w =
    ((), w \<lparr> tbl_agents := map (offline_if (\<lambda>a. a = b \<and> stale_agent c b)) (tbl_agents w), steps := n \<rparr>)"
proof (cases "stale_agent c b")
  case True
  let ?a = "(scanAgent b) \<lparr> agent_Status := AgentStatusOffline \<rparr>"
  have "update_row agent_ID (agent_ID b) (agent_columns ?a) (tbl_agents w) = map (offline_if (\<lambda>a. a = b \<and> stale_agent c b)) (tbl_agents w)"
    unfolding update_row_def using fleet_id [OF assms(2) _ assms(3)] True
    by (auto simp: offline_if_def agent_columns_def scanAgent_def)
  then show ?thesis using AgentUpdate_run [OF assms, of ?a] True by (simp add: mark_offline_def discard_def) blast
next
  case False
  then have "map (offline_if (\<lambda>a. a = b \<and> stale_agent c b)) (tbl_agents w) = tbl_agents w" by (simp add: offline_if_def map_idI)
  with False show ?thesis by (simp add: mark_offline_def) (rule exI [of _ "steps w"], simp)
qed

lemma mark_all_run:
  assumes "fault env = (\<lambda>_. False)"
  shows "fleet_ok (tbl_agents w) \<Longrightarrow> distinct bs \<Longrightarrow> set bs \<subseteq> set (tbl_agents w) \<Longrightarrow>
    \<exists>n. run_state (for_each (mark_offline env c) (map scanAgent bs)) w =
      ((), w \<lparr> tbl_agents := map (offline_if (\<lambda>a. a \<in> set bs \<and> stale_agent c a)) (tbl_agents w), steps := n \<rparr>)"
proof (induction bs arbitrary: w)
  case Nil
  have "map (offline_if (\<lambda>a. False)) (tbl_agents w) = tbl_agents w" by (simp add: offline_if_def map_idI)
  then show ?case by (simp, intro exI [of _ "steps w"]) simp
next
  case (Cons b bs)
  define w1 where "w1 = w \<lparr> tbl_agents := map (offline_if (\<lambda>a. a = b \<and> stale_agent c b)) (tbl_agents w) \<rparr>"
  obtain n where n: "run_state (mark_offline env c (scanAgent b)) w = ((), w1 \<lparr> steps := n \<rparr>)"
    using mark_offline_run [OF assms Cons.prems(1), of b] Cons.prems(3) by (auto simp: w1_def)
  have names: "map agent_ID (tbl_agents w1) = map agent_ID (tbl_agents w)" "map agent_Name (tbl_agents w1) = map agent_Name (tbl_agents w)"
    by (simp_all add: w1_def)
  have keep: "offline_if (\<lambda>a. a = b \<and> stale_agent c b) x = x" if "x \<in> set bs" for x using that Cons.prems(2) by (auto simp: offline_if_def)
  then have sub: "set bs \<subseteq> set (tbl_agents w1)" using Cons.prems(3) by (force simp: w1_def image_iff)
  have "offline_if (\<lambda>a. a \<in> set bs \<and> stale_agent c a) (offline_if (\<lambda>a. a = b \<and> stale_agent c b) x) =
      offline_if (\<lambda>a. a \<in> set (b # bs) \<and> stale_agent c a) x" if "x \<in> set (tbl_agents w)" for x
  proof (cases "x = b")
    case True
    have "b \<lparr> agent_Status := AgentStatusOffline \<rparr> \<notin> set bs"
      using Cons.prems fleet_id [of "tbl_agents w" b "b \<lparr> agent_Status := AgentStatusOffline \<rparr>"] by auto
    with True Cons.prems(2) show ?thesis by (auto simp: offline_if_def)
  qed (auto simp: offline_if_def)
  then have rows: "map (offline_if (\<lambda>a. a \<in> set bs \<and> stale_agent c a)) (tbl_agents w1) =
      map (offline_if (\<lambda>a. a \<in> set (b # bs) \<and> stale_agent c a)) (tbl_agents w)" by (simp add: w1_def)
  have "\<exists>m. run_state (for_each (mark_offline env c) (map scanAgent bs)) (w1 \<lparr> steps := n \<rparr>) =
      ((), (w1 \<lparr> steps := n \<rparr>) \<lparr> tbl_agents := map (offline_if (\<lambda>a. a \<in> set bs \<and> stale_agent c a)) (tbl_agents (w1 \<lparr> steps := n \<rparr>)), steps := m \<rparr>)"
    by (rule Cons.IH) (use Cons.prems sub names in \<open>simp_all add: fleet_ok_def\<close>)
  moreover have "tbl_agents (w1 \<lparr> steps := n \<rparr>) = tbl_agents w1" by simp
  moreover have "w1 \<lparr> steps := n \<rparr> \<lparr> tbl_agents := ts, steps := k \<rparr> = w \<lparr> tbl_agents := ts, steps := k \<rparr>" for ts k by (simp add: w1_def)
  ultimately obtain m where "run_state (for_each (mark_offline env c) (map scanAgent bs)) (w1 \<lparr> steps := n \<rparr>) =
      ((), w \<lparr> tbl_agents := map (offline_if (\<lambda>a. a \<in> set (b # bs) \<and> stale_agent c a)) (tbl_agents w), steps := m \<rparr>)"
    by (auto simp only: rows)
  then show ?case using n by (simp only: list.map for_each.simps run_state_bind prod.case) blast
qed

text \<open>
  The sweep marks exactly the stale agents. When no database call fails, afterwards every agent that is not retired, was
  online and whose last heartbeat is older than the threshold is offline, and every other row and column is as it was.
\<close>

theorem MarkStaleAgentsOffline_exact:
  assumes "fault env = (\<lambda>_. False)" "fleet_ok (tbl_agents w)" "run_state (MarkStaleAgentsOffline env threshold) w = (r, w')"
  shows "r = Inr () \<and> tbl_agents w' = map (\<lambda>a. if agent_RetiredAt a = None \<and> agent_Status a = AgentStatusOnline \<and>
      (\<exists>t. agent_LastHeartbeatAt a = Some t \<and> t < clock env (Suc (steps w)) - threshold)
    then a \<lparr> agent_Status := AgentStatusOffline \<rparr> else a) (tbl_agents w)"
proof -
  define bs where "bs = sort_key (\<lambda>a. - agent_RegisteredAt a) (filter (\<lambda>a. agent_RetiredAt a = None) (tbl_agents w))"
  define c where "c = clock env (Suc (steps w)) - threshold"
  define w1 where "w1 = w \<lparr> steps := steps w + 2 \<rparr>"
  have bs: "set bs = {a \<in> set (tbl_agents w). agent_RetiredAt a = None}" "distinct bs"
    using assms(2) by (simp_all add: bs_def fleet_ok_def distinct_map)
  obtain n where n: "run_state (for_each (mark_offline env c) (map scanAgent bs)) w1 =
      ((), w1 \<lparr> tbl_agents := map (offline_if (\<lambda>a. a \<in> set bs \<and> stale_agent c a)) (tbl_agents w1), steps := n \<rparr>)"
    using mark_all_run [OF assms(1), of w1 bs c] assms(2) bs by (auto simp: w1_def)
  have run: "run_state (MarkStaleAgentsOffline env threshold) w = (Inr (), snd (run_state (for_each (mark_offline env c) (map scanAgent bs)) w1))"
    using n by (simp add: MarkStaleAgentsOffline_def AgentRepository_List_def query_def run_simps assms(1) bs_def [symmetric] c_def [symmetric] w1_def)
  have "offline_if (\<lambda>a. a \<in> set bs \<and> stale_agent c a) a = (if agent_RetiredAt a = None \<and> agent_Status a = AgentStatusOnline \<and>
      (\<exists>t. agent_LastHeartbeatAt a = Some t \<and> t < c) then a \<lparr> agent_Status := AgentStatusOffline \<rparr> else a)" if "a \<in> set (tbl_agents w)" for a
    using that by (auto simp: offline_if_def bs(1) stale_agent_def split: option.splits)
  then show ?thesis using assms(3) run n by (auto simp: w1_def c_def)
qed

section \<open>Retirement is final\<close>

definition frozen :: "Agent list \<Rightarrow> Agent list \<Rightarrow> bool" where
  "frozen t t' = (fleet_ok t' \<and> (\<forall>i a. row_of agent_ID i t = Some a \<longrightarrow> agent_RetiredAt a \<noteq> None \<longrightarrow> row_of agent_ID i t' = Some a))"

lemma frozen_refl: "fleet_ok t \<Longrightarrow> frozen t t"
  by (simp add: frozen_def)

lemma frozen_trans: "frozen t u \<Longrightarrow> frozen u v \<Longrightarrow> frozen t v"
  by (simp add: frozen_def)

lemma frozen_update:
  assumes "fleet_ok t" "\<And>b. b \<in> set t \<Longrightarrow> agent_ID b = i \<Longrightarrow> agent_ID (f b) = agent_ID b \<and> agent_Name (f b) = agent_Name b \<and> (agent_RetiredAt b \<noteq> None \<longrightarrow> f b = b)"
  shows "frozen t (update_row agent_ID i f t)"
proof -
  have keys: "map agent_ID (update_row agent_ID i f t) = map agent_ID t" "map agent_Name (update_row agent_ID i f t) = map agent_Name t"
    using assms(2) by (simp_all add: update_row_def)
  then have ok: "fleet_ok (update_row agent_ID i f t)" using assms(1) by (simp add: fleet_ok_def)
  have "row_of agent_ID j (update_row agent_ID i f t) = Some a" if "row_of agent_ID j t = Some a" "agent_RetiredAt a \<noteq> None" for j a
  proof -
    have "a \<in> set (update_row agent_ID i f t)" "agent_ID a = j"
      using row_of_Some [OF that(1)] that(2) assms(2) by (force simp: update_row_def image_iff)+
    then show ?thesis using ok row_of_distinct [of agent_ID "update_row agent_ID i f t" a] by (auto simp: fleet_ok_def)
  qed
  with ok show ?thesis by (simp add: frozen_def)
qed

lemma frozen_append:
  "fleet_ok t \<Longrightarrow> \<not> has_key agent_ID (agent_ID a) t \<Longrightarrow> \<not> has_key agent_Name (agent_Name a) t \<Longrightarrow> frozen t (t @ [a])"
  by (auto simp: frozen_def fleet_ok_def has_key_iff row_of_append)

text \<open>An update with an agent that was read while not retired, and whose row is still not retired.\<close>

lemma frozen_columns:
  assumes "fleet_ok t" "row_of agent_ID (agent_ID a) t = Some b" "agent_RetiredAt b = None" "agent_Name a = agent_Name b"
  shows "frozen t (update_row agent_ID (agent_ID a) (agent_columns a) t)"
proof (rule frozen_update [OF assms(1)])
  fix c assume "c \<in> set t" "agent_ID c = agent_ID a"
  then have "c = b" using assms(1,2) fleet_id row_of_Some by metis
  then show "agent_ID (agent_columns a c) = agent_ID c \<and> agent_Name (agent_columns a c) = agent_Name c \<and>
      (agent_RetiredAt c \<noteq> None \<longrightarrow> agent_columns a c = c)" using assms(3,4) by (simp add: agent_columns_def)
qed

text \<open>What the two updates of a heartbeat do to the table, and that an agent that was not retired is still not.\<close>

definition beaten :: "string \<Rightarrow> Agent list \<Rightarrow> Agent list \<Rightarrow> bool" where
  "beaten i t t' = (frozen t t' \<and> (\<forall>a. row_of agent_ID i t = Some a \<longrightarrow>
     (\<exists>b. row_of agent_ID i t' = Some b \<and> agent_RetiredAt b = agent_RetiredAt a \<and> agent_Name b = agent_Name a)))"

lemma post_UpdateHeartbeat:
  assumes "fleet_ok (tbl_agents w)" "\<And>r w'. beaten i (tbl_agents w) (tbl_agents w') \<Longrightarrow> Q r w'"
  shows "post (AgentRepository_UpdateHeartbeat env i m) w Q"
proof -
  have beat: "beaten i (tbl_agents w) (update_row agent_ID i (unless_retired (heartbeat_columns t m)) (tbl_agents w))" for t
  proof -
    have "frozen (tbl_agents w) (update_row agent_ID i (unless_retired (heartbeat_columns t m)) (tbl_agents w))"
      by (rule frozen_update [OF assms(1)]) (auto simp: unless_retired_def)
    moreover have "agent_Name (unless_retired (heartbeat_columns t m) a) = agent_Name a" for a by (simp add: unless_retired_def)
    ultimately show ?thesis by (auto simp: beaten_def row_of_update_row)
  qed
  have "beaten i (tbl_agents w) (tbl_agents w)" using assms(1) by (simp add: beaten_def frozen_refl)
  then show ?thesis unfolding AgentRepository_UpdateHeartbeat_def
    by (intro post_bindI post_now post_exec post_returnI assms(2)) (use beat in \<open>auto dest!: tables_same_data\<close>)
qed

lemma post_AgentUpdate_frozen:
  assumes "fleet_ok (tbl_agents w)" "row_of agent_ID (agent_ID a) (tbl_agents w) = Some b" "agent_RetiredAt b = None" "agent_Name a = agent_Name b"
    and "\<And>r w'. frozen (tbl_agents w) (tbl_agents w') \<Longrightarrow> tbl_agents w' = tbl_agents w \<or> tbl_agents w' = update_row agent_ID (agent_ID a) (agent_columns a) (tbl_agents w) \<Longrightarrow> Q r w'"
  shows "post (AgentRepository_Update env a) w Q"
  by (intro post_AgentUpdate assms(5)) (use frozen_columns [OF assms(1-4)] frozen_refl [OF assms(1)] in \<open>auto dest!: tables_same_data\<close>)

lemma post_Heartbeat_frozen:
  assumes "fleet_ok (tbl_agents w)"
  shows "post (Heartbeat env i m) w (\<lambda>r w'. frozen (tbl_agents w) (tbl_agents w'))"
proof -
  have beat: "post (do { u \<leftarrow> AgentRepository_UpdateHeartbeat env i m;
       (case u of Inl err \<Rightarrow> State_Monad.return (Inl (Wrap ''failed to update heartbeat'' err))
        | Inr _ \<Rightarrow> if agent_Status (scanAgent a) \<noteq> AgentStatusOnline then do {
            _ \<leftarrow> AgentRepository_Update env ((scanAgent a) \<lparr> agent_Status := AgentStatusOnline \<rparr>); State_Monad.return (Inr ()) }
          else State_Monad.return (Inr ())) }) w1 (\<lambda>r w'. frozen (tbl_agents w) (tbl_agents w'))"
    if "same_data w w1" and a: "row_of agent_ID i (tbl_agents w) = Some a" "\<not> IsRetired (Some (scanAgent a))" for w1 a
  proof -
    have t: "tbl_agents w1 = tbl_agents w" using that(1) by (rule same_dataD)
    have i: "agent_ID a = i" using row_of_Some [OF a(1)] by simp
    show ?thesis
    proof (intro post_bindI post_UpdateHeartbeat post_case_sum post_if post_returnI, goal_cases)
      case (3 r w2 x)
      then obtain b where b: "row_of agent_ID i (tbl_agents w2) = Some b" "agent_RetiredAt b = None" "agent_Name b = agent_Name a"
        using a by (auto simp: beaten_def t IsRetired_def)
      have fr: "frozen (tbl_agents w) (tbl_agents w2)" using 3 t by (simp add: beaten_def)
      show ?case
        by (rule post_AgentUpdate_frozen [where b = b]) (use fr b i in \<open>auto simp: frozen_def\<close>)
    qed (use assms t in \<open>auto simp: beaten_def\<close>)
  qed
  have same: "frozen (tbl_agents w) (tbl_agents w1)" if "same_data w w1" for w1
    using that assms by (simp add: same_dataD frozen_refl)
  show ?thesis unfolding Heartbeat_def
  proof (intro post_bindI post_AgentGet post_case_sum post_if, simp_all only: sum.distinct sum.inject, goal_cases)
    case (3 a w1 agent)
    with beat [OF 3(1,2)] show ?case by (auto simp only: post_bind)
  qed (use same in simp_all)
qed

lemma post_MarkStale_frozen:
  assumes "fleet_ok (tbl_agents w)"
  shows "post (MarkStaleAgentsOffline env threshold) w (\<lambda>r w'. frozen (tbl_agents w) (tbl_agents w'))"
proof -
  define Inv :: "Agent list \<Rightarrow> world \<Rightarrow> bool" where "Inv = (\<lambda>rest w'. frozen (tbl_agents w) (tbl_agents w') \<and>
    (\<forall>x \<in> set rest. \<exists>b. row_of agent_ID (agent_ID x) (tbl_agents w') = Some b \<and> agent_RetiredAt b = None \<and> agent_Name b = agent_Name x))"
  have step: "post (mark_offline env c x) w1 (\<lambda>_ w'. Inv rest w')" if inv: "Inv (x # rest) w1" for c x rest w1
  proof -
    from inv obtain b where b: "row_of agent_ID (agent_ID x) (tbl_agents w1) = Some b" "agent_RetiredAt b = None" "agent_Name b = agent_Name x"
      and fr: "frozen (tbl_agents w) (tbl_agents w1)" by (auto simp: Inv_def)
    have ok: "fleet_ok (tbl_agents w1)" using fr by (simp add: frozen_def)
    have "Inv rest w'" if "frozen (tbl_agents w1) (tbl_agents w')" "tbl_agents w' = tbl_agents w1 \<or> tbl_agents w' = update_row agent_ID (agent_ID x)
        (agent_columns (x \<lparr> agent_Status := AgentStatusOffline \<rparr>)) (tbl_agents w1)" for w'
      using that(2) inv frozen_trans [OF fr that(1)]
      by (auto simp: Inv_def row_of_update_row agent_columns_def split: if_splits) (metis option.inject)
    moreover have "Inv rest w1" using inv by (simp add: Inv_def)
    ultimately show ?thesis unfolding mark_offline_def discard_def
      by (intro post_if post_bindI post_returnI post_AgentUpdate_frozen [OF ok, of _ b]) (use b in auto)
  qed
  have start: "Inv (map scanAgent (sort_key (\<lambda>a. - agent_RegisteredAt a) (filter (\<lambda>a. agent_RetiredAt a = None) (tbl_agents w1)))) w2"
    if "same_data w w1" "same_data w1 w2" for w1 w2
    using that assms row_of_distinct [of agent_ID "tbl_agents w"] by (auto simp: Inv_def frozen_refl fleet_ok_def dest!: tables_same_data)
  show ?thesis unfolding MarkStaleAgentsOffline_def AgentRepository_List_def
    by (intro post_bindI post_query post_case_sum post_now post_returnI post_for_each [where Inv = Inv] step, simp_all only: sum.distinct sum.inject)
      (use start in \<open>auto simp: Inv_def frozen_refl assms dest: same_dataD(7)\<close>)
qed

text \<open>The operations that only read agents.\<close>

interpretation roster: table_view "\<lambda>w w'. tbl_agents w' = tbl_agents w" tbl_agents
  by unfold_locales auto

abbreviation keeps_roster :: "'a op \<Rightarrow> bool" where
  "keeps_roster \<equiv> state_io_rel (\<lambda>w w'. tbl_agents w' = tbl_agents w)"

lemma roster_certs:
  "keeps_roster (CertificateRepository_Update env c)" "keeps_roster (CertificateRepository_CreateVersion env v)"
  "keeps_roster (CertificateRepository_Get env i)" "keeps_roster (CertificateRepository_ListVersions env i)"
  "keeps_roster (AgentRepository_Get env i)" "keeps_roster (TargetRepository_Get env i)" "keeps_roster (ProfileRepository_Get env i)"
  unfolding CertificateRepository_Update_def CertificateRepository_UpdateWithTx_def CertificateRepository_CreateVersion_def
    CertificateRepository_CreateVersionWithTx_def CertificateRepository_Get_def CertificateRepository_ListVersions_def
    AgentRepository_Get_def TargetRepository_Get_def ProfileRepository_Get_def lookup_row_def
  by (intro roster.keeps_prims roster.keeps_insert roster.keeps_exec; simp)+

lemmas roster_jobs = roster.keeps_JobRepository_reads roster.keeps_job_writes

lemma roster_notify: "keeps_roster (SendRenewalNotification env n cert ok err)"
  unfolding SendRenewalNotification_def store_and_send_def new_notification_def resolveRecipient_def
    OwnerRepository_Get_def lookup_row_def NotificationRepository_Create_def sendNotification_def notifier_Send_def
    notif_updates update_notif_def
  by (intro roster.keeps_prims roster.keeps_insert roster.keeps_exec; simp)

lemma roster_target_infos: "keeps_roster (target_infos env s tids)"
  by (induction tids) (auto simp: target_info_def intro!: roster.keeps_prims roster_certs)

lemma roster_deploy: "keeps_roster (createDeploymentJobs env s cert)"
  unfolding createDeploymentJobs_def deployment_targets_def create_deployment_job_def new_pending_job_def
    TargetRepository_ListByCertificate_def discard_def
  by (intro roster.keeps_prims roster_target_infos roster_jobs; simp)

lemma roster_CompleteAgentCSRRenewal: "keeps_roster (CompleteAgentCSRRenewal env cl s job cert csr)"
  unfolding CompleteAgentCSRRenewal_def sign_agent_csr_def RenewCertificate_def issuer_failed_def failJob_def discard_def
    new_version_def store_version_def store_cert_def complete_renewal_def renewal_profile_def
  by (intro roster.keeps_audit roster_jobs roster_certs roster_notify roster_deploy; simp)

lemma roster_SubmitCSR: "keeps_roster (SubmitCSR env cl s agentID certID csr)"
  unfolding SubmitCSR_def submit_for_cert_def awaiting_job_def GetAwaitingCSRJobs_def direct_signing_def submit_profile_def new_version_def
  by (intro roster.keeps_audit roster_jobs roster_certs roster_CompleteAgentCSRRenewal; simp)

lemma roster_work_items: "keeps_roster (work_items env js)"
  by (induction js) (auto simp: work_item_def target_details_def csr_names_def intro!: roster.keeps_audit roster_certs split: option.splits)

lemma roster_others:
  "keeps_roster (GetWorkWithTargets env agentID)" "keeps_roster (ReportJobStatus env agentID jobID st msg)"
  "keeps_roster (GetCertificateForAgent env agentID certID)"
  unfolding GetWorkWithTargets_def GetPendingWork_def ReportJobStatus_def GetCertificateForAgent_def
  by (intro roster.keeps_audit roster_jobs roster_certs roster_work_items; simp)+

text \<open>One call of the agent service, in any environment.\<close>

inductive agent_call :: "world \<Rightarrow> world \<Rightarrow> bool" where
  call_Register: "run_state (Register env cl name hostname) w = (r, w') \<Longrightarrow> agent_call w w'"
| call_RegisterAgent: "agent_RetiredAt a = None \<Longrightarrow> agent_RetiredReason a = None \<Longrightarrow> run_state (RegisterAgent env cl a) w = (r, w') \<Longrightarrow> agent_call w w'"
| call_Heartbeat: "run_state (Heartbeat env i m) w = (r, w') \<Longrightarrow> agent_call w w'"
| call_MarkStale: "run_state (MarkStaleAgentsOffline env d) w = (r, w') \<Longrightarrow> agent_call w w'"
| call_Retire: "run_state (RetireAgent env i actor force reason) w = (r, w') \<Longrightarrow> agent_call w w'"
| call_SubmitCSR: "run_state (SubmitCSR env cl s i c csr) w = (r, w') \<Longrightarrow> agent_call w w'"
| call_GetWork: "run_state (GetWorkWithTargets env i) w = (r, w') \<Longrightarrow> agent_call w w'"
| call_Report: "run_state (ReportJobStatus env i j st msg) w = (r, w') \<Longrightarrow> agent_call w w'"
| call_Pickup: "run_state (GetCertificateForAgent env i c) w = (r, w') \<Longrightarrow> agent_call w w'"

lemma registered_frozen: "fleet_ok (tbl_agents w) \<Longrightarrow> registered cl a key w w' \<Longrightarrow> frozen (tbl_agents w) (tbl_agents w')"
  using frozen_append [of "tbl_agents w" "scanAgent a"] by (auto simp: registered_def)

lemma retirement_frozen:
  assumes "fleet_ok (tbl_agents w)" "retirement i force reason w res w'"
  shows "frozen (tbl_agents w) (tbl_agents w')"
proof -
  have "frozen (tbl_agents w) (update_row agent_ID i (retire_agent t reason) (tbl_agents w))" for t
    by (rule frozen_update [OF assms(1)]) (simp add: retire_agent_def unless_retired_def)
  then have "frozen (tbl_agents w) (tbl_agents w')" if "retired_tables i t reason c w w'" for t c
    using that unfolding retired_tables_def retire_agent_row by (elim conjE) (simp only:)
  with assms show ?thesis by (auto simp: retirement_def frozen_refl same_dataD split: option.splits)
qed

lemma agent_call_frozen:
  assumes "agent_call w w'" "fleet_ok (tbl_agents w)"
  shows "frozen (tbl_agents w) (tbl_agents w')"
  using assms(1)
proof cases
  case (call_Register env cl name hostname r)
  from post_run [OF post_Register this] assms(2) show ?thesis
    by (auto simp: frozen_refl registered_frozen split: sum.splits prod.splits)
next
  case (call_RegisterAgent a env cl r)
  from post_run [OF post_RegisterAgent [OF this(1,2)] this(3)] assms(2) show ?thesis
    by (auto simp: frozen_refl registered_frozen split: sum.splits)
next
  case (call_Retire env i actor force reason r)
  from post_run [OF post_RetireAgent this] assms(2) show ?thesis
    by (auto simp: frozen_refl same_dataD retirement_frozen split: sum.splits)
next
  case call_Heartbeat
  then show ?thesis using post_run [OF post_Heartbeat_frozen [OF assms(2)]] by blast
next
  case call_MarkStale
  then show ?thesis using post_run [OF post_MarkStale_frozen [OF assms(2)]] by blast
qed (use assms(2) in \<open>auto simp: frozen_refl dest!: state_io_relD [OF roster_SubmitCSR] state_io_relD [OF roster_others(1)]
  state_io_relD [OF roster_others(2)] state_io_relD [OF roster_others(3)]\<close>)

text \<open>
  C22. Retirement is final. Whatever the agent service is asked to do afterwards, in whatever order and under any pattern of
  failures, the row of a retired agent stays exactly as it was retired, and its heartbeats are refused without an effect on the
  table; identifiers and names stay unique.
\<close>

theorem retirement_is_final:
  assumes "fleet_ok (tbl_agents w)" "agent_call\<^sup>*\<^sup>* w w'" "row_of agent_ID i (tbl_agents w) = Some a" "agent_RetiredAt a \<noteq> None"
  shows "row_of agent_ID i (tbl_agents w') = Some a \<and> fleet_ok (tbl_agents w') \<and>
    (\<forall>env m r v. run_state (Heartbeat env i m) w' = (r, v) \<longrightarrow> (\<exists>e. r = Inl e) \<and> tbl_agents v = tbl_agents w')"
proof -
  from assms(2) have fr: "frozen (tbl_agents w) (tbl_agents w')"
  proof (induction rule: rtranclp_induct)
    case (step u v)
    then show ?case using agent_call_frozen [OF step(2)] frozen_trans by (auto simp: frozen_def)
  qed (simp add: frozen_refl assms(1))
  then have a: "row_of agent_ID i (tbl_agents w') = Some a" using assms(3,4) by (simp add: frozen_def)
  have "post (Heartbeat env i m) w' (\<lambda>r v. (\<exists>e. r = Inl e) \<and> tbl_agents v = tbl_agents w')" for env m
    unfolding Heartbeat_def
    by (intro post_bindI post_AgentGet post_case_sum, simp_all only: sum.distinct sum.inject) (use a assms(4) in \<open>auto simp: IsRetired_def same_dataD\<close>)
  then show ?thesis using a fr post_run by (fastforce simp: frozen_def)
qed

section \<open>Closed examples\<close>

definition retired_fleet :: world where
  "retired_fleet = fleet \<lparr> tbl_agents := [(sample_agent ''a1'') \<lparr> agent_RetiredAt := Some 7 \<rparr>] \<rparr>"

theorem retirement_is_final_witness:
  "let w' = snd (run_state (RetireAgent (calm 9) ''a1'' ''bob'' True ''again'') retired_fleet) in
   row_of agent_ID ''a1'' (tbl_agents w') = Some ((sample_agent ''a1'') \<lparr> agent_RetiredAt := Some 7 \<rparr>)"
proof -
  obtain r w' where run: "run_state (RetireAgent (calm 9) ''a1'' ''bob'' True ''again'') retired_fleet = (r, w')" by (metis surj_pair)
  then have calls: "agent_call\<^sup>*\<^sup>* retired_fleet w'" by (intro r_into_rtranclp call_Retire)
  have ok: "fleet_ok (tbl_agents retired_fleet)"
    and a: "row_of agent_ID ''a1'' (tbl_agents retired_fleet) = Some ((sample_agent ''a1'') \<lparr> agent_RetiredAt := Some 7 \<rparr>)"
    by (simp_all add: retired_fleet_def fleet_ok_def row_of_def sample_agent_def)
  show ?thesis unfolding run Let_def snd_conv by (rule conjunct1 [OF retirement_is_final [OF ok calls a]]) simp
qed

theorem Heartbeat_exact_witness:
  "let w' = snd (run_state (Heartbeat (calm 1000) ''a2'' None) fleet) in
   row_of agent_ID ''a2'' (tbl_agents w') = Some (sample_agent ''a2'')"
proof -
  obtain r w' where run: "run_state (Heartbeat (calm 1000) ''a2'' None) fleet = (r, w')" by (metis surj_pair)
  have "fault (calm 1000) = (\<lambda>_. False)" "fleet_ok (tbl_agents fleet)" by (simp_all add: calm_def fleet_ok_def fleet_defs)
  from Heartbeat_exact [OF this run] show ?thesis unfolding run Let_def by (auto simp: fleet_defs row_of_def update_row_def)
qed

theorem MarkStaleAgentsOffline_exact_witness:
  "let w' = snd (run_state (MarkStaleAgentsOffline (calm 1000) 10) fleet) in
   map agent_Status (tbl_agents w') = [AgentStatusOffline, AgentStatusOffline]"
proof -
  obtain r w' where run: "run_state (MarkStaleAgentsOffline (calm 1000) 10) fleet = (r, w')" by (metis surj_pair)
  have "fault (calm 1000) = (\<lambda>_. False)" "fleet_ok (tbl_agents fleet)" by (simp_all add: calm_def fleet_ok_def fleet_defs)
  from MarkStaleAgentsOffline_exact [OF this run] show ?thesis unfolding run Let_def by (simp add: fleet_defs calm_def)
qed

text \<open>
  An agent that comes back after an outage: its heartbeat succeeds, and the next sweep marks it offline again, although it has just
  reported.
\<close>

lemma first_heartbeat_lost:
  "let (r, w1) = run_state (Heartbeat (calm 1000) ''a2'' None) fleet;
       w2 = snd (run_state (MarkStaleAgentsOffline (calm 1000) 10) w1) in
   r = Inr () \<and> map_option agent_Status (row_of agent_ID ''a2'' (tbl_agents w2)) = Some AgentStatusOffline"
  by (simp add: Let_def Heartbeat_def AgentRepository_Get_def lookup_row_def AgentRepository_UpdateHeartbeat_def AgentRepository_Update_def
    MarkStaleAgentsOffline_def AgentRepository_List_def mark_offline_def discard_def stale_agent_def run_defs fleet_defs calm_def row_of_def
    update_row_def IsRetired_def scanAgent_def rows_result_def count_rows_def has_key_def unless_retired_def heartbeat_columns_def agent_columns_def)

end
