(* ===== verification/Agent_Work.thy ===== *)
theory Agent_Work
  imports Agent_Fleet
begin

text \<open>
  What agents see and do: the pages of the agent list, the work handed to an agent, and the certificate requests and status
  reports it sends.
\<close>

section \<open>Pages\<close>

definition active_agents :: "world \<Rightarrow> Agent list" where
  "active_agents w = map scanAgent (sort_key (\<lambda>a. - agent_RegisteredAt a) (filter (\<lambda>a. agent_RetiredAt a = None) (tbl_agents w)))"

lemma ListAgents_run:
  "fault env = (\<lambda>_. False) \<Longrightarrow> fst (run_state (ListAgents env page perPage) w) = paged_result page perPage (active_agents w)"
  by (simp add: ListAgents_def AgentRepository_List_def query_def run_simps active_agents_def)

text \<open>
  C26. Paging shows every agent once. Going through the pages \<open>1, \<dots>, n\<close> of a size \<open>k\<close>, as long as \<open>n * k\<close> is
  below \<open>2 ^ 63\<close>, gives the agents that are not retired, the one registered last first, each exactly once and none left out when
  there are at most \<open>n * k\<close>; every page reports their number.
\<close>

theorem ListAgents_pages:
  assumes "fault env = (\<lambda>_. False)" "0 < k" "int n * int k < 2 ^ 63" "length (active_agents w) \<le> n * k"
  shows "\<exists>pages. (\<forall>p < n. fst (run_state (ListAgents env (int p + 1) (int k)) w) = Inr (pages p, length (active_agents w)) \<and>
      length (pages p) \<le> k) \<and> concat (map pages [0..<n]) = active_agents w"
proof (intro exI conjI allI impI)
  define pages where "pages = (\<lambda>p. take k (drop (p * k) (active_agents w)))"
  fix p assume "p < n"
  then have "int p + 1 \<le> int n" by simp
  then have "(int p + 1) * int k \<le> int n * int k" by (intro mult_right_mono) simp_all
  then have "(int p + 1) * int k < 2 ^ 63" using assms(3) by linarith
  then have "memory_page (int p + 1) (int k) (active_agents w) = Some (pages p)"
    using assms(2) memory_page_exact [of "int p + 1" "int k" "active_agents w"] by (simp add: pages_def nat_mult_distrib)
  then show "fst (run_state (ListAgents env (int p + 1) (int k)) w) = Inr (pages p, length (active_agents w))"
    by (simp add: ListAgents_run [OF assms(1)] paged_result_def)
  show "length (pages p) \<le> k" by (simp add: pages_def)
next
  show "concat (map (\<lambda>p. take k (drop (p * k) (active_agents w))) [0..<n]) = active_agents w" using assms(4) by (simp add: pages_complete)
qed

theorem ListAgents_pages_witness:
  "fst (run_state (ListAgents (calm 9) 2 1) fleet) = Inr ([sample_agent ''a2'' \<lparr> agent_Status := AgentStatusOffline \<rparr>], 2)"
proof -
  have act: "active_agents fleet = [sample_agent ''a1'', (sample_agent ''a2'') \<lparr> agent_Status := AgentStatusOffline \<rparr>]"
    by (simp add: active_agents_def fleet_defs scanAgent_def)
  then obtain pages where p: "\<forall>p < 2. fst (run_state (ListAgents (calm 9) (int p + 1) (int 1)) fleet) = Inr (pages p, length (active_agents fleet)) \<and>
      length (pages p) \<le> 1" "concat (map pages [0..<2]) = active_agents fleet"
    using ListAgents_pages [of "calm 9" 1 2 fleet] by (auto simp: calm_def)
  have "pages 0 @ pages 1 = active_agents fleet" using p(2) by (simp add: upt_rec)
  moreover have "length (pages 0) \<le> 1" "length (pages 1) \<le> 1" using p(1) by auto
  ultimately have "pages 1 = [sample_agent ''a2'' \<lparr> agent_Status := AgentStatusOffline \<rparr>]" unfolding act
    by (cases "pages 0"; cases "pages 1") auto
  with p(1) [rule_format, of 1] act show ?thesis by simp
qed

text \<open>A page number for which the start of the page wraps around: the slice expression panics.\<close>

lemma huge_page_panics:
  "fst (run_state (ListAgents (calm 9) (2 ^ 63 - 1) 2) fleet) = Inl (Errorf ''runtime error: slice bounds out of range'')"
  by (subst ListAgents_run) (simp_all add: calm_def paged_result_def memory_page_def int64_def go_slice_def Let_def active_agents_def fleet_defs)

section \<open>Reports\<close>

lemma show_JobStatus_of: "show_status (JobStatus_of s) = s"
  by (auto simp: JobStatus_of_def show_status_def)

text \<open>
  A status report is not checked against the job. When no database call fails, whatever agent reports whatever status for
  whatever job, the job takes this status, and a status that is not one of the enumeration is stored as it is; the jobs change
  in nothing else, and only a job that does not exist is refused.
\<close>

theorem UpdateJobStatus_unchecked:
  assumes "fault env = (\<lambda>_. False)" "run_state (UpdateJobStatus env agentID jobID status errMsg) w = (r, w')"
  shows "if has_key job_ID jobID (tbl_jobs w)
    then r = Inr () \<and> (\<exists>t. tbl_jobs w' = update_row job_ID jobID (set_status (JobStatus_of status) errMsg t) (tbl_jobs w)) \<and>
      show_status (JobStatus_of status) = status
    else (\<exists>e. r = Inl e) \<and> same_data w w'"
proof (cases "row_of job_ID jobID (tbl_jobs w)")
  case None
  then show ?thesis using assms(2)
    by (auto simp: UpdateJobStatus_def ReportJobStatus_def JobRepository_Get_def run_simps assms(1) row_of_has_key same.R_steps)
next
  case (Some j)
  have get: "post (JobRepository_Get env jobID) w (\<lambda>g v. g = Inr (scanJob j) \<and> tbl_jobs v = tbl_jobs w)"
    using Some by (simp add: JobRepository_Get_def post_def run_simps assms(1))
  have "0 < count_rows (\<lambda>j. job_ID j = jobID) (tbl_jobs w)" using Some by (simp add: count_rows_pos row_of_has_key)
  then have upd: "post (JobRepository_UpdateStatus env jobID st m) v (\<lambda>u v'. u = Inr () \<and> (\<exists>t. tbl_jobs v' = update_row job_ID jobID (set_status st m t) (tbl_jobs w)))"
    if "tbl_jobs v = tbl_jobs w" for st m v
    using that by (auto simp: JobRepository_UpdateStatus_def exec_def post_def run_simps assms(1) rows_result_def)
  have "post (UpdateJobStatus env agentID jobID status errMsg) w
      (\<lambda>r w'. r = Inr () \<and> (\<exists>t. tbl_jobs w' = update_row job_ID jobID (set_status (JobStatus_of status) errMsg t) (tbl_jobs w)))"
    unfolding UpdateJobStatus_def ReportJobStatus_def
    by (rule post_bindI, rule post_mono [OF get])
      (auto simp: same_but_auditD intro!: post_bindI post_RecordEvent post_mono [OF upd], blast)
  from post_run [OF this assms(2)] Some show ?thesis by (simp add: row_of_has_key show_JobStatus_of)
qed

theorem UpdateJobStatus_unchecked_witness:
  "let w = empty_world \<lparr> tbl_jobs := [sample_job ''j1'' JobTypeRenewal JobStatusAwaitingApproval] \<rparr>;
       w' = snd (run_state (UpdateJobStatus (calm 9) ''nobody'' ''j1'' ''Pending'' '''') w)
   in map job_Status (tbl_jobs w') = [JobStatusPending]"
proof -
  define w where "w = empty_world \<lparr> tbl_jobs := [sample_job ''j1'' JobTypeRenewal JobStatusAwaitingApproval] \<rparr>"
  obtain r w' where run: "run_state (UpdateJobStatus (calm 9) ''nobody'' ''j1'' ''Pending'' '''') w = (r, w')" by (metis surj_pair)
  have "fault (calm 9) = (\<lambda>_. False)" by (simp add: calm_def)
  from UpdateJobStatus_unchecked [OF this run] obtain t where
    "tbl_jobs w' = update_row job_ID ''j1'' (set_status (JobStatus_of ''Pending'') '''' t) (tbl_jobs w)"
    by (auto simp: w_def has_key_def sample_job_def split: if_splits)
  then show ?thesis using run by (simp add: w_def [symmetric] update_row_def JobStatus_of_def show_status_def) (simp add: w_def sample_job_def)
qed

section \<open>Requests outside a renewal\<close>

text \<open>
  A retired agent sends a request for a revoked certificate for which no job waits: it is signed, and the certificate is active
  again.
\<close>

definition revoked_issuing_world :: world where
  "revoked_issuing_world = issuing_world \<lparr> tbl_certs := [(sample_cert ''c1'') \<lparr> cert_Status := CertificateStatusRevoked \<rparr>],
     tbl_owners := [sample_owner ''o1'' ''alice''], tbl_profiles := [sample_profile ''p1'' False],
     tbl_agents := [(sample_agent ''a1'') \<lparr> agent_RetiredAt := Some 7 \<rparr>] \<rparr>"

lemma request_revives_revoked_certificate:
  "let (r, w') = run_state (SubmitCSR (calm 9) sample_crypto (NewAgentService sample_registry None) ''a1'' ''c1'' ''csr'') revoked_issuing_world
   in r = Inr () \<and> map cert_Status (tbl_certs w') = [CertificateStatusActive]"
  by (simp add: SubmitCSR_def submit_for_cert_def awaiting_job_def direct_signing_def submit_profile_def NewAgentService_def
    AgentRepository_Get_def lookup_row_def CertificateRepository_Get_def scan_cert_def getTargetIDs_def CertificateRepository_Update_def
    CertificateRepository_UpdateWithTx_def CertificateRepository_CreateVersion_def CertificateRepository_CreateVersionWithTx_def new_version_def
    version_columns_ok_def cert_update_ok_def cert_fks_def fk_ok_def ValidateCSRAgainstProfile_def extractCSRKeyInfo_def profile_options_def
    revoked_issuing_world_def sample_agent_def revocation_samples sample_crypto_def run_defs row_of_def has_key_def update_row_def
    cert_columns_def renewed_cert_def rows_result_def count_rows_def null_if_empty_def Let_def computeCertFingerprint_def hex_EncodeToString_def hex_char_def split: prod.splits)

end
