(* ===== verification/Deployments.thy ===== *)
theory Deployments
  imports Agent_Work
begin

text \<open>
  The deployment service, \<^verbatim>\<open>internal/service/deployment.go\<close>: one job per target of a certificate, the
  dispatch of a job to the agent of its target, and the reports on its end. What it may assume of a job it dispatches
  (Theorem \<^verbatim>\<open>ProcessDeploymentJob_correct\<close>), and what the jobs claimed by the server look like.
\<close>

section \<open>Deployments\<close>

text \<open>
  The repositories, the audit service and the notification service are always wired. A new job
  of this service has no maximal number of attempts set.
\<close>

definition new_deployment_job :: "env \<Rightarrow> string \<Rightarrow> DeploymentTarget \<Rightarrow> Job op" where
  "new_deployment_job env certID target = do {
     job \<leftarrow> new_pending_job env certID JobTypeDeployment (null_if_empty (target_ID target)) (null_if_empty (target_AgentID target));
     State_Monad.return (job \<lparr> job_MaxAttempts := 0 \<rparr>) }"

fun create_jobs :: "env \<Rightarrow> string \<Rightarrow> DeploymentTarget list \<Rightarrow> string list op" where
  "create_jobs env certID [] = State_Monad.return []"
| "create_jobs env certID (target # targets) = do {
     job \<leftarrow> new_deployment_job env certID target;
     c \<leftarrow> JobRepository_Create env job;
     jobIDs \<leftarrow> create_jobs env certID targets;
     State_Monad.return (case c of Inl e \<Rightarrow> jobIDs | Inr jobID \<Rightarrow> jobID # jobIDs) }"

definition CreateDeploymentJobs :: "env \<Rightarrow> string \<Rightarrow> string list result op" where
  "CreateDeploymentJobs env certID = do {
     q \<leftarrow> TargetRepository_ListByCertificate env certID;
     (case q of
        Inl err \<Rightarrow> State_Monad.return (Inl (Wrap ''failed to list targets'' err))
      | Inr targets \<Rightarrow>
          if targets = [] then State_Monad.return (Inl (Errorf (''no targets found for certificate '' @ certID)))
          else do {
            jobIDs \<leftarrow> create_jobs env certID targets;
            if jobIDs = [] then State_Monad.return (Inl (Errorf ''failed to create any deployment jobs''))
            else do {
              _ \<leftarrow> RecordEvent env ''system'' ActorTypeSystem ''deployment_jobs_created'' ''certificate'' certID
                [(''target_count'', JInt (int (length targets))), (''job_count'', JInt (int (length jobIDs)))];
              State_Monad.return (Inr jobIDs) } }) }"

text \<open>A refused deployment: the job fails with a reason. With an agent at fault the owner is notified and the event recorded.\<close>

definition refuse_deployment :: "env \<Rightarrow> Job \<Rightarrow> string \<Rightarrow> error \<Rightarrow> unit result op" where
  "refuse_deployment env job reason err = do {
     _ \<leftarrow> JobRepository_UpdateStatus env (job_ID job) JobStatusFailed reason;
     State_Monad.return (Inl err) }"

definition refuse_agent ::
  "env \<Rightarrow> NotificationService \<Rightarrow> Job \<Rightarrow> ManagedCertificate \<Rightarrow> DeploymentTarget \<Rightarrow> string \<Rightarrow> string \<Rightarrow> (string \<times> jval) list \<Rightarrow>
   error \<Rightarrow> unit result op" where
  "refuse_agent env n job cert target reason short details err = do {
     _ \<leftarrow> JobRepository_UpdateStatus env (job_ID job) JobStatusFailed reason;
     _ \<leftarrow> SendDeploymentNotification env n cert target False (Some (Errorf short));
     _ \<leftarrow> RecordEvent env ''system'' ActorTypeSystem ''deployment_job_failed'' ''certificate'' (job_CertificateID job)
       ([(''job_id'', JStr (job_ID job)), (''reason'', JStr short)] @ details);
     State_Monad.return (Inl err) }"

text \<open>\<^verbatim>\<open>time.Since\<close> saturates, as \<^verbatim>\<open>time.Until\<close> does.\<close>

definition late :: "env \<Rightarrow> Agent \<Rightarrow> bool op" where
  "late env a = (case agent_LastHeartbeatAt a of
     None \<Rightarrow> State_Monad.return False
   | Some h \<Rightarrow> do { t \<leftarrow> now env; State_Monad.return (until t h > 5 * Minute) })"

definition dispatch_to :: "env \<Rightarrow> NotificationService \<Rightarrow> Job \<Rightarrow> ManagedCertificate \<Rightarrow> string \<Rightarrow> DeploymentTarget \<Rightarrow> Agent \<Rightarrow> unit result op" where
  "dispatch_to env n job cert targetID target agent =
     (if IsRetired (Some agent)
      then refuse_agent env n job cert target ''assigned agent is retired'' ''agent retired''
        [(''target_id'', JStr targetID), (''agent_id'', JStr (target_AgentID target))] (Errorf (''agent '' @ target_AgentID target @ '' is retired''))
      else do {
        offline \<leftarrow> late env agent;
        if offline
        then refuse_agent env n job cert target ''agent is offline'' ''agent offline''
          [(''target_id'', JStr targetID)] (Errorf (''agent '' @ target_AgentID target @ '' is offline''))
        else do {
          _ \<leftarrow> RecordEvent env ''system'' ActorTypeSystem ''deployment_job_dispatched'' ''certificate'' (job_CertificateID job)
            [(''job_id'', JStr (job_ID job)), (''target_id'', JStr targetID), (''agent_id'', JStr (target_AgentID target))];
          State_Monad.return (Inr ()) } })"

definition dispatch_target :: "env \<Rightarrow> NotificationService \<Rightarrow> Job \<Rightarrow> ManagedCertificate \<Rightarrow> string \<Rightarrow> unit result op" where
  "dispatch_target env n job cert targetID = do {
     t \<leftarrow> TargetRepository_Get env targetID;
     (case t of
        Inl err \<Rightarrow> refuse_deployment env job (''target fetch failed: '' @ error_text err) (Wrap ''failed to fetch target'' err)
      | Inr target \<Rightarrow> do {
          a \<leftarrow> AgentRepository_Get env (target_AgentID target);
          (case a of
             Inl err \<Rightarrow> refuse_deployment env job (''agent fetch failed: '' @ error_text err) (Wrap ''failed to fetch agent'' err)
           | Inr agent \<Rightarrow> dispatch_to env n job cert targetID target agent) }) }"

definition ProcessDeploymentJob :: "env \<Rightarrow> NotificationService \<Rightarrow> Job \<Rightarrow> unit result op" where
  "ProcessDeploymentJob env n job = do {
     u \<leftarrow> JobRepository_UpdateStatus env (job_ID job) JobStatusRunning '''';
     (case u of
        Inl err \<Rightarrow> State_Monad.return (Inl (Wrap ''failed to update job status'' err))
      | Inr _ \<Rightarrow> do {
          c \<leftarrow> CertificateRepository_Get env (job_CertificateID job);
          (case c of
             Inl err \<Rightarrow> refuse_deployment env job (''certificate fetch failed: '' @ error_text err) (Wrap ''failed to fetch certificate'' err)
           | Inr cert \<Rightarrow>
               let targetID = (case job_TargetID job of None \<Rightarrow> '''' | Some i \<Rightarrow> i) in
               if targetID = '''' then refuse_deployment env job ''target_id not found in job'' (Errorf ''target_id not found in job'')
               else dispatch_target env n job cert targetID) }) }"

definition of_target :: "string \<Rightarrow> Job \<Rightarrow> bool" where
  "of_target targetID j = (job_Type j = JobTypeDeployment \<and> job_TargetID j = Some targetID)"

text \<open>The first deployment job for the target decides; the jobs of a certificate are listed by creation, the latest first.\<close>

definition ValidateDeployment :: "env \<Rightarrow> string \<Rightarrow> string \<Rightarrow> bool result op" where
  "ValidateDeployment env certID targetID = do {
     q \<leftarrow> JobRepository_ListByCertificate env certID;
     State_Monad.return (case q of
       Inl err \<Rightarrow> Inl (Wrap ''failed to list jobs'' err)
     | Inr jobs \<Rightarrow> (case find (of_target targetID) jobs of
         None \<Rightarrow> Inl (Errorf (''no deployment job found for target '' @ targetID))
       | Some job \<Rightarrow>
           if job_Status job = JobStatusCompleted then Inr True
           else if job_Status job = JobStatusFailed
           then (case job_LastError job of
               Some msg \<Rightarrow> Inl (Errorf (''deployment failed: '' @ msg))
             | None \<Rightarrow> Inl (Errorf ''deployment failed''))
           else Inl (Errorf ''deployment in progress''))) }"

definition report_deployment ::
  "env \<Rightarrow> NotificationService \<Rightarrow> string \<Rightarrow> JobStatus \<Rightarrow> string \<Rightarrow> bool \<Rightarrow> error option \<Rightarrow> string \<Rightarrow> (string \<times> jval) list \<Rightarrow> unit result op" where
  "report_deployment env n jobID status errMsg success err action details = do {
     g \<leftarrow> JobRepository_Get env jobID;
     (case g of Inl e \<Rightarrow> State_Monad.return (Inl (Wrap ''failed to fetch job'' e)) | Inr job \<Rightarrow> do {
     u \<leftarrow> JobRepository_UpdateStatus env jobID status errMsg;
     (case u of Inl e \<Rightarrow> State_Monad.return (Inl (Wrap ''failed to update job status'' e)) | Inr _ \<Rightarrow> do {
     c \<leftarrow> CertificateRepository_Get env (job_CertificateID job);
     (case c of Inl e \<Rightarrow> State_Monad.return (Inr ()) | Inr cert \<Rightarrow>
     let targetID = (case job_TargetID job of None \<Rightarrow> '''' | Some i \<Rightarrow> i) in do {
     ok \<leftarrow> (if targetID = '''' then State_Monad.return True
       else do {
         t \<leftarrow> TargetRepository_Get env targetID;
         (case t of
            Inl e \<Rightarrow> State_Monad.return False
          | Inr target \<Rightarrow> do {
              _ \<leftarrow> SendDeploymentNotification env n cert target success err;
              State_Monad.return True }) });
     if \<not> ok then State_Monad.return (Inr ())
     else do {
       _ \<leftarrow> RecordEvent env ''system'' ActorTypeSystem action ''certificate'' (job_CertificateID job)
         ([(''job_id'', JStr jobID), (''target_id'', JStr targetID)] @ details);
       State_Monad.return (Inr ()) } }) }) }) }"

definition MarkDeploymentComplete :: "env \<Rightarrow> NotificationService \<Rightarrow> string \<Rightarrow> unit result op" where
  "MarkDeploymentComplete env n jobID =
     report_deployment env n jobID JobStatusCompleted '''' True None ''deployment_job_completed'' []"

definition MarkDeploymentFailed :: "env \<Rightarrow> NotificationService \<Rightarrow> string \<Rightarrow> string \<Rightarrow> unit result op" where
  "MarkDeploymentFailed env n jobID errMsg =
     report_deployment env n jobID JobStatusFailed errMsg False (Some (Errorf errMsg)) ''deployment_job_failed'' [(''error'', JStr errMsg)]"

section \<open>The verdict on a deployment\<close>

text \<open>
  What becomes of a deployment job, read off the tables: the reason and the error with which it is refused, or nothing when it is dispatched.
\<close>

definition missing :: "string \<Rightarrow> error" where
  "missing what = Wrap (what @ '' not found'') ErrNotFound"

definition agent_verdict :: "time \<Rightarrow> string \<Rightarrow> Agent \<Rightarrow> (string \<times> error) option" where
  "agent_verdict t agentID a =
     (if agent_RetiredAt a \<noteq> None then Some (''assigned agent is retired'', Errorf (''agent '' @ agentID @ '' is retired''))
      else if \<exists>h. agent_LastHeartbeatAt a = Some h \<and> until t h > 5 * Minute
      then Some (''agent is offline'', Errorf (''agent '' @ agentID @ '' is offline''))
      else None)"

definition target_verdict :: "time \<Rightarrow> world \<Rightarrow> string \<Rightarrow> (string \<times> error) option" where
  "target_verdict t w targetID = (case row_of target_ID targetID (tbl_targets w) of
     None \<Rightarrow> Some (''target fetch failed: '' @ error_text (missing ''target''), Wrap ''failed to fetch target'' (missing ''target''))
   | Some target \<Rightarrow> (case row_of agent_ID (target_AgentID target) (tbl_agents w) of
       None \<Rightarrow> Some (''agent fetch failed: '' @ error_text (missing ''agent''), Wrap ''failed to fetch agent'' (missing ''agent''))
     | Some a \<Rightarrow> agent_verdict t (target_AgentID target) a))"

definition deployment_verdict :: "time \<Rightarrow> world \<Rightarrow> Job \<Rightarrow> (string \<times> error) option" where
  "deployment_verdict t w job =
     (if \<not> has_key cert_ID (job_CertificateID job) (tbl_certs w)
      then Some (''certificate fetch failed: '' @ error_text (missing ''certificate''), Wrap ''failed to fetch certificate'' (missing ''certificate''))
      else if job_TargetID job = None \<or> job_TargetID job = Some ''''
      then Some (''target_id not found in job'', Errorf ''target_id not found in job'')
      else target_verdict t w (the (job_TargetID job)))"

lemma core_more: "same_core w w' \<Longrightarrow> tbl_targets w' = tbl_targets w \<and> tbl_agents w' = tbl_agents w"
  by (drule arg_cong [where f = "\<lambda>v. (tbl_targets v, tbl_agents v)"]) (simp add: core_view_def)

lemma core_jobs_update: "core_view (tbl_jobs_update g w) = tbl_jobs_update g (core_view w)"
  by (simp add: core_view_def)

lemma core_SendDeploymentNotification: "state_io_rel same_core (SendDeploymentNotification env n cert target ok err)"
  unfolding SendDeploymentNotification_def store_and_send_def new_notification_def resolveRecipient_def
    OwnerRepository_Get_def lookup_row_def NotificationRepository_Create_def sendNotification_def notifier_Send_def
    notif_updates update_notif_def
  by (intro core.keeps_prims core.keeps_insert core.keeps_exec; simp add: core_view_def)

lemma post_cert_up:
  assumes "fault env = (\<lambda>_. False)"
    and "\<And>w'. same_core w w' \<Longrightarrow> Q (case row_of cert_ID i (tbl_certs w) of None \<Rightarrow> Inl (missing ''certificate'') | Some c \<Rightarrow> Inr (scan_cert w c)) w'"
  shows "post (CertificateRepository_Get env i) w Q"
  using assms(2) [OF core_same_data [OF same.R_steps]]
  by (auto simp: CertificateRepository_Get_def query_def post_def run_simps assms(1) missing_def errors_is_def scan_cert_def getTargetIDs_def split: option.splits)

lemma post_target_up:
  assumes "fault env = (\<lambda>_. False)"
    and "\<And>w'. same_core w w' \<Longrightarrow> Q (case row_of target_ID i (tbl_targets w) of None \<Rightarrow> Inl (missing ''target'') | Some c \<Rightarrow> Inr (scanTarget c)) w'"
  shows "post (TargetRepository_Get env i) w Q"
  using assms(2) [OF core_same_data [OF same.R_steps]]
  by (auto simp: TargetRepository_Get_def lookup_row_def post_def run_simps assms(1) missing_def split: option.splits)

lemma post_agent_up:
  assumes "fault env = (\<lambda>_. False)"
    and "\<And>w'. same_core w w' \<Longrightarrow> Q (case row_of agent_ID i (tbl_agents w) of None \<Rightarrow> Inl (missing ''agent'') | Some c \<Rightarrow> Inr (scanAgent c)) w'"
  shows "post (AgentRepository_Get env i) w Q"
  using assms(2) [OF core_same_data [OF same.R_steps]]
  by (auto simp: AgentRepository_Get_def lookup_row_def post_def run_simps assms(1) missing_def split: option.splits)

lemma post_status_up:
  assumes "fault env = (\<lambda>_. False)" "clock env = (\<lambda>_. t)" "has_key job_ID i (tbl_jobs w)"
    and "\<And>w'. same_core (tbl_jobs_update (update_row job_ID i (set_status st m t)) w) w' \<Longrightarrow> Q (Inr ()) w'"
  shows "post (JobRepository_UpdateStatus env i st m) w Q"
  using assms(3) assms(4) [OF core_same_data [OF same.R_steps]] count_rows_pos [of job_ID i "tbl_jobs w"]
  by (simp add: JobRepository_UpdateStatus_def exec_def post_def run_simps assms(1,2) rows_result_def)

lemma post_late_up:
  assumes "clock env = (\<lambda>_. t)"
    and "\<And>w'. same_core w w' \<Longrightarrow> Q (\<exists>h. agent_LastHeartbeatAt a = Some h \<and> until t h > 5 * Minute) w'"
  shows "post (late env a) w Q"
  using assms(2) [of w] assms(2) [OF core_same_data [OF same.R_steps]]
  by (auto simp: late_def post_def run_simps assms(1) split: option.splits)

text \<open>The job is refused: its row has the reason, and nothing else changes but the outbox and the audit log.\<close>

definition settled_as :: "JobStatus \<Rightarrow> string \<Rightarrow> time \<Rightarrow> Job \<Rightarrow> world \<Rightarrow> world \<Rightarrow> bool" where
  "settled_as st reason t job w w' = same_core (tbl_jobs_update (update_row job_ID (job_ID job) (set_status st reason t)) w) w'"

lemma status_twice: "set_status JobStatusFailed m t \<circ> set_status JobStatusRunning m' t' = set_status JobStatusFailed m t"
  by (auto simp: set_status_def job_terminal_def fun_eq_iff)

lemma settled_twice:
  "settled_as JobStatusRunning m' t' job w v \<Longrightarrow> settled_as JobStatusFailed m t job v w' \<Longrightarrow> settled_as JobStatusFailed m t job w w'"
  by (simp add: settled_as_def core_jobs_update)
    (simp add: core_view_def update_row_twice comp_def status_twice [unfolded comp_def])

lemma settled_core: "settled_as st m t job w v \<Longrightarrow> same_core v w' \<Longrightarrow> settled_as st m t job w w'"
  "same_core w v \<Longrightarrow> settled_as st m t job v w' \<Longrightarrow> settled_as st m t job w w'"
  by (simp_all add: settled_as_def core_jobs_update)

text \<open>The outcome that a verdict asks for, in a world in which the job is running.\<close>

definition outcome :: "(string \<times> error) option \<Rightarrow> time \<Rightarrow> Job \<Rightarrow> world \<Rightarrow> unit result \<Rightarrow> world \<Rightarrow> bool" where
  "outcome v t job w r w' = (case v of
     None \<Rightarrow> r = Inr () \<and> same_core w w'
   | Some (reason, e) \<Rightarrow> r = Inl e \<and> settled_as JobStatusFailed reason t job w w')"

lemma outcome_core: "same_core w v \<Longrightarrow> outcome d t job v r w' \<Longrightarrow> outcome d t job w r w'"
  by (auto simp: outcome_def intro: settled_core split: option.splits)

lemma post_refuse_deployment:
  assumes "fault env = (\<lambda>_. False)" "clock env = (\<lambda>_. t)" "has_key job_ID (job_ID job) (tbl_jobs w)"
  shows "post (refuse_deployment env job reason e) w (outcome (Some (reason, e)) t job w)"
  unfolding refuse_deployment_def
  by (intro post_bindI post_status_up [OF assms] post_returnI) (simp add: settled_as_def outcome_def)

lemma post_refuse_agent:
  assumes "fault env = (\<lambda>_. False)" "clock env = (\<lambda>_. t)" "has_key job_ID (job_ID job) (tbl_jobs w)"
  shows "post (refuse_agent env n job cert target reason short ds e) w (outcome (Some (reason, e)) t job w)"
  unfolding refuse_agent_def
proof (intro post_bindI post_status_up [OF assms] post_RecordEvent post_returnI, goal_cases)
  case (1 w1)
  show ?case
    by (rule post_keeps [OF core_SendDeploymentNotification])
      (use 1 in \<open>auto intro!: post_bindI post_RecordEvent post_returnI dest!: core_logged simp: settled_as_def outcome_def\<close>)
qed

lemma post_outcome: "same_core w v \<Longrightarrow> post m v (outcome d t job v) \<Longrightarrow> post m v (outcome d t job w)"
  by (erule post_mono) (rule outcome_core)

lemma core_key: "same_core w v \<Longrightarrow> has_key job_ID i (tbl_jobs w) \<Longrightarrow> has_key job_ID i (tbl_jobs v)"
  using core_tables [of w v] by simp

lemma post_refuse_later:
  assumes "fault env = (\<lambda>_. False)" "clock env = (\<lambda>_. t)" "has_key job_ID (job_ID job) (tbl_jobs w)" "same_core w v"
  shows "post (refuse_deployment env job reason e) v (outcome (Some (reason, e)) t job w)"
    "post (refuse_agent env n job cert target reason short ds e) v (outcome (Some (reason, e)) t job w)"
  by (rule post_outcome [OF assms(4) post_refuse_deployment [OF assms(1,2) core_key [OF assms(4,3)]]])
    (rule post_outcome [OF assms(4) post_refuse_agent [OF assms(1,2) core_key [OF assms(4,3)]]])

lemma post_dispatch_to:
  assumes "fault env = (\<lambda>_. False)" "clock env = (\<lambda>_. t)" "has_key job_ID (job_ID job) (tbl_jobs w)"
  shows "post (dispatch_to env n job cert targetID target agent) w (outcome (agent_verdict t (target_AgentID target) agent) t job w)"
proof (cases "agent_RetiredAt agent")
  case (Some x)
  then show ?thesis using post_refuse_agent [OF assms] by (simp add: dispatch_to_def IsRetired_def agent_verdict_def)
next
  case None
  show ?thesis unfolding dispatch_to_def IsRetired_def option.case None
  proof (simp, intro post_bindI post_late_up [OF assms(2)], goal_cases)
    case (1 w1)
    then show ?case using None post_refuse_later(2) [OF assms 1(1)]
      by (auto simp: agent_verdict_def outcome_def [where v = None] intro!: post_bindI post_RecordEvent dest!: core_logged)
  qed
qed

lemma post_dispatch_target:
  assumes "fault env = (\<lambda>_. False)" "clock env = (\<lambda>_. t)" "has_key job_ID (job_ID job) (tbl_jobs w)"
  shows "post (dispatch_target env n job cert targetID) w (outcome (target_verdict t w targetID) t job w)"
  unfolding dispatch_target_def target_verdict_def
proof (intro post_bindI post_target_up [OF assms(1)], goal_cases)
  case (1 w1)
  show ?case
  proof (cases "row_of target_ID targetID (tbl_targets w)")
    case None
    then show ?thesis using post_refuse_later(1) [OF assms 1] by simp
  next
    case (Some target)
    show ?thesis unfolding Some option.case sum.case
    proof (intro post_bindI post_agent_up [OF assms(1)], goal_cases)
      case (1 w2)
      have w2: "same_core w w2" "tbl_agents w1 = tbl_agents w" using core_more [OF \<open>same_core w w1\<close>] \<open>same_core w w1\<close> 1 by simp_all
      show ?case
      proof (cases "row_of agent_ID (target_AgentID target) (tbl_agents w)")
        case None
        then show ?thesis using post_refuse_later(1) [OF assms w2(1)] w2(2) by (simp add: scanTarget_def)
      next
        case (Some a)
        have "agent_verdict t i (scanAgent a) = agent_verdict t i a" for i by (simp add: agent_verdict_def)
        then show ?thesis using Some w2(2)
          post_outcome [OF w2(1) post_dispatch_to [OF assms(1,2) core_key [OF w2(1) assms(3)], of n cert targetID "scanTarget target" "scanAgent a"]]
          by (simp add: scanTarget_def)
      qed
    qed
  qed
qed

lemma outcome_running:
  assumes "settled_as JobStatusRunning '''' t job w v" "outcome d t job v r w'"
  shows "case d of None \<Rightarrow> r = Inr () \<and> settled_as JobStatusRunning '''' t job w w'
    | Some (reason, e) \<Rightarrow> r = Inl e \<and> settled_as JobStatusFailed reason t job w w'"
proof (cases d)
  case None
  with assms(2) have "r = Inr ()" "same_core v w'" unfolding outcome_def None option.case by blast+
  then show ?thesis unfolding None option.case using settled_core(1) [OF assms(1)] by blast
next
  case (Some x)
  obtain reason e where x: "x = (reason, e)" by (cases x)
  with Some assms(2) have "r = Inl e" "settled_as JobStatusFailed reason t job v w'" unfolding outcome_def by simp_all
  then show ?thesis unfolding Some x option.case prod.case using settled_twice [OF assms(1)] by blast
qed

text \<open>
  C19. What the server does with a deployment job, when no database call fails. It looks up, in this order, the certificate, the target and the agent of
  the target. A job whose certificate, target or agent is missing, that names no target, whose agent is retired, or whose agent was not heard of
  for more than five minutes is stored as failed with the reason, and the call returns the error; every other job is left running
  and the call returns no error. Nothing but the row of the job, the outbox and the audit log changes; which events and
  notifications are added to these two is not part of the statement.
\<close>

theorem ProcessDeploymentJob_correct:
  assumes "fault env = (\<lambda>_. False)" "clock env = (\<lambda>_. t)" "has_key job_ID (job_ID job) (tbl_jobs w)"
    "run_state (ProcessDeploymentJob env n job) w = (r, w')"
  shows "case deployment_verdict t w job of
      None \<Rightarrow> r = Inr () \<and> settled_as JobStatusRunning '''' t job w w'
    | Some (reason, e) \<Rightarrow> r = Inl e \<and> settled_as JobStatusFailed reason t job w w'"
proof -
  let ?Q = "\<lambda>r w'. case deployment_verdict t w job of
      None \<Rightarrow> r = Inr () \<and> settled_as JobStatusRunning '''' t job w w'
    | Some (reason, e) \<Rightarrow> r = Inl e \<and> settled_as JobStatusFailed reason t job w w'"
  have "post (ProcessDeploymentJob env n job) w ?Q" unfolding ProcessDeploymentJob_def Let_def
  proof (intro post_bindI post_status_up [OF assms(1-3)], simp only: sum.case settled_as_def [symmetric],
      intro post_bindI post_cert_up [OF assms(1)], goal_cases)
    case (1 w1 w2)
    have w1: "tbl_certs w1 = tbl_certs w" "tbl_targets w1 = tbl_targets w" "tbl_agents w1 = tbl_agents w" "has_key job_ID (job_ID job) (tbl_jobs w1)"
      using core_tables [OF 1(1) [unfolded settled_as_def]] core_more [OF 1(1) [unfolded settled_as_def]] assms(3)
      by (auto simp: row_of_has_key row_of_update_row)
    note later = post_refuse_later(1) [OF assms(1,2) w1(4) 1(2)]
      and go = post_outcome [OF 1(2) post_dispatch_target [OF assms(1,2) core_key [OF 1(2) w1(4)]]]
    have same: "target_verdict t w2 i = target_verdict t w i" for i using core_more [OF 1(2)] w1 by (simp add: target_verdict_def cong: option.case_cong)
    have "post (case case row_of cert_ID (job_CertificateID job) (tbl_certs w) of None \<Rightarrow> Inl (missing ''certificate'') | Some c \<Rightarrow> Inr (scan_cert w1 c) of
         Inl err \<Rightarrow> refuse_deployment env job (''certificate fetch failed: '' @ error_text err) (Wrap ''failed to fetch certificate'' err)
       | Inr cert \<Rightarrow> if (case job_TargetID job of None \<Rightarrow> '''' | Some i \<Rightarrow> i) = ''''
           then refuse_deployment env job ''target_id not found in job'' (Errorf ''target_id not found in job'')
           else dispatch_target env n job cert (case job_TargetID job of None \<Rightarrow> '''' | Some i \<Rightarrow> i)) w2
      (outcome (deployment_verdict t w job) t job w1)"
    proof (cases "row_of cert_ID (job_CertificateID job) (tbl_certs w)")
      case None
      then show ?thesis using later by (simp add: deployment_verdict_def row_of_has_key)
    next
      case (Some c)
      then show ?thesis using later [of "''target_id not found in job''"] go [of n "scan_cert w1 c"]
        by (cases "job_TargetID job") (simp_all add: deployment_verdict_def row_of_has_key same)
    qed
    then show ?case unfolding w1(1) by (rule post_mono) (rule outcome_running [OF 1(1)])
  qed
  from post_run [OF this assms(4)] show ?thesis .
qed

section \<open>Only a job with a target is dispatched\<close>

lemma post_refusals:
  "(\<And>w'. Q (Inl e) w') \<Longrightarrow> post (refuse_deployment env job reason e) w Q"
  "(\<And>w'. Q (Inl e) w') \<Longrightarrow> post (refuse_agent env n job cert target reason short ds e) w Q"
  unfolding refuse_deployment_def refuse_agent_def by (simp_all add: post_def split: prod.splits)

lemma post_TargetGet:
  assumes "\<And>e w'. Q (Inl e) w'"
    and "\<And>a w'. same_data w w' \<Longrightarrow> row_of target_ID i (tbl_targets w) = Some a \<Longrightarrow> Q (Inr (scanTarget a)) w'"
  shows "post (TargetRepository_Get env i) w Q"
  unfolding TargetRepository_Get_def lookup_row_def post_bind
  by (rule post_db_down) (use assms in \<open>auto simp: post_bind same_dataD split: option.splits\<close>)

lemma targets_UpdateStatus: "state_io_rel (\<lambda>w w'. tbl_targets w' = tbl_targets w) (JobRepository_UpdateStatus env i st m)"
  unfolding JobRepository_UpdateStatus_def exec_def state_io_rel_def by (auto simp: run_simps split: prod.splits if_splits)

lemma dispatched_has_target:
  assumes "run_state (ProcessDeploymentJob env n job) w = (Inr (), w')"
  shows "\<exists>i. job_TargetID job = Some i \<and> has_key target_ID i (tbl_targets w)"
proof -
  let ?Q = "\<lambda>r w'. r = Inr () \<longrightarrow> (\<exists>i. job_TargetID job = Some i \<and> has_key target_ID i (tbl_targets w))"
  have "post (ProcessDeploymentJob env n job) w ?Q"
    unfolding ProcessDeploymentJob_def
  proof (rule post_bindI, rule post_keeps [OF targets_UpdateStatus], intro post_case_sum post_returnI post_bindI post_CertGet post_refusals post_let post_if, simp_all, goal_cases)
    case (1 w1 w2 i c)
    show ?case unfolding dispatch_target_def
      by (intro post_bindI post_TargetGet post_case_sum post_refusals; (simp; fail)?)
        (use 1 in \<open>auto simp: row_of_has_key same_dataD post_def split: option.splits prod.splits\<close>)
  qed
  from post_run [OF this assms] show ?thesis by simp
qed

definition deployment_world :: "time option \<Rightarrow> world" where
  "deployment_world heard = issuing_world \<lparr>
     tbl_jobs := [(sample_job ''j1'' JobTypeDeployment JobStatusPending) \<lparr> job_TargetID := Some ''t1'' \<rparr>],
     tbl_targets := [sample_target ''t1'' ''a1''], tbl_agents := [(sample_agent ''a1'') \<lparr> agent_LastHeartbeatAt := heard \<rparr>] \<rparr>"

theorem ProcessDeploymentJob_correct_witness:
  "let w = deployment_world (Some 0); job = hd (tbl_jobs w); (r, w') = run_state (ProcessDeploymentJob (calm (6 * Minute)) (NewNotificationService []) job) w
   in r = Inl (Errorf ''agent a1 is offline'') \<and> map job_LastError (tbl_jobs w') = [Some ''agent is offline'']"
proof -
  define w where "w = deployment_world (Some 0)"
  define job where "job = hd (tbl_jobs w)"
  obtain r w' where run: "run_state (ProcessDeploymentJob (calm (6 * Minute)) (NewNotificationService []) job) w = (r, w')" by (metis surj_pair)
  have key: "has_key job_ID (job_ID job) (tbl_jobs w)" by (simp add: job_def w_def deployment_world_def has_key_def)
  have "deployment_verdict (6 * Minute) w job = Some (''agent is offline'', Errorf ''agent a1 is offline'')"
    by (simp add: deployment_verdict_def target_verdict_def agent_verdict_def job_def w_def deployment_world_def revocation_samples sample_target_def sample_agent_def
      has_key_def row_of_def until_def)
  with ProcessDeploymentJob_correct [OF _ _ key run, of "6 * Minute"]
  have "r = Inl (Errorf ''agent a1 is offline'')" "settled_as JobStatusFailed ''agent is offline'' (6 * Minute) job w w'" by (simp_all add: calm_def)
  moreover from core_tables [OF this(2) [unfolded settled_as_def]] have "map job_LastError (tbl_jobs w') = [Some ''agent is offline'']"
    by (simp add: w_def job_def deployment_world_def update_row_def set_status_def job_terminal_def null_if_empty_def)
  ultimately show ?thesis using run by (simp add: w_def [symmetric] job_def [symmetric])
qed

end
