(* ===== verification/Interleaving.thy ===== *)
theory Interleaving
  imports Store
begin

text \<open>
  Concurrent programs over the world. A goroutine is a sequence of atomic actions, such as the calls of the database, and between two of
  them the actions of other goroutines may happen. Here a program is its result or an action that leaves the rest of the program;
  how it is cut into actions is left open. The theory has the run of a program alone, the runs of several
  programs one after the other, and all interleavings of several programs.
\<close>

section \<open>Programs\<close>

datatype 'a proc = Ret 'a | Act "world \<Rightarrow> 'a proc \<times> world"

primrec alone :: "'a proc \<Rightarrow> world \<Rightarrow> 'a \<times> world" where
  "alone (Ret a) = (\<lambda>w. (a, w))"
| "alone (Act f) = (\<lambda>w. case (map_prod alone id \<circ> f) w of (run, w') \<Rightarrow> run w')"

lemma alone_Act: "f w = (p, w') \<Longrightarrow> alone (Act f) w = alone p w'"
  by simp

declare alone.simps(2) [simp del]

text \<open>An operation as one action, followed by the rest of the program.\<close>

definition act :: "'a op \<Rightarrow> ('a \<Rightarrow> 'b proc) \<Rightarrow> 'b proc" where
  "act m k = Act (\<lambda>w. case run_state m w of (a, w') \<Rightarrow> (k a, w'))"

lemma alone_act: "State (alone (act m k)) = do { a \<leftarrow> m; State (alone (k a)) }"
  unfolding act_def by (intro state.expand ext) (simp add: alone.simps(2) split: prod.splits)

text \<open>No run of a program has more than the given number of actions.\<close>

inductive acts_within :: "nat \<Rightarrow> 'a proc \<Rightarrow> bool" where
  within_Ret: "acts_within n (Ret a)"
| within_Act: "(\<And>w. acts_within n (fst (f w))) \<Longrightarrow> acts_within (Suc n) (Act f)"

inductive_cases within_ActE: "acts_within n (Act f)"

text \<open>What is left of a program after an action is smaller: no program runs for ever.\<close>

definition rest_of :: "('a proc \<times> 'a proc) set" where
  "rest_of = {(p, q). \<exists>f w. q = Act f \<and> p = fst (f w)}"

lemma wf_rest_of: "wf rest_of"
proof (rule wfUNIVI)
  fix P :: "'a proc \<Rightarrow> bool" and x :: "'a proc"
  assume step: "\<forall>x. (\<forall>y. (y, x) \<in> rest_of \<longrightarrow> P y) \<longrightarrow> P x"
  show "P x"
  proof (induction x)
    case (Ret a)
    show ?case using step by (auto simp: rest_of_def)
  next
    case (Act f)
    have "P (fst (f w))" for w using Act [of "f w" "fst (f w)"] rangeI [of f w] by (cases "f w") auto
    then have "\<forall>y. (y, Act f) \<in> rest_of \<longrightarrow> P y" by (auto simp: rest_of_def)
    with step show ?case by blast
  qed
qed

section \<open>Several programs\<close>

text \<open>One after the other.\<close>

fun run_all :: "'a proc list \<Rightarrow> 'a list op" where
  "run_all [] = State_Monad.return []"
| "run_all (p # ps) = do { r \<leftarrow> State (alone p); rs \<leftarrow> run_all ps; State_Monad.return (r # rs) }"

text \<open>
  Interleaved: any program that has not ended makes its next action, until all have ended; the results are in the order
  of the programs.
\<close>

inductive interleaved :: "'a proc list \<Rightarrow> world \<Rightarrow> 'a list \<Rightarrow> world \<Rightarrow> bool" where
  all_ended: "interleaved (map Ret rs) w rs w"
| next_action: "i < length ps \<Longrightarrow> ps ! i = Act f \<Longrightarrow> f w = (p, v) \<Longrightarrow> interleaved (ps[i := p]) v rs w' \<Longrightarrow> interleaved ps w rs w'"

inductive_cases interleaved_NilE: "interleaved [] w rs w'"

lemma interleaved_length: "interleaved ps w rs w' \<Longrightarrow> length rs = length ps"
  by (induction rule: interleaved.induct) auto

text \<open>A program that has ended does not disturb the others.\<close>

lemma interleaved_insert:
  "interleaved ps w rs w' \<Longrightarrow> n \<le> length ps \<Longrightarrow> interleaved (take n ps @ Ret r # drop n ps) w (take n rs @ r # drop n rs) w'"
proof (induction rule: interleaved.induct)
  case (all_ended rs w)
  show ?case using interleaved.all_ended [of "take n rs @ r # drop n rs" w] by (simp add: take_map drop_map)
next
  case (next_action i ps f w p v rs w')
  let ?qs = "take n ps @ Ret r # drop n ps" and ?i = "if i < n then i else Suc i"
  have "?i < length ?qs" "?qs ! ?i = Act f" "?qs[?i := p] = take n (ps[i := p]) @ Ret r # drop n (ps[i := p])"
    using next_action.hyps(1,2) next_action.prems 
    by (auto simp: nth_append list_update_append take_update_swap drop_update_swap list_update_beyond Suc_diff_le)
  then show ?case using interleaved.next_action [of ?i ?qs f w p v] next_action by simp
qed

lemma interleaved_Cons_Ret: "interleaved ps w rs w' \<Longrightarrow> interleaved (Ret r # ps) w (r # rs) w'"
  using interleaved_insert [of ps w rs w' 0 r] by simp

text \<open>The run of a program alone is the beginning of an interleaving, so running the programs one after the other is one.\<close>

lemma interleaved_alone: "alone p w = (r, v) \<Longrightarrow> interleaved (Ret r # ps) v rs w' \<Longrightarrow> interleaved (p # ps) w rs w'"
proof (induction p arbitrary: w)
  case (Act f)
  obtain q u where q: "f w = (q, u)" by (metis surj_pair)
  have "interleaved (q # ps) u rs w'"
    using Act.IH [of "f w" q u] Act.prems rangeI [of f w] q by (simp add: alone_Act [of f w, OF q] prod_set_simps)
  then show ?case using interleaved.next_action [of 0 "Act f # ps" f w q u] q by simp
qed simp

lemma run_all_interleaved: "run_state (run_all ps) w = (rs, w') \<Longrightarrow> interleaved ps w rs w'"
proof (induction ps arbitrary: w rs w')
  case Nil
  then show ?case using interleaved.all_ended [of "[]" w] by simp
next
  case (Cons p ps)
  obtain r v where p: "alone p w = (r, v)" by (metis surj_pair)
  obtain qs u where q: "run_state (run_all ps) v = (qs, u)" by (metis surj_pair)
  have "rs = r # qs" "w' = u" using Cons.prems p q by simp_all
  then show ?case using interleaved_alone [OF p interleaved_Cons_Ret [OF Cons.IH [OF q]]] by simp
qed

text \<open>A single program has one interleaving: its run alone.\<close>

lemma interleaved_single: "interleaved ps w rs w' \<Longrightarrow> ps = [p] \<Longrightarrow> alone p w = (hd rs, w')"
proof (induction arbitrary: p rule: interleaved.induct)
  case (all_ended rs w)
  then show ?case by (cases rs) auto
next
  case (next_action i ps f w q v rs w')
  then have "p = Act f" "ps[i := q] = [q]" by auto
  with next_action show ?case using alone_Act [of f w q v] by simp
qed

end
