(* ===== verification/Dispatch.thy ===== *)
theory Dispatch
  imports Deployments Interleaving
begin

text \<open>
  The dispatch of claimed jobs to the services, \<^verbatim>\<open>internal/service/job.go\<close>: one after the other, or
  concurrently with a bound on the jobs in flight. The actions of jobs in flight interleave. The concurrent dispatch ends, keeps the
  bound, and does what some interleaving of the claimed jobs does, each of them run once; with a bound of one it is the sequential loop.
\<close>

section \<open>Dispatch\<close>

definition shouldSkipJob :: "Job \<Rightarrow> bool" where
  "shouldSkipJob job = (job_Type job = JobTypeDeployment \<and> job_AgentID job \<noteq> None \<and> job_AgentID job \<noteq> Some '''')"

definition processIssuanceJob :: "env \<Rightarrow> crypto_lib \<Rightarrow> RenewalService \<Rightarrow> Job \<Rightarrow> unit result op" where
  "processIssuanceJob env cl rs job = ProcessRenewalJob env cl rs job"

definition processValidationJob :: "Job \<Rightarrow> unit result op" where
  "processValidationJob job = State_Monad.return (Inl (Errorf ''validation job processing not yet implemented''))"

definition processJob :: "env \<Rightarrow> crypto_lib \<Rightarrow> RenewalService \<Rightarrow> NotificationService \<Rightarrow> Job \<Rightarrow> unit result op" where
  "processJob env cl rs n job = (case job_Type job of
     JobTypeRenewal \<Rightarrow> ProcessRenewalJob env cl rs job
   | JobTypeDeployment \<Rightarrow> ProcessDeploymentJob env n job
   | JobTypeIssuance \<Rightarrow> processIssuanceJob env cl rs job
   | JobTypeValidation \<Rightarrow> processValidationJob job
   | JobTypeOther t \<Rightarrow> State_Monad.return (Inl (Errorf (''unknown job type: '' @ t))))"

text \<open>The numbers of jobs that were processed and that failed; the code only logs them.\<close>

fun processPendingJobsSequential :: "(Job \<Rightarrow> unit result op) \<Rightarrow> Job list \<Rightarrow> (nat \<times> nat) op" where
  "processPendingJobsSequential work [] = State_Monad.return (0, 0)"
| "processPendingJobsSequential work (job # jobs) =
     (if shouldSkipJob job then processPendingJobsSequential work jobs
      else do {
        r \<leftarrow> work job;
        c \<leftarrow> processPendingJobsSequential work jobs;
        State_Monad.return (case r of Inl e \<Rightarrow> (fst c, Suc (snd c)) | Inr _ \<Rightarrow> (Suc (fst c), snd c)) })"

text \<open>
  The weighted semaphore is a library: what the dispatch uses of it are its creation with a size, the acquisition of one unit,
  which has to wait (\<open>None\<close>) or succeeds, and the release of one unit. The promise is that the units held stay within the
  size, and that an acquisition waits only when all are held.
\<close>

record 's semaphore_lib =
  NewWeighted :: "int \<Rightarrow> 's"
  Acquire :: "'s \<Rightarrow> 's option"
  Release :: "'s \<Rightarrow> 's"

definition weighted :: "'s semaphore_lib \<Rightarrow> ('s \<Rightarrow> int) \<Rightarrow> ('s \<Rightarrow> int) \<Rightarrow> bool" where
  "weighted lib sz held = ((\<forall>n. sz (NewWeighted lib n) = n \<and> held (NewWeighted lib n) = 0) \<and>
     (\<forall>s. case Acquire lib s of None \<Rightarrow> sz s \<le> held s | Some s' \<Rightarrow> held s < sz s \<and> sz s' = sz s \<and> held s' = held s + 1) \<and>
     (\<forall>s. 0 < held s \<longrightarrow> sz (Release lib s) = sz s \<and> held (Release lib s) = held s - 1))"

text \<open>
  The concurrent dispatch as a machine: the jobs the loop has still to look at, the jobs in flight with what is left of their
  programs, the semaphore and the two counters. Its moves are a step of the loop (skip a job, or acquire the semaphore and start the
  job in a goroutine), the next action of a job in flight, the end of a job in flight whose program has returned, which counts it
  and releases the semaphore, and the end of the context, which the loop notices when it acquires. Any job in flight may make the next
  move, so the actions of different jobs interleave.
\<close>

record 's fan =
  fo_queue :: "Job list"
  fo_inflight :: "(Job \<times> unit result proc) list"
  fo_sem :: 's
  fo_processed :: nat
  fo_failed :: nat

datatype fan_move = Loop | is_Step: Step nat | Finish nat | Cancel

definition remove_nth :: "nat \<Rightarrow> 'a list \<Rightarrow> 'a list" where
  "remove_nth i xs = take i xs @ drop (Suc i) xs"

definition fan_finish :: "'s semaphore_lib \<Rightarrow> nat \<Rightarrow> unit result \<Rightarrow> 's fan \<Rightarrow> 's fan" where
  "fan_finish lib i r f = f \<lparr> fo_inflight := remove_nth i (fo_inflight f), fo_sem := Release lib (fo_sem f),
     fo_processed := fo_processed f + (case r of Inl e \<Rightarrow> 0 | Inr _ \<Rightarrow> 1),
     fo_failed := fo_failed f + (case r of Inl e \<Rightarrow> 1 | Inr _ \<Rightarrow> 0) \<rparr>"

fun fan_step :: "'s semaphore_lib \<Rightarrow> (Job \<Rightarrow> unit result proc) \<Rightarrow> fan_move \<Rightarrow> 's fan \<Rightarrow> 's fan option op" where
  "fan_step lib work Loop f = State_Monad.return (case fo_queue f of
     [] \<Rightarrow> None
   | job # jobs \<Rightarrow>
       if shouldSkipJob job then Some (f \<lparr> fo_queue := jobs \<rparr>)
       else map_option (\<lambda>sem. f \<lparr> fo_queue := jobs, fo_inflight := fo_inflight f @ [(job, work job)], fo_sem := sem \<rparr>)
         (Acquire lib (fo_sem f)))"
| "fan_step lib work (Step i) f = State (\<lambda>w.
     if i < length (fo_inflight f) then (case fo_inflight f ! i of
        (job, Ret r) \<Rightarrow> (None, w)
      | (job, Act a) \<Rightarrow> (case a w of (p, w') \<Rightarrow> (Some (f \<lparr> fo_inflight := (fo_inflight f)[i := (job, p)] \<rparr>), w')))
     else (None, w))"
| "fan_step lib work (Finish i) f = State_Monad.return (
     if i < length (fo_inflight f) then (case snd (fo_inflight f ! i) of
        Ret r \<Rightarrow> Some (fan_finish lib i r f)
      | Act a \<Rightarrow> None)
     else None)"
| "fan_step lib work Cancel f = State_Monad.return (case fo_queue f of
     [] \<Rightarrow> None | job # jobs \<Rightarrow> if shouldSkipJob job then None else Some (f \<lparr> fo_queue := [] \<rparr>))"

definition fan_start :: "'s semaphore_lib \<Rightarrow> int \<Rightarrow> Job list \<Rightarrow> 's fan" where
  "fan_start lib capN jobs =
     \<lparr> fo_queue = jobs, fo_inflight = [], fo_sem = NewWeighted lib capN, fo_processed = 0, fo_failed = 0 \<rparr>"

text \<open>The loop is over and every job it started has ended.\<close>

definition fan_done :: "'s fan \<Rightarrow> bool" where
  "fan_done f = (fo_queue f = [] \<and> fo_inflight f = [])"

text \<open>A sequence of moves; \<open>None\<close> when one of them is not possible.\<close>

fun fan_run :: "'s semaphore_lib \<Rightarrow> (Job \<Rightarrow> unit result proc) \<Rightarrow> fan_move list \<Rightarrow> 's fan \<Rightarrow> 's fan option op" where
  "fan_run lib work [] f = State_Monad.return (Some f)"
| "fan_run lib work (m # ms) f = do {
     r \<leftarrow> fan_step lib work m f;
     (case r of None \<Rightarrow> State_Monad.return None | Some f' \<Rightarrow> fan_run lib work ms f') }"

text \<open>
  An interleaving is a sequence of moves. The dispatch returns at the end of one that leaves nothing to do; it is \<open>None\<close> on
  every other sequence.
\<close>

definition boundedFanOut ::
  "'s semaphore_lib \<Rightarrow> Job list \<Rightarrow> int \<Rightarrow> (Job \<Rightarrow> unit result proc) \<Rightarrow> fan_move list \<Rightarrow> (nat \<times> nat) option op" where
  "boundedFanOut lib pendingJobs capN work moves = do {
     r \<leftarrow> fan_run lib work moves (fan_start lib capN pendingJobs);
     State_Monad.return (case r of
       None \<Rightarrow> None
     | Some f \<Rightarrow> if fan_done f then Some (fo_processed f, fo_failed f) else None) }"

text \<open>
  The operation of the scheduler, with the interleaving of the concurrent dispatch as an argument. The other argument is the program of
  a job in a goroutine: \<^verbatim>\<open>processJob\<close> cut into atomic actions. The properties hold however it is cut: they ask only that
  the program, when it runs alone, does what \<open>processJob\<close> does.
\<close>

definition ProcessPendingJobs ::
  "env \<Rightarrow> crypto_lib \<Rightarrow> 's semaphore_lib \<Rightarrow> JobService \<Rightarrow> RenewalService \<Rightarrow> NotificationService \<Rightarrow> (Job \<Rightarrow> unit result proc) \<Rightarrow>
   (Job list \<Rightarrow> fan_move list) \<Rightarrow> unit result option op" where
  "ProcessPendingJobs env cl lib s rs n work moves = do {
     q \<leftarrow> JobRepository_ClaimPendingJobs env None (js_claimLimit s);
     (case q of
        Inl err \<Rightarrow> State_Monad.return (Some (Inl (Wrap ''failed to claim pending jobs'' err)))
      | Inr pendingJobs \<Rightarrow>
          if pendingJobs = [] then State_Monad.return (Some (Inr ()))
          else if js_renewalConcurrency s \<le> 0 then do {
            _ \<leftarrow> processPendingJobsSequential (processJob env cl rs n) pendingJobs;
            State_Monad.return (Some (Inr ())) }
          else do {
            c \<leftarrow> boundedFanOut lib pendingJobs (js_renewalConcurrency s) work (moves pendingJobs);
            State_Monad.return (map_option (\<lambda>_. Inr ()) c) }) }"

section \<open>The concurrent dispatch\<close>

lemma weightedD:
  assumes "weighted lib sz held"
  shows "sz (NewWeighted lib n) = n" "held (NewWeighted lib n) = 0"
    "Acquire lib s = None \<Longrightarrow> sz s \<le> held s"
    "Acquire lib s = Some s' \<Longrightarrow> held s < sz s \<and> sz s' = sz s \<and> held s' = held s + 1"
    "0 < held s \<Longrightarrow> sz (Release lib s) = sz s \<and> held (Release lib s) = held s - 1"
  using assms unfolding weighted_def by (force split: option.splits)+

lemma length_remove_nth [simp]: "i < length xs \<Longrightarrow> length (remove_nth i xs) = length xs - 1"
  by (simp add: remove_nth_def)

lemma set_remove_nth: "set (remove_nth i xs) \<subseteq> set xs"
  unfolding remove_nth_def using set_take_subset set_drop_subset by fastforce

lemma map_remove_nth: "map g (remove_nth i xs) = remove_nth i (map g xs)"
  by (simp add: remove_nth_def take_map drop_map)

lemma fan_finish_simps [simp]:
  "fo_queue (fan_finish lib i r f) = fo_queue f" "fo_inflight (fan_finish lib i r f) = remove_nth i (fo_inflight f)"
  "fo_sem (fan_finish lib i r f) = Release lib (fo_sem f)"
  "fo_processed (fan_finish lib i r f) = fo_processed f + (if isl r then 0 else 1)"
  "fo_failed (fan_finish lib i r f) = fo_failed f + (if isl r then 1 else 0)"
  by (simp_all add: fan_finish_def split: sum.splits)

lemma fan_step_Step:
  "run_state (fan_step lib work (Step i) f) w = (Some f', w') \<longleftrightarrow>
   i < length (fo_inflight f) \<and> (\<exists>a p. snd (fo_inflight f ! i) = Act a \<and> a w = (p, w') \<and>
     f' = f \<lparr> fo_inflight := (fo_inflight f)[i := (fst (fo_inflight f ! i), p)] \<rparr>)"
  by (cases "fo_inflight f ! i") (auto split: proc.splits prod.splits)

lemma fan_step_Finish:
  "run_state (fan_step lib work (Finish i) f) w = (Some f', w') \<longleftrightarrow>
   i < length (fo_inflight f) \<and> (\<exists>r. snd (fo_inflight f ! i) = Ret r \<and> f' = fan_finish lib i r f) \<and> w' = w"
  by (auto split: proc.splits)

lemma fan_step_Loop:
  "run_state (fan_step lib work Loop f) w = (Some f', w') \<longleftrightarrow> w' = w \<and> (\<exists>job jobs. fo_queue f = job # jobs \<and>
     (if shouldSkipJob job then f' = f \<lparr> fo_queue := jobs \<rparr>
      else \<exists>sem. Acquire lib (fo_sem f) = Some sem \<and>
        f' = f \<lparr> fo_queue := jobs, fo_inflight := fo_inflight f @ [(job, work job)], fo_sem := sem \<rparr>))"
  by (auto split: list.splits if_splits)

lemma fan_step_Cancel:
  "run_state (fan_step lib work Cancel f) w = (Some f', w') \<longleftrightarrow> w' = w \<and> (\<exists>job jobs. fo_queue f = job # jobs \<and>
     \<not> shouldSkipJob job \<and> f' = f \<lparr> fo_queue := [] \<rparr>)"
  by (auto split: list.splits if_splits)

lemmas fan_steps = fan_step_Loop fan_step_Step fan_step_Finish fan_step_Cancel

declare fan_step.simps [simp del]

lemma fan_run_Cons:
  "run_state (fan_run lib work (m # ms) f) w = (Some f', w') \<longleftrightarrow>
   (\<exists>g v. run_state (fan_step lib work m f) w = (Some g, v) \<and> run_state (fan_run lib work ms g) v = (Some f', w'))"
  by (auto split: prod.splits option.splits)

lemma fan_run_append:
  "run_state (fan_run lib work (ms @ ns) f) w = (Some f', w') \<longleftrightarrow>
   (\<exists>g v. run_state (fan_run lib work ms f) w = (Some g, v) \<and> run_state (fan_run lib work ns g) v = (Some f', w'))"
proof (induction ms arbitrary: f w)
  case (Cons m ms)
  show ?case unfolding append_Cons fan_run_Cons Cons.IH by blast
qed simp

declare fan_run.simps(2) [simp del]

subsection \<open>Termination\<close>

text \<open>What is left to do besides the actions of the jobs: two moves for each job of the queue, one for each job in flight.\<close>

definition fan_measure :: "'s fan \<Rightarrow> nat" where
  "fan_measure f = 2 * length (fo_queue f) + length (fo_inflight f)"

lemma fan_step_less:
  "run_state (fan_step lib work m f) w = (Some f', w') \<Longrightarrow>
   fan_measure f' + (if is_Step m then 0 else 1) \<le> fan_measure f"
  by (cases m) (auto simp: fan_steps fan_measure_def split: if_splits)

lemma fan_run_less:
  "run_state (fan_run lib work ms f) w = (Some f', w') \<Longrightarrow> length (filter (\<lambda>m. \<not> is_Step m) ms) + fan_measure f' \<le> fan_measure f"
proof (induction ms arbitrary: f w)
  case (Cons m ms)
  then show ?case unfolding fan_run_Cons by (fastforce dest: fan_step_less split: if_splits)
qed simp

text \<open>The moves of the machine, with any of them it may make, do not go on for ever.\<close>

definition fan_moves :: "'s semaphore_lib \<Rightarrow> (Job \<Rightarrow> unit result proc) \<Rightarrow> (('s fan \<times> world) \<times> ('s fan \<times> world)) set" where
  "fan_moves lib work = {((f', w'), (f, w)). \<exists>m. run_state (fan_step lib work m f) w = (Some f', w')}"

lemma wf_fan_moves: "wf (fan_moves lib work)"
proof (rule wf_subset)
  let ?rank = "\<lambda>(f, w). (fan_measure f, map snd (fo_inflight f))"
  show "wf (inv_image (less_than <*lex*> listrel1 rest_of) ?rank)" by (simp add: wf_rest_of wf_lex_prod)
  have "((fan_measure f', map snd (fo_inflight f')), (fan_measure f, map snd (fo_inflight f))) \<in> less_than <*lex*> listrel1 rest_of"
    if m: "run_state (fan_step lib work m f) w = (Some f', w')" for m f f' w w'
  proof (cases m)
    case (Step i)
    with m obtain a p where i: "i < length (fo_inflight f)" "snd (fo_inflight f ! i) = Act a" "a w = (p, w')"
      "f' = f \<lparr> fo_inflight := (fo_inflight f)[i := (fst (fo_inflight f ! i), p)] \<rparr>" by (auto simp: fan_step_Step)
    have "(p, Act a) \<in> rest_of" using i(3) by (auto simp: rest_of_def intro: exI [of _ w])
    moreover have "map snd (fo_inflight f) = (map snd (fo_inflight f))[i := p, i := Act a]"
      using i(1,2) list_update_id [of "map snd (fo_inflight f)" i] by simp
    ultimately have "((map snd (fo_inflight f))[i := p], map snd (fo_inflight f)) \<in> listrel1 rest_of" using i(1)
      unfolding listrel1_iff_update by (intro exI [of _ "Act a"] exI [of _ i]) simp
    then show ?thesis using i(4) by (simp add: map_update fan_measure_def)
  qed (use fan_step_less [OF m] in auto)
  then show "fan_moves lib work \<subseteq> inv_image (less_than <*lex*> listrel1 rest_of) ?rank" by (auto simp: fan_moves_def)
qed

lemma fan_no_infinite_run:
  "\<nexists>run. \<forall>k. \<exists>m. run_state (fan_step lib work m (fst (run k))) (snd (run k)) = (Some (fst (run (Suc k))), snd (run (Suc k)))"
proof
  assume "\<exists>run. \<forall>k. \<exists>m. run_state (fan_step lib work m (fst (run k))) (snd (run k)) = (Some (fst (run (Suc k))), snd (run (Suc k)))"
  then obtain run where "\<exists>m. run_state (fan_step lib work m (fst (run k))) (snd (run k)) = (Some (fst (run (Suc k))), snd (run (Suc k)))" for k
    by blast
  then have "(run (Suc k), run k) \<in> fan_moves lib work" for k unfolding fan_moves_def by (simp add: case_prod_beta)
  then show False using wf_no_infinite_down_chainE [OF wf_fan_moves] by blast
qed

text \<open>With a bound on the actions of each job there is a bound on all moves.\<close>

lemma sum_remove_nth: "i < length bs \<Longrightarrow> sum_list (remove_nth i bs) + bs ! i = (sum_list bs :: nat)"
  unfolding remove_nth_def using id_take_nth_drop [of i bs] by (metis add.commute add.left_commute sum_list.Cons sum_list_append)

lemma list_all2_remove_nth: "list_all2 P xs ys \<Longrightarrow> list_all2 P (remove_nth i xs) (remove_nth i ys)"
  unfolding remove_nth_def by (intro list_all2_appendI list_all2_takeI list_all2_dropI)

lemma fan_run_bound:
  assumes "run_state (fan_run lib work ms f) w = (Some f', w')" "\<forall>j \<in> set (fo_queue f). acts_within B (work j)"
    and "list_all2 acts_within bs (map snd (fo_inflight f))"
  shows "length ms \<le> sum_list bs + length bs + (B + 2) * length (fo_queue f)"
  using assms
proof (induction ms arbitrary: f w bs)
  case (Cons m ms)
  then obtain g v where g: "run_state (fan_step lib work m f) w = (Some g, v)" "run_state (fan_run lib work ms g) v = (Some f', w')"
    unfolding fan_run_Cons by blast
  have len: "length bs = length (fo_inflight f)" using Cons.prems(3) by (auto dest: list_all2_lengthD)
  show ?case
  proof (cases m)
    case Loop
    then obtain job jobs where q: "fo_queue f = job # jobs" using g(1) by (auto simp: fan_step_Loop)
    show ?thesis
    proof (cases "shouldSkipJob job")
      case True
      then show ?thesis using Loop g(1) q Cons.IH [OF g(2), of bs] Cons.prems(2,3) by (auto simp: fan_step_Loop)
    next
      case False
      then have "list_all2 acts_within (bs @ [B]) (map snd (fo_inflight g))" "fo_queue g = jobs"
        using Loop g(1) q Cons.prems(2,3) by (auto simp: fan_step_Loop intro: list_all2_appendI)
      then show ?thesis using q Cons.IH [OF g(2), of "bs @ [B]"] Cons.prems(2) by auto
    qed
  next
    case (Step i)
    with g(1) obtain a p where i: "i < length (fo_inflight f)" "snd (fo_inflight f ! i) = Act a" "a w = (p, v)"
      "g = f \<lparr> fo_inflight := (fo_inflight f)[i := (fst (fo_inflight f ! i), p)] \<rparr>" by (auto simp: fan_step_Step)
    have "acts_within (bs ! i) (Act a)" using list_all2_nthD2 [OF Cons.prems(3), of i] i(1,2) by simp
    then obtain b where b: "bs ! i = Suc b" "acts_within b p" using i(3) by (metis within_ActE fst_conv)
    have "list_all2 acts_within (bs[i := b]) (map snd (fo_inflight g))"
      using list_all2_update_cong [OF Cons.prems(3) b(2), of i] i(4) by (simp add: map_update)
    then have "length ms \<le> sum_list (bs[i := b]) + length bs + (B + 2) * length (fo_queue f)"
      using Cons.IH [OF g(2), of "bs[i := b]"] Cons.prems(2) i(4) by simp
    moreover have "sum_list (bs[i := b]) + 1 \<le> sum_list bs"
      using sum_list_update [of i bs b] elem_le_sum_list [of i bs] i(1) len b(1) by simp
    ultimately show ?thesis by simp
  next
    case (Finish i)
    then have i: "i < length bs" "fo_queue g = fo_queue f" "fo_inflight g = remove_nth i (fo_inflight f)"
      using g(1) len by (auto simp: fan_step_Finish)
    then have "length ms \<le> sum_list (remove_nth i bs) + length (remove_nth i bs) + (B + 2) * length (fo_queue f)"
      using Cons.IH [OF g(2), of "remove_nth i bs"] Cons.prems(2,3) by (simp add: map_remove_nth list_all2_remove_nth)
    then show ?thesis using sum_remove_nth [OF i(1)] i(1) by simp
  next
    case Cancel
    then show ?thesis using g(1) Cons.IH [OF g(2), of bs] Cons.prems(3) by (auto simp: fan_step_Cancel)
  qed
qed simp

subsection \<open>The bound\<close>

text \<open>The semaphore has a unit held for every job in flight.\<close>

definition fan_ok :: "('s \<Rightarrow> int) \<Rightarrow> ('s \<Rightarrow> int) \<Rightarrow> int \<Rightarrow> 's fan \<Rightarrow> bool" where
  "fan_ok sz held capN f = (sz (fo_sem f) = capN \<and> held (fo_sem f) = int (length (fo_inflight f)) \<and>
     int (length (fo_inflight f)) \<le> capN \<and> (\<forall>j \<in> fst ` set (fo_inflight f). \<not> shouldSkipJob j))"

lemma fan_start_ok: "weighted lib sz held \<Longrightarrow> 0 \<le> capN \<Longrightarrow> fan_ok sz held capN (fan_start lib capN jobs)"
  by (simp add: fan_ok_def fan_start_def weightedD)

lemma fst_update: "i < length xs \<Longrightarrow> fst ` set (xs[i := (fst (xs ! i), p)]) = fst ` set xs"
  by (metis fst_conv image_set list_update_id map_update nth_map)

lemma fan_step_ok:
  assumes "weighted lib sz held" "run_state (fan_step lib work m f) w = (Some f', w')" "fan_ok sz held capN f"
  shows "fan_ok sz held capN f'"
proof (cases m)
  case Loop
  then show ?thesis using assms(2,3) weightedD(4) [OF assms(1), of "fo_sem f"]
    by (fastforce simp: fan_ok_def fan_step_Loop split: if_splits)
next
  case (Step i)
  then obtain p where "i < length (fo_inflight f)" "f' = f \<lparr> fo_inflight := (fo_inflight f)[i := (fst (fo_inflight f ! i), p)] \<rparr>"
    using assms(2) by (auto simp: fan_step_Step)
  then show ?thesis using assms(3) fst_update [of i "fo_inflight f" p] by (simp add: fan_ok_def)
next
  case (Finish i)
  then obtain r where i: "i < length (fo_inflight f)" "f' = fan_finish lib i r f" using assms(2) by (auto simp: fan_step_Finish)
  then have "0 < held (fo_sem f)" using assms(3) by (auto simp: fan_ok_def)
  from weightedD(5) [OF assms(1) this] i assms(3) set_remove_nth [of i "fo_inflight f"] show ?thesis
    by (auto simp: fan_ok_def)
next
  case Cancel
  then show ?thesis using assms(2,3) by (auto simp: fan_ok_def fan_step_Cancel)
qed

lemma fan_run_ok:
  assumes "weighted lib sz held"
  shows "run_state (fan_run lib work ms f) w = (Some f', w') \<Longrightarrow> fan_ok sz held capN f \<Longrightarrow> fan_ok sz held capN f'"
proof (induction ms arbitrary: f w)
  case (Cons m ms)
  then show ?case unfolding fan_run_Cons using fan_step_ok [OF assms] by blast
qed simp

lemma fan_progress:
  assumes "weighted lib sz held" "fan_ok sz held capN f" "1 \<le> capN" "\<not> fan_done f"
  shows "\<exists>m f' w'. m \<noteq> Cancel \<and> run_state (fan_step lib work m f) w = (Some f', w')"
proof (cases "fo_inflight f")
  case (Cons x xs)
  show ?thesis
  proof (cases "snd x")
    case (Ret r)
    with Cons show ?thesis by (intro exI [of _ "Finish 0"]) (auto simp: fan_step_Finish)
  next
    case (Act a)
    obtain p v where "a w = (p, v)" by (metis surj_pair)
    with Act Cons show ?thesis by (intro exI [of _ "Step 0"]) (auto simp: fan_step_Step)
  qed
next
  case Nil
  with assms obtain j js where q: "fo_queue f = j # js" by (cases "fo_queue f") (auto simp: fan_done_def)
  have "Acquire lib (fo_sem f) \<noteq> None" using weightedD(3) [OF assms(1), of "fo_sem f"] assms(2,3) Nil by (auto simp: fan_ok_def)
  with q show ?thesis by (intro exI [of _ Loop]) (auto simp: fan_step_Loop)
qed

lemma fan_completes:
  assumes "weighted lib sz held" "1 \<le> capN"
  shows "fan_ok sz held capN f \<Longrightarrow> \<exists>ms f' w'. Cancel \<notin> set ms \<and> run_state (fan_run lib work ms f) w = (Some f', w') \<and> fan_done f'"
proof (induction "(f, w)" arbitrary: f w rule: wf_induct_rule [OF wf_fan_moves [of lib work]])
  case (1 f w)
  show ?case
  proof (cases "fan_done f")
    case True
    then show ?thesis by (intro exI [of _ "[]"]) simp
  next
    case False
    from fan_progress [OF assms(1) 1(2) assms(2) False]
    obtain m g v where m: "m \<noteq> Cancel" "run_state (fan_step lib work m f) w = (Some g, v)" by blast
    then have "((g, v), (f, w)) \<in> fan_moves lib work" by (auto simp: fan_moves_def)
    from 1(1) [OF this fan_step_ok [OF assms(1) m(2) 1(2)]]
    obtain ms f' w' where "Cancel \<notin> set ms" "run_state (fan_run lib work ms g) v = (Some f', w')" "fan_done f'" by blast
    with m show ?thesis by (intro exI [of _ "m # ms"]) (auto simp: fan_run_Cons)
  qed
qed

text \<open>
  C4. The concurrent dispatch ends. With a bound of at least one, whatever the interleaving and the outcome of the jobs: a run of the
  machine has at most two moves for each claimed job besides the actions of the jobs, and at most \<open>B + 2\<close> moves for each when no job
  has more than \<open>B\<close> actions; there is no infinite run; and every run that is not over can go on to a state in which the loop is
  over and no job is in flight, with no help from a cancellation. The dispatch neither loops nor blocks for ever.
\<close>

theorem boundedFanOut_terminates:
  assumes "weighted lib sz held" "1 \<le> capN"
    "run_state (fan_run lib work moves (fan_start lib capN jobs)) w = (Some f, w')"
  shows "length (filter (\<lambda>m. \<not> is_Step m) moves) \<le> 2 * length jobs \<and>
    (\<forall>B. (\<forall>j \<in> set jobs. acts_within B (work j)) \<longrightarrow> length moves \<le> (B + 2) * length jobs) \<and>
    (\<nexists>run. \<forall>k. \<exists>m. run_state (fan_step lib work m (fst (run k))) (snd (run k)) = (Some (fst (run (Suc k))), snd (run (Suc k)))) \<and>
    (\<exists>more c w''. Cancel \<notin> set more \<and> run_state (boundedFanOut lib jobs capN work (moves @ more)) w = (Some c, w''))"
proof (intro conjI)
  show "length (filter (\<lambda>m. \<not> is_Step m) moves) \<le> 2 * length jobs"
    using fan_run_less [OF assms(3)] by (simp add: fan_measure_def fan_start_def)
  show "\<forall>B. (\<forall>j \<in> set jobs. acts_within B (work j)) \<longrightarrow> length moves \<le> (B + 2) * length jobs"
    using fan_run_bound [OF assms(3), of _ "[]"] by (simp add: fan_start_def)
  show "\<nexists>run. \<forall>k. \<exists>m. run_state (fan_step lib work m (fst (run k))) (snd (run k)) = (Some (fst (run (Suc k))), snd (run (Suc k)))"
    by (rule fan_no_infinite_run)
  have "fan_ok sz held capN f" using fan_run_ok [OF assms(1,3)] fan_start_ok [OF assms(1)] assms(2) by simp
  from fan_completes [OF assms(1,2) this] obtain more f' w'' where
    "Cancel \<notin> set more" "run_state (fan_run lib work more f) w' = (Some f', w'')" "fan_done f'" by blast
  then have "Cancel \<notin> set more" "run_state (fan_run lib work (moves @ more) (fan_start lib capN jobs)) w = (Some f', w'')" "fan_done f'"
    using assms(3) unfolding fan_run_append by blast+
  then show "\<exists>more c w''. Cancel \<notin> set more \<and> run_state (boundedFanOut lib jobs capN work (moves @ more)) w = (Some c, w'')"
    by (intro exI [of _ more]) (auto simp: boundedFanOut_def)
qed

text \<open>
  C5. At every moment of the concurrent dispatch at most as many jobs are in flight as the bound says, none of them one that the dispatch has to
  leave to an agent, and the semaphore has exactly one unit held for each of them.
\<close>

theorem boundedFanOut_keeps_cap:
  assumes "weighted lib sz held" "0 \<le> capN"
    "run_state (fan_run lib work moves (fan_start lib capN jobs)) w = (Some f, w')"
  shows "int (length (fo_inflight f)) \<le> capN \<and> held (fo_sem f) = int (length (fo_inflight f)) \<and>
    list_all (\<lambda>(j, p). \<not> shouldSkipJob j) (fo_inflight f)"
  using fan_run_ok [OF assms(1,3) fan_start_ok [OF assms(1,2)]] by (auto simp: fan_ok_def list_all_iff)

section \<open>What the dispatch does to the world\<close>

definition todo :: "'s fan \<Rightarrow> Job list" where
  "todo f = filter (\<lambda>j. \<not> shouldSkipJob j) (fo_queue f)"

definition succeeded :: "unit result list \<Rightarrow> nat" where
  "succeeded rs = length (filter (\<lambda>r. \<not> isl r) rs)"

definition refused :: "unit result list \<Rightarrow> nat" where
  "refused rs = length (filter isl rs)"

lemma counts_simps [simp]:
  "succeeded [] = 0" "refused [] = 0" "succeeded (r # rs) = (if isl r then 0 else 1) + succeeded rs"
  "refused (r # rs) = (if isl r then 1 else 0) + refused rs"
  by (simp_all add: succeeded_def refused_def)

lemma counts_append:
  "succeeded (rs @ qs) = succeeded rs + succeeded qs" "refused (rs @ qs) = refused rs + refused qs"
  by (simp_all add: succeeded_def refused_def)

lemma counts_insert:
  "succeeded (take i rs @ r # drop i rs) = (if isl r then 0 else 1) + succeeded rs"
  "refused (take i rs @ r # drop i rs) = (if isl r then 1 else 0) + refused rs"
  using counts_append [of "take i rs" "drop i rs"] by (simp_all add: counts_append)

text \<open>A job that has ended goes back to its place among the programs.\<close>

lemma interleaved_ended:
  assumes "interleaved (remove_nth i ps @ qs) w rs w'" "i < length ps" "ps ! i = Ret r"
  shows "interleaved (ps @ qs) w (take i rs @ r # drop i rs) w'"
proof -
  let ?ps = "remove_nth i ps @ qs"
  have "take i ?ps @ Ret r # drop i ?ps = take i ps @ ps ! i # drop (Suc i) ps @ qs"
    using assms(2,3) by (simp add: remove_nth_def min_def)
  also have "\<dots> = ps @ qs" using id_take_nth_drop [OF assms(2)] by (metis append.assoc append_Cons)
  finally have eq: "take i ?ps @ Ret r # drop i ?ps = ps @ qs" .
  have "i \<le> length ?ps" using assms(2) by (simp add: remove_nth_def)
  from interleaved_insert [OF assms(1) this, of r] show ?thesis unfolding eq .
qed

lemma fan_run_interleaved:
  assumes "run_state (fan_run lib work ms f) w = (Some f', w')" "fan_done f'"
  shows "\<exists>k rs. interleaved (map snd (fo_inflight f) @ map work (take k (todo f))) w rs w' \<and>
    fo_processed f' = fo_processed f + succeeded rs \<and> fo_failed f' = fo_failed f + refused rs \<and>
    (Cancel \<notin> set ms \<longrightarrow> k = length (todo f))"
  using assms(1)
proof (induction ms arbitrary: f w)
  case Nil
  then show ?case using assms(2) interleaved.all_ended [of "[]" w]
    by (intro exI [of _ 0] exI [of _ "[]"]) (simp add: fan_done_def todo_def)
next
  case (Cons m ms)
  then obtain g v where g: "run_state (fan_step lib work m f) w = (Some g, v)" "run_state (fan_run lib work ms g) v = (Some f', w')"
    unfolding fan_run_Cons by blast
  from Cons.IH [OF g(2)] obtain k rs where
    rs: "interleaved (map snd (fo_inflight g) @ map work (take k (todo g))) v rs w'"
    "fo_processed f' = fo_processed g + succeeded rs" "fo_failed f' = fo_failed g + refused rs" "Cancel \<notin> set ms \<longrightarrow> k = length (todo g)" by blast
  show ?case
  proof (cases m)
    case Loop
    with g(1) obtain job jobs where q: "fo_queue f = job # jobs" "v = w" by (auto simp: fan_step_Loop)
    show ?thesis
    proof (cases "shouldSkipJob job")
      case True
      then show ?thesis using Loop g(1) q rs by (intro exI [of _ k] exI [of _ rs]) (auto simp: fan_step_Loop todo_def)
    next
      case False
      then show ?thesis using Loop g(1) q rs by (intro exI [of _ "Suc k"] exI [of _ rs]) (auto simp: fan_step_Loop todo_def)
    qed
  next
    case (Step i)
    with g(1) obtain a p where i: "i < length (fo_inflight f)" "snd (fo_inflight f ! i) = Act a" "a w = (p, v)"
      "g = f \<lparr> fo_inflight := (fo_inflight f)[i := (fst (fo_inflight f ! i), p)] \<rparr>" by (auto simp: fan_step_Step)
    have "interleaved (map snd (fo_inflight f) @ map work (take k (todo f))) w rs w'"
      by (rule interleaved.next_action [of i _ a w p v])
        (use i rs(1) in \<open>simp_all add: nth_append list_update_append map_update todo_def\<close>)
    then show ?thesis using Step i(4) rs(2-4) by (intro exI [of _ k] exI [of _ rs]) (simp add: todo_def)
  next
    case (Finish i)
    with g(1) obtain r where i: "i < length (fo_inflight f)" "snd (fo_inflight f ! i) = Ret r" "g = fan_finish lib i r f" "v = w"
      by (auto simp: fan_step_Finish)
    have "interleaved (map snd (fo_inflight f) @ map work (take k (todo f))) w (take i rs @ r # drop i rs) w'"
      using interleaved_ended [of i "map snd (fo_inflight f)"] rs(1) i by (simp add: map_remove_nth todo_def)
    then show ?thesis using Finish i(3) rs(2-4)
      by (intro exI [of _ k] exI [of _ "take i rs @ r # drop i rs"]) (auto simp: todo_def counts_insert)
  next
    case Cancel
    with g(1) rs show ?thesis by (intro exI [of _ 0] exI [of _ rs]) (auto simp: fan_step_Cancel todo_def)
  qed
qed

text \<open>
  The concurrent dispatch is an interleaving of the programs of the jobs it starts, each of them run once from its beginning to its end; these are
  the jobs that are not left to an agent, all of them or, after a cancellation, those up to some point of the queue. The counters
  are the numbers of jobs that succeeded and that failed.
\<close>

lemma boundedFanOut_interleaved:
  assumes "run_state (boundedFanOut lib jobs capN work moves) w = (Some c, w')"
  shows "\<exists>k rs. interleaved (map work (take k (filter (\<lambda>j. \<not> shouldSkipJob j) jobs))) w rs w' \<and> c = (succeeded rs, refused rs) \<and>
    (Cancel \<notin> set moves \<longrightarrow> k = length (filter (\<lambda>j. \<not> shouldSkipJob j) jobs))"
proof -
  obtain f where f: "run_state (fan_run lib work moves (fan_start lib capN jobs)) w = (Some f, w')" "fan_done f"
    "c = (fo_processed f, fo_failed f)"
    using assms by (auto simp: boundedFanOut_def split: prod.splits option.splits if_splits)
  show ?thesis using fan_run_interleaved [OF f(1,2)] f(3) by (auto simp: fan_start_def todo_def)
qed

lemma sequential_all:
  "run_state (processPendingJobsSequential (\<lambda>j. State (alone (work j))) jobs) w =
   (case run_state (run_all (map work (filter (\<lambda>j. \<not> shouldSkipJob j) jobs))) w of (rs, w') \<Rightarrow> ((succeeded rs, refused rs), w'))"
  by (induction jobs arbitrary: w) (auto split: prod.splits sum.splits)

lemma fan_run_in_order:
  assumes "weighted lib sz held" "fan_done f'"
  shows "run_state (fan_run lib work ms f) w = (Some f', w') \<Longrightarrow> fan_ok sz held 1 f \<Longrightarrow> Cancel \<notin> set ms \<Longrightarrow>
   \<exists>rs. run_state (run_all (map snd (fo_inflight f) @ map work (todo f))) w = (rs, w') \<and>
    fo_processed f' = fo_processed f + succeeded rs \<and> fo_failed f' = fo_failed f + refused rs"
proof (induction ms arbitrary: f w)
  case Nil
  then show ?case using assms(2) by (simp add: fan_done_def todo_def)
next
  case (Cons m ms)
  then obtain g v where g: "run_state (fan_step lib work m f) w = (Some g, v)" "run_state (fan_run lib work ms g) v = (Some f', w')"
    unfolding fan_run_Cons by blast
  from Cons.IH [OF g(2) fan_step_ok [OF assms(1) g(1) Cons.prems(2)]] Cons.prems(3) obtain rs where
    rs: "run_state (run_all (map snd (fo_inflight g) @ map work (todo g))) v = (rs, w')"
    "fo_processed f' = fo_processed g + succeeded rs" "fo_failed f' = fo_failed g + refused rs" by auto
  have single: "fo_inflight f = [fo_inflight f ! i]" "i = 0" if "i < length (fo_inflight f)" for i
    using that Cons.prems(2) by (auto simp: fan_ok_def length_Suc_conv le_Suc_eq)
  show ?case
  proof (cases m)
    case Loop
    with g(1) obtain job jobs where q: "fo_queue f = job # jobs" "v = w" by (auto simp: fan_step_Loop)
    then show ?thesis using Loop g(1) rs by (cases "shouldSkipJob job") (auto simp: fan_step_Loop todo_def)
  next
    case (Step i)
    with g(1) obtain a p where i: "i < length (fo_inflight f)" "snd (fo_inflight f ! i) = Act a" "a w = (p, v)"
      "g = f \<lparr> fo_inflight := (fo_inflight f)[i := (fst (fo_inflight f ! i), p)] \<rparr>" by (auto simp: fan_step_Step)
    obtain j where "fo_inflight f = [(j, Act a)]" using single [OF i(1)] i(2) by (metis prod.collapse)
    then show ?thesis using rs i by (simp add: todo_def alone_Act)
  next
    case (Finish i)
    with g(1) obtain r where i: "i < length (fo_inflight f)" "snd (fo_inflight f ! i) = Ret r" "g = fan_finish lib i r f" "v = w"
      by (auto simp: fan_step_Finish)
    obtain j where "fo_inflight f = [(j, Ret r)]" using single [OF i(1)] i(2) by (metis prod.collapse)
    then show ?thesis using rs i by (auto simp: todo_def remove_nth_def split: prod.splits)
  next
    case Cancel
    then show ?thesis using Cons.prems(3) by simp
  qed
qed

text \<open>
  With a bound of one, a concurrent dispatch that is not cancelled is the sequential one: it leaves the same world and counts the
  same numbers of processed and failed jobs, whatever the interleaving.
\<close>

lemma boundedFanOut_one:
  assumes "weighted lib sz held" "Cancel \<notin> set moves" "run_state (boundedFanOut lib jobs 1 work moves) w = (Some c, w')"
  shows "run_state (processPendingJobsSequential (\<lambda>j. State (alone (work j))) jobs) w = (c, w')"
proof -
  obtain f where f: "run_state (fan_run lib work moves (fan_start lib 1 jobs)) w = (Some f, w')" "fan_done f"
    "c = (fo_processed f, fo_failed f)"
    using assms(3) by (auto simp: boundedFanOut_def split: prod.splits option.splits if_splits)
  have ok: "fan_ok sz held 1 (fan_start lib 1 jobs)" by (rule fan_start_ok [OF assms(1)]) simp
  show ?thesis using fan_run_in_order [OF assms(1) f(2,1) ok assms(2)] f(3)
    by (auto simp: fan_start_def todo_def sequential_all)
qed

section \<open>Examples\<close>

definition counting_semaphore :: "(int \<times> int) semaphore_lib" where
  "counting_semaphore = \<lparr> NewWeighted = (\<lambda>n. (n, 0)), Acquire = (\<lambda>(n, c). if c < n then Some (n, c + 1) else None),
     Release = (\<lambda>(n, c). (n, c - 1)) \<rparr>"

lemma counting_semaphore_weighted: "weighted counting_semaphore fst snd"
  by (auto simp: weighted_def counting_semaphore_def)

text \<open>A job of a reserved type, a job for an agent, and a job of a type that is not known.\<close>

definition claimed_jobs :: "Job list" where
  "claimed_jobs = [sample_job ''j-1'' JobTypeValidation JobStatusRunning,
     (sample_job ''j-2'' JobTypeDeployment JobStatusRunning) \<lparr> job_AgentID := Some ''a-1'' \<rparr>,
     sample_job ''j-3'' (JobTypeOther ''Scan'') JobStatusRunning]"

text \<open>
  One way to cut the work of a job into actions: a deployment job makes its status update, the lookup of the certificate
  and the rest three actions, every other job is one action.
\<close>

definition deployment_steps :: "env \<Rightarrow> NotificationService \<Rightarrow> Job \<Rightarrow> unit result proc" where
  "deployment_steps env n job = act (JobRepository_UpdateStatus env (job_ID job) JobStatusRunning '''') (\<lambda>u. case u of
     Inl err \<Rightarrow> Ret (Inl (Wrap ''failed to update job status'' err))
   | Inr _ \<Rightarrow> act (CertificateRepository_Get env (job_CertificateID job)) (\<lambda>c. act (case c of
       Inl err \<Rightarrow> refuse_deployment env job (''certificate fetch failed: '' @ error_text err) (Wrap ''failed to fetch certificate'' err)
     | Inr cert \<Rightarrow>
         let targetID = (case job_TargetID job of None \<Rightarrow> '''' | Some i \<Rightarrow> i) in
         if targetID = '''' then refuse_deployment env job ''target_id not found in job'' (Errorf ''target_id not found in job'')
         else dispatch_target env n job cert targetID) Ret))"

definition job_steps :: "env \<Rightarrow> crypto_lib \<Rightarrow> RenewalService \<Rightarrow> NotificationService \<Rightarrow> Job \<Rightarrow> unit result proc" where
  "job_steps env cl rs n job =
     (if job_Type job = JobTypeDeployment then deployment_steps env n job else act (processJob env cl rs n job) Ret)"

lemma State_alone_Ret: "State (alone (Ret a)) = State_Monad.return a"
  by (simp add: State_Monad.return_def)

lemma State_alone_case: "State (alone (case u of Inl e \<Rightarrow> p e | Inr x \<Rightarrow> q x)) = (case u of Inl e \<Rightarrow> State (alone (p e)) | Inr x \<Rightarrow> State (alone (q x)))"
  by (simp split: sum.splits)

lemma alone_job_steps: "alone (job_steps env cl rs n job) = run_state (processJob env cl rs n job)"
proof -
  have "State (alone (job_steps env cl rs n job)) = processJob env cl rs n job"
  proof (cases "job_Type job = JobTypeDeployment")
    case True
    show ?thesis unfolding job_steps_def if_P [OF True] deployment_steps_def alone_act State_alone_case State_alone_Ret State_Monad.bind_right_identity
      by (simp add: True processJob_def ProcessDeploymentJob_def)
  qed (simp add: job_steps_def alone_act State_alone_Ret del: alone.simps)
  then show ?thesis by (metis state.sel)
qed

definition server_work :: "Job \<Rightarrow> unit result proc" where
  "server_work = job_steps (calm 0) sample_crypto (renewal_service ''server'') (NewNotificationService [])"

lemmas dispatch_defs = counting_semaphore_def claimed_jobs_def server_work_def job_steps_def act_def processJob_def processValidationJob_def shouldSkipJob_def
  fan_run.simps fan_step.simps fan_start_def fan_finish_def remove_nth_def boundedFanOut_def fan_done_def sample_job_def

theorem boundedFanOut_terminates_witness:
  "\<exists>more c w''. Cancel \<notin> set more \<and>
    run_state (boundedFanOut counting_semaphore claimed_jobs 2 server_work ([Loop, Loop, Loop, Step 1, Finish 1] @ more)) empty_world = (Some c, w'')"
proof -
  have "\<exists>f. run_state (fan_run counting_semaphore server_work [Loop, Loop, Loop, Step 1, Finish 1] (fan_start counting_semaphore 2 claimed_jobs)) empty_world =
    (Some f, empty_world)"
    by (simp add: dispatch_defs)
  then obtain f where f: "run_state (fan_run counting_semaphore server_work [Loop, Loop, Loop, Step 1, Finish 1]
    (fan_start counting_semaphore 2 claimed_jobs)) empty_world = (Some f, empty_world)" ..
  from boundedFanOut_terminates [OF counting_semaphore_weighted _ f] show ?thesis by simp
qed

theorem boundedFanOut_keeps_cap_witness:
  "\<exists>f w'. run_state (fan_run counting_semaphore server_work [Loop, Loop, Loop] (fan_start counting_semaphore 2 claimed_jobs)) empty_world = (Some f, w') \<and>
    length (fo_inflight f) = 2 \<and> int (length (fo_inflight f)) \<le> 2"
proof -
  have "run_state (fan_run counting_semaphore server_work [Loop, Loop, Loop] (fan_start counting_semaphore 2 claimed_jobs)) empty_world =
    (Some \<lparr> fo_queue = [], fo_inflight = [(hd claimed_jobs, server_work (hd claimed_jobs)), (last claimed_jobs, server_work (last claimed_jobs))],
       fo_sem = (2, 2), fo_processed = 0, fo_failed = 0 \<rparr>, empty_world)"
    by (simp add: dispatch_defs)
  from this boundedFanOut_keeps_cap [OF counting_semaphore_weighted _ this] show ?thesis by simp
qed

section \<open>A tick of the scheduler\<close>

lemma claimed_unrouted:
  assumes "run_state (JobRepository_ClaimPendingJobs env ty limit) w = (Inr js, w')" "j \<in> set js" "job_Type j = JobTypeDeployment"
  shows "job_AgentID j = None \<and> \<not> target_has_agent w (job_TargetID j)"
proof -
  let ?P = "\<lambda>j. job_Type j = JobTypeDeployment \<longrightarrow> job_AgentID j = None \<and> \<not> target_has_agent w (job_TargetID j)"
  have sel: "?P j" if "same_data w v" "same_data v v'" "j \<in> set (claim_limit limit (select_jobs (claimable v' ty) job_ScheduledAt t))" for j v v' t
  proof -
    from that(3) obtain j0 where "claimable v' ty j0" "j = scanJob j0" using claim_limit_sub(1) by fastforce
    then show ?thesis using same_dataD [OF that(1)] same_dataD [OF that(2)] by (auto simp: claimable_def target_has_agent_def split: option.splits)
  qed
  have "post (JobRepository_ClaimPendingJobs env ty limit) w (\<lambda>r w'. case r of Inl e \<Rightarrow> True | Inr js \<Rightarrow> \<forall>j\<in>set js. ?P j)"
    unfolding JobRepository_ClaimPendingJobs_def claim_jobs_def
    by (intro vcg; (simp del: select_jobs_set; fail)?; insert sel; simp del: select_jobs_set; blast)
  from post_run [OF this assms(1)] assms(2,3) show ?thesis by simp
qed

lemma claimed_not_skipped:
  assumes "run_state (JobRepository_ClaimPendingJobs env ty limit) w = (Inr js, w')"
  shows "filter (\<lambda>j. \<not> shouldSkipJob j) js = js"
  using claimed_unrouted [OF assms] by (auto simp: filter_id_conv shouldSkipJob_def)

text \<open>
  C20. The server dispatches no deployment. A deployment job that a tick claims has no agent and no target that exists, and when the service
  processes it, in any environment and in any world with the same targets, it is refused with an error: the branches of the service after the lookup
  of the target are never taken in a tick.
\<close>

theorem server_deployments_refused:
  assumes "run_state (JobRepository_ClaimPendingJobs env ty limit) w = (Inr js, w1)" "job \<in> set js" "job_Type job = JobTypeDeployment"
    "tbl_targets v = tbl_targets w" "run_state (processJob env' cl rs n job) v = (r, v')"
  shows "\<not> shouldSkipJob job \<and> (\<exists>e. r = Inl e)"
proof -
  note u = claimed_unrouted [OF assms(1-3)]
  have "r \<noteq> Inr ()"
  proof
    assume "r = Inr ()"
    then obtain i where "job_TargetID job = Some i" "has_key target_ID i (tbl_targets v)"
      using dispatched_has_target [of env' n job v v'] assms(3,5) by (auto simp: processJob_def)
    with u assms(4) show False by (simp add: target_has_agent_def)
  qed
  with u show ?thesis by (cases r) (auto simp: shouldSkipJob_def)
qed

text \<open>
  C3. A tick processes every job it claims exactly once, under every interleaving. The work of a job in a goroutine is any program of
  atomic actions that does what \<^verbatim>\<open>processJob\<close> does when it runs alone. When a tick returns, either the claim failed and no job was
  touched, or it claimed jobs with distinct identifiers, and what it did to the world after the claim is an interleaving of the actions of the
  programs of these jobs, each of them run once from its beginning to its end: all the claimed jobs, none of them skipped, when the tick was not
  cancelled, and the first of them up to some point when it was. With a concurrency of at most one a tick that is not cancelled does
  what the sequential loop over the claimed jobs does. No failure of a job is an error of the tick.
\<close>

theorem ProcessPendingJobs_correct:
  assumes "jobs_ok (tbl_jobs w)" "weighted lib sz held" "\<forall>j. alone (work j) = run_state (processJob env cl rs n j)"
    and "run_state (ProcessPendingJobs env cl lib s rs n work moves) w = (Some r, w')"
  shows "(\<exists>e. r = Inl (Wrap ''failed to claim pending jobs'' e) \<and> tbl_jobs w' = tbl_jobs w) \<or>
    (\<exists>js w1 k results. r = Inr () \<and> run_state (JobRepository_ClaimPendingJobs env None (js_claimLimit s)) w = (Inr js, w1) \<and>
      claimed (js_claimLimit s) js (tbl_jobs w) (tbl_jobs w1) \<and> interleaved (map work (take k js)) w1 results w' \<and>
      (Cancel \<notin> set (moves js) \<longrightarrow> k = length js) \<and>
      (Cancel \<notin> set (moves js) \<and> js_renewalConcurrency s \<le> 1 \<longrightarrow>
        (\<exists>c. run_state (processPendingJobsSequential (processJob env cl rs n) js) w1 = (c, w'))))"
proof -
  obtain q w1 where q: "run_state (JobRepository_ClaimPendingJobs env None (js_claimLimit s)) w = (q, w1)" by (metis surj_pair)
  note cl = ClaimPendingJobs_claimed [OF assms(1) q]
  have work: "processJob env cl rs n = (\<lambda>j. State (alone (work j)))" using assms(3) by simp
  show ?thesis
  proof (cases q)
    case (Inl e)
    then show ?thesis using assms(4) cl q by (auto simp: ProcessPendingJobs_def)
  next
    case (Inr js)
    note run = assms(4) [unfolded ProcessPendingJobs_def, simplified, unfolded q, simplified, unfolded Inr, simplified]
      and all = claimed_not_skipped [OF q [unfolded Inr]]
    have "\<exists>k results. r = Inr () \<and> interleaved (map work (take k js)) w1 results w' \<and> (Cancel \<notin> set (moves js) \<longrightarrow> k = length js) \<and>
      (Cancel \<notin> set (moves js) \<and> js_renewalConcurrency s \<le> 1 \<longrightarrow>
        (\<exists>c. run_state (processPendingJobsSequential (processJob env cl rs n) js) w1 = (c, w')))"
    proof (cases "js = [] \<or> js_renewalConcurrency s \<le> 0")
      case True
      then obtain c where c: "run_state (processPendingJobsSequential (processJob env cl rs n) js) w1 = (c, w')" "r = Inr ()"
        using run by (auto split: if_splits prod.splits)
      then obtain results where "run_state (run_all (map work js)) w1 = (results, w')"
        unfolding work sequential_all all by (auto split: prod.splits)
      from run_all_interleaved [OF this] c show ?thesis by (intro exI [of _ "length js"] exI [of _ results]) simp
    next
      case False
      then obtain c where c: "run_state (boundedFanOut lib js (js_renewalConcurrency s) work (moves js)) w1 = (Some c, w')" "r = Inr ()"
        using run by (auto split: prod.splits)
      have one: "run_state (processPendingJobsSequential (processJob env cl rs n) js) w1 = (c, w')"
        if "Cancel \<notin> set (moves js)" "js_renewalConcurrency s \<le> 1"
      proof -
        have "js_renewalConcurrency s = 1" using that(2) False by simp
        then show ?thesis unfolding work using boundedFanOut_one [OF assms(2) that(1)] c(1) by simp
      qed
      from boundedFanOut_interleaved [OF c(1)] show ?thesis unfolding all using c(2) one by blast
    qed
    with q Inr cl show ?thesis by auto
  qed
qed

text \<open>A tick that claims a deployment job with no agent and no target, and a job of a reserved type.\<close>

definition tick_world :: world where
  "tick_world = empty_world \<lparr> tbl_certs := [sample_cert ''c1''],
     tbl_jobs := [sample_job ''j1'' JobTypeDeployment JobStatusPending, sample_job ''j2'' JobTypeValidation JobStatusPending] \<rparr>"

definition tick_service :: JobService where
  "tick_service = SetClaimLimit 10 (SetRenewalConcurrency 2 (NewJobService True))"

definition tick_claim :: "world \<times> Job list" where
  "tick_claim = (tick_world \<lparr> tbl_jobs := claim_rows [''j1'', ''j2''] 9 (tbl_jobs tick_world), steps := 5 \<rparr>,
     map (job_Status_update (\<lambda>_. JobStatusRunning) \<circ> scanJob) (tbl_jobs tick_world))"

lemma tick_claimed: "run_state (JobRepository_ClaimPendingJobs (calm 9) None 10) tick_world = (Inr (snd tick_claim), fst tick_claim)"
  by (simp add: JobRepository_ClaimPendingJobs_def claim_jobs_def run_defs tick_world_def tick_claim_def samples claim_limit_def select_jobs_def
    claimable_def target_has_agent_def claim_rows_def claim_row_def scanJob_def)

theorem server_deployments_refused_witness:
  "let job = hd (snd tick_claim)
   in \<not> shouldSkipJob job \<and> (\<exists>e. fst (run_state (processJob (calm 9) sample_crypto (renewal_service ''server'') (NewNotificationService []) job) tick_world) = Inl e)"
proof -
  have "hd (snd tick_claim) \<in> set (snd tick_claim)" "job_Type (hd (snd tick_claim)) = JobTypeDeployment"
    by (simp_all add: tick_claim_def tick_world_def sample_job_def)
  from server_deployments_refused [OF tick_claimed this refl prod.collapse [symmetric]] show ?thesis by (simp add: Let_def)
qed

definition tick_work :: "Job \<Rightarrow> unit result proc" where
  "tick_work = job_steps (calm 9) sample_crypto (renewal_service ''server'') (NewNotificationService [])"

definition tick_moves :: "fan_move list" where
  "tick_moves = [Loop, Step 0, Loop, Step 1, Step 0, Finish 1, Step 0, Finish 0]"

lemma tick_run:
  "\<exists>w'. run_state (ProcessPendingJobs (calm 9) sample_crypto counting_semaphore tick_service (renewal_service ''server'') (NewNotificationService [])
      tick_work (\<lambda>_. tick_moves)) tick_world = (Some (Inr ()), w') \<and> map job_Status (tbl_jobs w') = [JobStatusFailed, JobStatusRunning]"
  by (simp add: ProcessPendingJobs_def tick_claimed tick_service_def SetClaimLimit_def SetRenewalConcurrency_def NewJobService_def)
    (simp add: dispatch_defs tick_work_def tick_moves_def deployment_steps_def tick_claim_def tick_world_def samples refuse_deployment_def run_defs
      JobRepository_UpdateStatus_def CertificateRepository_Get_def
      scanJob_def claim_rows_def claim_row_def rows_result_def count_rows_def row_of_def update_row_def set_status_def job_terminal_def null_if_empty_def has_key_def)

theorem ProcessPendingJobs_correct_witness:
  "\<exists>results w'. interleaved (map tick_work (snd tick_claim)) (fst tick_claim) results w' \<and>
    map job_Status (tbl_jobs w') = [JobStatusFailed, JobStatusRunning]"
proof -
  obtain w' where run: "run_state (ProcessPendingJobs (calm 9) sample_crypto counting_semaphore tick_service (renewal_service ''server'') (NewNotificationService [])
      tick_work (\<lambda>_. tick_moves)) tick_world = (Some (Inr ()), w')" "map job_Status (tbl_jobs w') = [JobStatusFailed, JobStatusRunning]"
    using tick_run by (elim exE conjE)
  have ok: "jobs_ok (tbl_jobs tick_world)" by (simp add: jobs_ok_def tick_world_def sample_job_def)
  have lim: "js_claimLimit tick_service = 10" by (simp add: tick_service_def SetClaimLimit_def)
  have work: "\<forall>j. alone (tick_work j) = run_state (processJob (calm 9) sample_crypto (renewal_service ''server'') (NewNotificationService []) j)"
    by (simp add: tick_work_def alone_job_steps)
  from ProcessPendingJobs_correct [OF ok counting_semaphore_weighted work run(1)] show ?thesis unfolding lim
  proof (elim disjE exE conjE, goal_cases)
    case (1 e)
    then show ?case by simp
  next
    case (2 js w1 k results)
    have eq: "js = snd tick_claim" "w1 = fst tick_claim" using 2(2) unfolding tick_claimed by simp_all
    have "k = length js" using 2(5) by (simp add: tick_moves_def)
    then show ?case using run(2) 2(4) unfolding eq by (intro exI [of _ results] exI [of _ w']) simp
  qed
qed

end
