(* ===== verification/Spec2Isabelle.thy ===== *)
theory Spec2Isabelle
  imports Rate_Limit Dispatch
begin

text \<open>
  \<^bold>\<open>certctl: certificate life-cycle control.\<close>

  The program is a server that keeps certificates, jobs, approval requests and notifications in a
  PostgreSQL database and changes them through a service layer; agents and background loops call
  the services. The development models the service layer over the repositories, statement by
  statement, and proves what the services promise under every pattern of database failures.

  \<^bold>\<open>State and effects.\<close> \<open>Store\<close> has the record \<open>world\<close>: one list per table in insertion
  order, the counter of \<^verbatim>\<open>generateID\<close>, the metrics, and \<open>steps\<close>, the number of interactions with the
  outside so far. An operation is a state monad over \<open>world\<close>; a fallible one returns
  \<open>error + 'a\<close>, with \<open>Inl\<close> for a Go error and \<open>Wrap\<close> for \<^verbatim>\<open>fmt.Errorf\<close> with \<^verbatim>\<open>%w\<close>. What the
  program cannot control is the record \<open>env\<close>, indexed by \<open>steps\<close>: whether the database call
  fails, the clock, the random identifiers, the answers of the notification channels and of the
  issuers to a revocation, and the calendar of the server's time zone (\<^verbatim>\<open>AddDate\<close>). The theorems quantify over it. Each SQL statement is one step; a transaction restores the tables when
  it fails (\<open>WithinTx\<close>). Rows with equal sort keys are returned in insertion order. Times and
  durations are integers in nanoseconds; a difference of times saturates as \<^verbatim>\<open>Time.Sub\<close> does. Where the code computes with
  64-bit integers that may wrap around (pages, delays) or with \<^verbatim>\<open>float64\<close> (days), the model does too. Text is a list of bytes.

  \<^bold>\<open>Theories.\<close>

  \<^item> \<open>Go_Text\<close>: \<^verbatim>\<open>strings.ToLower\<close> and \<^verbatim>\<open>strings.TrimSpace\<close> on UTF-8 text, with the Unicode tables of the
    Go library. \<open>Go_Float\<close>: \<^verbatim>\<open>float64\<close> as rationals rounded to 53 digits, \<^verbatim>\<open>Duration.Hours\<close> and the number of days of a
    duration, which is exact at whole days and right to a second.
  \<^item> \<open>Certctl_Prelude\<close>: Go errors and \<^verbatim>\<open>errors.Is\<close>, strings and durations, tables as lists, the
    state monad, its frame rules (locale \<open>frame_condition\<close>) and verification conditions (\<open>post\<close>,
    collection \<open>vcg\<close>).
  \<^item> \<open>Rate_Limit\<close>: \<^verbatim>\<open>internal/ratelimit/sliding_window.go\<close>. The limiter takes exactly the decisions
    of a specification that counts events in the window, and stays within its bounds.
  \<^item> \<open>Certctl_Domain\<close>: the entities of \<^verbatim>\<open>internal/domain\<close> the services use.
  \<^item> \<open>Audit_Redact\<close>: \<^verbatim>\<open>internal/service/audit_redact.go\<close>. Redaction scrubs every sensitive key
    that it reaches through untyped maps and arrays and reports exactly the scrubbed paths; typed maps pass unchanged.
  \<^item> \<open>Metrics\<close>: \<^verbatim>\<open>internal/service/approval_metrics.go\<close> and \<^verbatim>\<open>expiry_alert_metrics.go\<close>. The
    snapshots are sorted and count what was recorded.
  \<^item> \<open>Store\<close>: the world, transactions, \<^verbatim>\<open>generateID\<close> and the audit service
    (\<^verbatim>\<open>internal/service/audit.go\<close>, \<^verbatim>\<open>internal/repository/postgres/tx.go\<close>, \<^verbatim>\<open>audit.go\<close>), with the frame
    locales \<open>world_frame\<close>, \<open>audit_blind\<close> and \<open>table_view\<close>. \<open>Samples\<close> holds concrete rows.
  \<^item> \<open>Job_Repository\<close>, \<open>Approval_Repository\<close>, \<open>Certificate_Repository\<close>:
    \<^verbatim>\<open>internal/repository/postgres\<close>, each query and write with the constraints of \<^verbatim>\<open>migrations/\<close>, and
    the rules for their effect on the tables.
  \<^item> \<open>Jobs\<close>: \<^verbatim>\<open>internal/service/job.go\<close> and \<^verbatim>\<open>verification.go\<close>. The background loops and the
    user operations only make the allowed moves of the job state machine; a claim is atomic and no
    job is claimed twice.
  \<^item> \<open>Approvals\<close>: \<^verbatim>\<open>internal/service/approval.go\<close> and the callback of \<^verbatim>\<open>cmd/server/main.go\<close>. The
    two-person rule and the finality of decisions hold along every sequence of calls.
  \<^item> \<open>Notifications\<close>: \<^verbatim>\<open>internal/repository/postgres/notification.go\<close>, with SQL pattern matching, and
    \<^verbatim>\<open>internal/service/notification.go\<close>. A run of the outbox leaves nothing pending, the retry sweep moves
    each row as its attempts allow, and an alert is deduplicated exactly by certificate, threshold and
    channel.
  \<^item> \<open>Policies\<close>: \<^verbatim>\<open>internal/service/policy.go\<close> and \<^verbatim>\<open>internal/repository/postgres/policy.go\<close>. The
    violations of a certificate are exactly the enabled rules it does not comply with.
  \<^item> \<open>Profiles\<close>: \<^verbatim>\<open>internal/service/profile.go\<close>, with the approval gate on edits.
  \<^item> \<open>Key_Paths\<close>: \<^verbatim>\<open>internal/validation/certificate_id.go\<close> and \<^verbatim>\<open>cmd/agent/keymem.go\<close> over
    \<^verbatim>\<open>path/filepath\<close>. A key file is always directly below the key directory.
  \<^item> \<open>Revocation\<close>: \<^verbatim>\<open>internal/service/revocation_svc.go\<close>, \<^verbatim>\<open>ca_operations.go\<close>,
    \<^verbatim>\<open>ocsp_response_cache.go\<close> and their repositories. Revoking is atomic, a CRL is complete, the OCSP status
    is that of the tables, and a revocation reaches OCSP through the cache; the limits of this are
    stated as well: what a failing lookup and an interleaved request lead to.
  \<^item> \<open>Certificates\<close>: \<^verbatim>\<open>internal/service/certificate.go\<close>. A certificate is created with its audit event or
    not at all, and what triggering a renewal does.
  \<^item> \<open>Csr_Validation\<close>: \<^verbatim>\<open>internal/service/crypto_validation.go\<close>. The check of a signing request against a
    profile accepts exactly the requests the profile's key rules allow.
  \<^item> \<open>Renewals\<close>, \<open>Renewal_Processing\<close>: \<^verbatim>\<open>internal/service/renewal.go\<close>. The expiry scan touches what is due and
    nothing else, gives every due certificate a renewal job and never stores an alert twice; a renewal by the server
    is recorded in one transaction, and an agent's request is signed only after its check.
  \<^item> \<open>Agents\<close>, \<open>Agent_Keys\<close>, \<open>Agent_Life\<close>, \<open>Agent_Fleet\<close>, \<open>Agent_Work\<close>: \<^verbatim>\<open>internal/service/agent.go\<close>,
    \<^verbatim>\<open>agent_retire.go\<close> and their repository. The key handed out at registration finds the agent again and has the shape the code promises; a
    refused retirement leaves no trace, a successful one leaves no active target, and no later call of the service changes the row of a
    retired agent; what a heartbeat and the sweep for stale agents do; the pages of the list are complete.
  \<^item> \<open>Deployments\<close>: \<^verbatim>\<open>internal/service/deployment.go\<close>. What becomes of a deployment job, read off the tables.
  \<^item> \<open>Interleaving\<close>: programs of atomic actions over the world, their runs alone, one after the other and interleaved.
  \<^item> \<open>Dispatch\<close>: the dispatch of claimed jobs in \<^verbatim>\<open>internal/service/job.go\<close>. The concurrent dispatch is a machine whose
    moves are those of the loop and the atomic actions of the jobs in flight, in any order, however the work of a job is cut into
    actions: it ends, keeps its bound, and refines the interleaving of the claimed jobs, each of them run exactly once; with a bound of one it
    is the sequential loop; no deployment job that a tick claims can succeed.

  \<^bold>\<open>Bounds.\<close> There is no fuel: every loop of the modelled code runs over a list it has fetched. A run of the concurrent dispatch has
  at most two moves for each claimed job besides the actions of the jobs, and none is infinite, which is proved.
  Counters of the metrics wrap at 64 bits.

  \<^bold>\<open>Not modelled.\<close> HTTP handlers and routing, authentication, the enrolment protocols and all
  cryptography, the connectors, the scheduler's tickers, configuration, the agent but for its key paths, the command-line
  tools and the web client. The signatures of an issuer are a function of its connector, which the
  theorems quantify over. Locks inside the process are not modelled: outside \<open>Dispatch\<close> the statements are about an
  operation that no other one interrupts, and about sequences of such operations. The collapse of concurrent regenerations of one OCSP
  response (\<^verbatim>\<open>singleflight\<close>) is not modelled. Paths of \<^verbatim>\<open>path/filepath\<close> are those of a POSIX system. The semaphore of \<^verbatim>\<open>golang.org/x/sync\<close> is a record of functions with its documented
  behaviour as a hypothesis.
\<close>

end
